(* ===== verification/Prelude.thy ===== *)
theory Prelude
  imports Main "HOL-Library.Word" "HOL-Library.Sublist" "HOL-Library.Monad_Syntax"
    "HOL-Library.Code_Target_Nat"
begin

text \<open>
  The vocabulary the component theories share.

  \<^item> Machine integers of the Rust sources as words of their width.
  \<^item> Effects: the crate talks to the operating system through traits and the standard
    library, so an effectful function is a state-passing function over an arbitrary world
    \<open>'w\<close>. Its result is \<^typ>\<open>('a \<times> 'w) option\<close>; \<^const>\<open>None\<close> says that no value is returned
    at all (a loop that never ends, or a panic, which aborts the process because the release
    profile sets \<^verbatim>\<open>panic = "abort"\<close>).
  \<^item> Fallible functions return a sum, \<open>Inl\<close> the error; \<open>try_io\<close> is the \<^verbatim>\<open>?\<close> operator.
  \<^item> The fact collections \<open>io_simps\<close> (symbolic execution of effectful code),
    \<open>str_simps\<close> (strings) and \<open>cfg_simps\<close> (configuration records).
\<close>

section \<open>Machine integers\<close>

type_synonym u8 = "8 word"
type_synonym u16 = "16 word"
type_synonym u32 = "32 word"
type_synonym u64 = "64 word"
type_synonym bytes = string
type_synonym path = string

definition saturating_add :: "'l::len word \<Rightarrow> 'l word \<Rightarrow> 'l word" where
  "saturating_add a b = (if unat a + unat b < 2 ^ LENGTH('l) then a + b else - 1)"

definition checked_mul :: "'l::len word \<Rightarrow> 'l word \<Rightarrow> 'l word option" where
  "checked_mul a b = (if unat a * unat b < 2 ^ LENGTH('l) then Some (a * b) else None)"

section \<open>Fallible and effectful computations\<close>

type_synonym ('w, 'a) io = "'w \<Rightarrow> ('a \<times> 'w) option"

definition return_io :: "'a \<Rightarrow> ('w, 'a) io" where
  "return_io x = (\<lambda>w. Some (x, w))"

definition bind_io :: "('w, 'a) io \<Rightarrow> ('a \<Rightarrow> ('w, 'b) io) \<Rightarrow> ('w, 'b) io" where
  "bind_io m k = (\<lambda>w. Option.bind (m w) (\<lambda>(x, w'). k x w'))"

definition abort_io :: "('w, 'a) io" where
  "abort_io = (\<lambda>w. None)"

text \<open>The operator \<^verbatim>\<open>?\<close>: an error ends the function with that error.\<close>

definition try_io :: "('w, 'e + 'a) io \<Rightarrow> ('a \<Rightarrow> ('w, 'e + 'b) io) \<Rightarrow> ('w, 'e + 'b) io" where
  "try_io m k = bind_io m (\<lambda>r. case r of Inl e \<Rightarrow> return_io (Inl e) | Inr x \<Rightarrow> k x)"

text \<open>\<^verbatim>\<open>.map_err(f)\<close> on an effectful result.\<close>

definition map_err :: "('e \<Rightarrow> 'f) \<Rightarrow> 'e + 'a \<Rightarrow> 'f + 'a" where
  "map_err f r = (case r of Inl e \<Rightarrow> Inl (f e) | Inr x \<Rightarrow> Inr x)"

definition map_io :: "('a \<Rightarrow> 'b) \<Rightarrow> ('w, 'a) io \<Rightarrow> ('w, 'b) io" where
  "map_io f m = bind_io m (\<lambda>x. return_io (f x))"

text \<open>A \<^verbatim>\<open>for\<close> loop over a list whose body has effects and no value.\<close>

fun for_io :: "'a list \<Rightarrow> ('a \<Rightarrow> ('w, unit) io) \<Rightarrow> ('w, unit) io" where
  "for_io [] body = return_io ()"
| "for_io (x # xs) body = bind_io (body x) (\<lambda>_. for_io xs body)"

text \<open>The body of a pure fallible function: \<^verbatim>\<open>?\<close> on a value.\<close>

definition try_res :: "'e + 'a \<Rightarrow> ('a \<Rightarrow> 'e + 'b) \<Rightarrow> 'e + 'b" where
  "try_res r k = (case r of Inl e \<Rightarrow> Inl e | Inr x \<Rightarrow> k x)"

abbreviation is_ok :: "'e + 'a \<Rightarrow> bool" where
  "is_ok r \<equiv> (case r of Inl _ \<Rightarrow> False | Inr _ \<Rightarrow> True)"

abbreviation ok_opt :: "'e + 'a \<Rightarrow> 'a option" where
  "ok_opt r \<equiv> (case r of Inl _ \<Rightarrow> None | Inr x \<Rightarrow> Some x)"

section \<open>Symbolic execution of effectful code\<close>

named_theorems io_simps "equations that run the effect combinators on a world"
named_theorems str_simps "facts on the modelled string functions"
named_theorems cfg_simps "facts on configuration records"

lemma return_io_Some [io_simps]: "return_io x w = Some (y, w') \<longleftrightarrow> y = x \<and> w' = w"
  by (auto simp: return_io_def)

lemma bind_io_Some [io_simps]:
  "bind_io m k w = Some (y, w'') \<longleftrightarrow> (\<exists>x w'. m w = Some (x, w') \<and> k x w' = Some (y, w''))"
  by (auto simp: bind_io_def Option.bind_eq_Some_conv)

lemma try_io_Some [io_simps]:
  "try_io m k w = Some (r, w'') \<longleftrightarrow>
     (\<exists>e. m w = Some (Inl e, w'') \<and> r = Inl e) \<or>
     (\<exists>x w'. m w = Some (Inr x, w') \<and> k x w' = Some (r, w''))"
proof (cases "m w")
  case None
  then show ?thesis by (simp add: try_io_def bind_io_def)
next
  case (Some p)
  then obtain r' w' where "m w = Some (r', w')" by (cases p) simp
  then show ?thesis
    by (cases r') (auto simp: try_io_def bind_io_def return_io_def)
qed

lemma try_io_Ok [io_simps]:
  "try_io m k w = Some (Inr y, w'') \<longleftrightarrow>
     (\<exists>x w'. m w = Some (Inr x, w') \<and> k x w' = Some (Inr y, w''))"
  by (auto simp: try_io_Some)

lemma map_io_Some [io_simps]:
  "map_io f m w = Some (y, w') \<longleftrightarrow> (\<exists>x. m w = Some (x, w') \<and> y = f x)"
  by (auto simp: map_io_def io_simps)

lemma map_err_eq [io_simps]:
  "map_err f r = Inl e \<longleftrightarrow> (\<exists>x. r = Inl x \<and> e = f x)" "Inl e = map_err f r \<longleftrightarrow> (\<exists>x. r = Inl x \<and> e = f x)"
  "map_err f r = Inr y \<longleftrightarrow> r = Inr y" "Inr y = map_err f r \<longleftrightarrow> r = Inr y"
  by (auto simp: map_err_def split: sum.splits)

lemma abort_io_Some [io_simps]: "abort_io w = Some (y, w') \<longleftrightarrow> False"
  by (simp add: abort_io_def)

text \<open>Evaluation rules: run a combinator on a concrete world.\<close>

lemma return_io_eval [simp]: "return_io x w = Some (x, w)"
  by (simp add: return_io_def)

lemma bind_io_eval: "m w = Some (x, w') \<Longrightarrow> bind_io m k w = k x w'"
  by (simp add: bind_io_def)

lemma try_io_eval_Ok: "m w = Some (Inr x, w') \<Longrightarrow> try_io m k w = k x w'"
  by (simp add: try_io_def bind_io_def)

lemma try_io_eval_Err: "m w = Some (Inl e, w') \<Longrightarrow> try_io m k w = Some (Inl e, w')"
  by (simp add: try_io_def bind_io_def)

lemmas io_eval = bind_io_eval try_io_eval_Ok try_io_eval_Err

lemma bind_io_assoc: "bind_io (bind_io m f) g = bind_io m (\<lambda>x. bind_io (f x) g)"
proof
  fix w
  show "bind_io (bind_io m f) g w = bind_io m (\<lambda>x. bind_io (f x) g) w"
    by (cases "m w") (auto simp: bind_io_def)
qed

lemma bind_io_return [simp]: "bind_io (return_io x) k = k x" "bind_io m return_io = m"
proof -
  show "bind_io (return_io x) k = k x"
    by (simp add: bind_io_def return_io_def)
  show "bind_io m return_io = m"
  proof
    fix w
    show "bind_io m return_io w = m w"
      by (cases "m w") (auto simp: bind_io_def return_io_def)
  qed
qed

text \<open>
  A property of the world that one operation keeps, whatever it returns. Loops and
  sequences keep what their parts keep.
\<close>

definition keeps :: "('w \<Rightarrow> bool) \<Rightarrow> ('w, 'a) io \<Rightarrow> bool" where
  "keeps P m \<longleftrightarrow> (\<forall>w x w'. P w \<longrightarrow> m w = Some (x, w') \<longrightarrow> P w')"

lemma keepsD: "keeps P m \<Longrightarrow> m w = Some (x, w') \<Longrightarrow> P w \<Longrightarrow> P w'"
  by (auto simp: keeps_def)

lemma keeps_return [intro, simp]: "keeps P (return_io x)"
  by (simp add: keeps_def)

lemma keeps_return_eta [intro, simp]: "keeps P (\<lambda>w. Some (x, w))"
  by (simp add: keeps_def)

lemma keeps_bind [intro]: "keeps P m \<Longrightarrow> (\<And>x. keeps P (k x)) \<Longrightarrow> keeps P (bind_io m k)"
  unfolding keeps_def bind_io_Some by metis

lemma keeps_try [intro]: "keeps P m \<Longrightarrow> (\<And>x. keeps P (k x)) \<Longrightarrow> keeps P (try_io m k)"
  unfolding try_io_def by (intro keeps_bind) (auto split: sum.split)

lemma keeps_for [intro]: "(\<And>x. x \<in> set xs \<Longrightarrow> keeps P (body x)) \<Longrightarrow> keeps P (for_io xs body)"
  by (induction xs) auto

text \<open>
  \<open>wpo m Q w\<close>: if \<open>m\<close> returns when it is started in \<open>w\<close>, the value and the world it leaves
  satisfy \<open>Q\<close>. The introduction rules follow the program text.
\<close>

definition wpo :: "('w, 'a) io \<Rightarrow> ('a \<Rightarrow> 'w \<Rightarrow> bool) \<Rightarrow> 'w \<Rightarrow> bool" where
  "wpo m Q w \<longleftrightarrow> (\<forall>x w'. m w = Some (x, w') \<longrightarrow> Q x w')"

lemma wpoD: "wpo m Q w \<Longrightarrow> m w = Some (x, w') \<Longrightarrow> Q x w'"
  by (simp add: wpo_def)

lemma wpo_conseq: "wpo m Q w \<Longrightarrow> (\<And>x w'. Q x w' \<Longrightarrow> R x w') \<Longrightarrow> wpo m R w"
  by (auto simp: wpo_def)

lemma wpo_return: "Q x w \<Longrightarrow> wpo (return_io x) Q w"
  by (simp add: wpo_def)

lemma wpo_bind: "wpo m (\<lambda>x. wpo (k x) Q) w \<Longrightarrow> wpo (bind_io m k) Q w"
  by (auto simp: wpo_def bind_io_Some)

lemma wpo_try:
  "wpo m (\<lambda>r. case r of Inl e \<Rightarrow> Q (Inl e) | Inr x \<Rightarrow> wpo (k x) Q) w \<Longrightarrow> wpo (try_io m k) Q w"
  unfolding try_io_def by (rule wpo_bind, erule wpo_conseq) (auto split: sum.splits intro: wpo_return)

lemma wpo_map: "wpo m (\<lambda>x. Q (f x)) w \<Longrightarrow> wpo (map_io f m) Q w"
  by (auto simp: wpo_def io_simps)

lemma wpo_if: "(b \<Longrightarrow> wpo m Q w) \<Longrightarrow> (\<not> b \<Longrightarrow> wpo k Q w) \<Longrightarrow> wpo (if b then m else k) Q w"
  by simp

lemma wpo_for:
  assumes "\<And>x w. x \<in> set xs \<Longrightarrow> J w \<Longrightarrow> wpo (body x) (\<lambda>_. J) w" and "J w"
  shows "wpo (for_io xs body) (\<lambda>_. J) w"
  using assms
proof (induction xs arbitrary: w)
  case (Cons x xs)
  have "wpo (body x) (\<lambda>_. J) w"
    using Cons.prems by simp
  then have "wpo (body x) (\<lambda>_. wpo (for_io xs body) (\<lambda>_. J)) w"
    by (rule wpo_conseq) (use Cons in simp)
  then show ?case by (simp add: wpo_bind)
qed (simp add: wpo_return)

lemma keeps_wpo: "keeps P m \<longleftrightarrow> (\<forall>w. P w \<longrightarrow> wpo m (\<lambda>_. P) w)"
  by (auto simp: keeps_def wpo_def)

lemma wpo_conj: "wpo m Q w \<Longrightarrow> wpo m R w \<Longrightarrow> wpo m (\<lambda>x w'. Q x w' \<and> R x w') w"
  by (simp add: wpo_def)

text \<open>When the outcome of the first step does not matter.\<close>

lemma wpo_any:
  "(\<And>x w'. wpo (k x) Q w') \<Longrightarrow> wpo (bind_io m k) Q w"
  "(\<And>e w'. R (Inl e) w') \<Longrightarrow> (\<And>x w'. wpo (h x) R w') \<Longrightarrow> wpo (try_io f h) R w"
  by (fastforce simp: wpo_def io_simps)+

lemmas wpo_intros = wpo_return wpo_bind wpo_try wpo_map wpo_if

text \<open>An operation that always returns.\<close>

definition total_io :: "('w, 'a) io \<Rightarrow> bool" where
  "total_io m \<longleftrightarrow> (\<forall>w. m w \<noteq> None)"

lemma total_return [intro, simp]: "total_io (return_io x)"
  by (simp add: total_io_def)

lemma total_bind [intro]: "total_io m \<Longrightarrow> (\<And>x. total_io (k x)) \<Longrightarrow> total_io (bind_io m k)"
  unfolding total_io_def bind_io_def
  by (metis bind_eq_None_conv case_prod_unfold)

lemma total_try [intro]: "total_io m \<Longrightarrow> (\<And>x. total_io (k x)) \<Longrightarrow> total_io (try_io m k)"
  unfolding try_io_def by (intro total_bind) (auto split: sum.split)

lemma total_for [intro]: "(\<And>x. total_io (body x)) \<Longrightarrow> total_io (for_io xs body)"
  by (induction xs) auto

lemma total_ioD: "total_io m \<Longrightarrow> \<exists>x w'. m w = Some (x, w')"
  by (auto simp: total_io_def)

section \<open>Pure fallible code\<close>

lemma try_res_Inr [simp]: "try_res r k = Inr y \<longleftrightarrow> (\<exists>x. r = Inr x \<and> k x = Inr y)"
  by (auto simp: try_res_def split: sum.splits)

lemma try_res_eval [simp]: "try_res (Inr x) k = k x" "try_res (Inl e) k = Inl e"
  by (auto simp: try_res_def)

text \<open>What an evaluated run says.\<close>

lemma ran:
  assumes "case x of Some (a, b) \<Rightarrow> P a b | None \<Rightarrow> False"
  obtains a b where "x = Some (a, b)" "P a b"
  using assms by (auto split: option.splits)

lemma ran_ok:
  assumes "case x of Some (Inr s, w) \<Rightarrow> P s w | _ \<Rightarrow> False"
  obtains s w where "x = Some (Inr s, w)" "P s w"
  using assms by (auto split: option.splits prod.splits sum.splits)

section \<open>Saturating and checked arithmetic\<close>

lemma unat_saturating_add:
  fixes a b :: "'l::len word"
  shows "unat (saturating_add a b) = min (unat a + unat b) (2 ^ LENGTH('l) - 1)"
proof (cases "unat a + unat b < 2 ^ LENGTH('l)")
  case True
  then show ?thesis
    by (simp add: saturating_add_def unat_word_ariths)
next
  case False
  then show ?thesis
    by (simp add: saturating_add_def unsigned_minus_1_eq_mask mask_eq_exp_minus_1)
qed

lemma checked_mul_Some:
  fixes a b :: "'l::len word"
  shows "checked_mul a b = Some c \<longleftrightarrow> unat c = unat a * unat b"
proof -
  have "unat c < 2 ^ LENGTH('l)"
    by (rule unsigned_less)
  moreover have "unat (a * b) = unat a * unat b" if "unat a * unat b < 2 ^ LENGTH('l)"
    using that by (simp add: unat_word_ariths)
  ultimately show ?thesis
    unfolding checked_mul_def word_unat_eq_iff by (metis option.inject option.distinct(1) word_unat_eq_iff)
qed

end
