(* ===== verification/Rust_Str.thy ===== *)
theory Rust_Str
  imports Prelude
begin

text \<open>
  The functions of the Rust standard library on \<^verbatim>\<open>str\<close> that the crate uses. A \<^verbatim>\<open>str\<close> is
  UTF-8, so a string is a list of bytes (\<^typ>\<open>char\<close> is one byte) and \<^const>\<open>length\<close> is
  \<^verbatim>\<open>str::len\<close>. \<open>trim\<close> removes Unicode white space, which is one to three bytes long.
  Also here: decimal printing and the integer parsers \<^verbatim>\<open>parse\<close> / \<^verbatim>\<open>from_str_radix\<close>.
\<close>

section \<open>White space and trimming\<close>

text \<open>The UTF-8 encodings of the characters with the property \<^verbatim>\<open>White_Space\<close>.\<close>

definition utf8_ws :: "string list" where
  "utf8_ws =
    [[CHR 0x20], [CHR 0x09], [CHR 0x0A], [CHR 0x0B], [CHR 0x0C], [CHR 0x0D],
     [CHR 0xC2, CHR 0x85], [CHR 0xC2, CHR 0xA0],
     [CHR 0xE1, CHR 0x9A, CHR 0x80],
     [CHR 0xE2, CHR 0x80, CHR 0x80], [CHR 0xE2, CHR 0x80, CHR 0x81],
     [CHR 0xE2, CHR 0x80, CHR 0x82], [CHR 0xE2, CHR 0x80, CHR 0x83],
     [CHR 0xE2, CHR 0x80, CHR 0x84], [CHR 0xE2, CHR 0x80, CHR 0x85],
     [CHR 0xE2, CHR 0x80, CHR 0x86], [CHR 0xE2, CHR 0x80, CHR 0x87],
     [CHR 0xE2, CHR 0x80, CHR 0x88], [CHR 0xE2, CHR 0x80, CHR 0x89],
     [CHR 0xE2, CHR 0x80, CHR 0x8A], [CHR 0xE2, CHR 0x80, CHR 0xA8],
     [CHR 0xE2, CHR 0x80, CHR 0xA9], [CHR 0xE2, CHR 0x80, CHR 0xAF],
     [CHR 0xE2, CHR 0x81, CHR 0x9F], [CHR 0xE3, CHR 0x80, CHR 0x80]]"

definition starts_with :: "string \<Rightarrow> string \<Rightarrow> bool" where
  "starts_with s p \<longleftrightarrow> take (length p) s = p"

definition ends_with :: "string \<Rightarrow> string \<Rightarrow> bool" where
  "ends_with s p \<longleftrightarrow> length p \<le> length s \<and> drop (length s - length p) s = p"

text \<open>The white space character the string starts with, if any.\<close>

definition leading_ws :: "string \<Rightarrow> string option" where
  "leading_ws s = find (\<lambda>p. starts_with s p) utf8_ws"

definition trailing_ws :: "string \<Rightarrow> string option" where
  "trailing_ws s = find (\<lambda>p. ends_with s p) utf8_ws"

lemma utf8_ws_nonempty: "p \<in> set utf8_ws \<Longrightarrow> p \<noteq> []"
  by (auto simp: utf8_ws_def)

lemma find_Some_mem: "find P xs = Some x \<Longrightarrow> x \<in> set xs \<and> P x"
  by (auto simp: find_Some_iff)

lemma leading_ws_Some: "leading_ws s = Some p \<Longrightarrow> p \<noteq> [] \<and> s \<noteq> [] \<and> starts_with s p"
  by (auto simp: leading_ws_def starts_with_def dest!: find_Some_mem utf8_ws_nonempty)

lemma trailing_ws_Some: "trailing_ws s = Some p \<Longrightarrow> p \<noteq> [] \<and> s \<noteq> [] \<and> ends_with s p"
  by (auto simp: trailing_ws_def ends_with_def dest!: find_Some_mem utf8_ws_nonempty)

function trim_start :: "string \<Rightarrow> string" where
  "trim_start s = (case leading_ws s of None \<Rightarrow> s | Some p \<Rightarrow> trim_start (drop (length p) s))"
  by pat_completeness auto
termination
  by (relation "measure length") (auto dest!: leading_ws_Some)

function trim_end :: "string \<Rightarrow> string" where
  "trim_end s = (case trailing_ws s of None \<Rightarrow> s
     | Some p \<Rightarrow> trim_end (take (length s - length p) s))"
  by pat_completeness auto
termination
  by (relation "measure length") (auto dest!: trailing_ws_Some)

declare trim_start.simps [simp del] trim_end.simps [simp del]

text \<open>Code equations that look at an ASCII character only once.\<close>

definition ascii_ws :: "char list" where
  "ascii_ws = [CHR 0x20, CHR 0x09, CHR 0x0A, CHR 0x0B, CHR 0x0C, CHR 0x0D]"

lemma leading_ws_code [code]:
  "leading_ws s = (case s of [] \<Rightarrow> None
     | c # cs \<Rightarrow> if \<not> digit7 c then (if c \<in> set ascii_ws then Some [c] else None)
         else find (\<lambda>p. starts_with s p) utf8_ws)"
  by (cases s) (auto simp: leading_ws_def utf8_ws_def starts_with_def ascii_ws_def)

lemma ends_with_last: "p \<noteq> [] \<Longrightarrow> ends_with s p \<Longrightarrow> last s = last p"
  by (metis append_take_drop_id ends_with_def last_appendR)

lemma trailing_ws_code [code]:
  "trailing_ws s = (if s = [] then None
     else let c = last s in if \<not> digit7 c then (if c \<in> set ascii_ws then Some [c] else None)
       else find (\<lambda>p. ends_with s p) utf8_ws)"
proof (cases "s = []")
  case False
  show ?thesis
  proof (cases "digit7 (last s)")
    case False
    have one: "ends_with s [c] \<longleftrightarrow> last s = c" for c
      using \<open>s \<noteq> []\<close> by (cases s rule: rev_cases) (auto simp: ends_with_def)
    have other: "\<not> ends_with s p" if "p \<noteq> []" "digit7 (last p)" for p
      using ends_with_last[OF that(1)] that(2) False by auto
    show ?thesis
      using \<open>s \<noteq> []\<close> False by (auto simp: trailing_ws_def utf8_ws_def one other ascii_ws_def)
  qed (use False in \<open>simp add: trailing_ws_def\<close>)
qed (auto simp: trailing_ws_def utf8_ws_def ends_with_def)

definition trim :: "string \<Rightarrow> string" where
  "trim s = trim_end (trim_start s)"

section \<open>Matching and splitting\<close>

text \<open>\<^verbatim>\<open>trim_end_matches(c)\<close> for a character.\<close>

definition trim_end_matches :: "char \<Rightarrow> string \<Rightarrow> string" where
  "trim_end_matches c s = rev (dropWhile (\<lambda>d. d = c) (rev s))"

text \<open>\<^verbatim>\<open>trim_start_matches(p)\<close> for a string: every leading copy of \<open>p\<close> is removed.\<close>

function trim_start_matches :: "string \<Rightarrow> string \<Rightarrow> string" where
  "trim_start_matches p s =
     (if p \<noteq> [] \<and> s \<noteq> [] \<and> starts_with s p then trim_start_matches p (drop (length p) s) else s)"
  by pat_completeness auto
termination
  by (relation "measure (\<lambda>(p, s). length s)") auto

declare trim_start_matches.simps [simp del]

definition strip_suffix :: "char \<Rightarrow> string \<Rightarrow> string option" where
  "strip_suffix c s = (if s \<noteq> [] \<and> last s = c then Some (butlast s) else None)"

text \<open>\<^verbatim>\<open>split(c)\<close> for a character: one more part than separators, never an empty list.\<close>

fun split_char :: "char \<Rightarrow> string \<Rightarrow> string list" where
  "split_char c [] = [[]]"
| "split_char c (d # s) =
     (if d = c then [] # split_char c s
      else case split_char c s of [] \<Rightarrow> [[d]] | p # ps \<Rightarrow> (d # p) # ps)"

text \<open>The text after the first occurrence of a (non-empty) pattern.\<close>

fun after_first :: "string \<Rightarrow> string \<Rightarrow> string option" where
  "after_first p [] = None"
| "after_first p (c # s) =
     (if starts_with (c # s) p then Some (drop (length p) (c # s)) else after_first p s)"

text \<open>The text before the first occurrence of a pattern, the whole text if there is none.\<close>

fun before_first :: "string \<Rightarrow> string \<Rightarrow> string" where
  "before_first p [] = []"
| "before_first p (c # s) = (if starts_with (c # s) p then [] else c # before_first p s)"

text \<open>\<^verbatim>\<open>split(pat).nth(1)\<close> for a string pattern: what lies between its first two occurrences.\<close>

definition split_nth1 :: "string \<Rightarrow> string \<Rightarrow> string option" where
  "split_nth1 p s = map_option (before_first p) (after_first p s)"

definition str_contains :: "string \<Rightarrow> string \<Rightarrow> bool" where
  "str_contains s p \<longleftrightarrow> p = [] \<or> after_first p s \<noteq> None"

text \<open>\<^verbatim>\<open>lines()\<close>: split at line feeds, drop one final empty line and one trailing carriage return.\<close>

definition chomp_cr :: "string \<Rightarrow> string" where
  "chomp_cr l = (if l \<noteq> [] \<and> last l = CHR 0x0D then butlast l else l)"

definition lines :: "string \<Rightarrow> string list" where
  "lines s = (let ps = split_char (CHR 0x0A) s
              in map chomp_cr (butlast ps) @ (if last ps = [] then [] else [last ps]))"

text \<open>\<^verbatim>\<open>split_whitespace().next()\<close>: the first white-space separated token.\<close>

fun until_ws :: "string \<Rightarrow> string" where
  "until_ws [] = []"
| "until_ws (c # s) = (if leading_ws (c # s) \<noteq> None then [] else c # until_ws s)"

definition first_token :: "string \<Rightarrow> string option" where
  "first_token s = (let t = until_ws (trim_start s) in if t = [] then None else Some t)"

abbreviation code :: "char \<Rightarrow> nat" where
  "code c \<equiv> of_char c"

definition ascii_lower :: "char \<Rightarrow> char" where
  "ascii_lower c = (if 65 \<le> code c \<and> code c \<le> 90 then char_of (code c + 32) else c)"

definition to_ascii_lowercase :: "string \<Rightarrow> string" where
  "to_ascii_lowercase = map ascii_lower"

definition is_ascii_digit :: "char \<Rightarrow> bool" where
  "is_ascii_digit c \<longleftrightarrow> 48 \<le> code c \<and> code c \<le> 57"

definition is_ascii_alphanumeric :: "char \<Rightarrow> bool" where
  "is_ascii_alphanumeric c \<longleftrightarrow> is_ascii_digit c
     \<or> (65 \<le> code c \<and> code c \<le> 90) \<or> (97 \<le> code c \<and> code c \<le> 122)"

section \<open>Numbers\<close>

definition digit_char :: "nat \<Rightarrow> char" where
  "digit_char d = char_of (48 + d)"

fun nat_dec :: "nat \<Rightarrow> string" where
  "nat_dec n = (if n < 10 then [digit_char n] else nat_dec (n div 10) @ [digit_char (n mod 10)])"

declare nat_dec.simps [simp del]

definition int_dec :: "int \<Rightarrow> string" where
  "int_dec i = (if i < 0 then CHR ''-'' # nat_dec (nat (- i)) else nat_dec (nat i))"

text \<open>\<^verbatim>\<open>char::to_digit(radix)\<close> for a radix up to 16.\<close>

definition to_digit :: "nat \<Rightarrow> char \<Rightarrow> nat option" where
  "to_digit radix c = (let n = code c;
       d = (if 48 \<le> n \<and> n \<le> 57 then n - 48
            else if 97 \<le> n \<and> n \<le> 102 then n - 87
            else if 65 \<le> n \<and> n \<le> 70 then n - 55 else 16)
     in if d < radix then Some d else None)"

fun digits_val :: "nat \<Rightarrow> nat \<Rightarrow> string \<Rightarrow> nat option" where
  "digits_val radix acc [] = Some acc"
| "digits_val radix acc (c # s) =
     Option.bind (to_digit radix c) (\<lambda>d. digits_val radix (acc * radix + d) s)"

text \<open>
  \<^verbatim>\<open>from_str_radix\<close> of an unsigned type with values below \<open>bound\<close>: a leading plus sign is
  accepted, a lone sign and the empty string are not, and a value that does not fit is an error.
\<close>

definition parse_unsigned :: "nat \<Rightarrow> nat \<Rightarrow> string \<Rightarrow> nat option" where
  "parse_unsigned radix bound s =
     (case s of [] \<Rightarrow> None
      | c # cs \<Rightarrow>
          (let ds = (if c = CHR ''+'' \<and> cs \<noteq> [] then cs else s)
           in Option.bind (digits_val radix 0 ds) (\<lambda>n. if n < bound then Some n else None)))"

text \<open>\<^verbatim>\<open>parse::<i32>\<close>.\<close>

definition parse_i32 :: "string \<Rightarrow> int option" where
  "parse_i32 s =
     (case s of [] \<Rightarrow> None
      | c # cs \<Rightarrow>
          if c = CHR ''-'' \<and> cs \<noteq> []
          then Option.bind (digits_val 10 0 cs)
                 (\<lambda>n. if n \<le> 2 ^ 31 then Some (- int n) else None)
          else map_option int (parse_unsigned 10 (2 ^ 31) s))"

abbreviation parse_u64 :: "string \<Rightarrow> nat option" where
  "parse_u64 \<equiv> parse_unsigned 10 (2 ^ 64)"

abbreviation parse_u16 :: "string \<Rightarrow> nat option" where
  "parse_u16 \<equiv> parse_unsigned 10 (2 ^ 16)"

section \<open>Lemmas: prefixes, splitting and joining\<close>

lemma starts_with_prefix: "starts_with s p \<longleftrightarrow> prefix p s"
  by (auto simp: starts_with_def prefix_def) (metis append_take_drop_id)

lemma starts_with_append [str_simps]: "starts_with (p @ s) p"
  by (simp add: starts_with_def)

lemma ends_with_suffix: "ends_with s p \<longleftrightarrow> suffix p s"
  by (auto simp: ends_with_def suffix_def) (metis append_take_drop_id)

lemma split_char_nonempty [simp]: "split_char c s \<noteq> []"
  by (induction s) (auto split: list.splits)

lemma split_char_no_sep: "c \<notin> set s \<Longrightarrow> split_char c s = [s]"
  by (induction s) auto

lemma split_char_append [str_simps]:
  "c \<notin> set p \<Longrightarrow> split_char c (p @ c # s) = p # split_char c s"
  by (induction p) (auto split: list.splits)

text \<open>A text made of terminated lines splits into these lines.\<close>

lemma split_terminated:
  "\<forall>l\<in>set ls. c \<notin> set l \<Longrightarrow> split_char c (concat (map (\<lambda>l. l @ [c]) ls)) = ls @ [[]]"
  by (induction ls) (simp_all add: split_char_append)

lemma split_char_parts: "p \<in> set (split_char c s) \<Longrightarrow> c \<notin> set p"
  by (induction s arbitrary: p) (auto split: list.splits if_splits)

text \<open>Joining the parts with the separator gives the string back.\<close>

fun join_char :: "char \<Rightarrow> string list \<Rightarrow> string" where
  "join_char c [] = []"
| "join_char c [p] = p"
| "join_char c (p # q # ps) = p @ c # join_char c (q # ps)"

lemma join_split_char: "join_char c (split_char c s) = s"
proof (induction s)
  case (Cons d s)
  then show ?case
    by (cases "split_char c s"; cases "tl (split_char c s)") auto
qed simp

lemma join_char_Cons: "ps \<noteq> [] \<Longrightarrow> join_char c (p # ps) = p @ c # join_char c ps"
  by (cases ps) auto

lemma split_join_char:
  "ps \<noteq> [] \<Longrightarrow> \<forall>p\<in>set ps. c \<notin> set p \<Longrightarrow> split_char c (join_char c ps) = ps"
proof (induction ps rule: join_char.induct)
  case (2 c p)
  then show ?case by (simp add: split_char_no_sep)
next
  case (3 c p q ps)
  then show ?case by (simp add: split_char_append)
qed simp

lemma set_join_char: "set (join_char c ps) \<subseteq> insert c (\<Union> (set ` set ps))"
  by (induction c ps rule: join_char.induct) auto

section \<open>Lemmas: trimming\<close>

text \<open>A string with no white space byte at either end is left alone.\<close>

definition ws_first :: "char set" where
  "ws_first = set (map hd utf8_ws)"

definition ws_last :: "char set" where
  "ws_last = set (map last utf8_ws)"

lemma trim_start_id: "s = [] \<or> hd s \<notin> ws_first \<Longrightarrow> trim_start s = s"
proof -
  assume *: "s = [] \<or> hd s \<notin> ws_first"
  have "leading_ws s = None"
  proof (rule ccontr)
    assume "leading_ws s \<noteq> None"
    then obtain p where p: "find (\<lambda>p. starts_with s p) utf8_ws = Some p"
      by (auto simp: leading_ws_def)
    then have mem: "p \<in> set utf8_ws" "starts_with s p" by (auto dest: find_Some_mem)
    then have "p \<noteq> []" "hd p \<in> ws_first" by (auto simp: ws_first_def dest: utf8_ws_nonempty)
    with mem(2) * show False
      by (cases p; cases s) (auto simp: starts_with_def)
  qed
  then show ?thesis by (subst trim_start.simps) simp
qed

lemma trim_end_id: "s = [] \<or> last s \<notin> ws_last \<Longrightarrow> trim_end s = s"
proof -
  assume *: "s = [] \<or> last s \<notin> ws_last"
  have "trailing_ws s = None"
  proof (rule ccontr)
    assume "trailing_ws s \<noteq> None"
    then obtain p where p: "find (\<lambda>p. ends_with s p) utf8_ws = Some p"
      by (auto simp: trailing_ws_def)
    then have mem: "p \<in> set utf8_ws" "suffix p s"
      by (auto dest!: find_Some_mem simp: ends_with_suffix)
    then have "p \<noteq> []" "last p \<in> ws_last" by (auto simp: ws_last_def dest: utf8_ws_nonempty)
    with mem(2) * show False
      by (auto simp: suffix_def)
  qed
  then show ?thesis by (subst trim_end.simps) simp
qed

lemma trim_id [str_simps]:
  "s = [] \<or> (hd s \<notin> ws_first \<and> last s \<notin> ws_last) \<Longrightarrow> trim s = s"
  by (auto simp: trim_def trim_start_id trim_end_id)

lemma ws_first_ge: "c \<in> ws_first \<Longrightarrow> code c \<le> 32 \<or> 128 \<le> code c"
  unfolding ws_first_def utf8_ws_def by auto

lemma ws_last_ge: "c \<in> ws_last \<Longrightarrow> code c \<le> 32 \<or> 128 \<le> code c"
  unfolding ws_last_def utf8_ws_def by auto

lemma trim_end_newline: "trim_end (s @ [CHR 0x0A]) = trim_end s"
proof -
  have "trailing_ws (s @ [CHR 0x0A]) = Some [CHR 0x0A]"
    by (simp add: trailing_ws_def utf8_ws_def ends_with_def)
  then show ?thesis by (subst trim_end.simps) simp
qed

lemma trim_newline:
  assumes "s \<noteq> []" and "\<forall>c\<in>set s. 33 \<le> code c \<and> code c < 128"
  shows "trim (s @ [CHR 0x0A]) = s"
proof -
  have "hd s \<notin> ws_first" "last s \<notin> ws_last"
    using assms(2)[rule_format, OF hd_in_set[OF assms(1)]] assms(2)[rule_format, OF last_in_set[OF assms(1)]]
    by (auto dest!: ws_first_ge ws_last_ge)
  then show ?thesis
    using assms(1) by (simp add: trim_def trim_start_id trim_end_id trim_end_newline)
qed

lemma trim_end_matches_id [str_simps]: "s = [] \<or> last s \<noteq> c \<Longrightarrow> trim_end_matches c s = s"
  by (cases s rule: rev_cases) (auto simp: trim_end_matches_def)

section \<open>Lemmas: lower case\<close>

lemma code_ascii_lower:
  "code (ascii_lower c) = (if 65 \<le> code c \<and> code c \<le> 90 then code c + 32 else code c)"
  by (simp add: ascii_lower_def)

lemma ascii_lower_idem [simp]: "ascii_lower (ascii_lower c) = ascii_lower c"
  by (simp add: ascii_lower_def)

lemma ascii_lower_alphanumeric [simp]:
  "is_ascii_alphanumeric (ascii_lower c) \<longleftrightarrow> is_ascii_alphanumeric c"
  by (auto simp: is_ascii_alphanumeric_def is_ascii_digit_def code_ascii_lower)

lemma ascii_lower_eq_symbol: "code d < 65 \<Longrightarrow> ascii_lower c = d \<longleftrightarrow> c = d"
  by (auto simp: ascii_lower_def)

lemma split_char_map:
  assumes "\<And>d. f d = c \<longleftrightarrow> d = c"
  shows "split_char c (map f s) = map (map f) (split_char c s)"
  using assms by (induction s) (auto split: list.splits)

lemma last_join_char:
  "ps \<noteq> [] \<Longrightarrow> last ps \<noteq> [] \<Longrightarrow> last (join_char c ps) = last (last ps)"
proof (induction c ps rule: join_char.induct)
  case (3 c p q ps)
  moreover from 3 have "join_char c (q # ps) \<noteq> []"
    by (cases ps) auto
  ultimately show ?case by simp
qed auto

section \<open>Lemmas: numbers\<close>

lemma of_char_digit_char [simp]: "d < 10 \<Longrightarrow> code (digit_char d) = 48 + d"
  by (simp add: digit_char_def)

lemma is_ascii_digit_digit_char [simp]: "d < 10 \<Longrightarrow> is_ascii_digit (digit_char d)"
  by (simp add: is_ascii_digit_def)

lemma to_digit_digit_char [simp]: "d < 10 \<Longrightarrow> to_digit 10 (digit_char d) = Some d"
  by (simp add: to_digit_def Let_def)

lemma to_digit_10: "to_digit 10 c = Some d \<longleftrightarrow> is_ascii_digit c \<and> d = code c - 48"
  by (auto simp: to_digit_def Let_def is_ascii_digit_def split: if_splits)

lemma digit_char_of_digit: "is_ascii_digit c \<Longrightarrow> digit_char (code c - 48) = c"
  by (simp add: is_ascii_digit_def digit_char_def)

lemma nat_dec_digits: "c \<in> set (nat_dec n) \<Longrightarrow> is_ascii_digit c"
proof (induction n rule: nat_dec.induct)
  case (1 n)
  then show ?case by (subst (asm) nat_dec.simps) (auto split: if_splits)
qed

lemma nat_dec_nonempty [simp]: "nat_dec n \<noteq> []"
  by (subst nat_dec.simps) simp

lemma digits_val_append:
  "digits_val r acc (s @ t) = Option.bind (digits_val r acc s) (\<lambda>a. digits_val r a t)"
  by (induction s arbitrary: acc) simp_all

lemma digits_val_nat_dec: "digits_val 10 0 (nat_dec n) = Some n"
proof (induction n rule: nat_dec.induct)
  case (1 n)
  then show ?case by (subst nat_dec.simps) (auto simp: digits_val_append)
qed

lemma nat_dec_not_sign: "hd (nat_dec n) \<noteq> CHR ''+''" "hd (nat_dec n) \<noteq> CHR ''-''"
proof -
  have "is_ascii_digit (hd (nat_dec n))"
    using nat_dec_digits[of "hd (nat_dec n)" n] by simp
  then show "hd (nat_dec n) \<noteq> CHR ''+''" "hd (nat_dec n) \<noteq> CHR ''-''"
    by (auto simp: is_ascii_digit_def)
qed

lemma parse_nat_dec: "n < bound \<Longrightarrow> parse_unsigned 10 bound (nat_dec n) = Some n"
  using nat_dec_not_sign(1)[of n] digits_val_nat_dec[of n]
  by (cases "nat_dec n") (auto simp: parse_unsigned_def)

lemma parse_unsigned_bound: "parse_unsigned r b s = Some n \<Longrightarrow> n < b"
  by (auto simp: parse_unsigned_def Let_def Option.bind_eq_Some_conv split: list.splits if_splits)

lemma nat_dec_inj: "nat_dec m = nat_dec n \<longleftrightarrow> m = n"
  using digits_val_nat_dec by (metis option.inject)

lemma nat_dec_chars: "c \<in> set (nat_dec n) \<Longrightarrow> c \<noteq> CHR ''.'' \<and> c \<noteq> CHR ''/''"
  using nat_dec_digits by (fastforce simp: is_ascii_digit_def)

end
