(* ===== verification/Errors.thy ===== *)
theory Errors
  imports Rust_Str
begin

text \<open>
  \<^verbatim>\<open>error.rs\<close> and \<^verbatim>\<open>constants.rs\<close>: the error enum and the named bounds. An error that
  carries a formatted message in the source carries here a constructor for the message and the
  values the message interpolates.
\<close>

section \<open>Errors\<close>

text \<open>\<^verbatim>\<open>std::io::Error\<close>: the kinds the code tells apart, and any other one by its number.\<close>

datatype io_error = WouldBlock | TimedOut | InvalidData | OsError nat

datatype config_msg =
    SubnetPrefix
  | SubnetNotSlash24
  | GatewayIpNotInSubnet
  | StaticHostIsGatewayHost
  | RangeStartNotBelowEnd
  | StaticHostInRange
  | GatewayHostInRange
  | StickyEmpty
  | StickyNotDuration string
  | StickyZero
  | StickyOverflow
  | ProbeTimeoutZero
  | LinkRetryZero
  | InterfaceEmpty
  | InterfaceNotSimple
  | DnsTooManyRecords
  | DnsDuplicateName string
  | DnsNameEmpty
  | DnsNameTooLong
  | DnsIllegalChars string
  | DnsLabelLength string
  | DnsLabelHyphen string
  | DnsNotHostname string

datatype probe_msg =
    DhcpEncode string
  | DhcpSocket io_error
  | SoReuseaddr io_error
  | SoBroadcast io_error
  | SoRcvtimeo io_error
  | SoBindtodevice string io_error
  | BindPort io_error
  | DiscoverSend io_error
  | DhcpRecv io_error
  | BadMac string

datatype other_msg =
    CmdSpawn string io_error
  | CmdExit string "string list" int
  | CmdExitStderr string "string list" int string
  | DnsmasqSpawn io_error
  | DnsmasqExit int
  | DnsmasqNotRunning
  | Message string

datatype error =
    Io io_error
  | IoPath path io_error
  | Json string
  | Nix nat
  | Config config_msg
  | Ipc string
  | NoEthernet
  | NotEthernet string
  | DnsmasqMissing path
  | DhclientMissing path
  | DhcpProbe probe_msg
  | Other other_msg

definition io_at :: "path \<Rightarrow> io_error \<Rightarrow> error" where
  "io_at p e = IoPath p e"

type_synonym 'a result = "error + 'a"

section \<open>Constants\<close>

definition MAX_IPC_FRAME_BYTES :: nat where "MAX_IPC_FRAME_BYTES = 1024 * 1024"
definition MAX_IPC_CLIENTS :: nat where "MAX_IPC_CLIENTS = 32"
definition CONFIG_DEBOUNCE_MS :: nat where "CONFIG_DEBOUNCE_MS = 300"
definition DEFAULT_PROBE_TIMEOUT_SECS :: u64 where "DEFAULT_PROBE_TIMEOUT_SECS = 5"
definition PING_COUNT :: string where "PING_COUNT = ''1''"
definition PING_TIMEOUT_SEC :: string where "PING_TIMEOUT_SEC = ''2''"
definition DHCP_CLIENT_WAIT_MS :: nat where "DHCP_CLIENT_WAIT_MS = 5000"
definition DHCP_PROBE_RECV_TIMEOUT_MS :: nat where "DHCP_PROBE_RECV_TIMEOUT_MS = 250"
definition PROCESS_TERM_WAIT_MS :: nat where "PROCESS_TERM_WAIT_MS = 400"
definition STATUS_REFRESH_MS :: nat where "STATUS_REFRESH_MS = 3000"
definition DEFAULT_LINK_RETRY_SECS :: u64 where "DEFAULT_LINK_RETRY_SECS = 15"
definition HEALTH_FAIL_THRESHOLD :: u32 where "HEALTH_FAIL_THRESHOLD = 3"
definition IP_BIN :: string where "IP_BIN = ''/sbin/ip''"
definition DHCLIENT_BIN :: string where "DHCLIENT_BIN = ''/sbin/dhclient''"
definition PING_BIN :: string where "PING_BIN = ''/bin/ping''"
definition DNSMASQ_BIN :: string where "DNSMASQ_BIN = ''/usr/sbin/dnsmasq''"
definition ETHTOOL_BIN :: string where "ETHTOOL_BIN = ''/usr/sbin/ethtool''"
definition DEFAULT_STICKY :: string where "DEFAULT_STICKY = ''7d''"
definition DEFAULT_RANGE_START :: u8 where "DEFAULT_RANGE_START = 50"
definition DEFAULT_RANGE_END :: u8 where "DEFAULT_RANGE_END = 200"
definition DEFAULT_STATIC_HOST :: u8 where "DEFAULT_STATIC_HOST = 252"
definition REQUIRED_PREFIX :: u8 where "REQUIRED_PREFIX = 24"
definition MAX_DNS_RECORDS :: nat where "MAX_DNS_RECORDS = 64"
definition MAX_DNS_NAME_LEN :: nat where "MAX_DNS_NAME_LEN = 253"
definition ARPHRD_ETHER :: nat where "ARPHRD_ETHER = 1"

lemmas const_defs [cfg_simps] =
  DEFAULT_PROBE_TIMEOUT_SECS_def DEFAULT_LINK_RETRY_SECS_def DEFAULT_STICKY_def
  DEFAULT_RANGE_START_def DEFAULT_RANGE_END_def DEFAULT_STATIC_HOST_def REQUIRED_PREFIX_def
  MAX_DNS_RECORDS_def MAX_DNS_NAME_LEN_def

end
