(* ===== verification/Ipv4.thy ===== *)
theory Ipv4
  imports Errors
begin

text \<open>
  IPv4 addresses: \<^verbatim>\<open>std::net::Ipv4Addr\<close> (construction, octets, order, \<^verbatim>\<open>Display\<close>,
  \<^verbatim>\<open>FromStr\<close>), and the interface of the crate \<^verbatim>\<open>ipnet\<close> (\<^verbatim>\<open>Ipv4Net\<close>), which is not part of
  this repository: its operations are a record passed to the code that uses them, its documented
  behaviour is the locale \<open>ipnet_laws\<close>, and \<open>addr_prefix_net\<close> shows that the laws can be met.
\<close>

unbundle bit_operations_syntax

section \<open>Addresses\<close>

datatype ipv4 = Ipv4 u8 u8 u8 u8

fun octets :: "ipv4 \<Rightarrow> u8 list" where
  "octets (Ipv4 a b c d) = [a, b, c, d]"

definition UNSPECIFIED :: ipv4 where "UNSPECIFIED = Ipv4 0 0 0 0"
definition BROADCAST :: ipv4 where "BROADCAST = Ipv4 255 255 255 255"

fun host_octet :: "ipv4 \<Rightarrow> u8" where
  "host_octet (Ipv4 a b c d) = d"

text \<open>\<^verbatim>\<open>Display\<close>.\<close>

fun ipv4_display :: "ipv4 \<Rightarrow> string" where
  "ipv4_display (Ipv4 a b c d) =
     nat_dec (unat a) @ CHR ''.'' # nat_dec (unat b) @ CHR ''.'' # nat_dec (unat c)
       @ CHR ''.'' # nat_dec (unat d)"

text \<open>
  \<^verbatim>\<open>FromStr\<close>: four decimal numbers below 256 separated by dots, each of one to three digits
  without a leading zero.
\<close>

definition parse_octet :: "string \<Rightarrow> u8 option" where
  "parse_octet s =
     (if s = [] \<or> 3 < length s \<or> (hd s = CHR ''0'' \<and> 1 < length s) then None
      else Option.bind (digits_val 10 0 s) (\<lambda>n. if n < 256 then Some (of_nat n) else None))"

definition ipv4_parse :: "string \<Rightarrow> ipv4 option" where
  "ipv4_parse s =
     (case map parse_octet (split_char (CHR ''.'') s) of
        [Some a, Some b, Some c, Some d] \<Rightarrow> Some (Ipv4 a b c d)
      | _ \<Rightarrow> None)"

text \<open>\<^verbatim>\<open>Ord\<close>: octet by octet, that is by the number the four octets spell.\<close>

fun ipv4_key :: "ipv4 \<Rightarrow> nat" where
  "ipv4_key (Ipv4 a b c d) = ((unat a * 256 + unat b) * 256 + unat c) * 256 + unat d"

section \<open>The interface of \<^verbatim>\<open>ipnet::Ipv4Net\<close>\<close>

record 'n ipnet =
  net_new :: "ipv4 \<Rightarrow> u8 \<Rightarrow> 'n option"
  net_default :: 'n
  prefix_len :: "'n \<Rightarrow> u8"
  network :: "'n \<Rightarrow> ipv4"
  netmask :: "'n \<Rightarrow> ipv4"
  net_contains :: "'n \<Rightarrow> ipv4 \<Rightarrow> bool"
  net_parse :: "string \<Rightarrow> 'n option"

text \<open>The mask with \<open>k\<close> leading ones in an octet, the mask of a prefix, an address under it.\<close>

definition octet_mask :: "nat \<Rightarrow> u8" where
  "octet_mask k = (if 8 \<le> k then 255 else push_bit (8 - k) (mask k))"

definition prefix_mask :: "nat \<Rightarrow> ipv4" where
  "prefix_mask p = Ipv4 (octet_mask p) (octet_mask (p - 8)) (octet_mask (p - 16)) (octet_mask (p - 24))"

fun ipv4_and :: "ipv4 \<Rightarrow> ipv4 \<Rightarrow> ipv4" where
  "ipv4_and (Ipv4 a b c d) (Ipv4 a' b' c' d') = Ipv4 (a AND a') (b AND b') (c AND c') (d AND d')"

locale ipnet_laws =
  fixes I :: "'n ipnet"
  assumes new_ok: "p \<le> 32 \<Longrightarrow> \<exists>n. net_new I a p = Some n \<and> prefix_len I n = p
             \<and> network I n = ipv4_and a (prefix_mask (unat p))"
    and netmask_prefix: "netmask I n = prefix_mask (unat (prefix_len I n))"
    and network_masked: "ipv4_and (network I n) (netmask I n) = network I n"
    and contains_iff: "net_contains I n a \<longleftrightarrow> ipv4_and a (netmask I n) = network I n"
    and parse_display: "p \<le> 32 \<Longrightarrow> \<exists>n. net_parse I (ipv4_display a @ CHR ''/'' # nat_dec (unat p)) = Some n"

text \<open>An implementation of the interface: an address with a prefix length.\<close>

definition addr_prefix_parse :: "string \<Rightarrow> (ipv4 \<times> u8) option" where
  "addr_prefix_parse s =
     (case split_char (CHR ''/'') s of
        [a, p] \<Rightarrow> Option.bind (ipv4_parse a) (\<lambda>ip.
                   Option.bind (parse_unsigned 10 33 p) (\<lambda>n. Some (ip, of_nat n)))
      | _ \<Rightarrow> None)"

definition addr_prefix_net :: "(ipv4 \<times> u8) ipnet" where
  "addr_prefix_net = \<lparr>
     net_new = (\<lambda>a p. if p \<le> 32 then Some (a, p) else None),
     net_default = (UNSPECIFIED, 0),
     prefix_len = snd,
     network = (\<lambda>n. ipv4_and (fst n) (prefix_mask (unat (snd n)))),
     netmask = (\<lambda>n. prefix_mask (unat (snd n))),
     net_contains = (\<lambda>n a. ipv4_and a (prefix_mask (unat (snd n)))
                        = ipv4_and (fst n) (prefix_mask (unat (snd n)))),
     net_parse = addr_prefix_parse \<rparr>"

section \<open>Lemmas on addresses\<close>

lemma octet_less: "unat (w :: u8) < 256"
  using unsigned_less[of w] by simp

lemma key_digit: "m * 256 + unat d = m' * 256 + unat d' \<longleftrightarrow> m = m' \<and> d = d'"
  for d d' :: u8
proof -
  have "m * 256 + x = m' * 256 + y \<longleftrightarrow> m = m' \<and> x = y" if "x < 256" "y < 256" for x y :: nat
  proof
    assume eq: "m * 256 + x = m' * 256 + y"
    with that have "m = m'" by linarith
    with eq show "m = m' \<and> x = y" by simp
  qed simp
  from this[OF octet_less octet_less] show ?thesis
    by (simp add: word_unat_eq_iff)
qed

lemma key_le: "m * 256 + n \<le> m' * 256 + unat d' \<Longrightarrow> m \<le> m'"
  for d' :: u8
proof -
  assume "m * 256 + n \<le> m' * 256 + unat d'"
  moreover have "unat d' < 256" by (rule octet_less)
  ultimately show "m \<le> m'" by linarith
qed

lemma ipv4_key_inj: "ipv4_key x = ipv4_key y \<Longrightarrow> x = y"
  by (cases x; cases y) (auto simp only: ipv4_key.simps key_digit unsigned_word_eqI)

instantiation ipv4 :: linorder
begin

definition less_eq_ipv4 :: "ipv4 \<Rightarrow> ipv4 \<Rightarrow> bool" where
  "less_eq_ipv4 x y \<longleftrightarrow> ipv4_key x \<le> ipv4_key y"

definition less_ipv4 :: "ipv4 \<Rightarrow> ipv4 \<Rightarrow> bool" where
  "less_ipv4 x y \<longleftrightarrow> ipv4_key x < ipv4_key y"

instance
  by standard (auto simp: less_eq_ipv4_def less_ipv4_def dest: ipv4_key_inj)

end

lemma ipv4_le_same_net [simp]: "Ipv4 a b c d \<le> Ipv4 a b c d' \<longleftrightarrow> d \<le> d'"
  by (simp add: less_eq_ipv4_def word_le_nat_alt)

lemma ipv4_less_same_net [simp]: "Ipv4 a b c d < Ipv4 a b c d' \<longleftrightarrow> d < d'"
  by (simp add: less_ipv4_def word_less_nat_alt)

text \<open>An address between two addresses of one /24 is in that /24.\<close>

lemma ipv4_between_same_net:
  assumes "Ipv4 a b c s \<le> x" and "x \<le> Ipv4 a b c e"
  shows "\<exists>h. x = Ipv4 a b c h \<and> s \<le> h \<and> h \<le> e"
proof (cases x)
  case (Ipv4 a' b' c' h)
  let ?k = "(unat a * 256 + unat b) * 256 + unat c"
  let ?k' = "(unat a' * 256 + unat b') * 256 + unat c'"
  have le: "?k * 256 + unat s \<le> ?k' * 256 + unat h" "?k' * 256 + unat h \<le> ?k * 256 + unat e"
    using assms Ipv4 by (simp_all only: less_eq_ipv4_def ipv4_key.simps)
  have "?k \<le> ?k'" "?k' \<le> ?k"
    using key_le[OF le(1)] key_le[OF le(2)] by simp_all
  then have eq: "?k' = ?k" by (rule le_antisym[rotated])
  with le have "s \<le> h" "h \<le> e" by (simp_all add: word_le_nat_alt)
  moreover from eq have "a' = a \<and> b' = b \<and> c' = c"
    by (simp only: key_digit word_unat_eq_iff[symmetric])
  ultimately show ?thesis using Ipv4 by simp
qed

lemma ipv4_display_chars: "c \<in> set (ipv4_display a) \<Longrightarrow> is_ascii_digit c \<or> c = CHR ''.''"
  by (cases a) (auto dest: nat_dec_digits)

lemma ipv4_display_no_slash [simp]: "CHR ''/'' \<notin> set (ipv4_display a)"
  by (auto dest!: ipv4_display_chars simp: is_ascii_digit_def)

lemma ipv4_display_nonempty [simp]: "ipv4_display a \<noteq> []"
  by (cases a) simp

lemma split_ipv4_display:
  "split_char (CHR ''.'') (ipv4_display (Ipv4 a b c d)) =
     [nat_dec (unat a), nat_dec (unat b), nat_dec (unat c), nat_dec (unat d)]"
proof -
  have no_dot: "CHR ''.'' \<notin> set (nat_dec n)" for n
    by (auto dest: nat_dec_chars)
  show ?thesis
    by (simp add: no_dot split_char_append split_char_no_sep)
qed


text \<open>Printed numbers are short and have no leading zero, so printing and parsing are inverse.\<close>

lemma nat_dec_leading_zero: "hd (nat_dec n) = CHR ''0'' \<Longrightarrow> n = 0"
proof (induction n rule: nat_dec.induct)
  case (1 n)
  show ?case
  proof (cases "n < 10")
    case True
    with 1(2) have "code (digit_char n) = 48"
      by (subst (asm) nat_dec.simps) simp
    with True show ?thesis by simp
  next
    case False
    with 1(2) have "hd (nat_dec (n div 10)) = CHR ''0''"
      by (subst (asm) nat_dec.simps) simp
    with 1(1) False show ?thesis by simp
  qed
qed

lemma length_nat_dec: "n < 10 \<Longrightarrow> length (nat_dec n) = 1"
    "n < 100 \<Longrightarrow> length (nat_dec n) \<le> 2" "n < 1000 \<Longrightarrow> length (nat_dec n) \<le> 3"
proof -
  show one: "length (nat_dec n) = 1" if "n < 10" for n
    using that by (subst nat_dec.simps) simp
  show two: "length (nat_dec n) \<le> 2" if "n < 100" for n
    using that one[of "n div 10"] by (subst nat_dec.simps) auto
  show "length (nat_dec n) \<le> 3" if "n < 1000" for n
    using that two[of "n div 10"] by (subst nat_dec.simps) auto
qed

lemma parse_octet_nat_dec: "parse_octet (nat_dec (unat a)) = Some a"
proof -
  have "length (nat_dec (unat a)) \<le> 3"
    using octet_less[of a] by (intro length_nat_dec) linarith
  moreover have "length (nat_dec (unat a)) = 1" if "hd (nat_dec (unat a)) = CHR ''0''"
    using nat_dec_leading_zero[OF that] length_nat_dec(1)[of 0] by simp
  ultimately show ?thesis
    using octet_less[of a] by (auto simp: parse_octet_def digits_val_nat_dec)
qed

lemma digits_val_mono: "digits_val 10 acc s = Some n \<Longrightarrow> acc * 10 ^ length s \<le> n"
proof (induction s arbitrary: acc)
  case (Cons c s)
  then obtain d where "digits_val 10 (acc * 10 + d) s = Some n"
    by (auto simp: Option.bind_eq_Some_conv)
  then have "(acc * 10 + d) * 10 ^ length s \<le> n"
    by (rule Cons.IH)
  then show ?case
    by (simp add: algebra_simps)
qed simp

lemma digits_val_pos:
  assumes "digits_val 10 0 (c # s) = Some n" and "c \<noteq> CHR ''0''"
  shows "0 < n"
proof -
  from assms(1) obtain d where d: "to_digit 10 c = Some d" "digits_val 10 d s = Some n"
    by (auto simp: Option.bind_eq_Some_conv)
  have "d \<noteq> 0"
  proof
    assume "d = 0"
    with d(1) have "digit_char (code c - 48) = digit_char 0" "is_ascii_digit c"
      by (auto simp: to_digit_10)
    then have "c = digit_char 0"
      using digit_char_of_digit by simp
    then have "code c = code (CHR ''0'')" by simp
    with assms(2) show False by (simp only: of_char_eq_iff)
  qed
  with digits_val_mono[OF d(2)] show ?thesis
    by (cases n) auto
qed

lemma nat_dec_digits_val:
  "digits_val 10 0 s = Some n \<Longrightarrow> s \<noteq> [] \<Longrightarrow> hd s \<noteq> CHR ''0'' \<or> length s = 1 \<Longrightarrow> nat_dec n = s"
proof (induction s arbitrary: n rule: rev_induct)
  case (snoc c s)
  then obtain m d where m: "digits_val 10 0 s = Some m" "to_digit 10 c = Some d" "n = m * 10 + d"
    by (auto simp: digits_val_append Option.bind_eq_Some_conv)
  from m(2) have d: "d < 10" "digit_char d = c"
    by (auto simp: to_digit_10 is_ascii_digit_def digit_char_of_digit)
  show ?case
  proof (cases "s = []")
    case True
    with m d show ?thesis by (subst nat_dec.simps) auto
  next
    case False
    with snoc.prems have hd: "hd s \<noteq> CHR ''0''" by auto
    with False m(1) have "0 < m"
      by (cases s) (auto intro: digits_val_pos)
    moreover have "nat_dec m = s"
      using snoc.IH[OF m(1) False] hd by simp
    ultimately show ?thesis
      using m(3) d by (subst nat_dec.simps) simp
  qed
qed simp

lemma nat_dec_parse_octet: "parse_octet s = Some a \<Longrightarrow> nat_dec (unat a) = s"
  by (cases s) (auto simp: parse_octet_def Option.bind_eq_Some_conv unat_of_nat
      intro!: nat_dec_digits_val split: if_splits)

lemma ipv4_parse_display [simp]: "ipv4_parse (ipv4_display a) = Some a"
  by (cases a) (simp only: ipv4_parse_def split_ipv4_display list.map parse_octet_nat_dec, simp)

lemma ipv4_display_parse:
  assumes "ipv4_parse s = Some a"
  shows "ipv4_display a = s"
proof -
  from assms obtain p q r t where parts: "split_char (CHR ''.'') s = [p, q, r, t]"
    and "map parse_octet [p, q, r, t] = map Some (octets a)"
    by (cases a) (auto simp: ipv4_parse_def split: list.splits option.splits)
  moreover have "s = join_char (CHR ''.'') [p, q, r, t]"
    using join_split_char[of "CHR ''.''" s] parts by simp
  ultimately show ?thesis
    by (cases a) (auto dest!: nat_dec_parse_octet)
qed

lemma ipv4_display_inj [simp]: "ipv4_display a = ipv4_display b \<longleftrightarrow> a = b"
  using ipv4_parse_display by (metis option.inject)

text \<open>The text \<^verbatim>\<open>a.b.c.d/\<close> is a prefix of another address with a slash only for the same address.\<close>

lemma display_slash_prefix:
  "starts_with (ipv4_display b @ CHR ''/'' # t) (ipv4_display a @ [CHR ''/'']) \<longleftrightarrow> a = b"
proof
  assume "starts_with (ipv4_display b @ CHR ''/'' # t) (ipv4_display a @ [CHR ''/''])"
  then obtain u where "ipv4_display b @ CHR ''/'' # t = ipv4_display a @ CHR ''/'' # u"
    by (auto simp: starts_with_prefix prefix_def)
  then have "split_char (CHR ''/'') (ipv4_display b @ CHR ''/'' # t)
           = split_char (CHR ''/'') (ipv4_display a @ CHR ''/'' # u)"
    by simp
  then show "a = b"
    by (simp add: split_char_append)
qed (simp add: starts_with_def)

section \<open>Lemmas on networks\<close>

lemma octet_mask_simps [simp]: "octet_mask 0 = 0" "8 \<le> k \<Longrightarrow> octet_mask k = 255"
  by (auto simp: octet_mask_def)

lemma and_255 [simp]: "(a :: u8) AND 255 = a" "255 AND (a :: u8) = a"
proof -
  have "(255 :: u8) = - 1" by simp
  then show "a AND 255 = a" "255 AND a = a" by (metis and.right_neutral, metis and.left_neutral)
qed

lemma prefix_mask_24 [simp]: "prefix_mask 24 = Ipv4 255 255 255 0"
  by (simp add: prefix_mask_def)

lemma ipv4_and_idem: "ipv4_and (ipv4_and a m) m = ipv4_and a m"
  by (cases a; cases m) (simp add: and.assoc)

interpretation addr_prefix: ipnet_laws addr_prefix_net
proof
  fix p :: u8 and a :: ipv4
  assume p: "p \<le> 32"
  then show "\<exists>n. net_new addr_prefix_net a p = Some n \<and> prefix_len addr_prefix_net n = p
      \<and> network addr_prefix_net n = ipv4_and a (prefix_mask (unat p))"
    by (simp add: addr_prefix_net_def)
  have "CHR ''/'' \<notin> set (nat_dec (unat p))"
    by (auto dest: nat_dec_chars)
  moreover have "unat p < 33"
    using p by (simp add: word_le_nat_alt)
  ultimately show "\<exists>n. net_parse addr_prefix_net (ipv4_display a @ CHR ''/'' # nat_dec (unat p)) = Some n"
    by (simp add: addr_prefix_net_def addr_prefix_parse_def split_char_append split_char_no_sep
        parse_nat_dec)
qed (simp_all add: addr_prefix_net_def ipv4_and_idem)

context ipnet_laws
begin

text \<open>A network with prefix 24 contains exactly the addresses with its three first octets.\<close>

lemma slash24_network:
  assumes "prefix_len I n = 24"
  obtains a b c where "network I n = Ipv4 a b c 0"
    and "\<And>x y z h. net_contains I n (Ipv4 x y z h) \<longleftrightarrow> x = a \<and> y = b \<and> z = c"
proof (cases "network I n")
  case (Ipv4 a b c d)
  have m: "netmask I n = Ipv4 255 255 255 0"
    using netmask_prefix[of n] assms by simp
  with network_masked[of n] Ipv4 have "d = 0" by simp
  with Ipv4 m that show ?thesis
    by (simp add: contains_iff)
qed

end

end
