(* ===== verification/Utf8.thy ===== *)
theory Utf8
  imports Errors
begin

text \<open>
  UTF-8 as \<^verbatim>\<open>core::str\<close> checks it: \<^verbatim>\<open>str::from_utf8\<close>, \<^verbatim>\<open>String::from_utf8_lossy\<close> and
  \<^verbatim>\<open>fs::read_to_string\<close>. A byte is a \<^typ>\<open>char\<close>. \<open>utf8_step\<close> looks at the first character of a
  byte string: it is well formed and \<open>n\<close> bytes long, or the first \<open>n\<close> bytes are the longest
  prefix that could have started one, which the lossy conversion replaces by U+FFFD.
\<close>

section \<open>One character\<close>

definition cont :: "string \<Rightarrow> nat \<Rightarrow> bool" where
  "cont s i \<longleftrightarrow> i < length s \<and> code (s ! i) \<in> {0x80..0xBF}"

definition second_ok :: "nat \<Rightarrow> string \<Rightarrow> bool" where
  "second_ok b s \<longleftrightarrow> 1 < length s \<and> code (s ! 1) \<in>
     (if b = 0xE0 then {0xA0..0xBF} else if b = 0xED then {0x80..0x9F}
      else if b = 0xF0 then {0x90..0xBF} else if b = 0xF4 then {0x80..0x8F} else {0x80..0xBF})"

definition utf8_step :: "string \<Rightarrow> bool \<times> nat" where
  "utf8_step s =
     (let b = code (hd s) in
      if b < 0x80 then (True, 1)
      else if b \<in> {0xC2..0xDF} then (if cont s 1 then (True, 2) else (False, 1))
      else if b \<in> {0xE0..0xEF} then
        (if \<not> second_ok b s then (False, 1) else if \<not> cont s 2 then (False, 2) else (True, 3))
      else if b \<in> {0xF0..0xF4} then
        (if \<not> second_ok b s then (False, 1) else if \<not> cont s 2 then (False, 2)
         else if \<not> cont s 3 then (False, 3) else (True, 4))
      else (False, 1))"

lemma utf8_step_pos: "0 < snd (utf8_step s)"
  by (auto simp: utf8_step_def Let_def)

lemma utf8_step_le: "s \<noteq> [] \<Longrightarrow> snd (utf8_step s) \<le> length s"
  unfolding utf8_step_def Let_def cont_def second_ok_def by (simp add: Suc_le_eq)

section \<open>Strings\<close>

function utf8_valid :: "bytes \<Rightarrow> bool" where
  "utf8_valid s =
     (if s = [] then True else fst (utf8_step s) \<and> utf8_valid (drop (snd (utf8_step s)) s))"
  by pat_completeness auto
termination
  using utf8_step_pos by (relation "measure length") (auto intro: diff_less)

definition replacement :: string where
  "replacement = [CHR 0xEF, CHR 0xBF, CHR 0xBD]"

function from_utf8_lossy :: "bytes \<Rightarrow> string" where
  "from_utf8_lossy s =
     (if s = [] then []
      else let (ok, n) = utf8_step s in
        (if ok then take n s else replacement) @ from_utf8_lossy (drop n s))"
  by pat_completeness auto
termination
proof (relation "measure length")
  fix s :: bytes and x ok n
  assume "s \<noteq> []" "x = utf8_step s" "(ok, n) = x"
  then show "(drop n s, s) \<in> measure length"
    using utf8_step_pos[of s] by (metis diff_less in_measure length_drop length_greater_0_conv snd_conv)
qed simp

declare utf8_valid.simps [simp del] from_utf8_lossy.simps [simp del]

definition from_utf8 :: "bytes \<Rightarrow> string option" where
  "from_utf8 s = (if utf8_valid s then Some s else None)"

lemma utf8_valid_Nil [simp]: "utf8_valid []"
  by (subst utf8_valid.simps) simp

lemma lossy_Nil [simp]: "from_utf8_lossy [] = []"
  by (subst from_utf8_lossy.simps) simp

lemma lossy_valid_id: "utf8_valid s \<Longrightarrow> from_utf8_lossy s = s"
proof (induction s rule: utf8_valid.induct)
  case (1 s)
  show ?case
  proof (cases "s = []")
    case False
    obtain ok n where st: "utf8_step s = (ok, n)" by force
    with 1 False have "ok" "from_utf8_lossy (drop n s) = drop n s"
      by (auto simp: utf8_valid.simps[of s])
    with False st show ?thesis
      by (simp add: from_utf8_lossy.simps[of s])
  qed simp
qed

lemma ascii_valid: "\<forall>c\<in>set s. code c < 0x80 \<Longrightarrow> utf8_valid s"
proof (induction s)
  case (Cons c s)
  then have "utf8_step (c # s) = (True, 1)" by (simp add: utf8_step_def)
  with Cons show ?case by (simp add: utf8_valid.simps[of "c # s"])
qed simp

section \<open>Evaluation\<close>

text \<open>Code equations that pass over ASCII text without decoding it.\<close>

lemma digit7_ascii: "\<not> digit7 c \<Longrightarrow> code c < 0x80"
  by (cases c) (simp add: horner_sum_simps)

lemma utf8_valid_code [code]:
  "utf8_valid s = (case s of [] \<Rightarrow> True
     | c # cs \<Rightarrow> if \<not> digit7 c then utf8_valid cs
         else fst (utf8_step s) \<and> utf8_valid (drop (snd (utf8_step s)) s))"
proof (cases s)
  case (Cons c cs)
  then have "utf8_step s = (True, 1)" if "\<not> digit7 c"
    using digit7_ascii[OF that] by (simp add: utf8_step_def)
  then show ?thesis
    by (simp add: Cons utf8_valid.simps[of "c # cs"])
qed simp

lemma from_utf8_lossy_code [code]:
  "from_utf8_lossy s = (case s of [] \<Rightarrow> []
     | c # cs \<Rightarrow> if \<not> digit7 c then c # from_utf8_lossy cs
         else let (ok, n) = utf8_step s in (if ok then take n s else replacement) @ from_utf8_lossy (drop n s))"
proof (cases s)
  case (Cons c cs)
  then have "utf8_step s = (True, 1)" if "\<not> digit7 c"
    using digit7_ascii[OF that] by (simp add: utf8_step_def)
  then show ?thesis
    unfolding Cons by (simp add: from_utf8_lossy.simps[of "c # cs"])
qed simp

end
