(* ===== verification/Logs.thy ===== *)
theory Logs
  imports Prelude
begin

text \<open>
  Reasoning about the calls an effectful program makes. \<open>logged f m\<close> is \<open>m\<close> with its result
  written to a log kept beside the world, \<open>lift_io m\<close> is \<open>m\<close> with the log left alone. A program
  over logged operations is the program itself (\<open>erases\<close>), and \<open>lwp\<close> says what its log can be.
\<close>

section \<open>Logged operations\<close>

definition logged :: "('a \<Rightarrow> 'c) \<Rightarrow> ('w, 'a) io \<Rightarrow> ('w \<times> 'c list, 'a) io" where
  "logged f m = (\<lambda>(w, tr). map_option (\<lambda>(x, w'). (x, (w', tr @ [f x]))) (m w))"

definition lift_io :: "('w, 'a) io \<Rightarrow> ('w \<times> 'c list, 'a) io" where
  "lift_io m = (\<lambda>(w, tr). map_option (\<lambda>(x, w'). (x, (w', tr))) (m w))"

section \<open>Facts on logged calls\<close>

lemma logged_Some [io_simps]:
  "logged f m wt = Some (x, wt') \<longleftrightarrow>
     (\<exists>w'. m (fst wt) = Some (x, w') \<and> wt' = (w', snd wt @ [f x]))"
  by (cases wt) (auto simp: logged_def)

lemma keeps_logged:
  "(\<And>tr x. P tr \<Longrightarrow> P (tr @ [f x])) \<Longrightarrow> keeps (\<lambda>(w, tr). P tr) (logged f m)"
  by (auto simp: keeps_def io_simps)

text \<open>Forgetting the log of a program over wrapped dictionaries gives the program itself.\<close>

definition erases :: "('w \<times> 'c list, 'a) io \<Rightarrow> ('w, 'a) io \<Rightarrow> bool" where
  "erases m' m \<longleftrightarrow> (\<forall>w tr. map_option (\<lambda>(x, (w', _)). (x, w')) (m' (w, tr)) = m w)"

lemma erases_logged [intro]: "erases (logged f m) m"
  by (auto simp: erases_def logged_def option.map_comp comp_def case_prod_beta option.map_ident)

lemma erases_lift [intro]: "erases (lift_io m) m"
  by (auto simp: erases_def lift_io_def option.map_comp comp_def case_prod_beta option.map_ident)

lemma erases_return [intro]: "erases (return_io x) (return_io x)"
  by (simp add: erases_def)

lemma erases_return_eta [intro]: "erases (\<lambda>w. Some (x, w)) (\<lambda>w. Some (x, w))"
  by (simp add: erases_def case_prod_beta)

lemma erases_bind [intro]:
  assumes m: "erases m' m" and k: "\<And>x. erases (k' x) (k x)"
  shows "erases (bind_io m' k') (bind_io m k)"
  unfolding erases_def
proof (intro allI)
  fix w tr
  have mw: "map_option (\<lambda>(x, (w', _)). (x, w')) (m' (w, tr)) = m w"
    using m by (simp add: erases_def)
  show "map_option (\<lambda>(x, (w', _)). (x, w')) (bind_io m' k' (w, tr)) = bind_io m k w"
  proof (cases "m' (w, tr)")
    case None
    with mw show ?thesis by (simp add: bind_io_def)
  next
    case (Some p)
    then obtain x w' tr' where p: "m' (w, tr) = Some (x, (w', tr'))" by (cases p) auto
    with mw have "m w = Some (x, w')" by simp
    moreover have "map_option (\<lambda>(x, (w', _)). (x, w')) (k' x (w', tr')) = k x w'"
      using k by (simp add: erases_def)
    ultimately show ?thesis using p by (simp add: bind_io_def)
  qed
qed

lemma erases_try [intro]:
  assumes "erases m' m" and "\<And>x. erases (k' x) (k x)"
  shows "erases (try_io m' k') (try_io m k)"
  unfolding try_io_def using assms by (intro erases_bind) (auto split: sum.split)

lemma erases_for [intro]:
  "(\<And>x. erases (b' x) (b x)) \<Longrightarrow> erases (for_io xs b') (for_io xs b)"
  by (induction xs) auto

lemma erases_if [intro]:
  "erases m' m \<Longrightarrow> erases k' k \<Longrightarrow> erases (if b then m' else k') (if b then m else k)"
  by simp

lemma erases_run:
  assumes "erases m' m" and "m w = Some (x, w')"
  shows "\<exists>tr'. m' (w, tr) = Some (x, (w', tr'))"
proof -
  have "map_option (\<lambda>(x, (w', _)). (x, w')) (m' (w, tr)) = Some (x, w')"
    using assms unfolding erases_def by metis
  then show ?thesis by auto
qed

lemma erases_log:
  assumes "erases m' m" and "m' (w, tr) = Some (x, (w', tr'))"
  shows "m w = Some (x, w')"
proof -
  have "map_option (\<lambda>(x, (w', _)). (x, w')) (m' (w, tr)) = m w"
    using assms(1) by (simp add: erases_def)
  then show ?thesis using assms(2) by simp
qed

text \<open>Programs without logged operations.\<close>

lemma lift_io_eval: "m w = Some (x, w') \<Longrightarrow> lift_io m (w, tr) = Some (x, (w', tr))"
  by (simp add: lift_io_def)

lemma bind_lift_eval: "m w = Some (x, w') \<Longrightarrow> bind_io (lift_io m) k (w, tr) = k x (w', tr)"
  by (simp add: lift_io_def bind_io_def)

lemma logged_eval: "m w = Some (x, w') \<Longrightarrow> logged f m (w, tr) = Some (x, (w', tr @ [f x]))"
  by (simp add: logged_def)

lemma lift_return: "return_io x = lift_io (return_io x)"
  by (auto simp: lift_io_def return_io_def fun_eq_iff)

lemma lift_bind:
  fixes m :: "('w, 'a) io" and k :: "'a \<Rightarrow> ('w, 'b) io"
  shows "bind_io (lift_io m) (\<lambda>x. lift_io (k x)) = (lift_io (bind_io m k) :: ('w \<times> 'c list, 'b) io)"
proof
  fix wt :: "'w \<times> 'c list"
  show "bind_io (lift_io m) (\<lambda>x. lift_io (k x)) wt = lift_io (bind_io m k) wt"
    by (cases wt; cases "m (fst wt)") (auto simp: lift_io_def bind_io_def)
qed

lemma lift_map: "map_io f (lift_io m) = lift_io (map_io f m)"
  unfolding map_io_def lift_bind[symmetric] by (simp add: lift_return[symmetric])

section \<open>Order of calls\<close>

text \<open>Every call is allowed by the calls made before it.\<close>

fun ordered_by :: "('c set \<Rightarrow> 'c \<Rightarrow> bool) \<Rightarrow> 'c set \<Rightarrow> 'c list \<Rightarrow> bool" where
  "ordered_by A S [] = True"
| "ordered_by A S (c # cs) = (A S c \<and> ordered_by A (insert c S) cs)"

lemma ordered_by_append:
  "ordered_by A S (xs @ ys) \<longleftrightarrow> ordered_by A S xs \<and> ordered_by A (S \<union> set xs) ys"
  by (induction xs arbitrary: S) auto

lemma ordered_by_nth: "ordered_by A {} tr \<longleftrightarrow> (\<forall>n < length tr. A (set (take n tr)) (tr ! n))"
  by (induction tr rule: rev_induct) (auto simp: ordered_by_append nth_append less_Suc_eq)

section \<open>Reasoning about logs\<close>

text \<open>
  \<open>lwp m Q tr\<close>: every run of \<open>m\<close> from the log \<open>tr\<close>, whatever the implementation answers, ends
  with a result and a log that satisfy \<open>Q\<close>. The introduction rules follow the program.
\<close>

definition lwp :: "('w \<times> 'c list, 'a) io \<Rightarrow> ('a \<Rightarrow> 'c list \<Rightarrow> bool) \<Rightarrow> 'c list \<Rightarrow> bool" where
  "lwp m Q tr \<longleftrightarrow> (\<forall>w x w' tr'. m (w, tr) = Some (x, (w', tr')) \<longrightarrow> Q x tr')"

lemma lwpD: "lwp m Q tr \<Longrightarrow> m (w, tr) = Some (x, (w', tr')) \<Longrightarrow> Q x tr'"
  by (auto simp: lwp_def)

lemma lwp_conseq: "lwp m Q tr \<Longrightarrow> (\<And>x tr'. Q x tr' \<Longrightarrow> R x tr') \<Longrightarrow> lwp m R tr"
  by (auto simp: lwp_def)

lemma lwp_return: "Q x tr \<Longrightarrow> lwp (return_io x) Q tr"
  by (auto simp: lwp_def)

lemma lwp_return_eta: "Q x tr \<Longrightarrow> lwp (\<lambda>wt. Some (x, wt)) Q tr"
  by (auto simp: lwp_def)

lemma lwp_logged: "(\<And>x. Q x (tr @ [f x])) \<Longrightarrow> lwp (logged f m) Q tr"
  by (auto simp: lwp_def io_simps)

lemma lwp_bind: "lwp m (\<lambda>x tr'. lwp (k x) Q tr') tr \<Longrightarrow> lwp (bind_io m k) Q tr"
  by (fastforce simp: lwp_def bind_io_Some)

lemma lwp_try:
  "lwp m (\<lambda>r tr'. case r of Inl e \<Rightarrow> Q (Inl e) tr' | Inr x \<Rightarrow> lwp (k x) Q tr') tr \<Longrightarrow> lwp (try_io m k) Q tr"
  unfolding try_io_def by (rule lwp_bind, erule lwp_conseq) (auto split: sum.splits intro: lwp_return)

lemma lwp_map: "lwp m (\<lambda>x. Q (f x)) tr \<Longrightarrow> lwp (map_io f m) Q tr"
  by (auto simp: lwp_def io_simps)

lemma lwp_if: "(b \<Longrightarrow> lwp m Q tr) \<Longrightarrow> (\<not> b \<Longrightarrow> lwp k Q tr) \<Longrightarrow> lwp (if b then m else k) Q tr"
  by simp

lemma lwp_for:
  assumes "\<And>x tr. x \<in> set xs \<Longrightarrow> J tr \<Longrightarrow> lwp (body x) (\<lambda>_. J) tr" and "J tr"
  shows "lwp (for_io xs body) (\<lambda>_. J) tr"
  using assms
proof (induction xs arbitrary: tr)
  case (Cons x xs)
  have "lwp (body x) (\<lambda>_. J) tr"
    using Cons.prems by simp
  then have "lwp (body x) (\<lambda>_. lwp (for_io xs body) (\<lambda>_. J)) tr"
    by (rule lwp_conseq) (use Cons in simp)
  then show ?case by (simp add: lwp_bind)
qed (simp add: lwp_return)

lemma lwp_lift: "(\<And>x. Q x tr) \<Longrightarrow> lwp (lift_io m) Q tr"
  by (auto simp: lwp_def lift_io_def)

lemmas lwp_basic = lwp_return lwp_return_eta lwp_bind lwp_try lwp_map lwp_if

lemma logged_run:
  assumes "erases m' m" and "lwp m' Q []" and "m w = Some (r, w')"
  shows "\<exists>tr. m' (w, []) = Some (r, (w', tr)) \<and> Q r tr"
  using erases_run[OF assms(1,3)] assms(2) lwpD by metis

end
