(* ===== verification/Os.thy ===== *)
theory Os
  imports Utf8 Logs
begin

text \<open>
  The parts of the standard library and of \<^verbatim>\<open>nix\<close> through which the crate touches the operating
  system, as a dictionary of effectful operations (\<^verbatim>\<open>std::fs\<close>, \<^verbatim>\<open>std::process::Command\<close>,
  \<^verbatim>\<open>kill\<close>, \<^verbatim>\<open>thread::sleep\<close>, \<^verbatim>\<open>Instant::now\<close>). File contents are byte strings, instants and
  durations are in nanoseconds. Also here: \<^verbatim>\<open>Path::parent\<close>, \<^verbatim>\<open>Path::file_name\<close>, \<^verbatim>\<open>Path::join\<close>.
\<close>

section \<open>Operations\<close>

datatype signal = SIGTERM | SIGKILL | SIGHUP | SIGINT

record 'w os =
  fs_read :: "path \<Rightarrow> ('w, io_error + bytes) io"
  fs_write :: "path \<Rightarrow> bytes \<Rightarrow> ('w, io_error + unit) io"
  fs_remove_file :: "path \<Rightarrow> ('w, io_error + unit) io"
  fs_create_dir_all :: "path \<Rightarrow> ('w, io_error + unit) io"
  fs_is_file :: "path \<Rightarrow> ('w, bool) io"
  fs_is_dir :: "path \<Rightarrow> ('w, bool) io"
  fs_exists :: "path \<Rightarrow> ('w, bool) io"
  fs_read_dir :: "path \<Rightarrow> ('w, io_error + (io_error + bytes) list) io"
  fs_canonicalize :: "path \<Rightarrow> ('w, io_error + bytes) io"
  os_kill :: "int \<Rightarrow> signal \<Rightarrow> ('w, nat + unit) io"
  cmd_status :: "string \<Rightarrow> string list \<Rightarrow> ('w, io_error + int option) io"
  cmd_output :: "string \<Rightarrow> string list \<Rightarrow> ('w, io_error + int option \<times> bytes \<times> bytes) io"
  thread_sleep :: "nat \<Rightarrow> ('w, unit) io"
  instant_now :: "('w, nat) io"

text \<open>\<^verbatim>\<open>fs::read_to_string\<close> fails on bytes that are not UTF-8.\<close>

definition read_to_string :: "'w os \<Rightarrow> path \<Rightarrow> ('w, io_error + string) io" where
  "read_to_string os p =
     map_io (\<lambda>r. try_res r (\<lambda>b. if utf8_valid b then Inr b else Inl InvalidData)) (fs_read os p)"

text \<open>\<^verbatim>\<open>Duration::from_millis\<close> and \<^verbatim>\<open>Duration::from_secs\<close>.\<close>

definition from_millis :: "nat \<Rightarrow> nat" where
  "from_millis n = n * 1000000"

definition from_secs :: "u64 \<Rightarrow> nat" where
  "from_secs n = unat n * 1000000000"

text \<open>
  \<^verbatim>\<open>Instant + Duration\<close>: the seconds of an instant are a signed 64-bit number, the addition panics
  when they do not fit.
\<close>

definition instant_add :: "nat \<Rightarrow> nat \<Rightarrow> ('w, nat) io" where
  "instant_add t d = (if (t + d) div 1000000000 < 2 ^ 63 then return_io (t + d) else abort_io)"

text \<open>\<^verbatim>\<open>ExitStatus::success\<close> and \<^verbatim>\<open>code().unwrap_or(-1)\<close>.\<close>

definition success :: "int option \<Rightarrow> bool" where
  "success st \<longleftrightarrow> st = Some 0"

definition exit_code :: "int option \<Rightarrow> int" where
  "exit_code st = (case st of None \<Rightarrow> - 1 | Some c \<Rightarrow> c)"

section \<open>Paths\<close>

definition is_absolute :: "path \<Rightarrow> bool" where
  "is_absolute p \<longleftrightarrow> p \<noteq> [] \<and> hd p = CHR ''/''"

definition path_join :: "path \<Rightarrow> path \<Rightarrow> path" where
  "path_join p q =
     (if is_absolute q then q
      else if p = [] \<or> last p = CHR ''/'' then p @ q
      else p @ CHR ''/'' # q)"

text \<open>
  A path without the separators and \<^verbatim>\<open>.\<close> components at its end (on the reversed path); the
  root is left empty.
\<close>

fun rtrim_path :: "string \<Rightarrow> string" where
  "rtrim_path [] = []"
| "rtrim_path (c # s) =
     (if c = CHR ''/'' then rtrim_path s
      else if c = CHR ''.'' \<and> s \<noteq> [] \<and> hd s = CHR ''/'' then rtrim_path (tl s)
      else c # s)"

definition file_name :: "path \<Rightarrow> string option" where
  "file_name p =
     (let c = rev (takeWhile (\<lambda>c. c \<noteq> CHR ''/'') (rtrim_path (rev p))) in
      if c = [] \<or> c = ''.'' \<or> c = ''..'' then None else Some c)"

definition parent :: "path \<Rightarrow> path option" where
  "parent p =
     (let t = rtrim_path (rev p); rest = dropWhile (\<lambda>c. c \<noteq> CHR ''/'') t; up = rev (rtrim_path rest) in
      if t = [] then None
      else Some (if up = [] \<and> rest \<noteq> [] then ''/'' else up))"

text \<open>\<^verbatim>\<open>if let Some(parent) = path.parent() { create_dir_all(parent)? }\<close>.\<close>

definition ensure_parent :: "'w os \<Rightarrow> path \<Rightarrow> ('w, unit result) io" where
  "ensure_parent os p =
     (case parent p of None \<Rightarrow> return_io (Inr ())
      | Some par \<Rightarrow> map_io (map_err (io_at par)) (fs_create_dir_all os par))"

lemma path_examples:
  "file_name ''/usr/sbin/dnsmasq'' = Some ''dnsmasq'' \<and> file_name ''dnsmasq/'' = Some ''dnsmasq''
   \<and> file_name ''/'' = None \<and> parent ''/data/run/dnsmasq.pid'' = Some ''/data/run''
   \<and> parent ''/data'' = Some ''/'' \<and> parent ''data'' = Some [] \<and> parent ''/'' = None"
  by code_simp

lemma read_to_string_Some [io_simps]:
  "read_to_string os p w = Some (Inr s, w') \<longleftrightarrow> fs_read os p w = Some (Inr s, w') \<and> utf8_valid s"
proof -
  have "Inr s = try_res r (\<lambda>b. if utf8_valid b then Inr b else Inl InvalidData)
      \<longleftrightarrow> r = Inr s \<and> utf8_valid s" for r :: "io_error + bytes"
    by (cases r) auto
  then show ?thesis
    by (simp add: read_to_string_def io_simps)
qed

section \<open>Calls that change the system\<close>

text \<open>The dictionary with every call that changes the system logged.\<close>

datatype os_call =
    OsWrite path bytes
  | OsRemove path
  | OsMkdir path
  | OsKill int signal
  | OsCmd string "string list"

definition log_os :: "'w os \<Rightarrow> ('w \<times> os_call list) os" where
  "log_os os = \<lparr>
     fs_read = (\<lambda>p. lift_io (fs_read os p)),
     fs_write = (\<lambda>p b. logged (\<lambda>_. OsWrite p b) (fs_write os p b)),
     fs_remove_file = (\<lambda>p. logged (\<lambda>_. OsRemove p) (fs_remove_file os p)),
     fs_create_dir_all = (\<lambda>p. logged (\<lambda>_. OsMkdir p) (fs_create_dir_all os p)),
     fs_is_file = (\<lambda>p. lift_io (fs_is_file os p)),
     fs_is_dir = (\<lambda>p. lift_io (fs_is_dir os p)),
     fs_exists = (\<lambda>p. lift_io (fs_exists os p)),
     fs_read_dir = (\<lambda>p. lift_io (fs_read_dir os p)),
     fs_canonicalize = (\<lambda>p. lift_io (fs_canonicalize os p)),
     os_kill = (\<lambda>pid sig. logged (\<lambda>_. OsKill pid sig) (os_kill os pid sig)),
     cmd_status = (\<lambda>b args. logged (\<lambda>_. OsCmd b args) (cmd_status os b args)),
     cmd_output = (\<lambda>b args. logged (\<lambda>_. OsCmd b args) (cmd_output os b args)),
     thread_sleep = (\<lambda>d. lift_io (thread_sleep os d)),
     instant_now = lift_io (instant_now os) \<rparr>"

lemma log_os_erases [intro]:
  "erases (fs_read (log_os os) p) (fs_read os p)" "erases (fs_write (log_os os) p b) (fs_write os p b)"
  "erases (fs_remove_file (log_os os) p) (fs_remove_file os p)"
  "erases (fs_create_dir_all (log_os os) p) (fs_create_dir_all os p)"
  "erases (fs_is_file (log_os os) p) (fs_is_file os p)" "erases (fs_is_dir (log_os os) p) (fs_is_dir os p)"
  "erases (fs_exists (log_os os) p) (fs_exists os p)" "erases (fs_read_dir (log_os os) p) (fs_read_dir os p)"
  "erases (fs_canonicalize (log_os os) p) (fs_canonicalize os p)"
  "erases (os_kill (log_os os) pid sig) (os_kill os pid sig)"
  "erases (cmd_status (log_os os) bin args) (cmd_status os bin args)"
  "erases (cmd_output (log_os os) bin args) (cmd_output os bin args)"
  "erases (thread_sleep (log_os os) d) (thread_sleep os d)" "erases (instant_now (log_os os)) (instant_now os)"
  by (simp_all add: log_os_def erases_lift erases_logged)

lemma erases_map [intro]: "erases m' m \<Longrightarrow> erases (map_io f m') (map_io f m)"
  unfolding map_io_def by auto

lemma read_to_string_erases [intro]: "erases (read_to_string (log_os os) p) (read_to_string os p)"
  unfolding read_to_string_def by auto

lemma lwp_log_os:
  "(\<And>x. Q1 x tr) \<Longrightarrow> lwp (fs_read (log_os os) p) Q1 tr"
  "(\<And>x. Q2 x (tr @ [OsWrite p b])) \<Longrightarrow> lwp (fs_write (log_os os) p b) Q2 tr"
  "(\<And>x. Q2 x (tr @ [OsRemove p])) \<Longrightarrow> lwp (fs_remove_file (log_os os) p) Q2 tr"
  "(\<And>x. Q2 x (tr @ [OsMkdir p])) \<Longrightarrow> lwp (fs_create_dir_all (log_os os) p) Q2 tr"
  "(\<And>x. Q3 x tr) \<Longrightarrow> lwp (fs_is_file (log_os os) p) Q3 tr"
  "(\<And>x. Q3 x tr) \<Longrightarrow> lwp (fs_is_dir (log_os os) p) Q3 tr"
  "(\<And>x. Q3 x tr) \<Longrightarrow> lwp (fs_exists (log_os os) p) Q3 tr"
  "(\<And>x. Q4 x tr) \<Longrightarrow> lwp (fs_read_dir (log_os os) p) Q4 tr"
  "(\<And>x. Q1 x tr) \<Longrightarrow> lwp (fs_canonicalize (log_os os) p) Q1 tr"
  "(\<And>x. Q5 x (tr @ [OsKill pid sig])) \<Longrightarrow> lwp (os_kill (log_os os) pid sig) Q5 tr"
  "(\<And>x. Q6 x (tr @ [OsCmd bin args])) \<Longrightarrow> lwp (cmd_status (log_os os) bin args) Q6 tr"
  "(\<And>x. Q7 x (tr @ [OsCmd bin args])) \<Longrightarrow> lwp (cmd_output (log_os os) bin args) Q7 tr"
  "(\<And>x. Q8 x tr) \<Longrightarrow> lwp (thread_sleep (log_os os) d) Q8 tr"
  "(\<And>x. Q9 x tr) \<Longrightarrow> lwp (instant_now (log_os os)) Q9 tr"
  "(\<And>x. Q1 x tr) \<Longrightarrow> lwp (read_to_string (log_os os) p) Q1 tr"
  by (simp_all add: log_os_def lwp_lift lwp_logged read_to_string_def lwp_map)

lemmas lwp_os = lwp_basic lwp_log_os

text \<open>\<open>only_calls A m\<close>: \<open>m\<close> extends the log by calls that satisfy \<open>A\<close>.\<close>

definition only_calls :: "(os_call \<Rightarrow> bool) \<Rightarrow> ('w \<times> os_call list, 'a) io \<Rightarrow> bool" where
  "only_calls A m \<longleftrightarrow> (\<forall>w tr x w' tr'. m (w, tr) = Some (x, (w', tr')) \<longrightarrow> (\<exists>ts. tr' = tr @ ts \<and> (\<forall>c\<in>set ts. A c)))"

lemma only_callsD:
  assumes "only_calls A m" and "m (w, tr) = Some (x, (w', tr'))"
  obtains ts where "tr' = tr @ ts" "\<forall>c\<in>set ts. A c"
  using assms unfolding only_calls_def by blast

lemma only_calls_all: "only_calls A m \<Longrightarrow> m (w, []) = Some (x, (w', tr)) \<Longrightarrow> \<forall>c\<in>set tr. A c"
  by (erule (1) only_callsD) simp

lemma only_calls_return: "only_calls A (return_io x)" "only_calls A (\<lambda>w. Some (x, w))"
  by (simp_all add: only_calls_def)

lemma only_calls_lift: "only_calls A (lift_io n)"
  by (auto simp: only_calls_def lift_io_def)

lemma only_calls_bind:
  assumes "only_calls A m" and "\<And>y. only_calls A (k y)"
  shows "only_calls A (bind_io m k)"
  unfolding only_calls_def
proof (intro allI impI)
  fix w tr x w' tr'
  assume "bind_io m k (w, tr) = Some (x, (w', tr'))"
  then obtain y w1 tr1 where m: "m (w, tr) = Some (y, (w1, tr1))" and k: "k y (w1, tr1) = Some (x, (w', tr'))"
    unfolding bind_io_Some by fastforce
  obtain ts us where "tr1 = tr @ ts" "\<forall>c\<in>set ts. A c" "tr' = tr1 @ us" "\<forall>c\<in>set us. A c"
    using only_callsD[OF assms(1) m] only_callsD[OF assms(2) k] by metis
  then show "\<exists>ts. tr' = tr @ ts \<and> (\<forall>c\<in>set ts. A c)"
    by (auto intro!: exI[of _ "ts @ us"])
qed

lemma only_calls_try: "only_calls A m \<Longrightarrow> (\<And>y. only_calls A (k y)) \<Longrightarrow> only_calls A (try_io m k)"
  unfolding try_io_def by (intro only_calls_bind) (auto intro: only_calls_return split: sum.split)

lemma only_calls_map: "only_calls A m \<Longrightarrow> only_calls A (map_io f m)"
  unfolding map_io_def by (intro only_calls_bind only_calls_return)

lemma only_calls_if: "only_calls A u \<Longrightarrow> only_calls A v \<Longrightarrow> only_calls A (if b then u else v)"
  by simp

lemmas only_calls_basic = only_calls_return only_calls_lift only_calls_bind only_calls_try only_calls_map only_calls_if

lemma only_calls_logged: "(\<And>x. A (f x)) \<Longrightarrow> only_calls A (logged f m)"
  by (auto simp: only_calls_def logged_Some)

lemma only_calls_os:
  "only_calls A (fs_read (log_os os) p)" "only_calls A (fs_is_file (log_os os) p)" "only_calls A (fs_is_dir (log_os os) p)"
  "only_calls A (fs_exists (log_os os) p)" "only_calls A (fs_read_dir (log_os os) p)"
  "only_calls A (fs_canonicalize (log_os os) p)" "only_calls A (thread_sleep (log_os os) d)"
  "only_calls A (instant_now (log_os os))" "only_calls A (read_to_string (log_os os) p)"
  "A (OsWrite p b) \<Longrightarrow> only_calls A (fs_write (log_os os) p b)"
  "A (OsRemove p) \<Longrightarrow> only_calls A (fs_remove_file (log_os os) p)"
  "A (OsMkdir p) \<Longrightarrow> only_calls A (fs_create_dir_all (log_os os) p)"
  "A (OsKill pid sig) \<Longrightarrow> only_calls A (os_kill (log_os os) pid sig)"
  "A (OsCmd bin args) \<Longrightarrow> only_calls A (cmd_status (log_os os) bin args)"
  "A (OsCmd bin args) \<Longrightarrow> only_calls A (cmd_output (log_os os) bin args)"
  by (simp_all add: log_os_def only_calls_basic only_calls_logged read_to_string_def)

lemmas only_calls_rules = only_calls_basic only_calls_os

end
