(* ===== verification/Config.thy ===== *)
theory Config
  imports Ipv4 Os
begin

text \<open>
  \<^verbatim>\<open>config/mod.rs\<close>: the JSON configuration, its defaults, \<^verbatim>\<open>Config::validate\<close>, the
  address arithmetic on the /24, host names and lease durations, and loading. The network type
  \<open>'n\<close> and its operations come from \<^verbatim>\<open>ipnet\<close>; reading and writing the JSON file is done by
  \<^verbatim>\<open>bigfred_shared_daemon\<close>, so the two loading modes are operations passed to the loaders.
\<close>

section \<open>Data\<close>

record 'n GatewayConfig =
  gc_ip :: ipv4
  gc_subnet :: 'n
  gc_static_host :: u8

record DhcpConfig =
  range_start :: u8
  range_end :: u8
  sticky :: string

record DnsRecord =
  rec_name :: string
  rec_addr :: "ipv4 option"

record DnsConfig =
  dns_enabled :: bool
  dns_records :: "DnsRecord list"

record 'n Config =
  cfg_interface :: "string option"
  cfg_gateway :: "'n GatewayConfig"
  cfg_dhcp :: DhcpConfig
  probe_timeout_secs :: u64
  link_retry_secs :: u64
  cfg_dns :: DnsConfig

section \<open>Defaults\<close>

definition default_gateway_ip :: ipv4 where
  "default_gateway_ip = Ipv4 192 168 0 1"

definition default_subnet :: "'n ipnet \<Rightarrow> 'n" where
  "default_subnet I =
     (case net_new I (Ipv4 192 168 0 0) REQUIRED_PREFIX of Some n \<Rightarrow> n
      | None \<Rightarrow> (case net_new I UNSPECIFIED 32 of Some n \<Rightarrow> n | None \<Rightarrow> net_default I))"

definition default_GatewayConfig :: "'n ipnet \<Rightarrow> 'n GatewayConfig" where
  "default_GatewayConfig I = \<lparr> gc_ip = default_gateway_ip, gc_subnet = default_subnet I,
     gc_static_host = DEFAULT_STATIC_HOST \<rparr>"

definition default_DhcpConfig :: DhcpConfig where
  "default_DhcpConfig = \<lparr> range_start = DEFAULT_RANGE_START, range_end = DEFAULT_RANGE_END,
     sticky = DEFAULT_STICKY \<rparr>"

definition default_DnsConfig :: DnsConfig where
  "default_DnsConfig = \<lparr> dns_enabled = False, dns_records = [] \<rparr>"

definition dns_is_default :: "DnsConfig \<Rightarrow> bool" where
  "dns_is_default d \<longleftrightarrow> \<not> dns_enabled d \<and> dns_records d = []"

definition default_Config :: "'n ipnet \<Rightarrow> 'n Config" where
  "default_Config I = \<lparr> cfg_interface = None, cfg_gateway = default_GatewayConfig I,
     cfg_dhcp = default_DhcpConfig, probe_timeout_secs = DEFAULT_PROBE_TIMEOUT_SECS,
     link_retry_secs = DEFAULT_LINK_RETRY_SECS, cfg_dns = default_DnsConfig \<rparr>"

section \<open>Host names and durations\<close>

text \<open>The loop over the labels of a name; \<open>i\<close> is the index and \<open>out\<close> the text built so far.\<close>

fun normalize_labels :: "string \<Rightarrow> nat \<Rightarrow> string list \<Rightarrow> string \<Rightarrow> string result" where
  "normalize_labels trimmed i [] out = Inr out"
| "normalize_labels trimmed i (label # labels) out =
     (if label = [] \<or> length label > 63 then Inl (Config (DnsLabelLength trimmed))
      else if hd label = CHR ''-'' \<or> last label = CHR ''-'' then Inl (Config (DnsLabelHyphen trimmed))
      else if \<not> list_all (\<lambda>b. is_ascii_alphanumeric b \<or> b = CHR ''-'') label
        then Inl (Config (DnsNotHostname trimmed))
      else normalize_labels trimmed (Suc i) labels
             ((if i > 0 then out @ [CHR ''.''] else out) @ to_ascii_lowercase label))"

definition normalize_dns_name :: "string \<Rightarrow> string result" where
  "normalize_dns_name name =
     (let trimmed = trim_end_matches (CHR ''.'') (trim name) in
      if trimmed = [] then Inl (Config DnsNameEmpty)
      else if length trimmed > MAX_DNS_NAME_LEN then Inl (Config DnsNameTooLong)
      else if CHR 0x00 \<in> set trimmed \<or> CHR '' '' \<in> set trimmed \<or> CHR '','' \<in> set trimmed
        then Inl (Config (DnsIllegalChars trimmed))
      else normalize_labels trimmed 0 (split_char (CHR ''.'') trimmed) [])"

text \<open>The unit suffix of a duration and its factor in seconds.\<close>

definition sticky_unit :: "string \<Rightarrow> string \<times> u64" where
  "sticky_unit s =
     (case strip_suffix (CHR ''s'') s of Some rest \<Rightarrow> (rest, 1)
      | None \<Rightarrow> (case strip_suffix (CHR ''m'') s of Some rest \<Rightarrow> (rest, 60)
      | None \<Rightarrow> (case strip_suffix (CHR ''h'') s of Some rest \<Rightarrow> (rest, 3600)
      | None \<Rightarrow> (case strip_suffix (CHR ''d'') s of Some rest \<Rightarrow> (rest, 86400)
      | None \<Rightarrow> (case strip_suffix (CHR ''w'') s of Some rest \<Rightarrow> (rest, 604800)
      | None \<Rightarrow> (s, 1))))))"

definition parse_sticky :: "string \<Rightarrow> u64 result" where
  "parse_sticky s0 =
     (let s = trim s0 in
      if s = [] then Inl (Config StickyEmpty)
      else
        (let (num, mul) = sticky_unit s in
         case parse_u64 num of
           None \<Rightarrow> Inl (Config (StickyNotDuration s))
         | Some m \<Rightarrow>
             (let n = of_nat m :: u64 in
              if n = 0 then Inl (Config StickyZero)
              else case checked_mul n mul of
                     None \<Rightarrow> Inl (Config StickyOverflow)
                   | Some v \<Rightarrow> Inr v)))"

section \<open>Validation\<close>

fun validate_records :: "string list \<Rightarrow> DnsRecord list \<Rightarrow> unit result" where
  "validate_records seen [] = Inr ()"
| "validate_records seen (r # rs) =
     try_res (normalize_dns_name (rec_name r)) (\<lambda>name.
       if List.member seen name then Inl (Config (DnsDuplicateName name))
       else validate_records (seen @ [name]) rs)"

definition validate_dns :: "'n Config \<Rightarrow> unit result" where
  "validate_dns cfg =
     (if length (dns_records (cfg_dns cfg)) > MAX_DNS_RECORDS then Inl (Config DnsTooManyRecords)
      else validate_records [] (dns_records (cfg_dns cfg)))"

definition validate_interface :: "string option \<Rightarrow> unit result" where
  "validate_interface i =
     (case i of None \<Rightarrow> Inr ()
      | Some name \<Rightarrow>
          if name = [] then Inl (Config InterfaceEmpty)
          else if CHR ''/'' \<in> set name \<or> CHR 0x00 \<in> set name then Inl (Config InterfaceNotSimple)
          else Inr ())"

definition validate :: "'n ipnet \<Rightarrow> 'n Config \<Rightarrow> unit result" where
  "validate I cfg =
     (let gw = cfg_gateway cfg; dhcp = cfg_dhcp cfg; gw_host = octets (gc_ip gw) ! 3 in
      if prefix_len I (gc_subnet gw) \<noteq> REQUIRED_PREFIX then Inl (Config SubnetPrefix)
      else if \<not> net_contains I (gc_subnet gw) (gc_ip gw) then Inl (Config GatewayIpNotInSubnet)
      else if gc_static_host gw = gw_host then Inl (Config StaticHostIsGatewayHost)
      else if range_start dhcp \<ge> range_end dhcp then Inl (Config RangeStartNotBelowEnd)
      else if gc_static_host gw \<ge> range_start dhcp \<and> gc_static_host gw \<le> range_end dhcp
        then Inl (Config StaticHostInRange)
      else if gw_host \<ge> range_start dhcp \<and> gw_host \<le> range_end dhcp
        then Inl (Config GatewayHostInRange)
      else try_res (parse_sticky (sticky dhcp)) (\<lambda>_.
        if probe_timeout_secs cfg = 0 then Inl (Config ProbeTimeoutZero)
        else if link_retry_secs cfg = 0 then Inl (Config LinkRetryZero)
        else try_res (validate_interface (cfg_interface cfg)) (\<lambda>_.
          try_res (validate_dns cfg) (\<lambda>_. Inr ()))))"

section \<open>Addresses of the /24\<close>

definition dns_record_ip :: "'n Config \<Rightarrow> DnsRecord \<Rightarrow> ipv4" where
  "dns_record_ip cfg r = (case rec_addr r of Some a \<Rightarrow> a | None \<Rightarrow> gc_ip (cfg_gateway cfg))"

definition host_addr :: "'n ipnet \<Rightarrow> 'n Config \<Rightarrow> u8 \<Rightarrow> ipv4" where
  "host_addr I cfg host =
     (let ns = octets (network I (gc_subnet (cfg_gateway cfg)))
      in Ipv4 (ns ! 0) (ns ! 1) (ns ! 2) host)"

definition static_addr :: "'n ipnet \<Rightarrow> 'n Config \<Rightarrow> ipv4" where
  "static_addr I cfg = host_addr I cfg (gc_static_host (cfg_gateway cfg))"

definition range_start_addr :: "'n ipnet \<Rightarrow> 'n Config \<Rightarrow> ipv4" where
  "range_start_addr I cfg = host_addr I cfg (range_start (cfg_dhcp cfg))"

definition range_end_addr :: "'n ipnet \<Rightarrow> 'n Config \<Rightarrow> ipv4" where
  "range_end_addr I cfg = host_addr I cfg (range_end (cfg_dhcp cfg))"

definition format_cidr :: "ipv4 \<Rightarrow> string" where
  "format_cidr a = ipv4_display a @ CHR ''/'' # nat_dec (unat REQUIRED_PREFIX)"

definition gateway_cidr :: "'n Config \<Rightarrow> string" where
  "gateway_cidr cfg = format_cidr (gc_ip (cfg_gateway cfg))"

definition static_cidr :: "'n ipnet \<Rightarrow> 'n Config \<Rightarrow> string" where
  "static_cidr I cfg = format_cidr (static_addr I cfg)"

section \<open>Files and loading\<close>

text \<open>
  \<^verbatim>\<open>datadir\<close> is re-exported from \<^verbatim>\<open>bigfred_shared_daemon\<close>: the data root and the function
  that places a file below it.
\<close>

record datadir =
  dd_root :: path
  dd_path :: "string list \<Rightarrow> path"

definition default_config_path :: "datadir \<Rightarrow> path" where
  "default_config_path dd = dd_path dd [''etc'', ''micronet.json'']"

definition default_socket_path :: "datadir \<Rightarrow> path" where
  "default_socket_path dd = dd_path dd [''run'', ''micronet.sock'']"

definition default_dnsmasq_conf_path :: "datadir \<Rightarrow> path" where
  "default_dnsmasq_conf_path dd = dd_path dd [''etc'', ''dnsmasq.conf'']"

definition default_dnsmasq_leasefile :: "datadir \<Rightarrow> path" where
  "default_dnsmasq_leasefile dd = dd_path dd [''etc'', ''dnsmasq.leases'']"

definition default_dnsmasq_pidfile :: "datadir \<Rightarrow> path" where
  "default_dnsmasq_pidfile dd = dd_path dd [''run'', ''dnsmasq.pid'']"

definition dhclient_pidfile :: "datadir \<Rightarrow> string \<Rightarrow> path" where
  "dhclient_pidfile dd iface = path_join (dd_path dd [''run'']) (''dhclient.'' @ iface @ ''.pid'')"

definition dhclient_leasefile :: "datadir \<Rightarrow> string \<Rightarrow> path" where
  "dhclient_leasefile dd iface = path_join (dd_path dd [''etc'']) (''dhclient.'' @ iface @ ''.leases'')"

text \<open>\<^verbatim>\<open>bigfred_shared_daemon::config\<close>: its error enum and its two ways to load a file.\<close>

datatype config_error = CE_Io path io_error | CE_Json string | CE_Other string

record ('w, 'n) json_file =
  load_create_default :: "path \<Rightarrow> ('w, config_error + 'n Config) io"
  load_missing_defaults :: "path \<Rightarrow> ('w, config_error + 'n Config) io"

fun map_config :: "config_error \<Rightarrow> error" where
  "map_config (CE_Io p e) = io_at p e"
| "map_config (CE_Json j) = Json j"
| "map_config (CE_Other s) = Other (Message s)"

definition load_or_create :: "'n ipnet \<Rightarrow> ('w, 'n) json_file \<Rightarrow> path \<Rightarrow> ('w, 'n Config result) io" where
  "load_or_create I jf p =
     try_io (map_io (map_err map_config) (load_create_default jf p)) (\<lambda>cfg.
     try_io (return_io (validate I cfg)) (\<lambda>_.
     return_io (Inr cfg)))"

definition load :: "'n ipnet \<Rightarrow> ('w, 'n) json_file \<Rightarrow> path \<Rightarrow> ('w, 'n Config result) io" where
  "load I jf p =
     try_io (map_io (map_err map_config) (load_missing_defaults jf p)) (\<lambda>cfg.
     try_io (return_io (validate I cfg)) (\<lambda>_.
     return_io (Inr cfg)))"

section \<open>Host names\<close>

text \<open>The declarative description of an accepted name: labels of letters, digits and inner hyphens.\<close>

definition label_ok :: "string \<Rightarrow> bool" where
  "label_ok l \<longleftrightarrow> l \<noteq> [] \<and> length l \<le> 63 \<and> hd l \<noteq> CHR ''-'' \<and> last l \<noteq> CHR ''-''
     \<and> (\<forall>c\<in>set l. is_ascii_alphanumeric c \<or> c = CHR ''-'')"

definition dns_hostname :: "string \<Rightarrow> bool" where
  "dns_hostname s \<longleftrightarrow> length s \<le> 253 \<and> (\<forall>l\<in>set (split_char (CHR ''.'') s). label_ok l)"

lemma normalize_labels_iff:
  "normalize_labels tr i ls out = Inr t \<longleftrightarrow>
     (\<forall>l\<in>set ls. label_ok l) \<and>
     t = out @ (if i > 0 \<and> ls \<noteq> [] then [CHR ''.''] else [])
            @ join_char (CHR ''.'') (map to_ascii_lowercase ls)"
proof (induction ls arbitrary: i out)
  case (Cons l ls)
  have ok: "label_ok l \<longleftrightarrow> \<not> (l = [] \<or> length l > 63) \<and> \<not> (hd l = CHR ''-'' \<or> last l = CHR ''-'')
      \<and> list_all (\<lambda>b. is_ascii_alphanumeric b \<or> b = CHR ''-'') l"
    by (auto simp: label_ok_def list_all_iff)
  have "normalize_labels tr i (l # ls) out = Inr t \<longleftrightarrow>
      label_ok l \<and> normalize_labels tr (Suc i) ls
        ((if i > 0 then out @ [CHR ''.''] else out) @ to_ascii_lowercase l) = Inr t"
    by (simp add: ok)
  also have "\<dots> \<longleftrightarrow> (\<forall>l\<in>set (l # ls). label_ok l) \<and>
      t = out @ (if i > 0 \<and> l # ls \<noteq> [] then [CHR ''.''] else [])
            @ join_char (CHR ''.'') (map to_ascii_lowercase (l # ls))"
    unfolding Cons.IH by (cases ls) auto
  finally show ?case .
qed auto

lemma lowercase_simps [simp]: "to_ascii_lowercase [] = []"
    "to_ascii_lowercase s = [] \<longleftrightarrow> s = []"
    "to_ascii_lowercase (s @ t) = to_ascii_lowercase s @ to_ascii_lowercase t"
    "to_ascii_lowercase (CHR ''.'' # s) = CHR ''.'' # to_ascii_lowercase s"
  by (simp_all add: to_ascii_lowercase_def ascii_lower_def)

lemma lowercase_join:
  "to_ascii_lowercase (join_char (CHR ''.'') ls) = join_char (CHR ''.'') (map to_ascii_lowercase ls)"
  by (induction ls rule: induct_list012) simp_all

lemma hostname_chars:
  assumes "dns_hostname s" and "c \<in> set s"
  shows "is_ascii_alphanumeric c \<or> c = CHR ''-'' \<or> c = CHR ''.''"
proof -
  have "set s \<subseteq> insert (CHR ''.'') (\<Union> (set ` set (split_char (CHR ''.'') s)))"
    using set_join_char[of "CHR ''.''" "split_char (CHR ''.'') s"] unfolding join_split_char .
  with assms(2) consider "c = CHR ''.''" | l where "l \<in> set (split_char (CHR ''.'') s)" "c \<in> set l"
    by auto
  then show ?thesis
  proof cases
    case 2
    with assms(1) have "label_ok l" by (simp add: dns_hostname_def)
    with 2(2) show ?thesis unfolding label_ok_def by blast
  qed simp
qed

lemma dns_hostname_nonempty: "dns_hostname s \<Longrightarrow> s \<noteq> []"
proof
  assume "dns_hostname s" "s = []"
  then have "label_ok []" by (simp add: dns_hostname_def)
  then show False by (simp add: label_ok_def)
qed

theorem normalize_dns_name_iff:
  "normalize_dns_name s = Inr t \<longleftrightarrow>
     dns_hostname (trim_end_matches (CHR ''.'') (trim s)) \<and>
     t = to_ascii_lowercase (trim_end_matches (CHR ''.'') (trim s))"
proof -
  let ?u = "trim_end_matches (CHR ''.'') (trim s)"
  have bad: "\<not> is_ascii_alphanumeric c" if "c = CHR 0x00 \<or> c = CHR '' '' \<or> c = CHR '',''" for c
    using that by (auto simp: is_ascii_alphanumeric_def is_ascii_digit_def)
  have legal: "CHR 0x00 \<notin> set ?u \<and> CHR '' '' \<notin> set ?u \<and> CHR '','' \<notin> set ?u" if "dns_hostname ?u"
    using hostname_chars[OF that] bad by fastforce
  have low: "join_char (CHR ''.'') (map to_ascii_lowercase (split_char (CHR ''.'') ?u))
      = to_ascii_lowercase ?u"
    by (simp add: lowercase_join[symmetric] join_split_char)
  show ?thesis
    using legal dns_hostname_nonempty[of ?u]
    by (auto simp: normalize_dns_name_def Let_def normalize_labels_iff low dns_hostname_def
        MAX_DNS_NAME_LEN_def)
qed

text \<open>A normal form is a fixed point: it has no white space, no trailing dot and no capital.\<close>

lemma hostname_last_not_dot:
  assumes "dns_hostname s"
  shows "last s \<noteq> CHR ''.''"
proof -
  let ?ps = "split_char (CHR ''.'') s"
  have mem: "last ?ps \<in> set ?ps" by simp
  with assms have "label_ok (last ?ps)" by (simp add: dns_hostname_def)
  then have ne: "last ?ps \<noteq> []" by (simp add: label_ok_def)
  then have "last s = last (last ?ps)"
    using last_join_char[of ?ps "CHR ''.''"] by (simp add: join_split_char)
  moreover have "last (last ?ps) \<in> set (last ?ps)"
    using ne by simp
  ultimately show ?thesis
    using split_char_parts[OF mem] by metis
qed

lemma hostname_trim:
  assumes "dns_hostname s"
  shows "trim_end_matches (CHR ''.'') (trim s) = s"
proof -
  have no_ws: "c \<notin> ws_first \<and> c \<notin> ws_last" if "c \<in> set s" for c
    using hostname_chars[OF assms that] ws_first_ge[of c] ws_last_ge[of c]
    by (auto simp: is_ascii_alphanumeric_def is_ascii_digit_def)
  have "trim s = s"
    using no_ws dns_hostname_nonempty[OF assms] by (intro trim_id) auto
  then show ?thesis
    using hostname_last_not_dot[OF assms] by (simp add: trim_end_matches_id)
qed

lemma label_ok_lowercase: "label_ok l \<Longrightarrow> label_ok (to_ascii_lowercase l)"
  by (auto simp: label_ok_def to_ascii_lowercase_def hd_map last_map ascii_lower_eq_symbol)

lemma hostname_lowercase: "dns_hostname s \<Longrightarrow> dns_hostname (to_ascii_lowercase s)"
  unfolding dns_hostname_def to_ascii_lowercase_def
  by (auto simp: split_char_map ascii_lower_eq_symbol label_ok_lowercase[unfolded to_ascii_lowercase_def])

lemma normalize_dns_name_idem:
  assumes "normalize_dns_name s = Inr t"
  shows "normalize_dns_name t = Inr t"
proof -
  from assms obtain u where u: "dns_hostname u" "t = to_ascii_lowercase u"
    by (auto simp: normalize_dns_name_iff)
  then have t: "dns_hostname t" by (simp add: hostname_lowercase)
  have "to_ascii_lowercase t = t"
    by (simp add: u(2) to_ascii_lowercase_def)
  with t show ?thesis
    by (simp add: normalize_dns_name_iff hostname_trim)
qed

section \<open>Records\<close>

lemma validate_records_iff:
  "validate_records seen rs = Inr () \<longleftrightarrow>
     (\<exists>names. map (\<lambda>r. normalize_dns_name (rec_name r)) rs = map Inr names
        \<and> distinct names \<and> set names \<inter> set seen = {})"
proof (induction rs arbitrary: seen)
  case (Cons r rs)
  show ?case
  proof (cases "normalize_dns_name (rec_name r)")
    case (Inr n)
    have "validate_records seen (r # rs) = Inr () \<longleftrightarrow>
        n \<notin> set seen \<and> validate_records (seen @ [n]) rs = Inr ()"
      by (simp add: Inr)
    also have "\<dots> \<longleftrightarrow> (\<exists>names. map (\<lambda>r. normalize_dns_name (rec_name r)) (r # rs) = map Inr names
        \<and> distinct names \<and> set names \<inter> set seen = {})"
      unfolding Cons.IH by (auto simp: Inr Cons_eq_map_conv)
    finally show ?thesis .
  qed (auto simp: Cons_eq_map_conv)
qed simp

section \<open>Durations\<close>

lemma parse_sticky_iff:
  "parse_sticky s = Inr v \<longleftrightarrow> trim s \<noteq> [] \<and>
     (\<exists>num mul m. sticky_unit (trim s) = (num, mul) \<and> parse_u64 num = Some m \<and> 0 < m
        \<and> unat v = m * unat mul)"
proof (cases "trim s = []")
  case False
  obtain num mul where unit: "sticky_unit (trim s) = (num, mul)" by (cases "sticky_unit (trim s)")
  show ?thesis
  proof (cases "parse_u64 num")
    case (Some m)
    then have m: "unat (of_nat m :: u64) = m"
      using parse_unsigned_bound[OF Some] by (simp add: unat_of_nat)
    then have "(of_nat m :: u64) = 0 \<longleftrightarrow> m = 0"
      using unsigned_eq_0_iff[of "of_nat m :: u64", where 'a = nat] unfolding m by simp
    moreover have "checked_mul (of_nat m) mul = Some v \<longleftrightarrow> unat v = m * unat mul"
      unfolding checked_mul_Some m by simp
    ultimately show ?thesis
      using False unit Some
      by (cases "checked_mul (of_nat m) mul") (auto simp: parse_sticky_def)
  qed (use False unit in \<open>simp add: parse_sticky_def\<close>)
qed (simp add: parse_sticky_def)

section \<open>What a valid configuration guarantees\<close>

text \<open>The declarative counterpart of \<^const>\<open>validate\<close>.\<close>

definition valid_config :: "'n ipnet \<Rightarrow> 'n Config \<Rightarrow> bool" where
  "valid_config I cfg \<longleftrightarrow>
     prefix_len I (gc_subnet (cfg_gateway cfg)) = 24
   \<and> net_contains I (gc_subnet (cfg_gateway cfg)) (gc_ip (cfg_gateway cfg))
   \<and> gc_static_host (cfg_gateway cfg) \<noteq> host_octet (gc_ip (cfg_gateway cfg))
   \<and> range_start (cfg_dhcp cfg) < range_end (cfg_dhcp cfg)
   \<and> gc_static_host (cfg_gateway cfg) \<notin> {range_start (cfg_dhcp cfg)..range_end (cfg_dhcp cfg)}
   \<and> host_octet (gc_ip (cfg_gateway cfg)) \<notin> {range_start (cfg_dhcp cfg)..range_end (cfg_dhcp cfg)}
   \<and> (\<exists>v. parse_sticky (sticky (cfg_dhcp cfg)) = Inr v)
   \<and> probe_timeout_secs cfg \<noteq> 0 \<and> link_retry_secs cfg \<noteq> 0
   \<and> (\<forall>name. cfg_interface cfg = Some name \<longrightarrow>
        name \<noteq> [] \<and> CHR ''/'' \<notin> set name \<and> CHR 0x00 \<notin> set name)
   \<and> length (dns_records (cfg_dns cfg)) \<le> 64
   \<and> (\<exists>names. map (\<lambda>r. normalize_dns_name (rec_name r)) (dns_records (cfg_dns cfg)) = map Inr names
        \<and> distinct names)"

lemma octets_3: "octets a ! 3 = host_octet a"
  by (cases a) simp

lemma validate_interface_iff:
  "validate_interface i = Inr () \<longleftrightarrow>
     (\<forall>name. i = Some name \<longrightarrow> name \<noteq> [] \<and> CHR ''/'' \<notin> set name \<and> CHR 0x00 \<notin> set name)"
  by (auto simp: validate_interface_def split: option.splits)

lemma validate_dns_iff:
  "validate_dns cfg = Inr () \<longleftrightarrow> length (dns_records (cfg_dns cfg)) \<le> 64
     \<and> (\<exists>names. map (\<lambda>r. normalize_dns_name (rec_name r)) (dns_records (cfg_dns cfg)) = map Inr names
        \<and> distinct names)"
  by (auto simp: validate_dns_def validate_records_iff MAX_DNS_RECORDS_def)

lemma validate_valid: "validate I cfg = Inr () \<longleftrightarrow> valid_config I cfg"
  unfolding validate_def valid_config_def validate_interface_iff[symmetric] validate_dns_iff[symmetric]
  by (auto simp: Let_def octets_3 REQUIRED_PREFIX_def not_le not_less split: if_splits)


text \<open>
  Claim C5. The address plan of a validated configuration: the static host and the gateway are
  two different addresses of the subnet, the pool is a non-empty interval inside the subnet, and
  neither of the two lies in the pool.
\<close>

theorem validated_address_plan:
  assumes "ipnet_laws I" and "validate I cfg = Inr ()"
  shows "net_contains I (gc_subnet (cfg_gateway cfg)) (static_addr I cfg)
    \<and> static_addr I cfg \<noteq> gc_ip (cfg_gateway cfg)
    \<and> range_start_addr I cfg < range_end_addr I cfg
    \<and> (\<forall>a. a \<in> {range_start_addr I cfg..range_end_addr I cfg} \<longrightarrow>
           net_contains I (gc_subnet (cfg_gateway cfg)) a)
    \<and> static_addr I cfg \<notin> {range_start_addr I cfg..range_end_addr I cfg}
    \<and> gc_ip (cfg_gateway cfg) \<notin> {range_start_addr I cfg..range_end_addr I cfg}"
proof -
  from assms(2) have v: "valid_config I cfg" by (simp add: validate_valid)
  then have p24: "prefix_len I (gc_subnet (cfg_gateway cfg)) = 24"
    by (simp add: valid_config_def)
  obtain a b c where net: "network I (gc_subnet (cfg_gateway cfg)) = Ipv4 a b c 0"
    and cont: "\<And>x y z h. net_contains I (gc_subnet (cfg_gateway cfg)) (Ipv4 x y z h)
                 \<longleftrightarrow> x = a \<and> y = b \<and> z = c"
    by (rule ipnet_laws.slash24_network[OF assms(1) p24]) blast
  then have host: "host_addr I cfg h = Ipv4 a b c h" for h
    by (simp add: host_addr_def numeral_2_eq_2)
  from v cont have gw: "gc_ip (cfg_gateway cfg) = Ipv4 a b c (host_octet (gc_ip (cfg_gateway cfg)))"
    by (cases "gc_ip (cfg_gateway cfg)") (simp add: valid_config_def)
  note addr = static_addr_def range_start_addr_def range_end_addr_def host
  have plan: "range_start (cfg_dhcp cfg) < range_end (cfg_dhcp cfg)"
      "gc_static_host (cfg_gateway cfg) \<noteq> host_octet (gc_ip (cfg_gateway cfg))"
      "gc_static_host (cfg_gateway cfg) \<notin> {range_start (cfg_dhcp cfg)..range_end (cfg_dhcp cfg)}"
      "host_octet (gc_ip (cfg_gateway cfg)) \<notin> {range_start (cfg_dhcp cfg)..range_end (cfg_dhcp cfg)}"
    using v by (simp_all add: valid_config_def)
  have pool: "net_contains I (gc_subnet (cfg_gateway cfg)) x"
    if "x \<in> {range_start_addr I cfg..range_end_addr I cfg}" for x
    using that cont by (auto simp: addr dest!: ipv4_between_same_net)
  show ?thesis
    using pool plan by (subst (1 2) gw) (simp add: addr cont)
qed

lemma default_Config_valid: "validate addr_prefix_net (default_Config addr_prefix_net) = Inr ()"
  by code_simp

theorem validated_address_plan_witness:
  "static_addr addr_prefix_net (default_Config addr_prefix_net) = Ipv4 192 168 0 252
   \<and> Ipv4 192 168 0 252 \<notin> {range_start_addr addr_prefix_net (default_Config addr_prefix_net)
                             ..range_end_addr addr_prefix_net (default_Config addr_prefix_net)}
   \<and> net_contains addr_prefix_net (gc_subnet (cfg_gateway (default_Config addr_prefix_net)))
        (Ipv4 192 168 0 77)"
proof -
  have s: "static_addr addr_prefix_net (default_Config addr_prefix_net) = Ipv4 192 168 0 252"
    by code_simp
  have in_pool: "Ipv4 192 168 0 77 \<in> {range_start_addr addr_prefix_net (default_Config addr_prefix_net)
                             ..range_end_addr addr_prefix_net (default_Config addr_prefix_net)}"
    by (simp add: less_eq_ipv4_def range_start_addr_def range_end_addr_def host_addr_def
        addr_prefix_net_def default_Config_def default_GatewayConfig_def default_subnet_def
        default_DhcpConfig_def const_defs)
  note plan = validated_address_plan[OF addr_prefix.ipnet_laws_axioms default_Config_valid]
  show ?thesis
    using plan in_pool unfolding s by blast
qed

section \<open>Printing and reading durations, loading\<close>

text \<open>The units of a duration.\<close>

definition duration_units :: "(char \<times> nat) list" where
  "duration_units = [(CHR ''s'', 1), (CHR ''m'', 60), (CHR ''h'', 3600), (CHR ''d'', 86400), (CHR ''w'', 604800)]"

lemma ascii_trim_id:
  assumes "\<And>c. c \<in> set s \<Longrightarrow> is_ascii_alphanumeric c"
  shows "trim s = s"
proof -
  have "c \<notin> ws_first \<and> c \<notin> ws_last" if "c \<in> set s" for c
    using assms[OF that] ws_first_ge[of c] ws_last_ge[of c]
    by (auto simp: is_ascii_alphanumeric_def is_ascii_digit_def)
  then show ?thesis
    by (intro trim_id) (cases s, auto)
qed

lemma nat_dec_alphanumeric: "c \<in> set (nat_dec n) \<Longrightarrow> is_ascii_alphanumeric c"
  by (auto simp: is_ascii_alphanumeric_def dest: nat_dec_digits)

lemma sticky_unit_suffix:
  "(u, mul) \<in> set duration_units \<Longrightarrow> sticky_unit (s @ [u]) = (s, of_nat mul)"
  by (auto simp: duration_units_def sticky_unit_def strip_suffix_def)

lemma sticky_unit_bare: "sticky_unit (nat_dec n) = (nat_dec n, 1)"
proof -
  have "is_ascii_digit (last (nat_dec n))"
    using nat_dec_digits[of "last (nat_dec n)" n] by simp
  then show ?thesis
    by (auto simp: sticky_unit_def strip_suffix_def is_ascii_digit_def)
qed

text \<open>What \<^const>\<open>parse_sticky\<close> does once the digits are known.\<close>

lemma parse_sticky_eval:
  assumes "trim s = s" and "s \<noteq> []" and "sticky_unit s = (nat_dec n, of_nat mul)"
    and "0 < n" "n < 2 ^ 64" "mul < 2 ^ 64"
  shows "parse_sticky s = (if n * mul < 2 ^ 64 then Inr (of_nat (n * mul)) else Inl (Config StickyOverflow))"
proof -
  have un: "unat (of_nat n :: u64) = n" "unat (of_nat mul :: u64) = mul"
    using assms(5,6) by (simp_all add: unat_of_nat)
  then have "(of_nat n :: u64) \<noteq> 0"
    using assms(4) unsigned_eq_0_iff[of "of_nat n :: u64", where 'a = nat] by simp
  then show ?thesis
    using assms un by (simp add: parse_sticky_def parse_nat_dec checked_mul_def)
qed

text \<open>
  Claim C29. Reading back a printed duration: a positive count with a unit suffix is read as the
  count times the unit in seconds, a count without a suffix as seconds, and a product that does
  not fit 64 bits is reported as an overflow, never wrapped.
\<close>

theorem parse_sticky_printed:
  assumes "0 < n" and "n < 2 ^ 64" and "(u, mul) \<in> set duration_units"
  shows "parse_sticky (nat_dec n @ [u])
           = (if n * mul < 2 ^ 64 then Inr (of_nat (n * mul)) else Inl (Config StickyOverflow))
       \<and> parse_sticky (nat_dec n) = Inr (of_nat n)"
proof
  have u: "is_ascii_alphanumeric u" "mul < 2 ^ 64"
    using assms(3) by (auto simp: duration_units_def is_ascii_alphanumeric_def)
  then have "trim (nat_dec n @ [u]) = nat_dec n @ [u]"
    by (intro ascii_trim_id) (auto dest: nat_dec_alphanumeric)
  then show "parse_sticky (nat_dec n @ [u])
      = (if n * mul < 2 ^ 64 then Inr (of_nat (n * mul)) else Inl (Config StickyOverflow))"
    using assms u(2) by (intro parse_sticky_eval) (simp_all add: sticky_unit_suffix)
  have "trim (nat_dec n) = nat_dec n"
    by (intro ascii_trim_id) (rule nat_dec_alphanumeric)
  then show "parse_sticky (nat_dec n) = Inr (of_nat n)"
    using parse_sticky_eval[of "nat_dec n" n 1] assms(1,2) by (simp add: sticky_unit_bare)
qed

theorem parse_sticky_printed_witness:
  "parse_sticky ''7d'' = Inr 604800
   \<and> parse_sticky (nat_dec (2 ^ 63) @ ''w'') = Inl (Config StickyOverflow)"
proof -
  have dec: "nat_dec 7 = ''7''" by code_simp
  have d: "(CHR ''d'', 86400) \<in> set duration_units" and w: "(CHR ''w'', 604800) \<in> set duration_units"
    by (simp_all add: duration_units_def)
  show ?thesis
    using parse_sticky_printed[of 7, OF _ _ d] parse_sticky_printed[of "2 ^ 63", OF _ _ w]
    unfolding dec by simp
qed

text \<open>
  Claim C28. A normalised DNS name is a lower-case host name (at most 253 bytes, dot-separated
  labels of 1 to 63 letters, digits and inner hyphens), normalisation is idempotent, and exactly
  the names that are host names after trimming and removing trailing dots are accepted.
\<close>

theorem normalize_dns_name_canonical:
  "case normalize_dns_name s of
     Inl e \<Rightarrow> \<not> dns_hostname (trim_end_matches (CHR ''.'') (trim s))
   | Inr t \<Rightarrow> dns_hostname (trim_end_matches (CHR ''.'') (trim s))
       \<and> t = to_ascii_lowercase (trim_end_matches (CHR ''.'') (trim s))
       \<and> dns_hostname t \<and> normalize_dns_name t = Inr t"
proof (cases "normalize_dns_name s")
  case (Inl e)
  then show ?thesis
    using normalize_dns_name_iff[of s] by auto
next
  case (Inr t)
  then show ?thesis
    using normalize_dns_name_iff[of s t] normalize_dns_name_idem[OF Inr]
    by (simp add: hostname_lowercase)
qed

lemma load_valid: "load I jf p w = Some (Inr cfg, w') \<Longrightarrow> validate I cfg = Inr ()"
  by (auto simp: load_def io_simps)

lemma load_or_create_valid: "load_or_create I jf p w = Some (Inr cfg, w') \<Longrightarrow> validate I cfg = Inr ()"
  by (auto simp: load_or_create_def io_simps)

end
