(* ===== verification/Net_Ops.thy ===== *)
theory Net_Ops
  imports Config Logs
begin

text \<open>
  The two traits the daemon is written against, as dictionaries of effectful operations:
  \<^verbatim>\<open>NetOps\<close> (\<^verbatim>\<open>net/mod.rs\<close>: interfaces, addresses, routes, dhclient) and \<^verbatim>\<open>GatewayCtl\<close>
  (\<^verbatim>\<open>apply/mod.rs\<close>: our dnsmasq and the DHCP probe). Code that is generic in the traits takes
  the dictionaries as arguments. An implementation may answer differently at every call: it
  passes on its world.

  For statements about every implementation, \<open>log_net\<close> and \<open>log_gw\<close> wrap one so that each call is
  written, with its result, to a log; a program over the wrapped dictionaries is the same program.
\<close>

section \<open>The traits\<close>

record 'w NetOps =
  list_ethernet :: "('w, string list result) io"
  is_physical_ethernet :: "string \<Rightarrow> ('w, bool) io"
  resolve_iface :: "string option \<Rightarrow> ('w, string result) io"
  resolve_iface_passive :: "string option \<Rightarrow> ('w, string result) io"
  bring_up :: "string \<Rightarrow> ('w, unit result) io"
  flush_addr :: "string \<Rightarrow> ('w, unit result) io"
  add_addr :: "string \<Rightarrow> string \<Rightarrow> ('w, unit result) io"
  iface_has_ipv4 :: "string \<Rightarrow> ('w, bool) io"
  iface_has_addr :: "string \<Rightarrow> ipv4 \<Rightarrow> ('w, bool) io"
  iface_ipv4_cidr :: "string \<Rightarrow> ('w, string option) io"
  carrier_up :: "string \<Rightarrow> ('w, bool) io"
  link_is_up :: "string \<Rightarrow> ('w, bool) io"
  set_down :: "string \<Rightarrow> ('w, unit result) io"
  ipv4_addr_is_local :: "ipv4 \<Rightarrow> ('w, bool) io"
  ping :: "ipv4 \<Rightarrow> ('w, bool) io"
  stop_dhclient :: "string \<Rightarrow> ('w, unit result) io"
  start_dhclient :: "string \<Rightarrow> ('w, unit result) io"
  dhclient_running :: "string \<Rightarrow> ('w, bool) io"
  wait_ipv4 :: "string \<Rightarrow> nat \<Rightarrow> ('w, bool) io"
  replace_default_via :: "ipv4 \<Rightarrow> string \<Rightarrow> ('w, unit result) io"
  del_default :: "('w, unit result) io"

record ('w, 'n) GatewayCtl =
  dhcp_running :: "('w, bool) io"
  dhcp_stop :: "('w, unit result) io"
  dhcp_reload_or_restart :: "'n Config \<Rightarrow> string \<Rightarrow> ('w, unit result) io"
  probe_foreign_dhcp :: "string \<Rightarrow> u64 \<Rightarrow> ('w, bool result) io"

section \<open>Call logs\<close>

datatype call =
    CListEthernet "string list result"
  | CIsPhysical string bool
  | CResolve "string option" "string result"
  | CResolvePassive "string option" "string result"
  | CBringUp string "unit result"
  | CFlushAddr string "unit result"
  | CAddAddr string string "unit result"
  | CHasIpv4 string bool
  | CHasAddr string ipv4 bool
  | CIpv4Cidr string "string option"
  | CCarrierUp string bool
  | CLinkIsUp string bool
  | CSetDown string "unit result"
  | CIsLocal ipv4 bool
  | CPing ipv4 bool
  | CStopDhclient string "unit result"
  | CStartDhclient string "unit result"
  | CDhclientRunning string bool
  | CWaitIpv4 string nat bool
  | CReplaceDefault ipv4 string "unit result"
  | CDelDefault "unit result"
  | CDhcpRunning bool
  | CDhcpStop "unit result"
  | CDhcpReload string "unit result"
  | CProbe string u64 "bool result"

type_synonym 'w logw = "'w \<times> call list"

definition log_net :: "'w NetOps \<Rightarrow> 'w logw NetOps" where
  "log_net net = \<lparr>
     list_ethernet = logged CListEthernet (list_ethernet net),
     is_physical_ethernet = (\<lambda>i. logged (CIsPhysical i) (is_physical_ethernet net i)),
     resolve_iface = (\<lambda>c. logged (CResolve c) (resolve_iface net c)),
     resolve_iface_passive = (\<lambda>c. logged (CResolvePassive c) (resolve_iface_passive net c)),
     bring_up = (\<lambda>i. logged (CBringUp i) (bring_up net i)),
     flush_addr = (\<lambda>i. logged (CFlushAddr i) (flush_addr net i)),
     add_addr = (\<lambda>i c. logged (CAddAddr i c) (add_addr net i c)),
     iface_has_ipv4 = (\<lambda>i. logged (CHasIpv4 i) (iface_has_ipv4 net i)),
     iface_has_addr = (\<lambda>i a. logged (CHasAddr i a) (iface_has_addr net i a)),
     iface_ipv4_cidr = (\<lambda>i. logged (CIpv4Cidr i) (iface_ipv4_cidr net i)),
     carrier_up = (\<lambda>i. logged (CCarrierUp i) (carrier_up net i)),
     link_is_up = (\<lambda>i. logged (CLinkIsUp i) (link_is_up net i)),
     set_down = (\<lambda>i. logged (CSetDown i) (set_down net i)),
     ipv4_addr_is_local = (\<lambda>a. logged (CIsLocal a) (ipv4_addr_is_local net a)),
     ping = (\<lambda>a. logged (CPing a) (ping net a)),
     stop_dhclient = (\<lambda>i. logged (CStopDhclient i) (stop_dhclient net i)),
     start_dhclient = (\<lambda>i. logged (CStartDhclient i) (start_dhclient net i)),
     dhclient_running = (\<lambda>i. logged (CDhclientRunning i) (dhclient_running net i)),
     wait_ipv4 = (\<lambda>i t. logged (CWaitIpv4 i t) (wait_ipv4 net i t)),
     replace_default_via = (\<lambda>a i. logged (CReplaceDefault a i) (replace_default_via net a i)),
     del_default = logged CDelDefault (del_default net) \<rparr>"

definition log_gw :: "('w, 'n) GatewayCtl \<Rightarrow> ('w logw, 'n) GatewayCtl" where
  "log_gw gw = \<lparr>
     dhcp_running = logged CDhcpRunning (dhcp_running gw),
     dhcp_stop = logged CDhcpStop (dhcp_stop gw),
     dhcp_reload_or_restart = (\<lambda>cfg i. logged (CDhcpReload i) (dhcp_reload_or_restart gw cfg i)),
     probe_foreign_dhcp = (\<lambda>i t. logged (CProbe i t) (probe_foreign_dhcp gw i t)) \<rparr>"

section \<open>Logged runs\<close>

lemma log_net_erases [intro]:
  "erases (list_ethernet (log_net net)) (list_ethernet net)"
  "erases (is_physical_ethernet (log_net net) i) (is_physical_ethernet net i)"
  "erases (resolve_iface (log_net net) c) (resolve_iface net c)"
  "erases (resolve_iface_passive (log_net net) c) (resolve_iface_passive net c)"
  "erases (bring_up (log_net net) i) (bring_up net i)"
  "erases (flush_addr (log_net net) i) (flush_addr net i)"
  "erases (add_addr (log_net net) i s) (add_addr net i s)"
  "erases (iface_has_ipv4 (log_net net) i) (iface_has_ipv4 net i)"
  "erases (iface_has_addr (log_net net) i a) (iface_has_addr net i a)"
  "erases (iface_ipv4_cidr (log_net net) i) (iface_ipv4_cidr net i)"
  "erases (carrier_up (log_net net) i) (carrier_up net i)"
  "erases (link_is_up (log_net net) i) (link_is_up net i)"
  "erases (set_down (log_net net) i) (set_down net i)"
  "erases (ipv4_addr_is_local (log_net net) a) (ipv4_addr_is_local net a)"
  "erases (ping (log_net net) a) (ping net a)"
  "erases (stop_dhclient (log_net net) i) (stop_dhclient net i)"
  "erases (start_dhclient (log_net net) i) (start_dhclient net i)"
  "erases (dhclient_running (log_net net) i) (dhclient_running net i)"
  "erases (wait_ipv4 (log_net net) i t) (wait_ipv4 net i t)"
  "erases (replace_default_via (log_net net) a i) (replace_default_via net a i)"
  "erases (del_default (log_net net)) (del_default net)"
  by (simp_all add: log_net_def erases_logged)

lemma log_gw_erases [intro]:
  "erases (dhcp_running (log_gw gw)) (dhcp_running gw)"
  "erases (dhcp_stop (log_gw gw)) (dhcp_stop gw)"
  "erases (dhcp_reload_or_restart (log_gw gw) cfg i) (dhcp_reload_or_restart gw cfg i)"
  "erases (probe_foreign_dhcp (log_gw gw) i t) (probe_foreign_dhcp gw i t)"
  by (simp_all add: log_gw_def erases_logged)

lemma lwp_log_net:
  "(\<And>x. Q1 x (tr @ [CListEthernet x])) \<Longrightarrow> lwp (list_ethernet (log_net net)) Q1 tr"
  "(\<And>x. Q2 x (tr @ [CIsPhysical i x])) \<Longrightarrow> lwp (is_physical_ethernet (log_net net) i) Q2 tr"
  "(\<And>x. Q3 x (tr @ [CResolve c x])) \<Longrightarrow> lwp (resolve_iface (log_net net) c) Q3 tr"
  "(\<And>x. Q3 x (tr @ [CResolvePassive c x])) \<Longrightarrow> lwp (resolve_iface_passive (log_net net) c) Q3 tr"
  "(\<And>x. Q4 x (tr @ [CBringUp i x])) \<Longrightarrow> lwp (bring_up (log_net net) i) Q4 tr"
  "(\<And>x. Q4 x (tr @ [CFlushAddr i x])) \<Longrightarrow> lwp (flush_addr (log_net net) i) Q4 tr"
  "(\<And>x. Q4 x (tr @ [CAddAddr i s x])) \<Longrightarrow> lwp (add_addr (log_net net) i s) Q4 tr"
  "(\<And>x. Q2 x (tr @ [CHasIpv4 i x])) \<Longrightarrow> lwp (iface_has_ipv4 (log_net net) i) Q2 tr"
  "(\<And>x. Q2 x (tr @ [CHasAddr i a x])) \<Longrightarrow> lwp (iface_has_addr (log_net net) i a) Q2 tr"
  "(\<And>x. Q5 x (tr @ [CIpv4Cidr i x])) \<Longrightarrow> lwp (iface_ipv4_cidr (log_net net) i) Q5 tr"
  "(\<And>x. Q2 x (tr @ [CCarrierUp i x])) \<Longrightarrow> lwp (carrier_up (log_net net) i) Q2 tr"
  "(\<And>x. Q2 x (tr @ [CLinkIsUp i x])) \<Longrightarrow> lwp (link_is_up (log_net net) i) Q2 tr"
  "(\<And>x. Q4 x (tr @ [CSetDown i x])) \<Longrightarrow> lwp (set_down (log_net net) i) Q4 tr"
  "(\<And>x. Q2 x (tr @ [CIsLocal a x])) \<Longrightarrow> lwp (ipv4_addr_is_local (log_net net) a) Q2 tr"
  "(\<And>x. Q2 x (tr @ [CPing a x])) \<Longrightarrow> lwp (ping (log_net net) a) Q2 tr"
  "(\<And>x. Q4 x (tr @ [CStopDhclient i x])) \<Longrightarrow> lwp (stop_dhclient (log_net net) i) Q4 tr"
  "(\<And>x. Q4 x (tr @ [CStartDhclient i x])) \<Longrightarrow> lwp (start_dhclient (log_net net) i) Q4 tr"
  "(\<And>x. Q2 x (tr @ [CDhclientRunning i x])) \<Longrightarrow> lwp (dhclient_running (log_net net) i) Q2 tr"
  "(\<And>x. Q2 x (tr @ [CWaitIpv4 i t x])) \<Longrightarrow> lwp (wait_ipv4 (log_net net) i t) Q2 tr"
  "(\<And>x. Q4 x (tr @ [CReplaceDefault a i x])) \<Longrightarrow> lwp (replace_default_via (log_net net) a i) Q4 tr"
  "(\<And>x. Q4 x (tr @ [CDelDefault x])) \<Longrightarrow> lwp (del_default (log_net net)) Q4 tr"
  by (simp_all add: log_net_def lwp_logged)

lemma lwp_log_gw:
  "(\<And>x. Q2 x (tr @ [CDhcpRunning x])) \<Longrightarrow> lwp (dhcp_running (log_gw gw)) Q2 tr"
  "(\<And>x. Q4 x (tr @ [CDhcpStop x])) \<Longrightarrow> lwp (dhcp_stop (log_gw gw)) Q4 tr"
  "(\<And>x. Q4 x (tr @ [CDhcpReload i x])) \<Longrightarrow> lwp (dhcp_reload_or_restart (log_gw gw) cfg i) Q4 tr"
  "(\<And>x. Q6 x (tr @ [CProbe i t x])) \<Longrightarrow> lwp (probe_foreign_dhcp (log_gw gw) i t) Q6 tr"
  by (simp_all add: log_gw_def lwp_logged)

lemmas lwp_intros = lwp_basic lwp_log_net lwp_log_gw

end
