(* ===== verification/Apply.thy ===== *)
theory Apply
  imports Net_Ops
begin

text \<open>
  \<^verbatim>\<open>apply/mod.rs\<close>: the operating modes, the status snapshot, mode selection and the state
  changes of each mode, over any implementation of the two traits.
\<close>

section \<open>Modes and status\<close>

datatype Mode = Client | Gateway | Static

fun as_str :: "Mode \<Rightarrow> string" where
  "as_str Client = ''client''"
| "as_str Gateway = ''gateway''"
| "as_str Static = ''static''"

record Status =
  st_mode :: Mode
  st_iface :: string
  st_cidr :: "string option"
  st_foreign_dhcp :: bool
  st_gateway_reachable :: bool
  st_dnsmasq_running :: bool

definition empty_Status :: Status where
  "empty_Status = \<lparr> st_mode = Gateway, st_iface = [], st_cidr = None, st_foreign_dhcp = False,
     st_gateway_reachable = False, st_dnsmasq_running = False \<rparr>"

definition is_up :: "Status \<Rightarrow> bool" where
  "is_up s \<longleftrightarrow> st_cidr s \<noteq> None \<and> st_iface s \<noteq> []"

definition decide :: "bool \<Rightarrow> bool \<Rightarrow> Mode" where
  "decide foreign_dhcp gateway_reachable =
     (if foreign_dhcp then Client else if gateway_reachable then Static else Gateway)"

definition decide_status :: "'n ipnet \<Rightarrow> string \<Rightarrow> bool \<Rightarrow> bool \<Rightarrow> 'n Config \<Rightarrow> Status" where
  "decide_status I iface foreign_dhcp gateway_reachable cfg =
     (let mode = decide foreign_dhcp gateway_reachable;
          (cidr, dns) = (case mode of
             Client \<Rightarrow> (None, False)
           | Static \<Rightarrow> (Some (static_cidr I cfg), False)
           | Gateway \<Rightarrow> (Some (gateway_cidr cfg), True))
      in \<lparr> st_mode = mode, st_iface = iface, st_cidr = cidr, st_foreign_dhcp = foreign_dhcp,
           st_gateway_reachable = gateway_reachable, st_dnsmasq_running = dns \<rparr>)"

section \<open>Isolation and flushing\<close>

definition isolate_one :: "'w NetOps \<Rightarrow> string \<Rightarrow> string \<Rightarrow> ('w, unit) io" where
  "isolate_one net keep name =
     (if name = keep then return_io ()
      else bind_io (link_is_up net name) (\<lambda>is_up.
        bind_io (if is_up then return_io False
                 else map_io (\<lambda>c. c = None) (iface_ipv4_cidr net name)) (\<lambda>skip.
        if skip then return_io ()
        else bind_io (stop_dhclient net name) (\<lambda>_.
          bind_io (flush_addr net name) (\<lambda>_.
          bind_io (set_down net name) (\<lambda>_. return_io ()))))))"

definition isolate_iface :: "'w NetOps \<Rightarrow> string \<Rightarrow> ('w, unit) io" where
  "isolate_iface net keep =
     bind_io (list_ethernet net) (\<lambda>r. case r of
       Inl e \<Rightarrow> return_io ()
     | Inr names \<Rightarrow> for_io names (isolate_one net keep))"

definition flush_all_ethernet :: "'w NetOps \<Rightarrow> ('w, unit) io" where
  "flush_all_ethernet net =
     bind_io (list_ethernet net) (\<lambda>r. case r of
       Inl e \<Rightarrow> return_io ()
     | Inr names \<Rightarrow> for_io names (\<lambda>name.
         bind_io (stop_dhclient net name) (\<lambda>_.
         bind_io (flush_addr net name) (\<lambda>_. return_io ()))))"

section \<open>Applying a mode\<close>

definition apply_client ::
  "'n Config \<Rightarrow> 'w NetOps \<Rightarrow> ('w, 'n) GatewayCtl \<Rightarrow> string \<Rightarrow> ('w, Status result) io" where
  "apply_client cfg net gw iface =
     try_io (dhcp_stop gw) (\<lambda>_.
     try_io (flush_addr net iface) (\<lambda>_.
     try_io (start_dhclient net iface) (\<lambda>_.
     bind_io (wait_ipv4 net iface DHCP_CLIENT_WAIT_MS) (\<lambda>_.
     bind_io (iface_ipv4_cidr net iface) (\<lambda>cidr.
     bind_io (dhcp_running gw) (\<lambda>running.
     return_io (Inr \<lparr> st_mode = Client, st_iface = iface, st_cidr = cidr,
       st_foreign_dhcp = True, st_gateway_reachable = False, st_dnsmasq_running = running \<rparr>)))))))"

definition apply_static ::
  "'n Config \<Rightarrow> 'w NetOps \<Rightarrow> ('w, 'n) GatewayCtl \<Rightarrow> string \<Rightarrow> ipv4 \<Rightarrow> ('w, Status result) io" where
  "apply_static cfg net gw iface static_ip =
     try_io (dhcp_stop gw) (\<lambda>_.
     try_io (replace_default_via net (gc_ip (cfg_gateway cfg)) iface) (\<lambda>_.
     bind_io (dhcp_running gw) (\<lambda>running.
     return_io (Inr \<lparr> st_mode = Static, st_iface = iface, st_cidr = Some (format_cidr static_ip),
       st_foreign_dhcp = False, st_gateway_reachable = True, st_dnsmasq_running = running \<rparr>))))"

definition apply_gateway ::
  "'n Config \<Rightarrow> 'w NetOps \<Rightarrow> ('w, 'n) GatewayCtl \<Rightarrow> string \<Rightarrow> ('w, Status result) io" where
  "apply_gateway cfg net gw iface =
     (let want = gateway_cidr cfg in
      bind_io (iface_ipv4_cidr net iface) (\<lambda>have_cidr.
      try_io (if have_cidr \<noteq> Some want
              then try_io (flush_addr net iface) (\<lambda>_. add_addr net iface want)
              else return_io (Inr ())) (\<lambda>_.
      try_io (del_default net) (\<lambda>_.
      try_io (dhcp_reload_or_restart gw cfg iface) (\<lambda>_.
      bind_io (dhcp_running gw) (\<lambda>running.
      return_io (Inr \<lparr> st_mode = Gateway, st_iface = iface, st_cidr = Some want,
        st_foreign_dhcp = False, st_gateway_reachable = False, st_dnsmasq_running = running \<rparr>)))))))"

section \<open>Selection\<close>

text \<open>The part of \<^verbatim>\<open>apply_with\<close> after the probe answered that there is no foreign server.\<close>

definition apply_no_offer ::
  "'n ipnet \<Rightarrow> 'n Config \<Rightarrow> 'w NetOps \<Rightarrow> ('w, 'n) GatewayCtl \<Rightarrow> string \<Rightarrow> ('w, Status result) io" where
  "apply_no_offer I cfg net gw iface =
     (let static_cidr_s = static_cidr I cfg; static_ip = static_addr I cfg;
          ping_target = gc_ip (cfg_gateway cfg) in
      bind_io (iface_has_ipv4 net iface) (\<lambda>has.
      try_io (if \<not> has then add_addr net iface static_cidr_s else return_io (Inr ())) (\<lambda>_.
      bind_io (ipv4_addr_is_local net ping_target) (\<lambda>local.
      bind_io (if local then return_io False else ping net ping_target) (\<lambda>gateway_reachable.
      case decide False gateway_reachable of
        Client \<Rightarrow> apply_client cfg net gw iface
      | Static \<Rightarrow> apply_static cfg net gw iface static_ip
      | Gateway \<Rightarrow> apply_gateway cfg net gw iface)))))"

text \<open>The part of \<^verbatim>\<open>apply_with\<close> after the interface is resolved.\<close>

definition apply_selected ::
  "'n ipnet \<Rightarrow> 'n Config \<Rightarrow> 'w NetOps \<Rightarrow> ('w, 'n) GatewayCtl \<Rightarrow> string \<Rightarrow> ('w, Status result) io" where
  "apply_selected I cfg net gw iface =
     bind_io (isolate_iface net iface) (\<lambda>_.
     try_io (bring_up net iface) (\<lambda>_.
     try_io (stop_dhclient net iface) (\<lambda>_.
     bind_io (dhcp_running gw) (\<lambda>running.
     try_io (if running then dhcp_stop gw else return_io (Inr ())) (\<lambda>_.
     try_io (probe_foreign_dhcp gw iface (probe_timeout_secs cfg)) (\<lambda>foreign_dhcp.
     if foreign_dhcp then apply_client cfg net gw iface
     else apply_no_offer I cfg net gw iface))))))"

definition apply_with ::
  "'n ipnet \<Rightarrow> 'n Config \<Rightarrow> 'w NetOps \<Rightarrow> ('w, 'n) GatewayCtl \<Rightarrow> ('w, Status result) io" where
  "apply_with I cfg net gw =
     try_io (return_io (validate I cfg)) (\<lambda>_.
     try_io (resolve_iface net (cfg_interface cfg)) (\<lambda>iface.
     apply_selected I cfg net gw iface))"

definition teardown_with ::
  "'n ipnet \<Rightarrow> 'n Config \<Rightarrow> 'w NetOps \<Rightarrow> ('w, 'n) GatewayCtl \<Rightarrow> ('w, Status result) io" where
  "teardown_with I cfg net gw =
     try_io (return_io (validate I cfg)) (\<lambda>_.
     try_io (resolve_iface_passive net (cfg_interface cfg)) (\<lambda>iface.
     try_io (dhcp_stop gw) (\<lambda>_.
     bind_io (flush_all_ethernet net) (\<lambda>_.
     try_io (del_default net) (\<lambda>_.
     bind_io (dhcp_running gw) (\<lambda>running.
     return_io (Inr \<lparr> st_mode = Gateway, st_iface = iface, st_cidr = None, st_foreign_dhcp = False,
       st_gateway_reachable = False, st_dnsmasq_running = running \<rparr>)))))))"

lemmas mode_defs = apply_client_def apply_static_def apply_gateway_def
lemmas apply_defs = apply_with_def apply_selected_def apply_no_offer_def mode_defs

text \<open>With a valid configuration only the rest of a run is left.\<close>

lemma with_valid:
  assumes "validate I cfg = Inr ()"
  shows "apply_with I cfg net gw = try_io (resolve_iface net (cfg_interface cfg)) (apply_selected I cfg net gw)"
    and "teardown_with I cfg net gw = try_io (resolve_iface_passive net (cfg_interface cfg)) (\<lambda>iface.
     try_io (dhcp_stop gw) (\<lambda>_. bind_io (flush_all_ethernet net) (\<lambda>_. try_io (del_default net) (\<lambda>_.
     bind_io (dhcp_running gw) (\<lambda>running.
     return_io (Inr \<lparr> st_mode = Gateway, st_iface = iface, st_cidr = None, st_foreign_dhcp = False,
       st_gateway_reachable = False, st_dnsmasq_running = running \<rparr>))))))"
  using assms by (simp_all add: apply_with_def teardown_with_def try_io_def)

section \<open>Logged runs\<close>

lemma isolate_iface_erases: "erases (isolate_iface (log_net net) i) (isolate_iface net i)"
  unfolding isolate_iface_def isolate_one_def map_io_def
  by (intro erases_bind log_net_erases erases_for erases_return erases_if allI impI |
      auto split: sum.split intro!: erases_for erases_bind)+

lemma flush_all_ethernet_erases: "erases (flush_all_ethernet (log_net net)) (flush_all_ethernet net)"
  unfolding flush_all_ethernet_def
  by (intro erases_bind log_net_erases) (auto split: sum.split)

lemma mode_erases:
  "erases (apply_client cfg (log_net net) (log_gw gw) i) (apply_client cfg net gw i)"
  "erases (apply_static cfg (log_net net) (log_gw gw) i a) (apply_static cfg net gw i a)"
  "erases (apply_gateway cfg (log_net net) (log_gw gw) i) (apply_gateway cfg net gw i)"
  unfolding mode_defs Let_def
  by (intro erases_bind erases_try erases_return erases_if log_net_erases log_gw_erases)+

lemma apply_no_offer_erases:
  "erases (apply_no_offer I cfg (log_net net) (log_gw gw) i) (apply_no_offer I cfg net gw i)"
  unfolding apply_no_offer_def Let_def decide_def
  by (intro erases_bind erases_try erases_return erases_if log_net_erases log_gw_erases)
    (auto split: Mode.split simp: mode_erases)

lemma apply_with_erases: "erases (apply_with I cfg (log_net net) (log_gw gw)) (apply_with I cfg net gw)"
  unfolding apply_with_def apply_selected_def
  by (intro erases_bind erases_try erases_return erases_if log_net_erases log_gw_erases
      isolate_iface_erases mode_erases apply_no_offer_erases)

section \<open>What a run may call\<close>

text \<open>The calls isolation makes: reads, and stopping, flushing and downing other interfaces.\<close>

fun isolation_call :: "string \<Rightarrow> call \<Rightarrow> bool" where
  "isolation_call keep (CListEthernet r) = True"
| "isolation_call keep (CLinkIsUp j b) = True"
| "isolation_call keep (CIpv4Cidr j c) = True"
| "isolation_call keep (CStopDhclient j r) = (j \<noteq> keep)"
| "isolation_call keep (CFlushAddr j r) = (j \<noteq> keep)"
| "isolation_call keep (CSetDown j r) = (j \<noteq> keep)"
| "isolation_call keep c = False"

lemma isolate_iface_log:
  "lwp (isolate_iface (log_net net) keep)
     (\<lambda>_ tr'. \<exists>cs. tr' = tr @ cs \<and> (\<forall>c\<in>set cs. isolation_call keep c)) tr"
proof -
  let ?J = "\<lambda>tr'. \<exists>cs. tr' = tr @ cs \<and> (\<forall>c\<in>set cs. isolation_call keep c)"
  have ext: "?J (t @ [c])" if "?J t" "isolation_call keep c" for t c
    using that by (metis append_assoc rotate1.simps(2) set_rotate1 set_ConsD)
  have "lwp (isolate_one (log_net net) keep name) (\<lambda>_. ?J) t" if "?J t" for name t
    unfolding isolate_one_def using that
    by (intro lwp_intros) (auto intro!: ext lwp_intros)
  then have "lwp (for_io names (isolate_one (log_net net) keep)) (\<lambda>_. ?J) t" if "?J t" for names t
    using that by (intro lwp_for)
  then show ?thesis
    unfolding isolate_iface_def
    by (intro lwp_intros) (auto split: sum.split intro!: lwp_return)
qed

fun confined :: "string \<Rightarrow> call \<Rightarrow> bool" where
  "confined keep (CResolve c r) = (r = Inr keep)"
| "confined keep (CBringUp j r) = (j = keep)"
| "confined keep (CAddAddr j s r) = (j = keep)"
| "confined keep (CStartDhclient j r) = (j = keep)"
| "confined keep (CReplaceDefault a j r) = (j = keep)"
| "confined keep (CDhcpReload j r) = (j = keep)"
| "confined keep (CProbe j t r) = (j = keep)"
| "confined keep (CSetDown j r) = (j \<noteq> keep)"
| "confined keep c = True"


fun is_reload :: "call \<Rightarrow> bool" where
  "is_reload (CDhcpReload i r) = True" | "is_reload _ = False"
fun is_upstream :: "call \<Rightarrow> bool" where
  "is_upstream (CStartDhclient i r) = True"
| "is_upstream (CReplaceDefault a i r) = True"
| "is_upstream _ = False"

abbreviation sets_mode :: "call \<Rightarrow> bool" where
  "sets_mode c \<equiv> is_reload c \<or> is_upstream c"

lemma isolation_class:
  assumes "isolation_call keep c"
  shows "confined keep c" "\<not> sets_mode c"
  using assms by (cases c; simp)+

lemma isolate_iface_calls:
  "lwp (isolate_iface (log_net net) keep)
     (\<lambda>_ tr'. \<exists>cs. tr' = tr @ cs \<and> (\<forall>c\<in>set cs. confined keep c) \<and> (\<forall>c\<in>set cs. \<not> sets_mode c)) tr"
proof (rule lwp_conseq[OF isolate_iface_log], elim exE conjE)
  fix x tr' cs
  assume "tr' = tr @ cs" and *: "\<forall>c\<in>set cs. isolation_call keep c"
  then show "\<exists>cs. tr' = tr @ cs \<and> (\<forall>c\<in>set cs. confined keep c) \<and> (\<forall>c\<in>set cs. \<not> sets_mode c)"
    using isolation_class[OF *[rule_format]] by metis
qed

lemma mode_confined:
  assumes "\<forall>c\<in>set tr. confined i c"
  shows "lwp (apply_client cfg (log_net net) (log_gw gw) i)
      (\<lambda>r tr'. (\<forall>c\<in>set tr'. confined i c) \<and> (\<forall>s. r = Inr s \<longrightarrow> st_iface s = i)) tr"
    and "lwp (apply_static cfg (log_net net) (log_gw gw) i a)
      (\<lambda>r tr'. (\<forall>c\<in>set tr'. confined i c) \<and> (\<forall>s. r = Inr s \<longrightarrow> st_iface s = i)) tr"
    and "lwp (apply_gateway cfg (log_net net) (log_gw gw) i)
      (\<lambda>r tr'. (\<forall>c\<in>set tr'. confined i c) \<and> (\<forall>s. r = Inr s \<longrightarrow> st_iface s = i)) tr"
  using assms unfolding mode_defs Let_def
  by (auto intro!: lwp_intros split: sum.split)

lemma apply_no_offer_confined:
  assumes "\<forall>c\<in>set tr. confined i c"
  shows "lwp (apply_no_offer I cfg (log_net net) (log_gw gw) i)
      (\<lambda>r tr'. (\<forall>c\<in>set tr'. confined i c) \<and> (\<forall>s. r = Inr s \<longrightarrow> st_iface s = i)) tr"
  using assms unfolding apply_no_offer_def Let_def
  by (auto intro!: lwp_intros mode_confined split: sum.split Mode.split)


lemma apply_selected_confined:
  assumes "\<forall>c\<in>set tr. confined i c"
  shows "lwp (apply_selected I cfg (log_net net) (log_gw gw) i)
      (\<lambda>r tr'. (\<forall>c\<in>set tr'. confined i c) \<and> (\<forall>s. r = Inr s \<longrightarrow> st_iface s = i)) tr"
  unfolding apply_selected_def
  by (rule lwp_bind, rule lwp_conseq[OF isolate_iface_calls])
    (use assms in \<open>auto split: sum.split intro!: lwp_intros mode_confined apply_no_offer_confined\<close>)

lemma apply_with_confined:
  "lwp (apply_with I cfg (log_net net) (log_gw gw))
      (\<lambda>r tr'. (\<exists>e. r = Inl e \<and> set tr' \<subseteq> {CResolve (cfg_interface cfg) (Inl e)})
         \<or> (\<exists>i. (\<forall>c\<in>set tr'. confined i c) \<and> (\<forall>s. r = Inr s \<longrightarrow> st_iface s = i))) []"
  unfolding apply_with_def
  by (auto split: sum.split intro!: lwp_intros lwp_conseq[OF apply_selected_confined]) blast

text \<open>
  What a call presupposes, given the set of the calls (with their results) made before it: our
  server is only started after a probe on the same interface answered that there is no other
  one, the probe only runs with our server down, the upstream is only pinged when it is not our
  own address, a lease is only asked for after an offer was seen, the static address is only
  added after none was, and the default route only set through a gateway that answered.
\<close>

definition probed :: "call set \<Rightarrow> string \<Rightarrow> bool \<Rightarrow> bool" where
  "probed S i b \<longleftrightarrow> (\<exists>t. CProbe i t (Inr b) \<in> S)"

lemma probed_insert [simp]:
  "probed (insert c S) i b \<longleftrightarrow> (\<exists>t. c = CProbe i t (Inr b)) \<or> probed S i b"
  by (auto simp: probed_def)

lemma probed_Un [simp]: "probed (S \<union> T) i b \<longleftrightarrow> probed S i b \<or> probed T i b"
  by (auto simp: probed_def)

fun allowed :: "call set \<Rightarrow> call \<Rightarrow> bool" where
  "allowed S (CDhcpReload i r) = probed S i False"
| "allowed S (CProbe i t r) = (CDhcpRunning False \<in> S \<or> CDhcpStop (Inr ()) \<in> S)"
| "allowed S (CPing a r) = (CIsLocal a False \<in> S)"
| "allowed S (CStartDhclient i r) = (probed S i True \<and> CDhcpStop (Inr ()) \<in> S)"
| "allowed S (CAddAddr i s r) = probed S i False"
| "allowed S (CReplaceDefault a i r) = (CPing a True \<in> S \<and> CDhcpStop (Inr ()) \<in> S)"
| "allowed S c = True"

abbreviation ordered_from :: "call set \<Rightarrow> call list \<Rightarrow> bool" where
  "ordered_from \<equiv> ordered_by allowed"

definition well_ordered :: "call list \<Rightarrow> bool" where
  "well_ordered tr = ordered_from {} tr"

lemma well_ordered_append [simp]: "well_ordered (tr @ cs) \<longleftrightarrow> well_ordered tr \<and> ordered_from (set tr) cs"
  by (simp add: well_ordered_def ordered_by_append)

lemma well_ordered_nth: "well_ordered tr \<longleftrightarrow> (\<forall>n < length tr. allowed (set (take n tr)) (tr ! n))"
  by (simp add: well_ordered_def ordered_by_nth)

lemma mode_ordered:
  assumes "well_ordered tr"
  shows "probed (set tr) i True \<Longrightarrow>
      lwp (apply_client cfg (log_net net) (log_gw gw) i) (\<lambda>_. well_ordered) tr"
    and "CPing (gc_ip (cfg_gateway cfg)) True \<in> set tr \<Longrightarrow>
      lwp (apply_static cfg (log_net net) (log_gw gw) i a) (\<lambda>_. well_ordered) tr"
    and "probed (set tr) i False \<Longrightarrow>
      lwp (apply_gateway cfg (log_net net) (log_gw gw) i) (\<lambda>_. well_ordered) tr"
  using assms unfolding mode_defs Let_def
  by (auto intro!: lwp_intros split: sum.split)

lemma apply_no_offer_ordered:
  assumes "well_ordered tr" "probed (set tr) i False"
  shows "lwp (apply_no_offer I cfg (log_net net) (log_gw gw) i) (\<lambda>_. well_ordered) tr"
  using assms unfolding apply_no_offer_def Let_def decide_def
  by (auto intro!: lwp_intros mode_ordered split: sum.split)

lemma isolation_ordered: "\<forall>c\<in>set cs. isolation_call i c \<Longrightarrow> ordered_from S cs"
proof (induction cs arbitrary: S)
  case (Cons c cs)
  then show ?case by (cases c) auto
qed simp

lemma apply_selected_ordered:
  assumes "well_ordered tr"
  shows "lwp (apply_selected I cfg (log_net net) (log_gw gw) i) (\<lambda>_. well_ordered) tr"
  unfolding apply_selected_def
  by (rule lwp_bind, rule lwp_conseq[OF isolate_iface_log])
    (use assms in \<open>auto split: sum.split intro!: lwp_intros mode_ordered apply_no_offer_ordered
       simp: isolation_ordered ordered_by_append\<close>)

lemma apply_with_ordered: "lwp (apply_with I cfg (log_net net) (log_gw gw)) (\<lambda>_. well_ordered) []"
  unfolding apply_with_def
  by (auto split: sum.split intro!: lwp_intros apply_selected_ordered simp: well_ordered_def)

definition mode_evidence :: "'n Config \<Rightarrow> Status \<Rightarrow> call list \<Rightarrow> bool" where
  "mode_evidence cfg s tr \<longleftrightarrow>
     (let gwip = gc_ip (cfg_gateway cfg); i = st_iface s; t = probe_timeout_secs cfg in
      case st_mode s of
        Client \<Rightarrow> CProbe i t (Inr True) \<in> set tr \<and> CStartDhclient i (Inr ()) \<in> set tr
          \<and> CDhcpStop (Inr ()) \<in> set tr \<and> (\<forall>c\<in>set tr. \<not> is_reload c)
      | Static \<Rightarrow> CProbe i t (Inr False) \<in> set tr \<and> CIsLocal gwip False \<in> set tr
          \<and> CPing gwip True \<in> set tr \<and> CReplaceDefault gwip i (Inr ()) \<in> set tr
          \<and> CDhcpStop (Inr ()) \<in> set tr \<and> (\<forall>c\<in>set tr. \<not> is_reload c)
      | Gateway \<Rightarrow> CProbe i t (Inr False) \<in> set tr
          \<and> (CIsLocal gwip True \<in> set tr \<or> CPing gwip False \<in> set tr)
          \<and> CDelDefault (Inr ()) \<in> set tr \<and> CDhcpReload i (Inr ()) \<in> set tr
          \<and> (\<forall>c\<in>set tr. \<not> is_upstream c))"

lemma mode_calls_evidence:
  assumes "\<forall>c\<in>set tr. \<not> sets_mode c"
  shows "CProbe i (probe_timeout_secs cfg) (Inr True) \<in> set tr \<Longrightarrow> lwp (apply_client cfg (log_net net) (log_gw gw) i)
       (\<lambda>r tr'. \<forall>s. r = Inr s \<longrightarrow> mode_evidence cfg s tr') tr"
    and "CProbe i (probe_timeout_secs cfg) (Inr False) \<in> set tr \<Longrightarrow> CIsLocal (gc_ip (cfg_gateway cfg)) False \<in> set tr \<Longrightarrow>
       CPing (gc_ip (cfg_gateway cfg)) True \<in> set tr \<Longrightarrow>
       lwp (apply_static cfg (log_net net) (log_gw gw) i a) (\<lambda>r tr'. \<forall>s. r = Inr s \<longrightarrow> mode_evidence cfg s tr') tr"
    and "CProbe i (probe_timeout_secs cfg) (Inr False) \<in> set tr \<Longrightarrow>
       CIsLocal (gc_ip (cfg_gateway cfg)) True \<in> set tr \<or> CPing (gc_ip (cfg_gateway cfg)) False \<in> set tr \<Longrightarrow>
       lwp (apply_gateway cfg (log_net net) (log_gw gw) i) (\<lambda>r tr'. \<forall>s. r = Inr s \<longrightarrow> mode_evidence cfg s tr') tr"
  using assms unfolding mode_defs Let_def
  by (auto intro!: lwp_intros split: sum.split simp: mode_evidence_def)

lemma apply_no_offer_evidence:
  assumes "\<forall>c\<in>set tr. \<not> sets_mode c" "CProbe i (probe_timeout_secs cfg) (Inr False) \<in> set tr"
  shows "lwp (apply_no_offer I cfg (log_net net) (log_gw gw) i) (\<lambda>r tr'. \<forall>s. r = Inr s \<longrightarrow> mode_evidence cfg s tr') tr"
  using assms unfolding apply_no_offer_def Let_def decide_def
  by (auto intro!: lwp_intros mode_calls_evidence split: sum.split Mode.split)

lemma apply_selected_evidence:
  assumes "\<forall>c\<in>set tr. \<not> sets_mode c"
  shows "lwp (apply_selected I cfg (log_net net) (log_gw gw) i) (\<lambda>r tr'. \<forall>s. r = Inr s \<longrightarrow> mode_evidence cfg s tr') tr"
  unfolding apply_selected_def
  by (rule lwp_bind, rule lwp_conseq[OF isolate_iface_calls])
    (use assms in \<open>auto split: sum.split intro!: lwp_intros mode_calls_evidence apply_no_offer_evidence\<close>)

lemma apply_with_evidence:
  "lwp (apply_with I cfg (log_net net) (log_gw gw)) (\<lambda>r tr'. \<forall>s. r = Inr s \<longrightarrow> mode_evidence cfg s tr') []"
  unfolding apply_with_def
  by (auto split: sum.split intro!: lwp_intros apply_selected_evidence)

text \<open>
  Claim C2. In every run of \<^verbatim>\<open>apply_with\<close>, on every implementation of the two traits and whatever
  their calls answer, every call is justified by an earlier one: dnsmasq is only (re)started
  after a probe on that interface answered that no other DHCP server is there, the probe only
  runs once our own server is known to be down, a lease is only requested after an offer was
  seen and with our server stopped, the static address is only added when no offer was seen,
  the gateway address is only pinged after it was found not to be our own, and the default
  route is only set through a gateway that answered the ping.
\<close>

theorem apply_calls_in_order:
  assumes "apply_with I cfg net gw w = Some (r, w')"
  shows "\<exists>tr. apply_with I cfg (log_net net) (log_gw gw) (w, []) = Some (r, (w', tr)) \<and>
    (\<forall>n < length tr. allowed (set (take n tr)) (tr ! n))"
  using logged_run[OF apply_with_erases apply_with_ordered assms] by (simp add: well_ordered_nth)


text \<open>
  Claim C13. The mode that \<^verbatim>\<open>apply_with\<close> reports is the one its measurements call for, and the
  work of that mode was done successfully: client mode after an offer, with dhclient started and
  dnsmasq stopped; static mode after no offer and an answer of a gateway that is not our own
  address, with the default route set through it; gateway mode after no offer and no foreign
  gateway, with the default route deleted and dnsmasq reloaded, and without a dhclient or a
  default route.
\<close>

theorem apply_mode_evidence:
  assumes "apply_with I cfg net gw w = Some (Inr s, w')"
  shows "\<exists>tr. apply_with I cfg (log_net net) (log_gw gw) (w, []) = Some (Inr s, (w', tr)) \<and>
    mode_evidence cfg s tr"
  using logged_run[OF apply_with_erases apply_with_evidence assms] by simp

end
