(* ===== verification/Host_Contract.thy ===== *)
theory Host_Contract
  imports Apply
begin

text \<open>
  What the mode selection needs from the two traits, as locales. Each locale fixes an observer of
  the world (is our DHCP server serving, which links are administratively up, which addresses
  does an interface have, what is the default route) and states how the operations act on it.
  The lemmas inside say in which state of the host a run of \<^verbatim>\<open>apply_with\<close> or \<^verbatim>\<open>teardown_with\<close>
  ends; they hold for every implementation that meets the laws.
\<close>

lemma apply_selected_iface:
  assumes "apply_selected I cfg net gw i w = Some (Inr s, w')"
  shows "st_iface s = i"
proof -
  have "wpo (apply_selected I cfg net gw i) (\<lambda>r _. \<forall>s. r = Inr s \<longrightarrow> st_iface s = i) w"
    unfolding apply_selected_def apply_no_offer_def decide_def Let_def mode_defs
    by (auto intro!: wpo_any wpo_return)
  then show ?thesis
    using wpoD assms by fastforce
qed

section \<open>Groups of operations that keep a property\<close>

definition reads_keep :: "('w \<Rightarrow> bool) \<Rightarrow> 'w NetOps \<Rightarrow> bool" where
  "reads_keep P net \<longleftrightarrow> (\<forall>i. keeps P (is_physical_ethernet net i)) \<and> (\<forall>i. keeps P (iface_has_ipv4 net i))
     \<and> (\<forall>i a. keeps P (iface_has_addr net i a)) \<and> (\<forall>i. keeps P (iface_ipv4_cidr net i))
     \<and> (\<forall>i. keeps P (carrier_up net i)) \<and> (\<forall>i. keeps P (link_is_up net i))
     \<and> (\<forall>a. keeps P (ipv4_addr_is_local net a)) \<and> (\<forall>a. keeps P (ping net a))
     \<and> (\<forall>i. keeps P (dhclient_running net i)) \<and> (\<forall>i t. keeps P (wait_ipv4 net i t))
     \<and> keeps P (list_ethernet net)"

definition resolve_keep :: "('w \<Rightarrow> bool) \<Rightarrow> 'w NetOps \<Rightarrow> bool" where
  "resolve_keep P net \<longleftrightarrow> (\<forall>c. keeps P (resolve_iface net c)) \<and> (\<forall>c. keeps P (resolve_iface_passive net c))"

definition addr_keep :: "('w \<Rightarrow> bool) \<Rightarrow> 'w NetOps \<Rightarrow> bool" where
  "addr_keep P net \<longleftrightarrow> (\<forall>i. keeps P (flush_addr net i)) \<and> (\<forall>i s. keeps P (add_addr net i s))
     \<and> (\<forall>i. keeps P (stop_dhclient net i)) \<and> (\<forall>i. keeps P (start_dhclient net i))"

definition link_keep :: "('w \<Rightarrow> bool) \<Rightarrow> 'w NetOps \<Rightarrow> bool" where
  "link_keep P net \<longleftrightarrow> (\<forall>i. keeps P (bring_up net i)) \<and> (\<forall>i. keeps P (set_down net i))"

definition route_keep :: "('w \<Rightarrow> bool) \<Rightarrow> 'w NetOps \<Rightarrow> bool" where
  "route_keep P net \<longleftrightarrow> (\<forall>a i. keeps P (replace_default_via net a i)) \<and> keeps P (del_default net)"

definition server_keep :: "('w \<Rightarrow> bool) \<Rightarrow> ('w, 'n) GatewayCtl \<Rightarrow> bool" where
  "server_keep P gw \<longleftrightarrow> keeps P (dhcp_running gw) \<and> keeps P (dhcp_stop gw)
     \<and> (\<forall>cfg i. keeps P (dhcp_reload_or_restart gw cfg i)) \<and> (\<forall>i t. keeps P (probe_foreign_dhcp gw i t))"

lemmas keep_defs = reads_keep_def resolve_keep_def addr_keep_def link_keep_def route_keep_def server_keep_def

lemma wpo_keeps: "keeps P m \<Longrightarrow> P w \<Longrightarrow> (\<And>x w'. P w' \<Longrightarrow> Q x w') \<Longrightarrow> wpo m Q w"
  by (auto simp: keeps_def wpo_def)

section \<open>The DHCP server\<close>

locale server_contract =
  fixes net :: "'w NetOps" and gw :: "('w, 'n) GatewayCtl" and serving :: "'w \<Rightarrow> bool"
  assumes net_keeps_serving:
      "reads_keep (\<lambda>w. serving w = b) net" "resolve_keep (\<lambda>w. serving w = b) net"
      "addr_keep (\<lambda>w. serving w = b) net" "link_keep (\<lambda>w. serving w = b) net"
      "route_keep (\<lambda>w. serving w = b) net"
    and running_law: "wpo (dhcp_running gw) (\<lambda>r w'. r = serving w \<and> serving w' = serving w) w"
    and stop_law: "wpo (dhcp_stop gw) (\<lambda>r w'. is_ok r \<longrightarrow> \<not> serving w') w"
    and reload_law: "wpo (dhcp_reload_or_restart gw cfg i) (\<lambda>r w'. is_ok r \<longrightarrow> serving w') w"
    and probe_law: "keeps (\<lambda>w. serving w = b) (probe_foreign_dhcp gw i t)"
begin

lemma keeps_serving:
  "keeps (\<lambda>w. serving w = b) (is_physical_ethernet net i)" "keeps (\<lambda>w. serving w = b) (iface_has_ipv4 net i)"
  "keeps (\<lambda>w. serving w = b) (iface_has_addr net i a)" "keeps (\<lambda>w. serving w = b) (iface_ipv4_cidr net i)"
  "keeps (\<lambda>w. serving w = b) (link_is_up net i)" "keeps (\<lambda>w. serving w = b) (ipv4_addr_is_local net a)"
  "keeps (\<lambda>w. serving w = b) (ping net a)" "keeps (\<lambda>w. serving w = b) (wait_ipv4 net i ms)"
  "keeps (\<lambda>w. serving w = b) (list_ethernet net)" "keeps (\<lambda>w. serving w = b) (resolve_iface net c)"
  "keeps (\<lambda>w. serving w = b) (resolve_iface_passive net c)" "keeps (\<lambda>w. serving w = b) (flush_addr net i)"
  "keeps (\<lambda>w. serving w = b) (add_addr net i s)" "keeps (\<lambda>w. serving w = b) (stop_dhclient net i)"
  "keeps (\<lambda>w. serving w = b) (start_dhclient net i)" "keeps (\<lambda>w. serving w = b) (bring_up net i)"
  "keeps (\<lambda>w. serving w = b) (set_down net i)" "keeps (\<lambda>w. serving w = b) (replace_default_via net a i)"
  "keeps (\<lambda>w. serving w = b) (del_default net)"
  using net_keeps_serving unfolding keep_defs by simp_all

lemma wpo_serving:
  "keeps (\<lambda>w. serving w = serving w0) m \<Longrightarrow> (\<And>x w'. serving w' = serving w0 \<Longrightarrow> Q x w') \<Longrightarrow> wpo m Q w0"
  by (rule wpo_keeps[where P = "\<lambda>w. serving w = serving w0"]) simp_all

lemmas wpo_serving_ops = keeps_serving[THEN wpo_serving] probe_law[THEN wpo_serving]
  running_law[THEN wpo_conseq] stop_law[THEN wpo_conseq] reload_law[THEN wpo_conseq]

lemma mode_serving:
  "wpo (apply_client cfg net gw i) (\<lambda>r w'. \<forall>s. r = Inr s \<longrightarrow>
     st_mode s = Client \<and> \<not> serving w' \<and> \<not> st_dnsmasq_running s) w"
  "wpo (apply_static cfg net gw i a) (\<lambda>r w'. \<forall>s. r = Inr s \<longrightarrow>
     st_mode s = Static \<and> \<not> serving w' \<and> \<not> st_dnsmasq_running s) w"
  "wpo (apply_gateway cfg net gw i) (\<lambda>r w'. \<forall>s. r = Inr s \<longrightarrow>
     st_mode s = Gateway \<and> serving w' \<and> st_dnsmasq_running s) w"
  unfolding mode_defs Let_def
  by (auto intro!: wpo_intros wpo_serving_ops split: sum.splits)

lemma isolate_serving: "keeps (\<lambda>w. serving w = b) (isolate_iface net keep)"
  unfolding isolate_iface_def isolate_one_def map_io_def
  by (intro keeps_bind keeps_serving) (auto intro!: keeps_for keeps_bind keeps_serving split: sum.split)

lemma flush_all_serving: "keeps (\<lambda>w. serving w = b) (flush_all_ethernet net)"
  unfolding flush_all_ethernet_def
  by (intro keeps_bind keeps_serving) (auto intro!: keeps_for keeps_bind keeps_serving split: sum.split)

lemma apply_no_offer_serving:
  "wpo (apply_no_offer I cfg net gw i) (\<lambda>r w'. \<forall>s. r = Inr s \<longrightarrow>
     serving w' = (st_mode s = Gateway) \<and> st_dnsmasq_running s = serving w') w"
  unfolding apply_no_offer_def Let_def decide_def
  by (auto intro!: wpo_intros wpo_serving_ops mode_serving[THEN wpo_conseq] split: sum.splits Mode.splits)

lemma apply_serving:
  "wpo (apply_with I cfg net gw) (\<lambda>r w'. \<forall>s. r = Inr s \<longrightarrow>
     serving w' = (st_mode s = Gateway) \<and> st_dnsmasq_running s = serving w') w"
  unfolding apply_with_def apply_selected_def
  by (auto intro!: wpo_intros wpo_serving_ops isolate_serving[THEN wpo_serving]
      apply_no_offer_serving mode_serving[THEN wpo_conseq] split: sum.splits)

lemma teardown_serving:
  "wpo (teardown_with I cfg net gw) (\<lambda>r w'. \<forall>s. r = Inr s \<longrightarrow>
     \<not> serving w' \<and> \<not> st_dnsmasq_running s \<and> st_cidr s = None) w"
  unfolding teardown_with_def
  by (auto intro!: wpo_intros wpo_serving_ops flush_all_serving[THEN wpo_serving] split: sum.splits)

end

text \<open>Failing closed: a run whose probe fails leaves our server down.\<close>

definition probe_failed :: "call list \<Rightarrow> bool" where
  "probe_failed tr \<longleftrightarrow> (\<exists>i t e. CProbe i t (Inl e) \<in> set tr)"

lemma probe_failed_append [simp]:
  "probe_failed (tr @ cs) \<longleftrightarrow> probe_failed tr \<or> probe_failed cs"
  "probe_failed (c # cs) \<longleftrightarrow> (\<exists>i t e. c = CProbe i t (Inl e)) \<or> probe_failed cs"
  "\<not> probe_failed []"
  by (auto simp: probe_failed_def)

lemma isolation_no_probe: "\<forall>c\<in>set cs. isolation_call i c \<Longrightarrow> \<not> probe_failed cs"
  by (auto simp: probe_failed_def)

lemma wpo_logged: "wpo m (\<lambda>x w'. Q x (w', snd wt @ [f x])) (fst wt) \<Longrightarrow> wpo (logged f m) Q wt"
  by (auto simp: wpo_def io_simps)

lemma wpo_logged_ops:
  "wpo (resolve_iface net c) (\<lambda>x w'. Q1 x (w', tr @ [CResolve c x])) w \<Longrightarrow>
     wpo (resolve_iface (log_net net) c) Q1 (w, tr)"
  "wpo (bring_up net i) (\<lambda>x w'. Q2 x (w', tr @ [CBringUp i x])) w \<Longrightarrow>
     wpo (bring_up (log_net net) i) Q2 (w, tr)"
  "wpo (stop_dhclient net i) (\<lambda>x w'. Q2 x (w', tr @ [CStopDhclient i x])) w \<Longrightarrow>
     wpo (stop_dhclient (log_net net) i) Q2 (w, tr)"
  "wpo (dhcp_running gw) (\<lambda>x w'. Q3 x (w', tr @ [CDhcpRunning x])) w \<Longrightarrow>
     wpo (dhcp_running (log_gw gw)) Q3 (w, tr)"
  "wpo (dhcp_stop gw) (\<lambda>x w'. Q2 x (w', tr @ [CDhcpStop x])) w \<Longrightarrow>
     wpo (dhcp_stop (log_gw gw)) Q2 (w, tr)"
  "wpo (probe_foreign_dhcp gw i t) (\<lambda>x w'. Q4 x (w', tr @ [CProbe i t x])) w \<Longrightarrow>
     wpo (probe_foreign_dhcp (log_gw gw) i t) Q4 (w, tr)"
  by (simp_all add: log_net_def log_gw_def wpo_logged)

lemma lwp_wpo: "lwp m (\<lambda>x tr. \<forall>w. Q x (w, tr)) tr \<Longrightarrow> wpo m Q (w, tr)"
  by (auto simp: lwp_def wpo_def)

lemma lwp_probe_ok:
  assumes "\<not> probe_failed tr"
  shows "lwp (apply_client cfg (log_net net) (log_gw gw) i) (\<lambda>_ tr'. \<not> probe_failed tr') tr"
    and "lwp (apply_no_offer I cfg (log_net net) (log_gw gw) i) (\<lambda>_ tr'. \<not> probe_failed tr') tr"
  using assms unfolding apply_no_offer_def mode_defs Let_def decide_def
  by (auto intro!: lwp_intros split: sum.split)

lemma lwp_isolate_probe_ok:
  "\<not> probe_failed tr \<Longrightarrow> lwp (isolate_iface (log_net net) i) (\<lambda>_ tr'. \<not> probe_failed tr') tr"
  by (rule lwp_conseq[OF isolate_iface_log]) (auto dest: isolation_no_probe)

context server_contract
begin

lemma selected_fails_closed:
  assumes "\<not> probe_failed tr"
  shows "wpo (apply_selected I cfg (log_net net) (log_gw gw) i)
     (\<lambda>r wt. probe_failed (snd wt) \<longrightarrow> \<not> serving (fst wt) \<and> \<not> is_ok r) (w, tr)"
proof -
  have iso: "wpo (isolate_iface (log_net net) i) (\<lambda>_ wt. \<not> probe_failed (snd wt)) (w, tr)"
    using lwp_isolate_probe_ok[OF assms] by (intro lwp_wpo) simp
  have modes: "\<not> probe_failed tr' \<Longrightarrow> wpo m (\<lambda>r wt. probe_failed (snd wt) \<longrightarrow> \<not> serving (fst wt) \<and> \<not> is_ok r) (w', tr')"
    if "lwp m (\<lambda>_ t. \<not> probe_failed t) tr'" for m :: "('w logw, Status result) io" and w' tr'
    using that by (intro lwp_wpo) (auto elim: lwp_conseq)
  show ?thesis
    unfolding apply_selected_def
    by (rule wpo_bind, rule wpo_conseq[OF iso])
      (auto intro!: wpo_intros wpo_logged_ops wpo_serving_ops modes lwp_probe_ok split: sum.splits)
qed

lemma apply_fails_closed:
  "wpo (apply_with I cfg (log_net net) (log_gw gw))
     (\<lambda>r wt. probe_failed (snd wt) \<longrightarrow> \<not> serving (fst wt) \<and> \<not> is_ok r) (w, [])"
  unfolding apply_with_def
  by (auto intro!: wpo_intros wpo_logged_ops keeps_serving(10)[THEN wpo_serving] selected_fails_closed
      split: sum.splits)

end

section \<open>Routes and addresses\<close>

text \<open>
  \<open>route\<close> is the default route, \<open>has w i c\<close> says that interface \<open>i\<close> has the address \<open>c\<close> (in the
  form \<^verbatim>\<open>a.b.c.d/24\<close>). Adding an address is only promised for a string of that form.
\<close>

text \<open>The state \<^verbatim>\<open>apply_with\<close> leaves, by the mode it reports.\<close>

definition mode_installed ::
  "('w \<Rightarrow> ipv4 option) \<Rightarrow> ('w \<Rightarrow> string \<Rightarrow> string \<Rightarrow> bool) \<Rightarrow> 'n Config \<Rightarrow> Status \<Rightarrow> 'w \<Rightarrow> bool" where
  "mode_installed route has cfg s w \<longleftrightarrow>
     (case st_mode s of
        Client \<Rightarrow> \<forall>c. st_cidr s = Some c \<longrightarrow> has w (st_iface s) c
      | Static \<Rightarrow> route w = Some (gc_ip (cfg_gateway cfg))
      | Gateway \<Rightarrow> route w = None \<and> st_cidr s = Some (gateway_cidr cfg)
          \<and> has w (st_iface s) (gateway_cidr cfg))"

locale addressing_contract =
  fixes net :: "'w NetOps" and gw :: "('w, 'n) GatewayCtl"
    and route :: "'w \<Rightarrow> ipv4 option" and has :: "'w \<Rightarrow> string \<Rightarrow> string \<Rightarrow> bool"
  assumes del_law: "del_default net w = Some (Inr (), w') \<Longrightarrow> route w' = None"
    and replace_law: "replace_default_via net a i w = Some (Inr (), w') \<Longrightarrow> route w' = Some a"
    and server_keeps_route: "server_keep (\<lambda>w. route w = r0) gw"
    and cidr_law: "iface_ipv4_cidr net i w = Some (Some c, w') \<Longrightarrow> has w' i c"
    and add_law: "add_addr net i (format_cidr a) w = Some (Inr (), w') \<Longrightarrow> has w' i (format_cidr a)"
    and routes_keep_addr: "route_keep (\<lambda>w. has w i c) net"
    and server_keeps_addr: "server_keep (\<lambda>w. has w i c) gw"
begin

lemma keeps_route:
  "keeps (\<lambda>w. route w = r0) (dhcp_running gw)"
  "keeps (\<lambda>w. route w = r0) (dhcp_reload_or_restart gw cfg j)"
  using server_keeps_route unfolding server_keep_def by simp_all

lemma keeps_has:
  "keeps (\<lambda>w. has w i c) (dhcp_running gw)" "keeps (\<lambda>w. has w i c) (dhcp_reload_or_restart gw cfg j)"
  "keeps (\<lambda>w. has w i c) (del_default net)"
  using server_keeps_addr routes_keep_addr unfolding server_keep_def route_keep_def by simp_all

lemmas route_kept = keeps_route[THEN keepsD] and has_kept = keeps_has[THEN keepsD]

lemma client_addressed:
  assumes "apply_client cfg net gw i w = Some (Inr s, w')" and "st_cidr s = Some c"
  shows "has w' (st_iface s) c"
proof -
  obtain w1 w2 b where "iface_ipv4_cidr net i w1 = Some (Some c, w2)"
    and run: "dhcp_running gw w2 = Some (b, w')" and "st_iface s = i"
    using assms unfolding apply_client_def io_simps by auto
  then show ?thesis
    using has_kept(1)[OF run] cidr_law by simp
qed

lemma static_routed:
  assumes "apply_static cfg net gw i a w = Some (Inr s, w')"
  shows "route w' = Some (gc_ip (cfg_gateway cfg))"
  using assms unfolding apply_static_def io_simps by (auto intro: route_kept replace_law)

lemma gateway_configured:
  assumes "(if have_cidr \<noteq> Some c then try_io (flush_addr net i) (\<lambda>_. add_addr net i c)
              else return_io (Inr ())) w = Some (Inr u, w')"
    and "c = format_cidr a" and "have_cidr = Some c \<Longrightarrow> has w i c"
  shows "has w' i c"
  using assms by (auto simp: io_simps intro: add_law split: if_splits)

lemma gateway_addressed:
  assumes "apply_gateway cfg net gw i w = Some (Inr s, w')"
  shows "route w' = None \<and> st_cidr s = Some (gateway_cidr cfg) \<and> has w' (st_iface s) (gateway_cidr cfg)"
proof -
  let ?c = "gateway_cidr cfg"
  obtain h w1 u w2 v w3 x w4 b where
      h: "iface_ipv4_cidr net i w = Some (h, w1)"
    and conf: "(if h \<noteq> Some ?c then try_io (flush_addr net i) (\<lambda>_. add_addr net i ?c)
              else return_io (Inr ())) w1 = Some (Inr u, w2)"
    and del: "del_default net w2 = Some (Inr v, w3)"
    and rel: "dhcp_reload_or_restart gw cfg i w3 = Some (Inr x, w4)"
    and run: "dhcp_running gw w4 = Some (b, w')"
    and s: "st_cidr s = Some ?c" "st_iface s = i"
    using assms unfolding apply_gateway_def Let_def io_simps by auto
  have "has w2 i ?c"
    using gateway_configured[OF conf gateway_cidr_def] h cidr_law by metis
  then have "has w' i ?c"
    using has_kept run rel del by metis
  moreover have "route w' = None"
    using route_kept run rel del_law del by auto
  ultimately show ?thesis
    using s by simp
qed

lemma apply_no_offer_installed:
  assumes "apply_no_offer I cfg net gw i w = Some (Inr s, w')"
  shows "mode_installed route has cfg s w'"
proof -
  have "st_mode s = Gateway" if "apply_gateway cfg net gw i w1 = Some (Inr s, w')" for w1
    using that unfolding apply_gateway_def Let_def io_simps by auto
  moreover have "st_mode s = Static" if "apply_static cfg net gw i a w1 = Some (Inr s, w')" for w1 a
    using that unfolding apply_static_def io_simps by auto
  ultimately show ?thesis
    using assms unfolding apply_no_offer_def Let_def io_simps decide_def
    by (auto simp: mode_installed_def dest: gateway_addressed static_routed split: if_splits)
qed

lemma client_installed:
  assumes "apply_client cfg net gw i w = Some (Inr s, w')"
  shows "mode_installed route has cfg s w'"
proof -
  have "st_mode s = Client"
    using assms unfolding apply_client_def io_simps by auto
  then show ?thesis
    using client_addressed[OF assms] by (simp add: mode_installed_def)
qed

lemma apply_installed:
  assumes "apply_with I cfg net gw w = Some (Inr s, w')"
  shows "mode_installed route has cfg s w'"
  using assms unfolding apply_with_def apply_selected_def io_simps
  by (auto intro: client_installed apply_no_offer_installed split: if_splits)

end

section \<open>Links\<close>

text \<open>
  \<open>up w i\<close>: the interface is administratively up; \<open>eths\<close> the wired interfaces. Resolving an
  interface may bring up candidates, so it is not said to keep anything.
\<close>

locale link_contract =
  fixes net :: "'w NetOps" and gw :: "('w, 'n) GatewayCtl"
    and up :: "'w \<Rightarrow> string \<Rightarrow> bool" and eths :: "string set"
  assumes reads_keep_links: "reads_keep (\<lambda>w. \<not> up w j) net"
    and addr_keep_links: "addr_keep (\<lambda>w. \<not> up w j) net"
    and route_keep_links: "route_keep (\<lambda>w. \<not> up w j) net"
    and server_keep_links: "server_keep (\<lambda>w. \<not> up w j) gw"
    and link_is_up_law: "link_is_up net i w = Some (b, w') \<Longrightarrow> b = up w i"
    and bring_up_law: "j \<noteq> i \<Longrightarrow> keeps (\<lambda>w. \<not> up w j) (bring_up net i)"
    and set_down_keeps: "keeps (\<lambda>w. \<not> up w j) (set_down net i)"

text \<open>Hosts on which listing the interfaces and setting a link down do not fail.\<close>

locale reliable_links = link_contract +
  assumes list_law: "list_ethernet net w = Some (r, w') \<Longrightarrow> \<exists>names. r = Inr names \<and> eths \<subseteq> set names"
    and set_down_law: "set_down net i w = Some (d, w') \<Longrightarrow> \<not> up w' i"
begin

lemma keeps_links:
  "keeps (\<lambda>w. \<not> up w j) (iface_has_ipv4 net i)" "keeps (\<lambda>w. \<not> up w j) (iface_ipv4_cidr net i)"
  "keeps (\<lambda>w. \<not> up w j) (link_is_up net i)" "keeps (\<lambda>w. \<not> up w j) (ipv4_addr_is_local net a)"
  "keeps (\<lambda>w. \<not> up w j) (ping net a)" "keeps (\<lambda>w. \<not> up w j) (wait_ipv4 net i ms)"
  "keeps (\<lambda>w. \<not> up w j) (flush_addr net i)" "keeps (\<lambda>w. \<not> up w j) (add_addr net i s)"
  "keeps (\<lambda>w. \<not> up w j) (stop_dhclient net i)" "keeps (\<lambda>w. \<not> up w j) (start_dhclient net i)"
  "keeps (\<lambda>w. \<not> up w j) (replace_default_via net a i)" "keeps (\<lambda>w. \<not> up w j) (del_default net)"
  "keeps (\<lambda>w. \<not> up w j) (dhcp_running gw)" "keeps (\<lambda>w. \<not> up w j) (dhcp_stop gw)"
  "keeps (\<lambda>w. \<not> up w j) (dhcp_reload_or_restart gw cfg i)" "keeps (\<lambda>w. \<not> up w j) (probe_foreign_dhcp gw i t)"
  using reads_keep_links addr_keep_links route_keep_links server_keep_links unfolding keep_defs by simp_all

lemma modes_keep_links:
  "keeps (\<lambda>w. \<not> up w j) (apply_client cfg net gw i)"
  "keeps (\<lambda>w. \<not> up w j) (apply_no_offer I cfg net gw i)"
  unfolding apply_no_offer_def mode_defs Let_def decide_def
  by (auto intro!: keeps_bind keeps_try keeps_links)

lemma isolate_one_keeps: "keeps (\<lambda>w. \<not> up w j) (isolate_one net keep name)"
  unfolding isolate_one_def map_io_def by (auto intro!: keeps_bind keeps_links set_down_keeps)

lemma isolate_one_downs:
  assumes "isolate_one net keep name w = Some (u, w')" and "name \<noteq> keep"
  shows "\<not> up w' name"
proof -
  obtain b w1 skip w2 where b: "link_is_up net name w = Some (b, w1)"
    and skip: "(if b then return_io False else map_io (\<lambda>c. c = None) (iface_ipv4_cidr net name)) w1
      = Some (skip, w2)"
    and rest: "(if skip then return_io () else bind_io (stop_dhclient net name) (\<lambda>_.
        bind_io (flush_addr net name) (\<lambda>_. bind_io (set_down net name) (\<lambda>_. return_io ())))) w2 = Some (u, w')"
    using assms unfolding isolate_one_def by (auto simp: io_simps)
  show ?thesis
  proof (cases skip)
    case True
    then have "\<not> b" and "iface_ipv4_cidr net name w1 = Some (None, w2)"
      using skip by (auto simp: io_simps split: if_splits)
    then have "\<not> up w2 name"
      using b link_is_up_law keepsD[OF keeps_links(3) b] keepsD[OF keeps_links(2)] by blast
    then show ?thesis using rest True by (simp add: io_simps)
  next
    case False
    then show ?thesis using rest set_down_law by (auto simp: io_simps)
  qed
qed

lemma isolate_downs:
  assumes "isolate_iface net keep w = Some (u, w')" and "j \<in> eths" and "j \<noteq> keep"
  shows "\<not> up w' j"
proof -
  have loop: "\<not> up w' j" if "for_io names (isolate_one net keep) w = Some (u, w')"
    and "j \<in> set names \<or> \<not> up w j" for names w
    using that
  proof (induction names arbitrary: w)
    case (Cons n names)
    then obtain v w1 where n: "isolate_one net keep n w = Some (v, w1)"
      and rest: "for_io names (isolate_one net keep) w1 = Some (u, w')"
      by (auto simp: io_simps)
    have "j \<in> set names \<or> \<not> up w1 j"
      using Cons.prems(2) isolate_one_downs[OF n] keepsD[OF isolate_one_keeps n] \<open>j \<noteq> keep\<close> by auto
    then show ?case using Cons.IH rest by blast
  qed (simp add: io_simps)
  obtain r w1 where r: "list_ethernet net w = Some (r, w1)"
    using assms(1) unfolding isolate_iface_def by (auto simp: io_simps)
  then obtain names where "r = Inr names" "eths \<subseteq> set names"
    using list_law by blast
  then show ?thesis
    using assms r loop[of names w1] unfolding isolate_iface_def by (auto simp: io_simps)
qed

lemma selected_exclusive:
  assumes "apply_selected I cfg net gw i w = Some (r, w')" and "j \<in> eths" and "j \<noteq> i"
  shows "\<not> up w' j"
proof -
  let ?tail = "try_io (bring_up net i) (\<lambda>_. try_io (stop_dhclient net i) (\<lambda>_.
      bind_io (dhcp_running gw) (\<lambda>running. try_io (if running then dhcp_stop gw else return_io (Inr ())) (\<lambda>_.
      try_io (probe_foreign_dhcp gw i (probe_timeout_secs cfg)) (\<lambda>foreign_dhcp.
      if foreign_dhcp then apply_client cfg net gw i else apply_no_offer I cfg net gw i)))))"
  obtain u w1 where iso: "isolate_iface net i w = Some (u, w1)" and rest: "?tail w1 = Some (r, w')"
    using assms(1) unfolding apply_selected_def bind_io_Some[of "isolate_iface net i"] by blast
  have "keeps (\<lambda>w. \<not> up w j) ?tail"
    by (auto intro!: keeps_bind keeps_try keeps_links modes_keep_links bring_up_law assms)
  then show ?thesis
    using rest isolate_downs[OF iso assms(2,3)] unfolding keeps_def by blast
qed

lemma apply_exclusive:
  assumes "apply_with I cfg net gw w = Some (Inr s, w')" and "j \<in> eths" and "j \<noteq> st_iface s"
  shows "\<not> up w' j"
proof -
  obtain i w1 where "apply_selected I cfg net gw i w1 = Some (Inr s, w')"
    using assms(1) unfolding apply_with_def by (auto simp: io_simps)
  moreover from this have "st_iface s = i"
    by (rule apply_selected_iface)
  ultimately show ?thesis
    using selected_exclusive assms(2,3) by blast
qed

end

section \<open>The state of the host after a run\<close>

text \<open>
  Claim C12. On every host whose DHCP server obeys the contract, a successful \<^verbatim>\<open>apply_with\<close> leaves
  our server serving exactly in gateway mode, and \<^verbatim>\<open>dnsmasq_running\<close> in the status says so.
\<close>

theorem apply_serves_iff_gateway:
  assumes "server_contract net gw serving" and "apply_with I cfg net gw w = Some (Inr s, w')"
  shows "serving w' = (st_mode s = Gateway) \<and> st_dnsmasq_running s = serving w'"
  using wpoD[OF server_contract.apply_serving[OF assms(1)] assms(2)] by simp

text \<open>
  Claim C3. The daemon fails closed: on every host whose DHCP server obeys the contract, a run of
  \<^verbatim>\<open>apply_with\<close> in which the probe for a foreign server fails returns an error and leaves our
  server down, whatever state it was in before.
\<close>

theorem apply_probe_fails_closed:
  assumes "server_contract net gw serving" and "apply_with I cfg net gw w = Some (r, w')"
  shows "\<exists>tr. apply_with I cfg (log_net net) (log_gw gw) (w, []) = Some (r, (w', tr)) \<and>
    (probe_failed tr \<longrightarrow> \<not> serving w' \<and> \<not> is_ok r)"
  using wpoD[OF server_contract.apply_fails_closed[OF assms(1)]]
    erases_run[OF apply_with_erases assms(2)] by fastforce



text \<open>
  Claim C27. A successful \<^verbatim>\<open>teardown_with\<close> leaves our DHCP server down and reports no address.
\<close>

theorem teardown_stops_server:
  assumes "server_contract net gw serving" and "teardown_with I cfg net gw w = Some (Inr s, w')"
  shows "\<not> serving w' \<and> \<not> st_dnsmasq_running s \<and> st_cidr s = None"
  using wpoD[OF server_contract.teardown_serving[OF assms(1)] assms(2)] by simp

end
