(* ===== verification/Fake_Net.thy ===== *)
theory Fake_Net
  imports Host_Contract "HOL-Library.AList"
begin

text \<open>
  The simulated network and gateway of the tests of \<^verbatim>\<open>apply/mod.rs\<close>: \<^verbatim>\<open>FakeNet\<close> and \<^verbatim>\<open>FakeGw\<close>.
  Their plain fields are parameters, their \<^verbatim>\<open>Mutex\<close> fields make up the world. They are an
  executable implementation of both traits, on which the unit tests are replayed and the general
  theorems are instantiated.
\<close>

section \<open>State\<close>

record FakeNet =
  fk_ping_ok :: bool
  fk_carrier :: bool
  fk_ifaces :: "string list"
  fk_carriers :: "(string \<times> bool) list"
  fk_fail_list :: bool

record FakeGw =
  fk_offer :: bool
  fk_fail_probe :: bool

record fake =
  fk_addrs :: "(string \<times> ipv4 list) list"
  fk_dhclient :: bool
  fk_default_via :: "ipv4 option"
  fk_flushed :: "string list"
  fk_downed :: "string list"
  fk_upped :: "string list"
  fk_admin_up :: "string list"
  fk_sticky_local :: "ipv4 list"
  fk_running :: bool
  fk_started :: bool

definition fake_init :: "string list \<Rightarrow> fake" where
  "fake_init admin_up = \<lparr> fk_addrs = [], fk_dhclient = False, fk_default_via = None, fk_flushed = [],
     fk_downed = [], fk_upped = [], fk_admin_up = admin_up, fk_sticky_local = [],
     fk_running = False, fk_started = False \<rparr>"

definition FakeNet_new :: "bool \<Rightarrow> FakeNet \<times> fake" where
  "FakeNet_new ping_ok = (\<lparr> fk_ping_ok = ping_ok, fk_carrier = True, fk_ifaces = [],
     fk_carriers = [], fk_fail_list = False \<rparr>, fake_init [''eth0''])"

definition FakeNet_with_ifaces :: "bool \<Rightarrow> (string \<times> bool) list \<Rightarrow> FakeNet \<times> fake" where
  "FakeNet_with_ifaces ping_ok ifs =
     (\<lparr> fk_ping_ok = ping_ok, fk_carrier = True, fk_ifaces = map fst ifs,
        fk_carriers = rev ifs, fk_fail_list = False \<rparr>,
      fake_init (map fst (filter snd ifs)))"

definition FakeGw_new :: "bool \<Rightarrow> FakeGw" where
  "FakeGw_new offer = \<lparr> fk_offer = offer, fk_fail_probe = False \<rparr>"

definition push_addr :: "string \<Rightarrow> ipv4 \<Rightarrow> fake \<Rightarrow> fake" where
  "push_addr i a w = w\<lparr> fk_addrs :=
     AList.update i ((case map_of (fk_addrs w) i of None \<Rightarrow> [] | Some v \<Rightarrow> v) @ [a]) (fk_addrs w) \<rparr>"

section \<open>Operations\<close>

definition get_io :: "('w \<Rightarrow> 'a) \<Rightarrow> ('w, 'a) io" where
  "get_io f = (\<lambda>w. Some (f w, w))"

definition put_io :: "('w \<Rightarrow> 'w) \<Rightarrow> ('w, unit result) io" where
  "put_io f = (\<lambda>w. Some (Inr (), f w))"

definition fake_ipv4_cidr :: "string \<Rightarrow> fake \<Rightarrow> string option" where
  "fake_ipv4_cidr i w =
     (if fk_dhclient w then Some ''192.168.0.50/24''
      else case map_of (fk_addrs w) i of
        Some (a # _) \<Rightarrow> Some (format_cidr a) | _ \<Rightarrow> None)"

definition fake_physical :: "FakeNet \<Rightarrow> string \<Rightarrow> bool" where
  "fake_physical c name \<longleftrightarrow>
     fk_ifaces c = [] \<and> name = ''eth0'' \<or> name \<in> set (fk_ifaces c)"

definition fake_resolve :: "FakeNet \<Rightarrow> string option \<Rightarrow> string result" where
  "fake_resolve c configured =
     (if configured = None \<or> configured = Some ''auto'' then
        (if fk_ifaces c = [] then Inr ''eth0''
         else case find (\<lambda>n. map_of (fk_carriers c) n = Some True) (fk_ifaces c) of
           Some n \<Rightarrow> Inr n
         | None \<Rightarrow> Inr (hd (fk_ifaces c)))
      else if fake_physical c (the configured) then Inr (the configured)
      else Inl (NotEthernet (the configured)))"

definition fake_add_addr :: "string \<Rightarrow> string \<Rightarrow> fake \<Rightarrow> fake" where
  "fake_add_addr i cidr w =
     push_addr i (case ipv4_parse (hd (split_char (CHR ''/'') cidr)) of None \<Rightarrow> UNSPECIFIED | Some a \<Rightarrow> a) w"

definition fake_is_local :: "ipv4 \<Rightarrow> fake \<Rightarrow> bool" where
  "fake_is_local a w \<longleftrightarrow> a \<in> set (fk_sticky_local w) \<or> (\<exists>(i, v) \<in> set (fk_addrs w). a \<in> set v)"

definition fake_net :: "FakeNet \<Rightarrow> fake NetOps" where
  "fake_net c = \<lparr>
     list_ethernet = return_io (if fk_fail_list c then Inl NoEthernet
       else Inr (if fk_ifaces c = [] then [''eth0''] else fk_ifaces c)),
     is_physical_ethernet = (\<lambda>i. return_io (fake_physical c i)),
     resolve_iface = (\<lambda>conf. return_io (fake_resolve c conf)),
     resolve_iface_passive = (\<lambda>conf. return_io (fake_resolve c conf)),
     bring_up = (\<lambda>i. put_io (\<lambda>w. if i \<in> set (fk_admin_up w) then w
       else w\<lparr> fk_upped := fk_upped w @ [i], fk_admin_up := i # fk_admin_up w \<rparr>)),
     flush_addr = (\<lambda>i. put_io (\<lambda>w. w\<lparr> fk_flushed := fk_flushed w @ [i],
       fk_addrs := AList.delete i (fk_addrs w) \<rparr>)),
     add_addr = (\<lambda>i cidr. put_io (fake_add_addr i cidr)),
     iface_has_ipv4 = (\<lambda>i. get_io (\<lambda>w. fake_ipv4_cidr i w \<noteq> None)),
     iface_has_addr = (\<lambda>i a. get_io (\<lambda>w. case map_of (fk_addrs w) i of
       None \<Rightarrow> False | Some v \<Rightarrow> a \<in> set v)),
     iface_ipv4_cidr = (\<lambda>i. get_io (fake_ipv4_cidr i)),
     carrier_up = (\<lambda>i. return_io (if fk_ifaces c = [] then fk_carrier c
       else map_of (fk_carriers c) i = Some True)),
     link_is_up = (\<lambda>i. get_io (\<lambda>w. i \<in> set (fk_admin_up w))),
     set_down = (\<lambda>i. put_io (\<lambda>w. w\<lparr> fk_downed := fk_downed w @ [i],
       fk_admin_up := removeAll i (fk_admin_up w) \<rparr>)),
     ipv4_addr_is_local = (\<lambda>a. get_io (fake_is_local a)),
     ping = (\<lambda>a. return_io (fk_ping_ok c)),
     stop_dhclient = (\<lambda>i. put_io (\<lambda>w. w\<lparr> fk_dhclient := False \<rparr>)),
     start_dhclient = (\<lambda>i. put_io (\<lambda>w. w\<lparr> fk_dhclient := True \<rparr>)),
     dhclient_running = (\<lambda>i. get_io fk_dhclient),
     wait_ipv4 = (\<lambda>i t. get_io (\<lambda>w. fake_ipv4_cidr i w \<noteq> None)),
     replace_default_via = (\<lambda>a i. put_io (\<lambda>w. w\<lparr> fk_default_via := Some a \<rparr>)),
     del_default = put_io (\<lambda>w. w\<lparr> fk_default_via := None \<rparr>) \<rparr>"

definition fake_gw :: "FakeGw \<Rightarrow> (fake, 'n) GatewayCtl" where
  "fake_gw g = \<lparr>
     dhcp_running = get_io fk_running,
     dhcp_stop = put_io (\<lambda>w. w\<lparr> fk_running := False \<rparr>),
     dhcp_reload_or_restart = (\<lambda>cfg i. put_io (\<lambda>w. w\<lparr> fk_running := True, fk_started := True \<rparr>)),
     probe_foreign_dhcp = (\<lambda>i t. return_io (if fk_fail_probe g
       then Inl (DhcpProbe (BindPort (OsError 98))) else Inr (fk_offer g))) \<rparr>"

section \<open>Runs\<close>

lemma get_put_eval [simp]: "get_io f w = Some (f w, w)" "put_io g w = Some (Inr (), g w)"
  by (simp_all add: get_io_def put_io_def)

text \<open>The simulation meets the contracts.\<close>

lemma keeps_get_put:
  "keeps P (get_io f)" "(\<And>w. P w \<Longrightarrow> P (g w)) \<Longrightarrow> keeps P (put_io g)"
  by (auto simp: keeps_def)

lemma fake_ops_running [simp]:
  "fk_running (push_addr i a w) = fk_running w" "fk_running (fake_add_addr i s w) = fk_running w"
  "fk_admin_up (push_addr i a w) = fk_admin_up w" "fk_admin_up (fake_add_addr i s w) = fk_admin_up w"
  "fk_default_via (push_addr i a w) = fk_default_via w"
  by (simp_all add: push_addr_def fake_add_addr_def)

interpretation fake_server: server_contract "fake_net c" "fake_gw g :: (fake, 'n) GatewayCtl" fk_running
  for c g
  by unfold_locales
    (auto simp: keep_defs fake_net_def fake_gw_def wpo_def intro!: keeps_get_put split: if_splits)

definition fake_has :: "fake \<Rightarrow> string \<Rightarrow> string \<Rightarrow> bool" where
  "fake_has w i c \<longleftrightarrow> fake_ipv4_cidr i w = Some c \<or>
     (\<exists>v. map_of (fk_addrs w) i = Some v \<and> c \<in> format_cidr ` set v)"

lemma fake_add_format:
  "fake_add_addr i (format_cidr a) w = push_addr i a w"
  by (simp add: fake_add_addr_def format_cidr_def split_char_append)

lemma push_addr_lookup:
  "map_of (fk_addrs (push_addr i a w)) i =
     Some ((case map_of (fk_addrs w) i of None \<Rightarrow> [] | Some v \<Rightarrow> v) @ [a])"
  by (simp add: push_addr_def update_conv')

lemma fake_add_has: "fake_has (fake_add_addr i (format_cidr a) w) i (format_cidr a)"
  by (simp add: fake_has_def fake_add_format push_addr_lookup)

lemma fake_cidr_has: "fake_ipv4_cidr i w = Some c \<Longrightarrow> fake_has w i c"
  by (simp add: fake_has_def)

lemma fake_has_indep [simp]:
  "fake_has (w\<lparr>fk_running := b\<rparr>) i c = fake_has w i c" "fake_has (w\<lparr>fk_started := b\<rparr>) i c = fake_has w i c"
  "fake_has (w\<lparr>fk_default_via := r\<rparr>) i c = fake_has w i c"
  by (simp_all add: fake_has_def fake_ipv4_cidr_def)

interpretation fake_addressing: addressing_contract "fake_net c" "fake_gw g :: (fake, 'n) GatewayCtl"
    fk_default_via fake_has
  for c g
  by unfold_locales
    (auto simp: keep_defs fake_net_def fake_gw_def fake_add_has fake_cidr_has intro!: keeps_get_put)

definition fake_up :: "fake \<Rightarrow> string \<Rightarrow> bool" where
  "fake_up w i \<longleftrightarrow> i \<in> set (fk_admin_up w)"

definition fake_eths :: "FakeNet \<Rightarrow> string set" where
  "fake_eths c = (if fk_fail_list c then {} else if fk_ifaces c = [] then {''eth0''} else set (fk_ifaces c))"

interpretation fake_links: link_contract "fake_net c" "fake_gw g :: (fake, 'n) GatewayCtl" fake_up "fake_eths c"
  for c g
  by unfold_locales
    (auto simp: keep_defs fake_net_def fake_gw_def fake_up_def intro!: keeps_get_put split: if_splits)

text \<open>A simulation that is not told to fail listing.\<close>

definition listing :: "FakeNet \<Rightarrow> FakeNet" where
  "listing c = c\<lparr>fk_fail_list := False\<rparr>"

interpretation fake_reliable: reliable_links "fake_net (listing c)" "fake_gw g :: (fake, 'n) GatewayCtl"
    fake_up "fake_eths (listing c)"
  for c g
  by unfold_locales (auto simp: fake_net_def fake_up_def fake_eths_def listing_def)

section \<open>The unit tests\<close>

lemma static_not_gateway:
  assumes "validate I cfg = Inr ()"
  shows "static_addr I cfg \<noteq> gc_ip (cfg_gateway cfg)"
proof -
  have "host_octet (static_addr I cfg) = gc_static_host (cfg_gateway cfg)"
    by (simp add: static_addr_def host_addr_def Let_def)
  then show ?thesis
    using assms by (auto simp: validate_valid valid_config_def)
qed

lemma cidr_inj: "format_cidr a = format_cidr b \<longleftrightarrow> a = b"
  by (auto simp: format_cidr_def)

text \<open>
  Claim C26. On the simulated single-interface host, the full \<^verbatim>\<open>apply_with\<close> agrees with the
  decide-only \<^verbatim>\<open>decide_status\<close> for every valid configuration, every answer of the probe and of the
  ping: it returns, and the status differs at most in the lease address of client mode; our
  server runs afterwards exactly in gateway mode, dhclient exactly in client mode, and the default
  route goes through the gateway exactly in static mode.
\<close>

theorem fake_apply_decides:
  assumes "validate I cfg = Inr ()" and "cfg_interface cfg \<in> {None, Some ''auto''}"
  shows "\<exists>w. apply_with I cfg (fake_net (fst (FakeNet_new png))) (fake_gw (FakeGw_new offer))
        (snd (FakeNet_new png)) =
      Some (Inr (if offer
          then (decide_status I ''eth0'' True False cfg)\<lparr>st_cidr := Some ''192.168.0.50/24''\<rparr>
          else decide_status I ''eth0'' False png cfg), w)
    \<and> fk_running w = (decide offer png = Gateway) \<and> fk_dhclient w = (decide offer png = Client)
    \<and> fk_default_via w = (if decide offer png = Static then Some (gc_ip (cfg_gateway cfg)) else None)"
  using assms static_not_gateway[OF assms(1)]
  by (cases offer; cases png)
    (auto simp: FakeNet_new_def FakeGw_new_def fake_net_def fake_gw_def fake_init_def apply_defs Let_def
      isolate_iface_def isolate_one_def bind_io_def try_io_def fake_resolve_def decide_def decide_status_def
      fake_ipv4_cidr_def fake_is_local_def static_cidr_def gateway_cidr_def fake_add_format push_addr_def cidr_inj)

abbreviation dcfg :: "(ipv4 \<times> u8) Config" where
  "dcfg \<equiv> default_Config addr_prefix_net"

abbreviation fake_apply :: "FakeNet \<times> fake \<Rightarrow> FakeGw \<Rightarrow> (Status result \<times> fake) option" where
  "fake_apply n g \<equiv> apply_with addr_prefix_net dcfg (fake_net (fst n)) (fake_gw g) (snd n)"

abbreviation fake_teardown :: "FakeNet \<times> fake \<Rightarrow> FakeGw \<Rightarrow> (Status result \<times> fake) option" where
  "fake_teardown n g \<equiv> teardown_with addr_prefix_net dcfg (fake_net (fst n)) (fake_gw g) (snd n)"

abbreviation test_ifaces :: "FakeNet \<times> fake" where
  "test_ifaces \<equiv> FakeNet_with_ifaces False [(''eth0'', False), (''eth1'', True)]"

abbreviation test_busy :: "FakeNet \<times> fake" where
  "test_busy \<equiv> (fst test_ifaces, push_addr ''eth0'' (Ipv4 192 168 0 1) (snd test_ifaces))"

abbreviation test_full :: "FakeNet \<times> fake" where
  "test_full \<equiv> (fst test_ifaces, push_addr ''eth1'' (Ipv4 192 168 0 252) (snd test_busy))"

text \<open>What a test asserts of a successful run.\<close>

definition assert_ok :: "(Status result \<times> fake) option \<Rightarrow> (Status \<Rightarrow> fake \<Rightarrow> bool) \<Rightarrow> bool" where
  "assert_ok run P \<longleftrightarrow> (case run of Some (Inr s, w) \<Rightarrow> P s w | _ \<Rightarrow> False)"

lemma assert_okE:
  assumes "assert_ok run P"
  obtains s w where "run = Some (Inr s, w)" "P s w"
  using assms unfolding assert_ok_def by (rule ran_ok)

definition three_outcomes :: bool where
  "three_outcomes \<longleftrightarrow> decide True False = Client \<and> decide False True = Static \<and> decide False False = Gateway
     \<and> (let s = decide_status addr_prefix_net ''eth0'' False False dcfg in st_mode s = Gateway \<and> st_cidr s = Some ''192.168.0.1/24'')
     \<and> (let s = decide_status addr_prefix_net ''eth0'' False True dcfg in st_mode s = Static \<and> st_cidr s = Some ''192.168.0.252/24'')
     \<and> (let s = decide_status addr_prefix_net ''eth0'' True False dcfg in st_mode s = Client)"

definition apply_foreign_dhcp_is_client_with_real_cidr :: bool where
  "apply_foreign_dhcp_is_client_with_real_cidr \<longleftrightarrow>
     assert_ok (fake_apply (FakeNet_new False) (FakeGw_new True)) (\<lambda>s w. st_mode s = Client \<and> st_foreign_dhcp s
       \<and> \<not> fk_started w \<and> fk_dhclient w \<and> st_cidr s = Some ''192.168.0.50/24'')"

definition apply_ping_ok_is_static_252 :: bool where
  "apply_ping_ok_is_static_252 \<longleftrightarrow>
     assert_ok (fake_apply (FakeNet_new True) (FakeGw_new False)) (\<lambda>s w. st_mode s = Static
       \<and> st_cidr s = Some ''192.168.0.252/24'' \<and> fk_default_via w = Some (gc_ip (cfg_gateway dcfg)) \<and> \<not> fk_started w)"

definition apply_no_offer_no_ping_is_gateway :: bool where
  "apply_no_offer_no_ping_is_gateway \<longleftrightarrow>
     assert_ok (fake_apply (FakeNet_new False) (FakeGw_new False)) (\<lambda>s w. st_mode s = Gateway
       \<and> st_cidr s = Some ''192.168.0.1/24'' \<and> fk_started w \<and> fk_default_via w = None)"

definition probe_err_does_not_start_dnsmasq :: bool where
  "probe_err_does_not_start_dnsmasq \<longleftrightarrow>
     (case fake_apply (FakeNet_new False) ((FakeGw_new False)\<lparr> fk_fail_probe := True \<rparr>) of
        Some (Inl (DhcpProbe m), w) \<Rightarrow> \<not> fk_started w \<and> \<not> fk_running w | _ \<Rightarrow> False)"

definition teardown_stops_managed_state :: bool where
  "teardown_stops_managed_state \<longleftrightarrow>
     assert_ok (fake_teardown (fst (FakeNet_new False), push_addr ''eth0'' (Ipv4 192 168 0 1)
         ((snd (FakeNet_new False))\<lparr> fk_running := True, fk_dhclient := True \<rparr>)) (FakeGw_new False))
       (\<lambda>s w. st_cidr s = None \<and> \<not> fk_running w \<and> \<not> fk_dhclient w \<and> fk_addrs w = [] \<and> ''eth0'' \<in> set (fk_flushed w))"

definition apply_auto_picks_iface_with_carrier :: bool where
  "apply_auto_picks_iface_with_carrier \<longleftrightarrow>
     assert_ok (fake_apply test_ifaces (FakeGw_new False)) (\<lambda>s w. st_iface s = ''eth1'' \<and> st_mode s = Gateway
       \<and> st_cidr s = Some ''192.168.0.1/24'' \<and> fk_upped w = [])"

definition teardown_auto_passive_resolves_same_iface :: bool where
  "teardown_auto_passive_resolves_same_iface \<longleftrightarrow>
     assert_ok (fake_apply test_ifaces (FakeGw_new False)) (\<lambda>s w.
       assert_ok (fake_teardown (fst test_ifaces, w) (FakeGw_new False)) (\<lambda>s w. st_iface s = ''eth1''))"

definition apply_isolates_non_selected_ethernet :: bool where
  "apply_isolates_non_selected_ethernet \<longleftrightarrow>
     assert_ok (fake_apply test_busy (FakeGw_new False)) (\<lambda>s w. st_iface s = ''eth1'' \<and> st_mode s = Gateway
       \<and> st_cidr s = Some ''192.168.0.1/24'' \<and> ''eth0'' \<in> set (fk_downed w) \<and> ''eth1'' \<notin> set (fk_downed w)
       \<and> ''eth0'' \<in> set (fk_flushed w) \<and> map_of (fk_addrs w) ''eth0'' = None
       \<and> map_of (fk_addrs w) ''eth1'' = Some [Ipv4 192 168 0 1])"

definition isolate_skips_already_down_without_addr :: bool where
  "isolate_skips_already_down_without_addr \<longleftrightarrow>
     assert_ok (fake_apply test_ifaces (FakeGw_new False)) (\<lambda>s w. st_iface s = ''eth1'' \<and> ''eth0'' \<notin> set (fk_downed w))"

definition apply_gateway_keeps_existing_addr :: bool where
  "apply_gateway_keeps_existing_addr \<longleftrightarrow>
     assert_ok (fake_apply (fst test_ifaces, push_addr ''eth1'' (Ipv4 192 168 0 1) (snd test_ifaces)) (FakeGw_new False))
       (\<lambda>s w. st_mode s = Gateway \<and> st_cidr s = Some ''192.168.0.1/24'' \<and> ''eth1'' \<notin> set (fk_flushed w)
       \<and> map_of (fk_addrs w) ''eth1'' = Some [Ipv4 192 168 0 1] \<and> fk_started w)"

definition gateway_ip_local_on_other_iface_is_not_reachable :: bool where
  "gateway_ip_local_on_other_iface_is_not_reachable \<longleftrightarrow>
     assert_ok (fake_apply (fst (FakeNet_new True),
         (snd (FakeNet_new True))\<lparr> fk_sticky_local := [Ipv4 192 168 0 1] \<rparr>) (FakeGw_new False))
       (\<lambda>s w. st_mode s = Gateway \<and> st_cidr s = Some ''192.168.0.1/24'' \<and> fk_started w \<and> fk_default_via w = None)"

definition isolate_survives_list_ethernet_error :: bool where
  "isolate_survives_list_ethernet_error \<longleftrightarrow>
     assert_ok (fake_apply ((fst test_ifaces)\<lparr> fk_fail_list := True \<rparr>, snd test_ifaces) (FakeGw_new False))
       (\<lambda>s w. st_iface s = ''eth1'' \<and> st_mode s = Gateway \<and> fk_downed w = [])"

definition teardown_flushes_all_ethernet :: bool where
  "teardown_flushes_all_ethernet \<longleftrightarrow>
     assert_ok (fake_teardown test_full (FakeGw_new False)) (\<lambda>s w. st_cidr s = None
       \<and> ''eth0'' \<in> set (fk_flushed w) \<and> ''eth1'' \<in> set (fk_flushed w) \<and> fk_addrs w = [])"

text \<open>Two more runs: the tests' two interfaces with dnsmasq started, and an address kept in static mode.\<close>

abbreviation busy_gateway :: bool where
  "busy_gateway \<equiv> assert_ok (fake_apply test_busy (FakeGw_new False))
     (\<lambda>s w. st_iface s = ''eth1'' \<and> st_mode s = Gateway \<and> st_cidr s = Some ''192.168.0.1/24'' \<and> fk_started w)"

abbreviation kept_static :: bool where
  "kept_static \<equiv> assert_ok (fake_apply (fst (FakeNet_new True), push_addr ''eth0'' (Ipv4 10 0 0 5) (snd (FakeNet_new True)))
       (FakeGw_new False))
     (\<lambda>s w. st_mode s = Static \<and> st_cidr s = Some ''192.168.0.252/24'' \<and> fk_addrs w = [(''eth0'', [Ipv4 10 0 0 5])])"

abbreviation default_plan :: bool where
  "default_plan \<equiv> cfg_interface dcfg \<in> {None, Some ''auto''} \<and> gc_ip (cfg_gateway dcfg) = Ipv4 192 168 0 1"

abbreviation busy_again :: bool where
  "busy_again \<equiv> assert_ok (fake_apply test_busy (FakeGw_new False))
     (\<lambda>s w. assert_ok (fake_apply (fst test_busy, w) (FakeGw_new False)) (\<lambda>s' w'. st_mode s' = Gateway))"

lemmas apply_tests = teardown_flushes_all_ethernet_def three_outcomes_def
  apply_foreign_dhcp_is_client_with_real_cidr_def apply_ping_ok_is_static_252_def apply_no_offer_no_ping_is_gateway_def
  probe_err_does_not_start_dnsmasq_def teardown_stops_managed_state_def apply_auto_picks_iface_with_carrier_def
  teardown_auto_passive_resolves_same_iface_def apply_isolates_non_selected_ethernet_def
  isolate_skips_already_down_without_addr_def apply_gateway_keeps_existing_addr_def
  gateway_ip_local_on_other_iface_is_not_reachable_def isolate_survives_list_ethernet_error_def

text \<open>All tests of the module pass on the model.\<close>

lemma fake_runs:
  "busy_gateway \<and> kept_static \<and> default_plan \<and> busy_again"
  unfolding with_valid[OF default_Config_valid] by code_simp

lemma apply_tests_pass:
  "teardown_flushes_all_ethernet \<and> three_outcomes
   \<and> apply_foreign_dhcp_is_client_with_real_cidr \<and> apply_ping_ok_is_static_252 \<and> apply_no_offer_no_ping_is_gateway
   \<and> probe_err_does_not_start_dnsmasq \<and> teardown_stops_managed_state \<and> apply_auto_picks_iface_with_carrier
   \<and> teardown_auto_passive_resolves_same_iface \<and> apply_isolates_non_selected_ethernet
   \<and> isolate_skips_already_down_without_addr \<and> apply_gateway_keeps_existing_addr
   \<and> gateway_ip_local_on_other_iface_is_not_reachable \<and> isolate_survives_list_ethernet_error"
  unfolding apply_tests with_valid[OF default_Config_valid] by code_simp

lemma busy_run:
  obtains s w where "fake_apply test_busy (FakeGw_new False) = Some (Inr s, w)" "st_iface s = ''eth1''"
    "st_mode s = Gateway" "st_cidr s = Some ''192.168.0.1/24''" "fk_started w"
  using assert_okE[OF fake_runs[THEN conjunct1]] by metis

lemma full_teardown:
  obtains s w where "fake_teardown test_full (FakeGw_new False) = Some (Inr s, w)"
proof -
  have "teardown_flushes_all_ethernet"
    using apply_tests_pass by blast
  then show ?thesis
    using that unfolding teardown_flushes_all_ethernet_def by (elim assert_okE)
qed

theorem fake_apply_decides_witness:
  "\<exists>w. fake_apply (FakeNet_new True) (FakeGw_new False) =
      Some (Inr (decide_status addr_prefix_net ''eth0'' False True dcfg), w)
    \<and> fk_default_via w = Some (Ipv4 192 168 0 1)"
proof -
  have default_plan
    using fake_runs by blast
  then show ?thesis
    using fake_apply_decides[of addr_prefix_net dcfg True False] default_Config_valid
    by (auto simp: decide_def)
qed


theorem apply_serves_iff_gateway_witness:
  "\<exists>s w. fake_apply test_busy (FakeGw_new False) = Some (Inr s, w) \<and> fk_running w \<and> st_dnsmasq_running s"
proof -
  obtain s w where run: "fake_apply test_busy (FakeGw_new False) = Some (Inr s, w)" and "st_mode s = Gateway"
    by (rule busy_run)
  then show ?thesis
    using apply_serves_iff_gateway[OF fake_server.server_contract_axioms run] by blast
qed

fun failed_probe :: "call \<Rightarrow> bool" where
  "failed_probe (CProbe i t (Inl e)) = True"
| "failed_probe _ = False"

lemma failed_probe_iff: "list_ex failed_probe tr = probe_failed tr"
  by (auto simp: probe_failed_def list_ex_iff elim!: failed_probe.elims(2) intro: bexI[rotated])

lemma logged_case: "(case x of Some (r, (w, tr)) \<Rightarrow> P tr | None \<Rightarrow> False) \<Longrightarrow> \<exists>r w tr. x = Some (r, (w, tr)) \<and> P tr"
  by (auto split: option.splits)

theorem apply_probe_fails_closed_witness:
  "\<exists>r w tr. apply_with addr_prefix_net dcfg (log_net (fake_net (fst (FakeNet_new False))))
      (log_gw (fake_gw \<lparr>fk_offer = False, fk_fail_probe = True\<rparr>))
      ((snd (FakeNet_new False))\<lparr>fk_running := True\<rparr>, []) = Some (r, (w, tr))
    \<and> probe_failed tr \<and> \<not> fk_running w"
proof -
  let ?net = "fake_net (fst (FakeNet_new False))" and ?gw = "fake_gw \<lparr>fk_offer = False, fk_fail_probe = True\<rparr>"
  let ?w = "(snd (FakeNet_new False))\<lparr>fk_running := True\<rparr>"
  have "case apply_with addr_prefix_net dcfg (log_net ?net) (log_gw ?gw) (?w, []) of
      Some (r, (w, tr)) \<Rightarrow> list_ex failed_probe tr | None \<Rightarrow> False"
    by code_simp
  then obtain r w tr where log: "apply_with addr_prefix_net dcfg (log_net ?net) (log_gw ?gw) (?w, []) = Some (r, (w, tr))"
    and failed: "probe_failed tr"
    using failed_probe_iff logged_case by metis
  have "apply_with addr_prefix_net dcfg ?net ?gw ?w = Some (r, w)"
    by (rule erases_log[OF apply_with_erases log])
  from apply_probe_fails_closed[OF fake_server.server_contract_axioms this] show ?thesis
    using log failed by auto
qed



theorem teardown_stops_server_witness:
  "\<exists>s w. fake_teardown test_full (FakeGw_new False)
      = Some (Inr s, w) \<and> \<not> fk_running w"
proof -
  obtain s w where run: "fake_teardown test_full
      (FakeGw_new False) = Some (Inr s, w)"
    by (rule full_teardown)
  then show ?thesis
    using teardown_stops_server[OF fake_server.server_contract_axioms run] by blast
qed

theorem apply_calls_in_order_witness:
  "\<exists>r w tr. apply_with addr_prefix_net dcfg (log_net (fake_net (fst test_busy))) (log_gw (fake_gw (FakeGw_new False)))
      (snd test_busy, []) = Some (r, (w, tr)) \<and> (\<forall>n < length tr. allowed (set (take n tr)) (tr ! n))"
proof -
  obtain s w where run: "fake_apply test_busy (FakeGw_new False) = Some (Inr s, w)"
    by (rule busy_run)
  then show ?thesis
    using apply_calls_in_order[OF run] by blast
qed


theorem apply_mode_evidence_witness:
  "\<exists>s w tr. apply_with addr_prefix_net dcfg (log_net (fake_net (fst test_busy))) (log_gw (fake_gw (FakeGw_new False)))
      (snd test_busy, []) = Some (Inr s, (w, tr)) \<and> CDhcpReload ''eth1'' (Inr ()) \<in> set tr"
proof -
  obtain s w where run: "fake_apply test_busy (FakeGw_new False) = Some (Inr s, w)"
    and "st_iface s = ''eth1''" "st_mode s = Gateway"
    by (rule busy_run)
  then show ?thesis
    using apply_mode_evidence[OF run] by (auto simp: mode_evidence_def Let_def)
qed

end
