(* ===== verification/Version.thy ===== *)
theory Version
  imports Os
begin

text \<open>
  \<^verbatim>\<open>version.rs\<close>: build metadata, and the reader of the ELF section \<^verbatim>\<open>.micronet.version\<close>. The
  crate is built with overflow checks and \<^verbatim>\<open>panic = "abort"\<close>, so an addition on \<^verbatim>\<open>usize\<close> that
  overflows ends the process: the outcome of a computation is \<open>Panic\<close>, \<open>Absent\<close> (the
  \<^verbatim>\<open>None\<close> that \<^verbatim>\<open>?\<close> returns) or a value. \<^verbatim>\<open>usize\<close> has 64 bits.
\<close>

section \<open>Outcomes\<close>

datatype 'a outcome = Panic | Absent | Val 'a

fun obind :: "'a outcome \<Rightarrow> ('a \<Rightarrow> 'b outcome) \<Rightarrow> 'b outcome" where
  "obind Panic k = Panic"
| "obind Absent k = Absent"
| "obind (Val x) k = k x"

definition usize_add :: "nat \<Rightarrow> nat \<Rightarrow> nat outcome" where
  "usize_add a b = (if a + b < 2 ^ 64 then Val (a + b) else Panic)"

definition usize_checked_add :: "nat \<Rightarrow> nat \<Rightarrow> nat outcome" where
  "usize_checked_add a b = (if a + b < 2 ^ 64 then Val (a + b) else Absent)"

definition usize_checked_mul :: "nat \<Rightarrow> nat \<Rightarrow> nat outcome" where
  "usize_checked_mul a b = (if a * b < 2 ^ 64 then Val (a * b) else Absent)"

text \<open>\<^verbatim>\<open>data.get(a..b)\<close>.\<close>

definition get_range :: "bytes \<Rightarrow> nat \<Rightarrow> nat \<Rightarrow> bytes outcome" where
  "get_range data a b = (if a \<le> b \<and> b \<le> length data then Val (take (b - a) (drop a data)) else Absent)"

section \<open>Reading integers\<close>

fun le_val :: "bytes \<Rightarrow> nat" where
  "le_val [] = 0"
| "le_val (b # bs) = code b + 256 * le_val bs"

definition uint_at :: "nat \<Rightarrow> bytes \<Rightarrow> nat \<Rightarrow> bool \<Rightarrow> nat outcome" where
  "uint_at n data off le =
     obind (usize_add off n) (\<lambda>e. obind (get_range data off e) (\<lambda>b.
     Val (if le then le_val b else le_val (rev b))))"

definition u16_at :: "bytes \<Rightarrow> nat \<Rightarrow> bool \<Rightarrow> nat outcome" where
  "u16_at = uint_at 2"

definition u32_at :: "bytes \<Rightarrow> nat \<Rightarrow> bool \<Rightarrow> nat outcome" where
  "u32_at = uint_at 4"

definition u64_at :: "bytes \<Rightarrow> nat \<Rightarrow> bool \<Rightarrow> nat outcome" where
  "u64_at = uint_at 8"

definition cstr_at :: "bytes \<Rightarrow> nat \<Rightarrow> string outcome" where
  "cstr_at data off =
     (if off \<le> length data
      then case from_utf8 (takeWhile (\<lambda>b. b \<noteq> CHR 0x00) (drop off data)) of
             None \<Rightarrow> Absent | Some s \<Rightarrow> Val s
      else Absent)"

section \<open>Section lookup\<close>

fun elf64_scan :: "bytes \<Rightarrow> string \<Rightarrow> bool \<Rightarrow> nat \<Rightarrow> nat \<Rightarrow> bytes \<Rightarrow> nat list \<Rightarrow> bytes outcome" where
  "elf64_scan data name le shoff shentsize strtab [] = Absent"
| "elf64_scan data name le shoff shentsize strtab (i # is) =
     obind (usize_checked_mul i shentsize) (\<lambda>m.
     obind (usize_checked_add shoff m) (\<lambda>hdr.
     obind (u32_at data hdr le) (\<lambda>name_off.
     obind (cstr_at strtab name_off) (\<lambda>sec_name.
     if sec_name \<noteq> name then elf64_scan data name le shoff shentsize strtab is
     else obind (usize_add hdr 24) (\<lambda>p. obind (u64_at data p le) (\<lambda>offset.
          obind (usize_add hdr 32) (\<lambda>q. obind (u64_at data q le) (\<lambda>sz.
          obind (usize_checked_add offset sz) (\<lambda>e. get_range data offset e)))))))))"

definition elf64_section :: "bytes \<Rightarrow> string \<Rightarrow> bool \<Rightarrow> bytes outcome" where
  "elf64_section data name le =
     obind (u64_at data 40 le) (\<lambda>shoff.
     obind (u16_at data 58 le) (\<lambda>shentsize.
     obind (u16_at data 60 le) (\<lambda>shnum.
     obind (u16_at data 62 le) (\<lambda>shstrndx.
     if shentsize < 64 \<or> shnum = 0 \<or> shstrndx \<ge> shnum then Absent
     else obind (usize_checked_mul shstrndx shentsize) (\<lambda>m.
          obind (usize_checked_add shoff m) (\<lambda>str_hdr.
          obind (usize_add str_hdr 24) (\<lambda>p. obind (u64_at data p le) (\<lambda>str_off.
          obind (usize_add str_hdr 32) (\<lambda>q. obind (u64_at data q le) (\<lambda>str_size.
          obind (usize_checked_add str_off str_size) (\<lambda>e. obind (get_range data str_off e) (\<lambda>strtab.
          elf64_scan data name le shoff shentsize strtab [0..<shnum]))))))))))))"

fun elf32_scan :: "bytes \<Rightarrow> string \<Rightarrow> bool \<Rightarrow> nat \<Rightarrow> nat \<Rightarrow> bytes \<Rightarrow> nat list \<Rightarrow> bytes outcome" where
  "elf32_scan data name le shoff shentsize strtab [] = Absent"
| "elf32_scan data name le shoff shentsize strtab (i # is) =
     obind (usize_checked_mul i shentsize) (\<lambda>m.
     obind (usize_checked_add shoff m) (\<lambda>hdr.
     obind (u32_at data hdr le) (\<lambda>name_off.
     obind (cstr_at strtab name_off) (\<lambda>sec_name.
     if sec_name \<noteq> name then elf32_scan data name le shoff shentsize strtab is
     else obind (usize_add hdr 16) (\<lambda>p. obind (u32_at data p le) (\<lambda>offset.
          obind (usize_add hdr 20) (\<lambda>q. obind (u32_at data q le) (\<lambda>sz.
          obind (usize_checked_add offset sz) (\<lambda>e. get_range data offset e)))))))))"

definition elf32_section :: "bytes \<Rightarrow> string \<Rightarrow> bool \<Rightarrow> bytes outcome" where
  "elf32_section data name le =
     obind (u32_at data 32 le) (\<lambda>shoff.
     obind (u16_at data 46 le) (\<lambda>shentsize.
     obind (u16_at data 48 le) (\<lambda>shnum.
     obind (u16_at data 50 le) (\<lambda>shstrndx.
     if shentsize < 40 \<or> shnum = 0 \<or> shstrndx \<ge> shnum then Absent
     else obind (usize_checked_mul shstrndx shentsize) (\<lambda>m.
          obind (usize_checked_add shoff m) (\<lambda>str_hdr.
          obind (usize_add str_hdr 16) (\<lambda>p. obind (u32_at data p le) (\<lambda>str_off.
          obind (usize_add str_hdr 20) (\<lambda>q. obind (u32_at data q le) (\<lambda>str_size.
          obind (usize_checked_add str_off str_size) (\<lambda>e. obind (get_range data str_off e) (\<lambda>strtab.
          elf32_scan data name le shoff shentsize strtab [0..<shnum]))))))))))))"

definition elf_section_data :: "bytes \<Rightarrow> string \<Rightarrow> bytes outcome" where
  "elf_section_data data name =
     (if length data < 16 \<or> take 4 data \<noteq> CHR 0x7F # ''ELF'' then Absent
      else let cls = code (data ! 4); endian = code (data ! 5); le = (endian = 1) in
        if \<not> le \<and> endian \<noteq> 2 then Absent
        else if cls = 1 then elf32_section data name le
        else if cls = 2 then elf64_section data name le
        else Absent)"

section \<open>Metadata\<close>

record Info =
  inf_version :: string
  inf_tag_commit :: string
  inf_build_commit :: string
  inf_build_time :: string

definition SECTION_NAME :: string where
  "SECTION_NAME = ''.micronet.version''"

text \<open>
  \<open>payload\<close> stands for \<^verbatim>\<open>serde_json::from_slice::<SectionPayload>\<close>: version and commit, or no
  value on a parse error. An overflow panic aborts the process, \<open>abort_io\<close>.
\<close>

definition parse_payload :: "(bytes \<Rightarrow> (string \<times> string) option) \<Rightarrow> bytes \<Rightarrow> (string \<times> string) option" where
  "parse_payload payload raw =
     (if raw = [] then None
      else case payload raw of
        Some (version, commit) \<Rightarrow>
          (let v = trim version; c = trim commit in if v = [] \<and> c = [] then None else Some (v, c))
      | None \<Rightarrow> (let v = trim (from_utf8_lossy raw) in if v = [] then None else Some (v, [])))"

definition read_section_from ::
  "'w os \<Rightarrow> (bytes \<Rightarrow> (string \<times> string) option) \<Rightarrow> path \<Rightarrow> ('w, (string \<times> string) option) io" where
  "read_section_from os payload p =
     bind_io (fs_read os p) (\<lambda>r. case r of
       Inl e \<Rightarrow> return_io None
     | Inr data \<Rightarrow> (case elf_section_data data SECTION_NAME of
         Panic \<Rightarrow> abort_io
       | Absent \<Rightarrow> return_io None
       | Val raw \<Rightarrow> return_io (parse_payload payload raw)))"

text \<open>
  \<^verbatim>\<open>load\<close> of the source. \<open>exe\<close> is \<^verbatim>\<open>std::env::current_exe().ok()\<close>, \<open>commit\<close> and \<open>build_time\<close> the
  two \<^verbatim>\<open>option_env!\<close> values of the build.
\<close>

definition load_info ::
  "'w os \<Rightarrow> (bytes \<Rightarrow> (string \<times> string) option) \<Rightarrow> path option \<Rightarrow> string option \<Rightarrow> string option \<Rightarrow> ('w, Info) io" where
  "load_info os payload exe commit build_time =
     (let out = \<lparr> inf_version = ''dev'', inf_tag_commit = [],
          inf_build_commit = (case commit of None \<Rightarrow> ''unknown'' | Some c \<Rightarrow> c),
          inf_build_time = (case build_time of None \<Rightarrow> [] | Some t \<Rightarrow> t) \<rparr> in
      case exe of None \<Rightarrow> return_io out
      | Some p \<Rightarrow> map_io (\<lambda>sec. case sec of
            None \<Rightarrow> out
          | Some (v, c) \<Rightarrow>
              (let out = (if v \<noteq> [] then out\<lparr>inf_version := v\<rparr> else out)
               in if c \<noteq> [] then out\<lparr>inf_tag_commit := c\<rparr> else out))
          (read_section_from os payload p))"

definition hostname :: "'w os \<Rightarrow> ('w, string) io" where
  "hostname os =
     bind_io (read_to_string os ''/proc/sys/kernel/hostname'') (\<lambda>r.
     bind_io (case r of Inr s \<Rightarrow> return_io (Inr s) | Inl _ \<Rightarrow> read_to_string os ''/etc/hostname'') (\<lambda>r.
     return_io (case r of
       Inl _ \<Rightarrow> ''unknown''
     | Inr s \<Rightarrow> (let t = trim s in if t = [] then ''unknown'' else t))))"

definition format_info :: "'w os \<Rightarrow> Info \<Rightarrow> ('w, string) io" where
  "format_info os info =
     map_io (\<lambda>host. join_char (CHR 0x0A)
       ([''version: '' @ inf_version info, ''build_commit: '' @ inf_build_commit info]
        @ (if inf_tag_commit info \<noteq> [] then [''tag_commit: '' @ inf_tag_commit info] else [])
        @ (if inf_build_time info \<noteq> [] then [''build_time: '' @ inf_build_time info] else [])
        @ [''hostname: '' @ host])) (hostname os)"

section \<open>Bounds and panics\<close>

lemma obind_Val [simp]: "obind m k = Val y \<longleftrightarrow> (\<exists>x. m = Val x \<and> k x = Val y)"
  by (cases m) auto

lemma obind_Panic: "obind m k = Panic \<longleftrightarrow> m = Panic \<or> (\<exists>x. m = Val x \<and> k x = Panic)"
  by (cases m) auto

lemma le_val_less: "le_val bs < 256 ^ length bs"
proof (induction bs)
  case (Cons b bs)
  have "code b < 256" by simp
  with Cons show ?case unfolding le_val.simps length_Cons power_Suc by linarith
qed simp

lemma get_range_Val: "get_range data a b = Val s \<longleftrightarrow> a \<le> b \<and> b \<le> length data \<and> s = take (b - a) (drop a data)"
  by (auto simp: get_range_def)

lemma uint_at_less:
  assumes "uint_at n data off le = Val v"
  shows "v < 256 ^ n"
proof -
  obtain bs where "length bs = n" "v = le_val bs"
    using assms by (auto simp: uint_at_def get_range_Val usize_add_def split: if_splits)
      (metis length_rev length_take length_drop min.absorb2 add_le_imp_le_diff add.commute)+
  then show ?thesis using le_val_less by blast
qed

lemma uint_at_bounds:
  "u16_at data off le = Val v \<Longrightarrow> v < 2 ^ 16"
  "u32_at data off le = Val v \<Longrightarrow> v < 2 ^ 32"
  "u64_at data off le = Val v \<Longrightarrow> v < 2 ^ 64"
  using uint_at_less by (fastforce simp: u16_at_def u32_at_def u64_at_def)+

lemma uint_at_no_panic: "off + n < 2 ^ 64 \<Longrightarrow> uint_at n data off le \<noteq> Panic"
  by (auto simp: uint_at_def obind_Panic usize_add_def get_range_def split: if_splits)

lemma uintN_no_panic:
  "off < 2 ^ 63 \<Longrightarrow> u16_at data off le \<noteq> Panic"
  "off < 2 ^ 63 \<Longrightarrow> u32_at data off le \<noteq> Panic"
  "off < 2 ^ 63 \<Longrightarrow> u64_at data off le \<noteq> Panic"
  unfolding u16_at_def u32_at_def u64_at_def by (rule uint_at_no_panic; simp)+

lemma no_panic_simps:
  "usize_checked_add a b \<noteq> Panic" "usize_checked_mul a b \<noteq> Panic" "get_range data a b \<noteq> Panic"
  "cstr_at data off \<noteq> Panic" "usize_add a b = Panic \<longleftrightarrow> 2 ^ 64 \<le> a + b"
  "usize_add a b = Val x \<longleftrightarrow> x = a + b \<and> a + b < 2 ^ 64"
  "usize_checked_add a b = Val x \<longleftrightarrow> x = a + b \<and> a + b < 2 ^ 64"
  "usize_checked_mul a b = Val x \<longleftrightarrow> x = a * b \<and> a * b < 2 ^ 64"
  by (auto simp: usize_checked_add_def usize_checked_mul_def get_range_def cstr_at_def usize_add_def
      split: option.splits)

text \<open>A section header of a table that starts below \<open>2 ^ 62\<close> is addressed without overflow.\<close>

lemma header_bound:
  fixes shoff i shentsize :: nat
  assumes "i < 2 ^ 16" and "shentsize < 2 ^ 16" and "shoff < 2 ^ 62"
  shows "shoff + i * shentsize + 40 < 2 ^ 63"
proof -
  have "i * shentsize \<le> 2 ^ 16 * 2 ^ 16"
    using assms by (intro mult_le_mono) simp_all
  with assms show ?thesis by simp
qed

lemma elf64_scan_no_panic:
  assumes "shoff < 2 ^ 62" and "shentsize < 2 ^ 16" and "\<forall>i\<in>set is. i < 2 ^ 16"
  shows "elf64_scan data name le shoff shentsize strtab is \<noteq> Panic"
  using assms(3)
proof (induction "is")
  case (Cons i "is")
  have "shoff + i * shentsize + 40 < 2 ^ 63"
    using Cons.prems assms by (intro header_bound) auto
  then show ?case
    using Cons by (auto simp: obind_Panic no_panic_simps uintN_no_panic)
qed simp

lemma elf32_scan_no_panic:
  assumes "shoff < 2 ^ 62" and "shentsize < 2 ^ 16" and "\<forall>i\<in>set is. i < 2 ^ 16"
  shows "elf32_scan data name le shoff shentsize strtab is \<noteq> Panic"
  using assms(3)
proof (induction "is")
  case (Cons i "is")
  have "shoff + i * shentsize + 40 < 2 ^ 63"
    using Cons.prems assms by (intro header_bound) auto
  then show ?case
    using Cons by (auto simp: obind_Panic no_panic_simps uintN_no_panic)
qed simp

text \<open>
  Claim C33. Looking up a section in a 32-bit ELF image never overflows, whatever the bytes of the
  file are: the daemon cannot be crashed by the 32-bit header it reads from its own executable.
\<close>

theorem elf32_section_no_panic: "elf32_section data name le \<noteq> Panic"
proof -
  have b: "shoff < 2 ^ 62" if "u32_at data 32 le = Val shoff" for shoff
    using uint_at_bounds(2)[OF that] by simp
  have scan: "elf32_scan data name le shoff shentsize strtab [0..<shnum] \<noteq> Panic"
    if "u32_at data 32 le = Val shoff" "u16_at data 46 le = Val shentsize" "u16_at data 48 le = Val shnum"
    for shoff shentsize shnum strtab
    using b[OF that(1)] uint_at_bounds(1)[OF that(2)] uint_at_bounds(1)[OF that(3)]
    by (intro elf32_scan_no_panic) auto
  have hdr: "shoff + shstrndx * shentsize + 40 < 2 ^ 63"
    if "u32_at data 32 le = Val shoff" "u16_at data 46 le = Val shentsize" "u16_at data 50 le = Val shstrndx"
    for shoff shentsize shstrndx
    using b[OF that(1)] uint_at_bounds(1)[OF that(2)] uint_at_bounds(1)[OF that(3)]
    by (intro header_bound)
  show ?thesis
    unfolding elf32_section_def
    by (auto simp: obind_Panic no_panic_simps uintN_no_panic dest: scan hdr)
qed

text \<open>
  Claim C31. A 64-bit lookup cannot overflow when the section header table starts below \<open>2 ^ 62\<close>,
  which holds of every file that can be stored.
\<close>

theorem elf64_section_no_panic:
  assumes "u64_at data 40 le = Val shoff" and "shoff < 2 ^ 62"
  shows "elf64_section data name le \<noteq> Panic"
proof -
  have scan: "elf64_scan data name le shoff shentsize strtab [0..<shnum] \<noteq> Panic"
    if "u16_at data 58 le = Val shentsize" "u16_at data 60 le = Val shnum" for shentsize shnum strtab
    using assms(2) uint_at_bounds(1)[OF that(1)] uint_at_bounds(1)[OF that(2)]
    by (intro elf64_scan_no_panic) auto
  have hdr: "shoff + shstrndx * shentsize + 40 < 2 ^ 63"
    if "u16_at data 58 le = Val shentsize" "u16_at data 62 le = Val shstrndx" for shentsize shstrndx
    using assms(2) uint_at_bounds(1)[OF that(1)] uint_at_bounds(1)[OF that(2)]
    by (intro header_bound)
  show ?thesis
    using assms(1) unfolding elf64_section_def
    by (auto simp: obind_Panic no_panic_simps uintN_no_panic dest: scan hdr)
qed

section \<open>The section found\<close>

definition section_name :: "bytes \<Rightarrow> bool \<Rightarrow> nat \<Rightarrow> nat \<Rightarrow> bytes \<Rightarrow> nat \<Rightarrow> string outcome" where
  "section_name data le shoff shentsize strtab i =
     obind (u32_at data (shoff + i * shentsize) le) (cstr_at strtab)"

lemma elf64_scan_first:
  assumes "elf64_scan data name le shoff shentsize strtab is = Val sec"
  shows "\<exists>pre i post off sz. is = pre @ i # post
    \<and> section_name data le shoff shentsize strtab i = Val name
    \<and> (\<forall>j\<in>set pre. \<exists>n. section_name data le shoff shentsize strtab j = Val n \<and> n \<noteq> name)
    \<and> u64_at data (shoff + i * shentsize + 24) le = Val off
    \<and> u64_at data (shoff + i * shentsize + 32) le = Val sz
    \<and> off + sz \<le> length data \<and> sec = take sz (drop off data)"
  using assms
proof (induction "is")
  case (Cons i "is")
  from Cons.prems obtain n where n: "section_name data le shoff shentsize strtab i = Val n"
    and rest: "n \<noteq> name \<Longrightarrow> elf64_scan data name le shoff shentsize strtab is = Val sec"
    and here: "n = name \<Longrightarrow> \<exists>off sz. u64_at data (shoff + i * shentsize + 24) le = Val off
      \<and> u64_at data (shoff + i * shentsize + 32) le = Val sz
      \<and> off + sz \<le> length data \<and> sec = take sz (drop off data)"
    by (auto simp: section_name_def no_panic_simps get_range_Val split: if_splits)
  show ?case
  proof (cases "n = name")
    case True
    with n here show ?thesis by (intro exI[of _ "[]"]) auto
  next
    case False
    from Cons.IH[OF rest[OF False]] obtain pre i' post off sz where
      "is = pre @ i' # post" "section_name data le shoff shentsize strtab i' = Val name"
      "\<forall>j\<in>set pre. \<exists>n. section_name data le shoff shentsize strtab j = Val n \<and> n \<noteq> name"
      "u64_at data (shoff + i' * shentsize + 24) le = Val off"
      "u64_at data (shoff + i' * shentsize + 32) le = Val sz"
      "off + sz \<le> length data" "sec = take sz (drop off data)"
      by blast
    with n False show ?thesis by (intro exI[of _ "i # pre"]) auto
  qed
qed simp

lemma upt_split:
  assumes eq: "[0..<n] = pre @ i # post"
  shows "i < n \<and> set pre = {..<i}"
proof -
  have n: "length pre + Suc (length post) = n"
    using arg_cong[OF eq, of length] by simp
  have pre: "pre = [0..<length pre]"
    using arg_cong[OF eq, of "take (length pre)"] n by (simp add: take_upt)
  have "i = length pre"
    using arg_cong[OF eq, of "\<lambda>l. l ! length pre"] n by simp
  with n show ?thesis by (subst pre) (simp add: atLeast0LessThan)
qed

text \<open>
  Claim C30. What a 64-bit lookup returns is the content of the first section whose name in the
  string table is the one asked for: the slice of the file that this section's header describes,
  inside the file, and every header before it has a readable, different name.
\<close>

theorem elf64_section_first_match:
  assumes "elf64_section data name le = Val sec"
  shows "\<exists>shoff shentsize shnum ndx so ss i off sz.
      u64_at data 40 le = Val shoff \<and> u16_at data 58 le = Val shentsize
    \<and> u16_at data 60 le = Val shnum \<and> u16_at data 62 le = Val ndx \<and> ndx < shnum
    \<and> u64_at data (shoff + ndx * shentsize + 24) le = Val so
    \<and> u64_at data (shoff + ndx * shentsize + 32) le = Val ss
    \<and> i < shnum \<and> section_name data le shoff shentsize (take ss (drop so data)) i = Val name
    \<and> (\<forall>j<i. \<exists>n. section_name data le shoff shentsize (take ss (drop so data)) j = Val n \<and> n \<noteq> name)
    \<and> u64_at data (shoff + i * shentsize + 24) le = Val off
    \<and> u64_at data (shoff + i * shentsize + 32) le = Val sz
    \<and> off + sz \<le> length data \<and> sec = take sz (drop off data)"
proof -
  obtain shoff shentsize shnum ndx so ss where hdr:
      "u64_at data 40 le = Val shoff" "u16_at data 58 le = Val shentsize"
      "u16_at data 60 le = Val shnum" "u16_at data 62 le = Val ndx" "ndx < shnum"
      "u64_at data (shoff + ndx * shentsize + 24) le = Val so"
      "u64_at data (shoff + ndx * shentsize + 32) le = Val ss"
    and scan: "elf64_scan data name le shoff shentsize (take ss (drop so data)) [0..<shnum] = Val sec"
    using assms unfolding elf64_section_def
    by (auto simp: no_panic_simps get_range_Val not_le split: if_splits)
  from elf64_scan_first[OF scan] obtain pre i post off sz where
      split: "[0..<shnum] = pre @ i # post"
    and "section_name data le shoff shentsize (take ss (drop so data)) i = Val name"
      "\<forall>j\<in>set pre. \<exists>n. section_name data le shoff shentsize (take ss (drop so data)) j = Val n \<and> n \<noteq> name"
      "u64_at data (shoff + i * shentsize + 24) le = Val off"
      "u64_at data (shoff + i * shentsize + 32) le = Val sz"
      "off + sz \<le> length data" "sec = take sz (drop off data)"
    by blast
  with hdr upt_split[OF split] show ?thesis
    by (intro exI conjI) auto
qed

section \<open>Concrete images\<close>

definition le_bytes :: "nat \<Rightarrow> nat \<Rightarrow> bytes" where
  "le_bytes n v = map (\<lambda>i. char_of (v div 256 ^ i)) [0..<n]"

text \<open>The fields of a little-endian 64-bit header that the lookup reads.\<close>

definition elf64_image :: "nat \<Rightarrow> nat \<Rightarrow> nat \<Rightarrow> nat \<Rightarrow> bytes" where
  "elf64_image shoff shentsize shnum shstrndx =
     [CHR 0x7F] @ ''ELF'' @ [CHR 0x02, CHR 0x01] @ replicate 34 (CHR 0x00) @ le_bytes 8 shoff @ replicate 10 (CHR 0x00)
     @ le_bytes 2 shentsize @ le_bytes 2 shnum @ le_bytes 2 shstrndx"

definition elf64_shdr :: "nat \<Rightarrow> nat \<Rightarrow> nat \<Rightarrow> bytes" where
  "elf64_shdr name off sz =
     le_bytes 4 name @ replicate 20 (CHR 0x00) @ le_bytes 8 off @ le_bytes 8 sz @ replicate 24 (CHR 0x00)"

definition tagged_image :: bytes where
  "tagged_image = elf64_image 85 64 2 0 @ ''v1'' @ [CHR 0x00] @ SECTION_NAME @ [CHR 0x00]
     @ elf64_shdr 0 66 19 @ elf64_shdr 1 64 2"

lemma tagged_image_section64: "elf64_section tagged_image SECTION_NAME True = Val ''v1''"
  by code_simp


theorem elf64_section_no_panic_witness: "elf64_section tagged_image SECTION_NAME True \<noteq> Panic"
proof (rule elf64_section_no_panic)
  show "u64_at tagged_image 40 True = Val 85" by code_simp
qed simp

theorem elf64_section_first_match_witness:
  "\<exists>off sz. off + sz \<le> length tagged_image \<and> ''v1'' = take sz (drop off tagged_image)"
  using elf64_section_first_match[OF tagged_image_section64] by blast

end
