(* ===== verification/Ipc.thy ===== *)
theory Ipc
  imports Apply Version
begin

text \<open>
  \<^verbatim>\<open>ipc/protocol.rs\<close> and \<^verbatim>\<open>ipc/mod.rs\<close>: requests, responses, the snapshot the daemon shares with
  the socket threads, the three commands and the hooks, binding the socket and the one-shot client.
  Framing, routing and the accept loop belong to \<^verbatim>\<open>bigfred_shared_daemon\<close>, serialisation to
  \<^verbatim>\<open>serde_json\<close>: they are parameters.
\<close>

section \<open>Locks\<close>

text \<open>\<^verbatim>\<open>std::sync::RwLock\<close>: \<^verbatim>\<open>read\<close> and \<^verbatim>\<open>write\<close> give an error once the lock is poisoned.\<close>

record 'a rwlock =
  lk_poisoned :: bool
  lk_value :: 'a

definition new_lock :: "'a \<Rightarrow> 'a rwlock" where
  "new_lock x = \<lparr> lk_poisoned = False, lk_value = x \<rparr>"

definition lock_read :: "'a rwlock \<Rightarrow> 'a option" where
  "lock_read l = (if lk_poisoned l then None else Some (lk_value l))"

text \<open>\<^verbatim>\<open>if let Ok(mut g) = lock.write() { *g = f(g) }\<close>.\<close>

definition lock_modify :: "('a \<Rightarrow> 'a) \<Rightarrow> 'a rwlock \<Rightarrow> 'a rwlock" where
  "lock_modify f l = (if lk_poisoned l then l else l\<lparr> lk_value := f (lk_value l) \<rparr>)"

lemma lock_simps [simp]:
  "lk_poisoned (lock_modify f l) = lk_poisoned l"
  "lock_read (new_lock x) = Some x"
  "lock_read l = Some x \<longleftrightarrow> \<not> lk_poisoned l \<and> x = lk_value l"
  "lock_read l = None \<longleftrightarrow> lk_poisoned l"
  "lk_poisoned (new_lock x) = False" "lk_value (new_lock x) = x"
  "\<not> lk_poisoned l \<Longrightarrow> lk_value (lock_modify f l) = f (lk_value l)"
  by (auto simp: lock_modify_def lock_read_def new_lock_def)

section \<open>Protocol\<close>

datatype Request = ReqStatus | ReqInfo | ReqReconfigure

text \<open>The tag serde gives a request (\<^verbatim>\<open>rename_all = "snake_case"\<close>).\<close>

fun request_tag :: "Request \<Rightarrow> string" where
  "request_tag ReqStatus = ''status''"
| "request_tag ReqInfo = ''info''"
| "request_tag ReqReconfigure = ''reconfigure''"

record Health =
  hl_healthy :: bool
  hl_reason :: "string option"

definition Health_ok :: Health where
  "Health_ok = \<lparr> hl_healthy = True, hl_reason = None \<rparr>"

record StatusBody =
  rs_mode :: Mode
  rs_iface :: string
  rs_cidr :: "string option"
  rs_foreign_dhcp :: bool
  rs_gateway_reachable :: bool
  rs_dnsmasq_running :: bool
  rs_healthy :: bool
  rs_unhealthy_reason :: "string option"

record InfoBody =
  ri_version :: string
  ri_build_commit :: string
  ri_tag_commit :: string
  ri_build_time :: string
  ri_hostname :: string

datatype Response =
    RespStatus StatusBody
  | RespInfo InfoBody
  | RespOk
  | RespError string

definition from_status :: "Status \<Rightarrow> Health \<Rightarrow> Response" where
  "from_status s health = RespStatus \<lparr>
     rs_mode = st_mode s, rs_iface = st_iface s, rs_cidr = st_cidr s,
     rs_foreign_dhcp = st_foreign_dhcp s, rs_gateway_reachable = st_gateway_reachable s,
     rs_dnsmasq_running = st_dnsmasq_running s,
     rs_healthy = hl_healthy health, rs_unhealthy_reason = hl_reason health \<rparr>"

definition from_info :: "'w os \<Rightarrow> Info \<Rightarrow> ('w, Response) io" where
  "from_info os info = map_io (\<lambda>host. RespInfo \<lparr>
     ri_version = inf_version info, ri_build_commit = inf_build_commit info,
     ri_tag_commit = inf_tag_commit info, ri_build_time = inf_build_time info,
     ri_hostname = host \<rparr>) (hostname os)"

section \<open>Shared state and commands\<close>

record 'n Shared =
  sh_config :: "'n Config rwlock"
  sh_status :: "Status rwlock"
  sh_applying :: bool
  sh_health :: "Health rwlock"

definition Shared_new :: "'n Config \<Rightarrow> Status \<Rightarrow> 'n Shared" where
  "Shared_new cfg status = \<lparr> sh_config = new_lock cfg, sh_status = new_lock status,
     sh_applying = False, sh_health = new_lock Health_ok \<rparr>"

datatype IpcEvent = Reconfigure

text \<open>
  What a command replies. \<open>reply\<close> is \<^verbatim>\<open>Connection::reply\<close> and \<open>send\<close> is
  \<^verbatim>\<open>Sender::send\<close> of the daemon's event channel, whose result the command drops.
\<close>

definition status_response :: "'n Shared \<Rightarrow> Response" where
  "status_response sh =
     (case (lock_read (sh_status sh), lock_read (sh_health sh)) of
        (Some s, Some h) \<Rightarrow> from_status s h
      | _ \<Rightarrow> RespError ''status lock poisoned'')"

definition StatusCmd_execute :: "(Response \<Rightarrow> ('w, 'e + unit) io) \<Rightarrow> 'n Shared \<Rightarrow> ('w, 'e + unit) io" where
  "StatusCmd_execute reply sh = reply (status_response sh)"

definition InfoCmd_execute ::
  "'w os \<Rightarrow> ('w, Info) io \<Rightarrow> (Response \<Rightarrow> ('w, 'e + unit) io) \<Rightarrow> ('w, 'e + unit) io" where
  "InfoCmd_execute os info reply =
     bind_io info (\<lambda>i. bind_io (from_info os i) reply)"

definition ReconfigureCmd_execute ::
  "(IpcEvent \<Rightarrow> ('w, bool) io) \<Rightarrow> (Response \<Rightarrow> ('w, 'e + unit) io) \<Rightarrow> ('w, 'e + unit) io" where
  "ReconfigureCmd_execute send reply =
     bind_io (send Reconfigure) (\<lambda>_. reply RespOk)"

definition hook_unknown :: "(Response \<Rightarrow> ('w, 'e + unit) io) \<Rightarrow> string \<Rightarrow> ('w, unit) io" where
  "hook_unknown reply type_name =
     bind_io (reply (RespError (''unknown variant `'' @ type_name
       @ ''`, expected one of `status`, `info`, `reconfigure`''))) (\<lambda>_. return_io ())"

definition hook_error :: "(Response \<Rightarrow> ('w, 'e + unit) io) \<Rightarrow> string \<Rightarrow> ('w, unit) io" where
  "hook_error reply err = bind_io (reply (RespError err)) (\<lambda>_. return_io ())"

section \<open>Server and client\<close>

text \<open>\<^verbatim>\<open>FrameError\<close> is only printed; \<^verbatim>\<open>BindError\<close> has two variants.\<close>

definition map_frame :: "string \<Rightarrow> error" where
  "map_frame e = Ipc e"

datatype bind_error = AlreadyRunning string string | BindIo path io_error

fun map_bind :: "bind_error \<Rightarrow> error" where
  "map_bind (AlreadyRunning name loc) = Ipc (name @ '' already running at '' @ loc)"
| "map_bind (BindIo p e) = io_at p e"

text \<open>\<open>add\<close> is \<^verbatim>\<open>Router::add\<close> by command name, \<open>serve_background\<close> takes the socket path.\<close>

definition serve ::
  "(string \<Rightarrow> ('w, string + unit) io) \<Rightarrow> (path \<Rightarrow> ('w, bind_error + unit) io) \<Rightarrow> path \<Rightarrow> ('w, unit result) io" where
  "serve add serve_background p =
     (let add_cmd = (\<lambda>name. map_io (map_err (\<lambda>e. Other (Message e))) (add name)) in
      try_io (add_cmd ''status'') (\<lambda>_.
      try_io (add_cmd ''info'') (\<lambda>_.
      try_io (add_cmd ''reconfigure'') (\<lambda>_.
      try_io (map_io (map_err map_bind) (serve_background p)) (\<lambda>_.
      return_io (Inr ()))))))"

record ('w, 'c) transport =
  tr_connect :: "path \<Rightarrow> ('w, io_error + 'c) io"
  tr_write_frame :: "'c \<Rightarrow> Request \<Rightarrow> nat \<Rightarrow> ('w, string + unit) io"
  tr_read_frame :: "'c \<Rightarrow> nat \<Rightarrow> ('w, string + bytes) io"
  tr_from_slice :: "bytes \<Rightarrow> string + Response"

definition write_frame_to :: "('w, 'c) transport \<Rightarrow> 'c \<Rightarrow> Request \<Rightarrow> ('w, unit result) io" where
  "write_frame_to tr c req = map_io (map_err map_frame) (tr_write_frame tr c req MAX_IPC_FRAME_BYTES)"

definition read_frame_from :: "('w, 'c) transport \<Rightarrow> 'c \<Rightarrow> ('w, bytes result) io" where
  "read_frame_from tr c = map_io (map_err map_frame) (tr_read_frame tr c MAX_IPC_FRAME_BYTES)"

definition ipc_call :: "('w, 'c) transport \<Rightarrow> path \<Rightarrow> Request \<Rightarrow> ('w, Response result) io" where
  "ipc_call tr socket req =
     try_io (map_io (map_err (io_at socket)) (tr_connect tr socket)) (\<lambda>stream.
     try_io (write_frame_to tr stream req) (\<lambda>_.
     try_io (read_frame_from tr stream) (\<lambda>payload.
     return_io (map_err Json (tr_from_slice tr payload)))))"

text \<open>Errors of the client: only a failed connect is reported as unreachable (\<^verbatim>\<open>IoPath\<close>).\<close>

lemma ipc_call_errors:
  assumes "ipc_call tr socket req w = Some (Inl e, w')"
  shows "(\<exists>ioe. e = IoPath socket ioe \<and> tr_connect tr socket w = Some (Inl ioe, w'))
    \<or> (\<exists>m. e = Ipc m) \<or> (\<exists>m. e = Json m)"
  using assms unfolding ipc_call_def write_frame_to_def read_frame_from_def
  by (auto simp: io_simps io_at_def map_frame_def)

end
