(* ===== verification/Daemon.thy ===== *)
theory Daemon
  imports Ipc
begin

text \<open>
  \<^verbatim>\<open>daemon/mod.rs\<close>: the daemon loop. Its state is the snapshot shared with the socket threads, the
  time since which the link is down and the streak of failed health checks; one definition per
  function of the source, composed by \<open>loop_body\<close> and \<open>run\<close>. The world, the two traits, the
  configuration file, the clock and the channels are the environment \<open>denv\<close>. Instants are in
  nanoseconds.
\<close>

section \<open>Decisions without I/O\<close>

datatype CheckStyle = CheckDaemon | CheckLegacy

definition check_style_from_argv0 :: "string \<Rightarrow> CheckStyle" where
  "check_style_from_argv0 name =
     (if name = ''configure-ethernet'' \<or> name = ''configure-dhcp'' then CheckLegacy else CheckDaemon)"

datatype Verdict = Healthy | Unhealthy string

datatype HealAction = NoHeal | RestartDnsmasq | RestartDhclient

definition should_reselect :: "bool \<Rightarrow> nat option \<Rightarrow> nat \<Rightarrow> nat \<Rightarrow> bool" where
  "should_reselect carrier down_since now retry \<longleftrightarrow>
     \<not> carrier \<and> (case down_since of None \<Rightarrow> False | Some t \<Rightarrow> retry \<le> now - t)"

definition assess :: "Mode \<Rightarrow> bool \<Rightarrow> bool \<Rightarrow> bool \<Rightarrow> Verdict" where
  "assess mode carrier has_ipv4 mode_proc_running =
     (if \<not> carrier then Healthy
      else if \<not> has_ipv4 then Unhealthy ''carrier but no IPv4''
      else case mode of
        Gateway \<Rightarrow> (if \<not> mode_proc_running then Unhealthy ''gateway without dnsmasq'' else Healthy)
      | Client \<Rightarrow> (if \<not> mode_proc_running then Unhealthy ''client without dhclient'' else Healthy)
      | Static \<Rightarrow> Healthy)"

definition should_report_unhealthy :: "u32 \<Rightarrow> bool" where
  "should_report_unhealthy streak \<longleftrightarrow> HEALTH_FAIL_THRESHOLD \<le> streak"

definition heal_action :: "Mode \<Rightarrow> bool \<Rightarrow> HealAction" where
  "heal_action mode proc_running =
     (case mode of
        Gateway \<Rightarrow> (if \<not> proc_running then RestartDnsmasq else NoHeal)
      | Client \<Rightarrow> (if \<not> proc_running then RestartDhclient else NoHeal)
      | Static \<Rightarrow> NoHeal)"

section \<open>State and environment\<close>

record 'n dstate =
  ds_shared :: "'n Shared"
  ds_down_since :: "nat option"
  ds_fail_streak :: u32

datatype recv = Event IpcEvent | Timeout | Disconnected

record ('w, 'n) denv =
  en_ipnet :: "'n ipnet"
  en_net :: "'w NetOps"
  en_gw :: "('w, 'n) GatewayCtl"
  en_json :: "('w, 'n) json_file"
  en_now :: "('w, nat) io"
  en_stop :: "('w, bool) io"
  en_recv :: "('w, recv) io"
  en_reload :: "('w, bool) io"
  en_serve :: "path \<Rightarrow> ('w, unit result) io"
  en_watch :: "path \<Rightarrow> ('w, unit result) io"
  en_signals :: "('w, unit result) io"
  en_watch_stop :: "('w, unit) io"
  en_remove_file :: "path \<Rightarrow> ('w, io_error + unit) io"

abbreviation map_shared :: "('n Shared \<Rightarrow> 'n Shared) \<Rightarrow> 'n dstate \<Rightarrow> 'n dstate" where
  "map_shared f d \<equiv> d\<lparr> ds_shared := f (ds_shared d) \<rparr>"

abbreviation apply_env :: "('w, 'n) denv \<Rightarrow> 'n Config \<Rightarrow> ('w, Status result) io" where
  "apply_env env cfg \<equiv> apply_with (en_ipnet env) cfg (en_net env) (en_gw env)"

section \<open>Health\<close>

definition health_update :: "bool \<Rightarrow> string option \<Rightarrow> Health \<Rightarrow> Health" where
  "health_update healthy reason h =
     (let changed = hl_healthy h \<noteq> healthy \<or> hl_reason h \<noteq> reason in
      if \<not> changed then h
      else if healthy then Health_ok
      else \<lparr> hl_healthy = False, hl_reason = reason \<rparr>)"

definition set_health :: "bool \<Rightarrow> string option \<Rightarrow> 'n dstate \<Rightarrow> 'n dstate" where
  "set_health healthy reason =
     map_shared (\<lambda>sh. sh\<lparr> sh_health := lock_modify (health_update healthy reason) (sh_health sh) \<rparr>)"

definition record_verdict :: "Verdict \<Rightarrow> 'n dstate \<Rightarrow> 'n dstate" where
  "record_verdict verdict d =
     (case verdict of
        Healthy \<Rightarrow> set_health True None (d\<lparr> ds_fail_streak := 0 \<rparr>)
      | Unhealthy reason \<Rightarrow>
          (let d = d\<lparr> ds_fail_streak := saturating_add (ds_fail_streak d) 1 \<rparr> in
           if should_report_unhealthy (ds_fail_streak d) then set_health False (Some reason) d else d))"

section \<open>Applying\<close>

definition apply_now :: "('w, 'n) denv \<Rightarrow> 'n Config \<Rightarrow> 'n dstate \<Rightarrow> ('w, Status result \<times> 'n dstate) io" where
  "apply_now env cfg d =
     (let d = map_shared (\<lambda>sh. sh\<lparr> sh_applying := True \<rparr>) d in
      bind_io (apply_env env cfg) (\<lambda>out.
      return_io (out, map_shared (\<lambda>sh. sh\<lparr> sh_applying := False \<rparr>) d)))"

definition store_status :: "Status \<Rightarrow> 'n dstate \<Rightarrow> 'n dstate" where
  "store_status s d =
     map_shared (\<lambda>sh. sh\<lparr> sh_status := lock_modify (\<lambda>_. s) (sh_status sh) \<rparr>)
       (d\<lparr> ds_down_since := None \<rparr>)"

text \<open>What the callers of \<^verbatim>\<open>apply_now\<close> do with its outcome.\<close>

definition after_apply :: "Status result \<times> 'n dstate \<Rightarrow> 'n dstate" where
  "after_apply p =
     (case p of
        (Inr s, d) \<Rightarrow> set_health True None ((store_status s d)\<lparr> ds_fail_streak := 0 \<rparr>)
      | (Inl e, d) \<Rightarrow> d)"

definition on_config_reload :: "('w, 'n) denv \<Rightarrow> path \<Rightarrow> 'n dstate \<Rightarrow> ('w, 'n dstate) io" where
  "on_config_reload env p d =
     bind_io (load (en_ipnet env) (en_json env) p) (\<lambda>r. case r of
       Inl e \<Rightarrow> return_io d
     | Inr new_cfg \<Rightarrow>
         (if lk_poisoned (sh_config (ds_shared d)) then return_io d
          else map_io after_apply (apply_now env new_cfg
            (map_shared (\<lambda>sh. sh\<lparr> sh_config := lock_modify (\<lambda>_. new_cfg) (sh_config sh) \<rparr>) d))))"

definition on_reconfigure :: "('w, 'n) denv \<Rightarrow> 'n dstate \<Rightarrow> ('w, 'n dstate) io" where
  "on_reconfigure env d =
     (case lock_read (sh_config (ds_shared d)) of
        None \<Rightarrow> return_io d
      | Some cfg \<Rightarrow> map_io after_apply (apply_now env cfg d))"

section \<open>Ticks\<close>

definition refresh_live_status :: "('w, 'n) denv \<Rightarrow> string \<Rightarrow> 'n dstate \<Rightarrow> ('w, 'n dstate) io" where
  "refresh_live_status env iface d =
     bind_io (iface_ipv4_cidr (en_net env) iface) (\<lambda>cidr.
     bind_io (dhcp_running (en_gw env)) (\<lambda>dns.
     return_io (map_shared (\<lambda>sh. sh\<lparr> sh_status :=
       lock_modify (\<lambda>st. (if st_cidr st \<noteq> cidr then st\<lparr> st_cidr := cidr \<rparr> else st)
         \<lparr> st_dnsmasq_running := dns \<rparr>) (sh_status sh) \<rparr>) d)))"

definition mode_proc :: "('w, 'n) denv \<Rightarrow> Mode \<Rightarrow> string \<Rightarrow> ('w, bool) io" where
  "mode_proc env mode iface =
     (case mode of
        Gateway \<Rightarrow> dhcp_running (en_gw env)
      | Client \<Rightarrow> dhclient_running (en_net env) iface
      | Static \<Rightarrow> return_io True)"

definition maybe_self_heal :: "('w, 'n) denv \<Rightarrow> Mode \<Rightarrow> string \<Rightarrow> 'n Config \<Rightarrow> ('w, unit) io" where
  "maybe_self_heal env mode iface cfg =
     bind_io (mode_proc env mode iface) (\<lambda>proc_ok.
     case heal_action mode proc_ok of
       NoHeal \<Rightarrow> return_io ()
     | RestartDnsmasq \<Rightarrow> bind_io (dhcp_reload_or_restart (en_gw env) cfg iface) (\<lambda>_. return_io ())
     | RestartDhclient \<Rightarrow> bind_io (start_dhclient (en_net env) iface) (\<lambda>_. return_io ()))"

definition tick_link_up :: "('w, 'n) denv \<Rightarrow> Mode \<Rightarrow> string \<Rightarrow> 'n Config \<Rightarrow> 'n dstate \<Rightarrow> ('w, 'n dstate) io" where
  "tick_link_up env mode iface cfg d =
     bind_io (refresh_live_status env iface (d\<lparr> ds_down_since := None \<rparr>)) (\<lambda>d.
     bind_io (maybe_self_heal env mode iface cfg) (\<lambda>_.
     bind_io (refresh_live_status env iface d) (\<lambda>d.
     bind_io (iface_ipv4_cidr (en_net env) iface) (\<lambda>cidr.
     bind_io (mode_proc env mode iface) (\<lambda>proc_ok.
     return_io (record_verdict (assess mode True (cidr \<noteq> None) proc_ok) d))))))"

definition tick_link_down :: "('w, 'n) denv \<Rightarrow> 'n Config \<Rightarrow> nat \<Rightarrow> 'n dstate \<Rightarrow> ('w, 'n dstate) io" where
  "tick_link_down env cfg now d =
     (let d = (if ds_down_since d = None then d\<lparr> ds_down_since := Some now \<rparr> else d);
          d = set_health True None (d\<lparr> ds_fail_streak := 0 \<rparr>) in
      if \<not> should_reselect False (ds_down_since d) now (from_secs (link_retry_secs cfg)) then return_io d
      else map_io after_apply (apply_now env cfg d))"

definition tick :: "('w, 'n) denv \<Rightarrow> 'n dstate \<Rightarrow> ('w, 'n dstate) io" where
  "tick env d =
     (let sh = ds_shared d in
      if sh_applying sh then return_io (set_health True None (d\<lparr> ds_fail_streak := 0 \<rparr>))
      else case lock_read (sh_status sh) of
        None \<Rightarrow> return_io d
      | Some s \<Rightarrow>
          (if st_iface s = [] then return_io (record_verdict (Unhealthy ''empty iface'') d)
           else case lock_read (sh_config sh) of
             None \<Rightarrow> return_io d
           | Some cfg \<Rightarrow>
               bind_io (carrier_up (en_net env) (st_iface s)) (\<lambda>carrier.
               bind_io (en_now env) (\<lambda>now.
               if carrier then tick_link_up env (st_mode s) (st_iface s) cfg d
               else tick_link_down env cfg now d))))"

section \<open>The loop\<close>

datatype 'n loop_result = Break "'n dstate" | Continue "'n dstate" nat

definition STATUS_REFRESH :: nat where
  "STATUS_REFRESH = from_millis STATUS_REFRESH_MS"

definition loop_body :: "('w, 'n) denv \<Rightarrow> path \<Rightarrow> 'n dstate \<Rightarrow> nat \<Rightarrow> ('w, 'n loop_result) io" where
  "loop_body env p d next_refresh =
     bind_io (en_stop env) (\<lambda>stop.
     if stop then return_io (Break d)
     else bind_io (en_recv env) (\<lambda>event.
       if event = Disconnected then return_io (Break d)
       else bind_io (en_reload env) (\<lambda>reload.
         bind_io (if reload then on_config_reload env p d else return_io d) (\<lambda>d.
         bind_io (if event = Event Reconfigure then on_reconfigure env d else return_io d) (\<lambda>d.
         bind_io (en_now env) (\<lambda>now.
         if next_refresh \<le> now
         then bind_io (tick env d) (\<lambda>d. bind_io (en_now env) (\<lambda>now.
                return_io (Continue d (now + STATUS_REFRESH))))
         else return_io (Continue d next_refresh)))))))"

partial_function (option) run_loop :: "('w, 'n) denv \<Rightarrow> path \<Rightarrow> 'n dstate \<Rightarrow> nat \<Rightarrow> 'w \<Rightarrow> ('n dstate \<times> 'w) option" where
  "run_loop env p d next_refresh w =
     Option.bind (loop_body env p d next_refresh w) (\<lambda>(r, w'). case r of
       Break d' \<Rightarrow> Some (d', w')
     | Continue d' next' \<Rightarrow> run_loop env p d' next' w')"

definition initial_dstate :: "'n Config \<Rightarrow> Status result \<Rightarrow> 'n dstate" where
  "initial_dstate cfg r = \<lparr> ds_shared = Shared_new cfg (case r of Inr s \<Rightarrow> s | Inl e \<Rightarrow> empty_Status),
     ds_down_since = None, ds_fail_streak = 0 \<rparr>"

definition run :: "('w, 'n) denv \<Rightarrow> path \<Rightarrow> path \<Rightarrow> ('w, unit result) io" where
  "run env config_path socket =
     try_io (load_or_create (en_ipnet env) (en_json env) config_path) (\<lambda>cfg.
     bind_io (apply_env env cfg) (\<lambda>r.
     try_io (en_serve env socket) (\<lambda>_.
     try_io (en_watch env config_path) (\<lambda>_.
     try_io (en_signals env) (\<lambda>_.
     bind_io (en_now env) (\<lambda>now.
     bind_io (run_loop env config_path (initial_dstate cfg r) (now + STATUS_REFRESH)) (\<lambda>_.
     bind_io (en_watch_stop env) (\<lambda>_.
     bind_io (en_remove_file env socket) (\<lambda>_.
     return_io (Inr ()))))))))))"

section \<open>One-shot commands\<close>

definition apply_once :: "('w, 'n) denv \<Rightarrow> path \<Rightarrow> ('w, Status result) io" where
  "apply_once env p = try_io (load (en_ipnet env) (en_json env) p) (apply_env env)"

definition teardown :: "('w, 'n) denv \<Rightarrow> path \<Rightarrow> ('w, Status result) io" where
  "teardown env p =
     try_io (load (en_ipnet env) (en_json env) p) (\<lambda>cfg.
     teardown_with (en_ipnet env) cfg (en_net env) (en_gw env))"

definition resolve_socket :: "datadir \<Rightarrow> path option \<Rightarrow> path" where
  "resolve_socket dd cli =
     (case cli of None \<Rightarrow> default_socket_path dd
      | Some p \<Rightarrow> if is_absolute p then p else path_join (dd_root dd) p)"

definition resolve_config :: "datadir \<Rightarrow> path option \<Rightarrow> path" where
  "resolve_config dd cli =
     (case cli of None \<Rightarrow> default_config_path dd
      | Some p \<Rightarrow> if is_absolute p then p else path_join (dd_root dd) p)"

definition legacy_iface_up :: "('w, 'n) denv \<Rightarrow> path \<Rightarrow> ('w, bool result) io" where
  "legacy_iface_up env p =
     try_io (load (en_ipnet env) (en_json env) p) (\<lambda>cfg.
     try_io (resolve_iface (en_net env) (cfg_interface cfg)) (\<lambda>iface.
     bind_io (carrier_up (en_net env) iface) (\<lambda>up.
     if up then map_io Inr (iface_has_ipv4 (en_net env) iface) else return_io (Inr False))))"

fun is_io_error :: "error \<Rightarrow> bool" where
  "is_io_error (IoPath p e) = True"
| "is_io_error (Io e) = True"
| "is_io_error e = False"

definition check_liveness ::
  "('w, 'n) denv \<Rightarrow> ('w, 'c) transport \<Rightarrow> path \<Rightarrow> path \<Rightarrow> CheckStyle \<Rightarrow> ('w, bool result) io" where
  "check_liveness env tr socket p style =
     bind_io (ipc_call tr socket ReqStatus) (\<lambda>r. case r of
       Inr (RespStatus b) \<Rightarrow> return_io (Inr (rs_healthy b))
     | Inr _ \<Rightarrow> return_io (Inr False)
     | Inl e \<Rightarrow>
         (if is_io_error e
          then (case style of CheckDaemon \<Rightarrow> return_io (Inr False) | CheckLegacy \<Rightarrow> legacy_iface_up env p)
          else return_io (Inl e)))"

section \<open>Health bookkeeping\<close>

lemma health_update_simps [simp]:
  "health_update True None h = Health_ok"
  "health_update False (Some r) h = \<lparr> hl_healthy = False, hl_reason = Some r \<rparr>"
  by (auto simp: health_update_def Health_ok_def)

lemma Health_ok_simps [simp]: "hl_healthy Health_ok" "hl_reason Health_ok = None"
  by (simp_all add: Health_ok_def)

lemma dstate_simps [simp]:
  "ds_fail_streak (set_health b r d) = ds_fail_streak d" "ds_down_since (set_health b r d) = ds_down_since d"
  "sh_config (ds_shared (set_health b r d)) = sh_config (ds_shared d)"
  "sh_status (ds_shared (set_health b r d)) = sh_status (ds_shared d)"
  "sh_applying (ds_shared (set_health b r d)) = sh_applying (ds_shared d)"
  "sh_health (ds_shared (set_health b r d)) = lock_modify (health_update b r) (sh_health (ds_shared d))"
  "ds_fail_streak (store_status s d) = ds_fail_streak d" "ds_down_since (store_status s d) = None"
  "sh_config (ds_shared (store_status s d)) = sh_config (ds_shared d)"
  "sh_status (ds_shared (store_status s d)) = lock_modify (\<lambda>_. s) (sh_status (ds_shared d))"
  "sh_applying (ds_shared (store_status s d)) = sh_applying (ds_shared d)"
  "sh_health (ds_shared (store_status s d)) = sh_health (ds_shared d)"
  by (simp_all add: set_health_def store_status_def)

text \<open>What holds between any two events of the loop.\<close>

definition daemon_inv :: "'n ipnet \<Rightarrow> 'n dstate \<Rightarrow> bool" where
  "daemon_inv I d \<longleftrightarrow>
     (let sh = ds_shared d; h = lk_value (sh_health sh) in
        validate I (lk_value (sh_config sh)) = Inr ()
      \<and> \<not> lk_poisoned (sh_config sh) \<and> \<not> lk_poisoned (sh_status sh) \<and> \<not> lk_poisoned (sh_health sh)
      \<and> \<not> sh_applying sh
      \<and> hl_healthy h = (ds_fail_streak d < HEALTH_FAIL_THRESHOLD)
      \<and> (hl_reason h = None) = hl_healthy h)"

lemma streak_word:
  fixes s :: u32
  shows "saturating_add s 1 < 3 \<Longrightarrow> s < 3"
  by (simp add: word_less_nat_alt unat_saturating_add)

lemma initial_inv: "validate I cfg = Inr () \<Longrightarrow> daemon_inv I (initial_dstate cfg r)"
  by (simp add: daemon_inv_def initial_dstate_def Shared_new_def HEALTH_FAIL_THRESHOLD_def)

lemma record_verdict_inv: "daemon_inv I d \<Longrightarrow> daemon_inv I (record_verdict v d)"
  by (cases v)
    (auto simp: daemon_inv_def record_verdict_def Let_def should_report_unhealthy_def
      HEALTH_FAIL_THRESHOLD_def not_le dest: streak_word)

lemma healthy_inv: "daemon_inv I d \<Longrightarrow> daemon_inv I (set_health True None (d\<lparr> ds_fail_streak := 0 \<rparr>))"
  by (simp add: daemon_inv_def Let_def HEALTH_FAIL_THRESHOLD_def)

lemma after_apply_inv: "daemon_inv I d \<Longrightarrow> daemon_inv I (after_apply (r, d))"
  by (cases r) (auto simp: after_apply_def daemon_inv_def Let_def HEALTH_FAIL_THRESHOLD_def)

lemma down_since_inv [simp]: "daemon_inv I (d\<lparr> ds_down_since := t \<rparr>) = daemon_inv I d"
  by (simp add: daemon_inv_def)

lemma apply_now_result:
  "daemon_inv I d \<Longrightarrow> wpo (apply_now env cfg d) (\<lambda>p _. snd p = d) w"
  by (auto simp: wpo_def apply_now_def io_simps daemon_inv_def Let_def)

lemma apply_now_inv:
  "daemon_inv I d \<Longrightarrow> wpo (map_io after_apply (apply_now env cfg d)) (\<lambda>d' _. daemon_inv I d') w"
  by (rule wpo_map, rule wpo_conseq[OF apply_now_result]) (auto simp: after_apply_inv split_paired_all)

lemma refresh_inv: "daemon_inv I d \<Longrightarrow> wpo (refresh_live_status env i d) (\<lambda>d' _. daemon_inv I d') w"
  unfolding refresh_live_status_def
  by (intro wpo_any wpo_return) (simp add: daemon_inv_def Let_def)

section \<open>Every event keeps the invariant\<close>

lemma config_update_inv:
  "daemon_inv I d \<Longrightarrow> validate I cfg = Inr () \<Longrightarrow>
   daemon_inv I (map_shared (\<lambda>sh. sh\<lparr> sh_config := lock_modify (\<lambda>_. cfg) (sh_config sh) \<rparr>) d)"
  by (simp add: daemon_inv_def Let_def)

lemma on_config_reload_inv:
  assumes "daemon_inv (en_ipnet env) d"
  shows "wpo (on_config_reload env p d) (\<lambda>d' _. daemon_inv (en_ipnet env) d') w"
proof -
  have "wpo (load (en_ipnet env) (en_json env) p) (\<lambda>r _. \<forall>cfg. r = Inr cfg \<longrightarrow> validate (en_ipnet env) cfg = Inr ()) w"
    by (auto simp: wpo_def load_valid)
  then show ?thesis
    using assms unfolding on_config_reload_def
    by (intro wpo_bind, elim wpo_conseq)
      (auto split: sum.split intro!: wpo_return apply_now_inv config_update_inv)
qed

lemma on_reconfigure_inv:
  "daemon_inv I d \<Longrightarrow> wpo (on_reconfigure env d) (\<lambda>d' _. daemon_inv I d') w"
  unfolding on_reconfigure_def by (auto split: option.split intro!: wpo_return apply_now_inv)

lemma tick_link_up_inv:
  assumes "daemon_inv I d"
  shows "wpo (tick_link_up env m i cfg d) (\<lambda>d' _. daemon_inv I d') w"
proof -
  have tail: "wpo (bind_io (iface_ipv4_cidr (en_net env) i) (\<lambda>cidr. bind_io (mode_proc env m i) (\<lambda>ok.
      return_io (record_verdict (assess m True (cidr \<noteq> None) ok) d)))) (\<lambda>d' _. daemon_inv I d') w"
    if "daemon_inv I d" for d w
    using that by (intro wpo_any wpo_return record_verdict_inv)
  show ?thesis
    unfolding tick_link_up_def using assms
    by (intro wpo_bind wpo_conseq[OF refresh_inv[of I]] wpo_any(1) tail) simp_all
qed

lemma tick_link_down_inv:
  "daemon_inv I d \<Longrightarrow> wpo (tick_link_down env cfg now d) (\<lambda>d' _. daemon_inv I d') w"
  unfolding tick_link_down_def Let_def
  by (auto intro!: wpo_return apply_now_inv healthy_inv)

lemma tick_inv: "daemon_inv I d \<Longrightarrow> wpo (tick env d) (\<lambda>d' _. daemon_inv I d') w"
  unfolding tick_def Let_def
  by (auto split: option.split intro!: wpo_return healthy_inv record_verdict_inv wpo_any(1)
      tick_link_up_inv tick_link_down_inv)

section \<open>The daemon as a state machine\<close>

text \<open>
  One step is one event handled by the loop, or any change of the world from outside (cables,
  leases, other processes, time).
\<close>

inductive daemon_step :: "('w, 'n) denv \<Rightarrow> path \<Rightarrow> 'n dstate \<times> 'w \<Rightarrow> 'n dstate \<times> 'w \<Rightarrow> bool"
  for env p where
  reload: "on_config_reload env p d w = Some (d', w') \<Longrightarrow> daemon_step env p (d, w) (d', w')"
| reconfigure: "on_reconfigure env d w = Some (d', w') \<Longrightarrow> daemon_step env p (d, w) (d', w')"
| tick: "tick env d w = Some (d', w') \<Longrightarrow> daemon_step env p (d, w) (d', w')"
| outside: "daemon_step env p (d, w) (d, w')"

inductive daemon_reachable :: "('w, 'n) denv \<Rightarrow> path \<Rightarrow> 'n dstate \<times> 'w \<Rightarrow> bool"
  for env p where
  start: "load_or_create (en_ipnet env) (en_json env) p w = Some (Inr cfg, w1) \<Longrightarrow>
    apply_env env cfg w1 = Some (r, w2) \<Longrightarrow> daemon_reachable env p (initial_dstate cfg r, w2)"
| step: "daemon_reachable env p c \<Longrightarrow> daemon_step env p c c' \<Longrightarrow> daemon_reachable env p c'"

inductive_cases daemon_stepE: "daemon_step env p (d, w) (d', w')"

lemma daemon_step_inv:
  "daemon_step env p c c' \<Longrightarrow> daemon_inv (en_ipnet env) (fst c) \<Longrightarrow> daemon_inv (en_ipnet env) (fst c')"
proof (induction rule: daemon_step.induct)
  case (reload d w d' w')
  then show ?case using wpoD[OF on_config_reload_inv] by fastforce
next
  case (reconfigure d w d' w')
  then show ?case using wpoD[OF on_reconfigure_inv] by fastforce
next
  case (tick d w d' w')
  then show ?case using wpoD[OF tick_inv] by fastforce
qed simp

lemma reachable_inv: "daemon_reachable env p c \<Longrightarrow> daemon_inv (en_ipnet env) (fst c)"
proof (induction rule: daemon_reachable.induct)
  case (start w cfg w1 r w2)
  then show ?case using load_or_create_valid initial_inv by fastforce
next
  case (step c c')
  then show ?case using daemon_step_inv by blast
qed

lemma reachable_steps:
  "daemon_reachable env p c \<Longrightarrow> (daemon_step env p)\<^sup>*\<^sup>* c c' \<Longrightarrow> daemon_reachable env p c'"
  by (rotate_tac, induction rule: rtranclp_induct) (auto intro: daemon_reachable.step)

text \<open>An iteration of the loop is a sequence of steps.\<close>

lemma steps_outside: "(daemon_step env p)\<^sup>*\<^sup>* c (d, w) \<Longrightarrow> (daemon_step env p)\<^sup>*\<^sup>* c (d, w')"
  by (rule rtranclp.rtrancl_into_rtrancl) (auto intro: daemon_step.outside)

lemma wpo_outside:
  assumes "(daemon_step env p)\<^sup>*\<^sup>* c (d, w)"
    and "\<And>x w'. (daemon_step env p)\<^sup>*\<^sup>* c (d, w') \<Longrightarrow> wpo (k x) Q w'"
  shows "wpo (bind_io m k) Q w"
  by (rule wpo_any(1), rule assms(2), rule steps_outside[OF assms(1)])

lemma wpo_event:
  assumes "(daemon_step env p)\<^sup>*\<^sup>* c (d, w)"
    and "\<And>d' w'. b \<Longrightarrow> m w = Some (d', w') \<Longrightarrow> daemon_step env p (d, w) (d', w')"
    and "\<And>d' w'. (daemon_step env p)\<^sup>*\<^sup>* c (d', w') \<Longrightarrow> wpo (k d') Q w'"
  shows "wpo (bind_io (if b then m else return_io d) k) Q w"
proof (rule wpo_bind)
  have "(daemon_step env p)\<^sup>*\<^sup>* c (d', w')" if "(if b then m else return_io d) w = Some (d', w')" for d' w'
    using that assms(1,2) by (auto split: if_splits intro: rtranclp.rtrancl_into_rtrancl)
  then show "wpo (if b then m else return_io d) (\<lambda>x. wpo (k x) Q) w"
    unfolding wpo_def[of "if b then m else return_io d"] using assms(3) by blast
qed

lemma loop_body_steps:
  "wpo (loop_body env p d n) (\<lambda>r w'. case r of Break d' \<Rightarrow> (daemon_step env p)\<^sup>*\<^sup>* (d, w) (d', w')
     | Continue d' n' \<Rightarrow> (daemon_step env p)\<^sup>*\<^sup>* (d, w) (d', w')) w"
proof -
  let ?S = "\<lambda>d' w'. (daemon_step env p)\<^sup>*\<^sup>* (d, w) (d', w')"
  let ?Q = "\<lambda>r w'. case r of Break d' \<Rightarrow> ?S d' w' | Continue d' n' \<Rightarrow> ?S d' w'"
  have refresh: "wpo (if n \<le> now then bind_io (tick env d2) (\<lambda>d. bind_io (en_now env) (\<lambda>now.
        return_io (Continue d (now + STATUS_REFRESH)))) else return_io (Continue d2 n)) ?Q w2"
    if "?S d2 w2" for now d2 w2
  proof (rule wpo_if)
    assume "n \<le> now"
    show "wpo (bind_io (tick env d2) (\<lambda>d. bind_io (en_now env) (\<lambda>now.
        return_io (Continue d (now + STATUS_REFRESH))))) ?Q w2"
      by (rule wpo_event[of env p "(d, w)" d2 w2 True "tick env d2", simplified], rule that,
          erule daemon_step.tick, erule wpo_outside) (simp add: wpo_return)
  qed (use that in \<open>simp add: wpo_return\<close>)
  show ?thesis
    unfolding loop_body_def
    by (rule wpo_outside[of env p "(d, w)" d], simp, rule wpo_if, simp add: wpo_return,
        rule wpo_outside[of env p "(d, w)" d], assumption, rule wpo_if, simp add: wpo_return,
        rule wpo_outside[of env p "(d, w)" d], assumption, rule wpo_event, assumption, erule daemon_step.reload,
        rule wpo_event, assumption, erule daemon_step.reconfigure,
        rule wpo_outside, assumption, erule refresh)
qed

lemma run_loop_steps:
  assumes "run_loop env p d n w = Some (d', w')"
  shows "(daemon_step env p)\<^sup>*\<^sup>* (d, w) (d', w')"
proof (rule run_loop.raw_induct[where P = "\<lambda>env p d n w r. (daemon_step env p)\<^sup>*\<^sup>* (d, w) r", OF _ assms])
  fix f env p d n w r
  assume IH: "\<And>env p d n w r. f env p d n w = Some r \<Longrightarrow> (daemon_step env p)\<^sup>*\<^sup>* (d, w) r"
    and eq: "Option.bind (loop_body env p d n w) (\<lambda>(r, w'). case r of
       Break d' \<Rightarrow> Some (d', w') | Continue d' next' \<Rightarrow> f env p d' next' w') = Some r"
  from eq obtain q w1 where body: "loop_body env p d n w = Some (q, w1)"
    and rest: "(case q of Break d' \<Rightarrow> Some (d', w1) | Continue d' next' \<Rightarrow> f env p d' next' w1) = Some r"
    by (auto simp: Option.bind_eq_Some_conv)
  show "(daemon_step env p)\<^sup>*\<^sup>* (d, w) r"
  proof (cases q)
    case (Break d1)
    then show ?thesis using wpoD[OF loop_body_steps body] rest by simp
  next
    case (Continue d1 n1)
    then have "(daemon_step env p)\<^sup>*\<^sup>* (d, w) (d1, w1)" "(daemon_step env p)\<^sup>*\<^sup>* (d1, w1) r"
      using wpoD[OF loop_body_steps body] rest IH by simp_all
    then show ?thesis by (rule rtranclp_trans)
  qed
qed

section \<open>Properties of the daemon\<close>

text \<open>
  Claim C11. In every state the daemon can reach, whatever happens to the world between two events:
  the configuration in use passed validation, no lock is poisoned, no apply is pending, and the
  health it reports is unhealthy exactly when the last three or more checks failed in a row, and
  then with a reason.
\<close>

theorem daemon_reachable_invariant:
  assumes "daemon_reachable env p (d, w)"
  shows "daemon_inv (en_ipnet env) d"
  using reachable_inv[OF assms] by simp


text \<open>
  A \<^verbatim>\<open>status\<close> request in any reachable state is answered with the daemon's status, healthy
  exactly when fewer than three consecutive checks have failed, and with a reason exactly when it
  is not healthy.
\<close>

lemma status_reply_in_reachable_state:
  assumes "daemon_reachable env p (d, w)"
  shows "\<exists>b. status_response (ds_shared d) = RespStatus b
    \<and> rs_iface b = st_iface (lk_value (sh_status (ds_shared d)))
    \<and> rs_healthy b = (ds_fail_streak d < 3)
    \<and> (rs_unhealthy_reason b = None) = rs_healthy b"
  using reachable_inv[OF assms]
  by (auto simp: daemon_inv_def Let_def status_response_def from_status_def lock_read_def HEALTH_FAIL_THRESHOLD_def)

section \<open>Hysteresis\<close>

fun is_unhealthy :: "Verdict \<Rightarrow> bool" where
  "is_unhealthy Healthy = False"
| "is_unhealthy (Unhealthy r) = True"

text \<open>The abstract behaviour: the reported health is a function of the verdicts alone.\<close>

definition trailing_failures :: "Verdict list \<Rightarrow> nat" where
  "trailing_failures vs = length (takeWhile is_unhealthy (rev vs))"

definition reported_health :: "Verdict list \<Rightarrow> Health" where
  "reported_health vs =
     (if 3 \<le> trailing_failures vs
      then \<lparr> hl_healthy = False, hl_reason = (case last vs of Unhealthy r \<Rightarrow> Some r | Healthy \<Rightarrow> None) \<rparr>
      else Health_ok)"

lemma trailing_failures_snoc [simp]:
  "trailing_failures (vs @ [Healthy]) = 0"
  "trailing_failures (vs @ [Unhealthy r]) = Suc (trailing_failures vs)"
  by (simp_all add: trailing_failures_def)

lemma record_verdict_cases:
  "record_verdict Healthy d = set_health True None (d\<lparr> ds_fail_streak := 0 \<rparr>)"
  "record_verdict (Unhealthy r) d =
     (let d = d\<lparr> ds_fail_streak := saturating_add (ds_fail_streak d) 1 \<rparr> in
      if should_report_unhealthy (ds_fail_streak d) then set_health False (Some r) d else d)"
  by (simp_all add: record_verdict_def)

lemma record_verdicts_streak:
  assumes "ds_fail_streak d = 0"
  shows "unat (ds_fail_streak (fold record_verdict vs d)) = min (trailing_failures vs) (2 ^ 32 - 1)"
proof (induction vs rule: rev_induct)
  case Nil
  then show ?case using assms by (simp add: trailing_failures_def)
next
  case (snoc v vs)
  then show ?case by (cases v) (simp_all add: record_verdict_cases Let_def unat_saturating_add)
qed

text \<open>
  Claim C6. Health reporting implements the hysteresis it documents: after any sequence of verdicts
  from a fresh start the reported health is unhealthy exactly when at least three verdicts in a
  row, up to the last one, were unhealthy, with the reason of the last one; a single good verdict
  resets it, and the 32-bit counter cannot wrap.
\<close>

theorem health_hysteresis:
  "lk_value (sh_health (ds_shared (fold record_verdict vs (initial_dstate cfg r)))) = reported_health vs"
proof (induction vs rule: rev_induct)
  case Nil
  then show ?case by (simp add: reported_health_def trailing_failures_def initial_dstate_def Shared_new_def)
next
  case (snoc v vs)
  let ?d = "fold record_verdict vs (initial_dstate cfg r)"
  have unlocked: "\<not> lk_poisoned (sh_health (ds_shared (fold record_verdict us (initial_dstate cfg r))))" for us
    by (induction us rule: rev_induct)
      (auto simp: record_verdict_def Let_def initial_dstate_def Shared_new_def split: Verdict.split)
  show ?case
  proof (cases v)
    case Healthy
    then show ?thesis using unlocked by (simp add: record_verdict_cases reported_health_def)
  next
    case (Unhealthy reason)
    have "unat (ds_fail_streak ?d) = min (trailing_failures vs) (2 ^ 32 - 1)"
      by (rule record_verdicts_streak) (simp add: initial_dstate_def)
    then have "should_report_unhealthy (saturating_add (ds_fail_streak ?d) 1) \<longleftrightarrow> 3 \<le> Suc (trailing_failures vs)"
      by (simp add: should_report_unhealthy_def HEALTH_FAIL_THRESHOLD_def word_le_nat_alt unat_saturating_add)
    then show ?thesis
      using unlocked snoc Unhealthy by (auto simp: record_verdict_cases Let_def reported_health_def)
  qed
qed

section \<open>Outages, reloads and liveness\<close>

text \<open>The state while the link has been down since \<open>t\<close> and nothing was applied.\<close>

definition waiting :: "nat \<Rightarrow> 'n dstate \<Rightarrow> 'n dstate" where
  "waiting t d = set_health True None (d\<lparr> ds_down_since := Some t, ds_fail_streak := 0 \<rparr>)"

lemma not_applying: "\<not> sh_applying (ds_shared d) \<Longrightarrow> map_shared (\<lambda>sh. sh\<lparr> sh_applying := False \<rparr>) d = d"
  by (cases d; cases "ds_shared d") simp

lemma apply_now_eq:
  "\<not> sh_applying (ds_shared d) \<Longrightarrow>
   map_io after_apply (apply_now env cfg d) w =
     map_option (\<lambda>(r, w'). (after_apply (r, d), w')) (apply_env env cfg w)"
  unfolding apply_now_def map_io_def
  by (cases "apply_env env cfg w") (auto simp: bind_io_def not_applying)

lemma tick_link_down_eq:
  "tick_link_down env cfg now d =
    (let since = (case ds_down_since d of None \<Rightarrow> now | Some t \<Rightarrow> t) in
     if now - since < from_secs (link_retry_secs cfg) then return_io (waiting since d)
     else map_io after_apply (apply_now env cfg (waiting since d)))"
proof (cases "ds_down_since d")
  case (Some t)
  then have "waiting t d = set_health True None (d\<lparr> ds_fail_streak := 0 \<rparr>)"
    unfolding waiting_def by (intro arg_cong[where f = "set_health True None"]) (cases d, simp)
  then show ?thesis
    using Some by (simp add: tick_link_down_def should_reselect_def Let_def not_le)
qed (simp add: tick_link_down_def waiting_def should_reselect_def)

text \<open>
  Claim C21. A tick without carrier, in any reachable state that has an interface: the outage
  counts from the first such tick; as long as \<^verbatim>\<open>linkRetrySecs\<close> have not passed the daemon makes
  no call that could change the host and stays healthy, and from then on each tick selects again;
  a successful selection stores the new status and ends the outage, a failed one leaves the outage
  running.
\<close>

theorem tick_outage:
  assumes "daemon_reachable env p (d, w)"
    and "st_iface (lk_value (sh_status (ds_shared d))) \<noteq> []"
    and "carrier_up (en_net env) (st_iface (lk_value (sh_status (ds_shared d)))) w = Some (False, w1)"
    and "en_now env w1 = Some (now, w2)"
  shows "tick env d w =
    (let cfg = lk_value (sh_config (ds_shared d));
         since = (case ds_down_since d of None \<Rightarrow> now | Some t \<Rightarrow> t) in
     if now - since < from_secs (link_retry_secs cfg) then Some (waiting since d, w2)
     else map_option (\<lambda>(r, w3). (after_apply (r, waiting since d), w3)) (apply_env env cfg w2))"
proof -
  have inv: "daemon_inv (en_ipnet env) d"
    using reachable_inv[OF assms(1)] by simp
  let ?cfg = "lk_value (sh_config (ds_shared d))"
  let ?since = "case ds_down_since d of None \<Rightarrow> now | Some t \<Rightarrow> t"
  have "tick env d w = tick_link_down env ?cfg now d w2"
    using inv assms(2-4) by (simp add: tick_def lock_read_def daemon_inv_def Let_def bind_io_def)
  moreover have "\<not> sh_applying (ds_shared (waiting ?since d))"
    using inv by (simp add: waiting_def daemon_inv_def Let_def)
  ultimately show ?thesis
    by (simp add: tick_link_down_eq Let_def apply_now_eq)
qed

text \<open>
  Claim C23. Reloading: a file that cannot be read or does not validate changes nothing. A valid one
  replaces the configuration; if applying it succeeds the new status is stored, the daemon is
  healthy and the outage timer reset, and if applying fails status, health and timer stay as they
  were.
\<close>

theorem reload_outcomes:
  assumes "daemon_reachable env p (d, w)" and "on_config_reload env p d w = Some (d', w')"
  shows "(d' = d \<and> (\<exists>e. load (en_ipnet env) (en_json env) p w = Some (Inl e, w')))
    \<or> (\<exists>cfg w1 r. load (en_ipnet env) (en_json env) p w = Some (Inr cfg, w1)
        \<and> apply_env env cfg w1 = Some (r, w')
        \<and> validate (en_ipnet env) cfg = Inr () \<and> lk_value (sh_config (ds_shared d')) = cfg
        \<and> (case r of
             Inr s \<Rightarrow> lk_value (sh_status (ds_shared d')) = s \<and> lk_value (sh_health (ds_shared d')) = Health_ok
               \<and> ds_fail_streak d' = 0 \<and> ds_down_since d' = None
           | Inl e \<Rightarrow> sh_status (ds_shared d') = sh_status (ds_shared d)
               \<and> sh_health (ds_shared d') = sh_health (ds_shared d)
               \<and> ds_fail_streak d' = ds_fail_streak d \<and> ds_down_since d' = ds_down_since d))"
proof -
  have inv: "daemon_inv (en_ipnet env) d"
    using reachable_inv[OF assms(1)] by simp
  obtain r w1 where load: "load (en_ipnet env) (en_json env) p w = Some (r, w1)"
    using assms(2) unfolding on_config_reload_def by (auto simp: io_simps)
  show ?thesis
  proof (cases r)
    case (Inl e)
    then show ?thesis
      using assms(2) load unfolding on_config_reload_def by (auto simp: io_simps)
  next
    case (Inr cfg)
    let ?d = "map_shared (\<lambda>sh. sh\<lparr> sh_config := lock_modify (\<lambda>_. cfg) (sh_config sh) \<rparr>) d"
    have "map_io after_apply (apply_now env cfg ?d) w1 = Some (d', w')"
      using assms(2) load Inr inv unfolding on_config_reload_def
      by (auto simp: bind_io_Some daemon_inv_def Let_def)
    then obtain q where "apply_env env cfg w1 = Some (q, w')" and "d' = after_apply (q, ?d)"
      using inv by (auto simp: apply_now_eq daemon_inv_def Let_def)
    then show ?thesis
      using load Inr inv load_valid[OF load[unfolded Inr]]
      by (auto simp: after_apply_def daemon_inv_def Let_def split: sum.splits)
  qed
qed

text \<open>\<open>k\<close> iterations that do not leave the loop.\<close>

fun iterate :: "('w, 'n) denv \<Rightarrow> path \<Rightarrow> nat \<Rightarrow> 'n dstate \<Rightarrow> nat \<Rightarrow> 'w \<Rightarrow> ('n dstate \<times> nat \<times> 'w) option" where
  "iterate env p 0 d n w = Some (d, n, w)"
| "iterate env p (Suc k) d n w =
     Option.bind (loop_body env p d n w) (\<lambda>(r, w'). case r of
       Break d' \<Rightarrow> None | Continue d' n' \<Rightarrow> iterate env p k d' n' w')"


section \<open>Liveness check\<close>


section \<open>What a tick may touch\<close>

text \<open>The environment with both traits logged; the other operations leave the log alone.\<close>

definition log_env :: "('w, 'n) denv \<Rightarrow> ('w logw, 'n) denv" where
  "log_env env = \<lparr> en_ipnet = en_ipnet env, en_net = log_net (en_net env), en_gw = log_gw (en_gw env),
     en_json = \<lparr> load_create_default = (\<lambda>p. lift_io (load_create_default (en_json env) p)),
       load_missing_defaults = (\<lambda>p. lift_io (load_missing_defaults (en_json env) p)) \<rparr>,
     en_now = lift_io (en_now env), en_stop = lift_io (en_stop env), en_recv = lift_io (en_recv env),
     en_reload = lift_io (en_reload env), en_serve = (\<lambda>p. lift_io (en_serve env p)),
     en_watch = (\<lambda>p. lift_io (en_watch env p)), en_signals = lift_io (en_signals env),
     en_watch_stop = lift_io (en_watch_stop env), en_remove_file = (\<lambda>p. lift_io (en_remove_file env p)) \<rparr>"

lemma log_env_sel [simp]: "en_net (log_env env) = log_net (en_net env)" "en_gw (log_env env) = log_gw (en_gw env)"
  by (simp_all add: log_env_def)

text \<open>
  The calls of a tick with carrier: reads, a restart of dnsmasq in gateway mode after it was seen
  not running, and a restart of dhclient in client mode after it was seen not running.
\<close>

fun heal_call :: "Mode \<Rightarrow> string \<Rightarrow> call set \<Rightarrow> call \<Rightarrow> bool" where
  "heal_call mode i S (CIpv4Cidr j r) = True"
| "heal_call mode i S (CDhcpRunning b) = True"
| "heal_call mode i S (CDhclientRunning j b) = True"
| "heal_call mode i S (CDhcpReload j r) = (j = i \<and> mode = Gateway \<and> CDhcpRunning False \<in> S)"
| "heal_call mode i S (CStartDhclient j r) = (j = i \<and> mode = Client \<and> CDhclientRunning i False \<in> S)"
| "heal_call mode i S c = False"

lemma mode_proc_erases: "erases (mode_proc (log_env env) m i) (mode_proc env m i)"
  by (cases m) (auto simp: mode_proc_def)

lemma self_heal_erases: "erases (maybe_self_heal (log_env env) m i cfg) (maybe_self_heal env m i cfg)"
  unfolding maybe_self_heal_def
  by (intro erases_bind mode_proc_erases) (auto split: HealAction.split)

lemma refresh_erases: "erases (refresh_live_status (log_env env) i d) (refresh_live_status env i d)"
  unfolding refresh_live_status_def by auto

lemma tick_link_up_erases:
  "erases (tick_link_up (log_env env) m i cfg d) (tick_link_up env m i cfg d)"
  unfolding tick_link_up_def
  by (intro erases_bind erases_return refresh_erases self_heal_erases mode_proc_erases) auto

lemma tick_link_up_heals:
  "lwp (tick_link_up (log_env env) m i cfg d) (\<lambda>_. ordered_by (heal_call m i) {}) []"
  unfolding tick_link_up_def refresh_live_status_def maybe_self_heal_def mode_proc_def heal_action_def
  by (cases m) (auto intro!: lwp_intros simp: heal_action_def)

text \<open>
  Claim C22. A tick with carrier leaves the network alone except for missing mode processes: it never
  probes, changes links, addresses or routes or stops anything; it restarts dnsmasq only in gateway
  mode and dhclient only in client mode, each only after the process was seen not to run.
\<close>

theorem tick_only_heals:
  assumes "tick_link_up env mode iface cfg d w = Some (d', w')"
  shows "\<exists>tr. tick_link_up (log_env env) mode iface cfg d (w, []) = Some (d', (w', tr)) \<and>
    (\<forall>n < length tr. heal_call mode iface (set (take n tr)) (tr ! n))"
  using logged_run[OF tick_link_up_erases tick_link_up_heals assms] by (simp add: ordered_by_nth)

end
