(* ===== verification/Fake_Daemon.thy ===== *)
theory Fake_Daemon
  imports Fake_Net Daemon
begin

text \<open>
  The daemon on the simulated host: a concrete environment on which the theorems about the daemon
  are instantiated, and two scenarios.
\<close>

section \<open>The environment\<close>

text \<open>The clock stands at ten seconds, the configuration file holds the defaults, and the stop flag is raised once dnsmasq was started.\<close>

definition fake_env :: "FakeNet \<Rightarrow> FakeGw \<Rightarrow> (fake, ipv4 \<times> u8) denv" where
  "fake_env c g = \<lparr> en_ipnet = addr_prefix_net, en_net = fake_net c, en_gw = fake_gw g,
     en_json = \<lparr> load_create_default = (\<lambda>p. return_io (Inr dcfg)), load_missing_defaults = (\<lambda>p. return_io (Inr dcfg)) \<rparr>,
     en_now = return_io (from_millis 10000), en_stop = get_io fk_started, en_recv = return_io Timeout,
     en_reload = return_io False, en_serve = (\<lambda>p. return_io (Inr ())), en_watch = (\<lambda>p. return_io (Inr ())),
     en_signals = return_io (Inr ()), en_watch_stop = return_io (), en_remove_file = (\<lambda>p. return_io (Inr ())) \<rparr>"

abbreviation unplugged :: "FakeNet \<times> fake" where
  "unplugged \<equiv> FakeNet_with_ifaces False [(''eth0'', False)]"

abbreviation unplugged_env :: "(fake, ipv4 \<times> u8) denv" where
  "unplugged_env \<equiv> fake_env (fst unplugged) (FakeGw_new False)"

definition start_state :: "FakeNet \<times> fake \<Rightarrow> FakeGw \<Rightarrow> ((ipv4 \<times> u8) dstate \<times> fake) option" where
  "start_state n g = map_option (\<lambda>(r, w). (initial_dstate dcfg r, w)) (fake_apply n g)"

lemma start_state_reachable:
  assumes "start_state n g = Some s"
  shows "daemon_reachable (fake_env (fst n) g) p s"
proof -
  let ?env = "fake_env (fst n) g" and ?w = "snd n"
  obtain r w' where "fake_apply n g = Some (r, w')" and s: "s = (initial_dstate dcfg r, w')"
    using assms by (auto simp: start_state_def)
  moreover have "load_or_create addr_prefix_net (en_json ?env) p ?w = Some (Inr dcfg, ?w)"
    using default_Config_valid by (simp add: load_or_create_def fake_env_def io_simps map_err_def)
  ultimately show ?thesis
    unfolding s by (intro daemon_reachable.start[of _ _ ?w dcfg ?w]) (simp_all add: fake_env_def)
qed

abbreviation plugged_env :: "(fake, ipv4 \<times> u8) denv" where
  "plugged_env \<equiv> fake_env (fst test_busy) (FakeGw_new False)"

text \<open>On the host of \<^theory_text>\<open>busy_run\<close> the first apply selects \<^verbatim>\<open>eth1\<close> and starts dnsmasq.\<close>

lemma plugged_start:
  obtains s w where "fake_apply test_busy (FakeGw_new False) = Some (Inr s, w)" "fk_started w"
    "start_state test_busy (FakeGw_new False) = Some (initial_dstate dcfg (Inr s), w)"
    "st_iface (lk_value (sh_status (ds_shared (initial_dstate dcfg (Inr s))))) = ''eth1''"
proof -
  obtain s w where run: "fake_apply test_busy (FakeGw_new False) = Some (Inr s, w)" "fk_started w" "st_iface s = ''eth1''"
    by (rule busy_run)
  show ?thesis
    by (rule that[OF run(1,2)], unfold start_state_def run(1)) (simp_all add: run(3) initial_dstate_def Shared_new_def)
qed

lemma unplugged_start: "case start_state unplugged (FakeGw_new False) of
    Some (d, w) \<Rightarrow> st_iface (lk_value (sh_status (ds_shared d))) = ''eth0'' \<and> ds_down_since d = None
      \<and> from_secs (link_retry_secs (lk_value (sh_config (ds_shared d)))) = 15000000000
  | None \<Rightarrow> False"
  unfolding start_state_def with_valid[OF default_Config_valid] by code_simp

lemma plugged_reachable:
  obtains d w where "start_state test_busy (FakeGw_new False) = Some (d, w)"
    "daemon_reachable plugged_env p (d, w)"
    "st_iface (lk_value (sh_status (ds_shared d))) = ''eth1''"
  using plugged_start start_state_reachable[where n = test_busy] that by metis

theorem daemon_reachable_invariant_witness:
  "\<exists>d w. start_state test_busy (FakeGw_new False) = Some (d, w) \<and> daemon_inv addr_prefix_net d"
proof -
  obtain d w where s: "start_state test_busy (FakeGw_new False) = Some (d, w)"
    and r: "daemon_reachable plugged_env [] (d, w)"
    by (rule plugged_reachable)
  then show ?thesis
    using daemon_reachable_invariant[OF r] by (simp add: fake_env_def)
qed

lemma reload_runs:
  assumes "load (en_ipnet env) (en_json env) p w = Some (Inr cfg, w1)" and "apply_env env cfg w1 = Some (r, w2)"
    and "\<not> lk_poisoned (sh_config (ds_shared d))"
  shows "\<exists>d'. on_config_reload env p d w = Some (d', w2)"
  using assms by (simp add: on_config_reload_def apply_now_def Let_def map_io_def bind_io_def)

theorem reload_outcomes_witness:
  "\<exists>d w d' w'. start_state test_busy (FakeGw_new False) = Some (d, w)
     \<and> on_config_reload plugged_env [] d w = Some (d', w') \<and> lk_value (sh_config (ds_shared d')) = dcfg"
proof -
  obtain s w s' w' where run: "fake_apply test_busy (FakeGw_new False) = Some (Inr s, w)"
    and again: "fake_apply (fst test_busy, w) (FakeGw_new False) = Some (Inr s', w')"
    using fake_runs[THEN conjunct2, THEN conjunct2, THEN conjunct2] by (elim assert_okE)
  let ?d = "initial_dstate dcfg (Inr s)"
  have s: "start_state test_busy (FakeGw_new False) = Some (?d, w)"
    unfolding start_state_def run by simp
  have load: "load (en_ipnet plugged_env) (en_json plugged_env) [] w = Some (Inr dcfg, w)"
    using default_Config_valid by (simp add: load_def fake_env_def io_simps map_err_def)
  have app: "apply_env plugged_env dcfg w = Some (Inr s', w')"
    using again by (simp add: fake_env_def)
  have unlocked: "\<not> lk_poisoned (sh_config (ds_shared ?d))"
    by (simp add: initial_dstate_def Shared_new_def)
  obtain d' where reload: "on_config_reload plugged_env [] ?d w = Some (d', w')"
    using reload_runs[OF load app unlocked] by blast
  show ?thesis
    using s reload reload_outcomes[OF start_state_reachable[OF s] reload] load by auto
qed

theorem tick_outage_witness:
  "\<exists>d w. start_state unplugged (FakeGw_new False) = Some (d, w)
     \<and> tick unplugged_env d w = Some (waiting (from_millis 10000) d, w)"
proof -
  obtain d w where s: "start_state unplugged (FakeGw_new False) = Some (d, w)"
    and i: "st_iface (lk_value (sh_status (ds_shared d))) = ''eth0''" and n: "ds_down_since d = None"
    and retry: "from_secs (link_retry_secs (lk_value (sh_config (ds_shared d)))) = 15000000000"
    using ran[OF unplugged_start] by blast
  then have r: "daemon_reachable unplugged_env [] (d, w)"
    using start_state_reachable[where n = unplugged] by blast
  have "carrier_up (en_net unplugged_env) ''eth0'' w = Some (False, w)"
    "en_now unplugged_env w = Some (from_millis 10000, w)"
    by (simp_all add: fake_env_def fake_net_def FakeNet_with_ifaces_def)
  then show ?thesis
    using tick_outage[OF r] i n retry s by simp
qed

theorem tick_only_heals_witness:
  "\<exists>d w tr. tick_link_up (log_env plugged_env) Gateway ''eth1'' dcfg (initial_dstate dcfg (Inr empty_Status))
      (snd test_busy, []) = Some (d, (w, tr)) \<and> CDhcpReload ''eth1'' (Inr ()) \<in> set tr
     \<and> (\<forall>n < length tr. heal_call Gateway ''eth1'' (set (take n tr)) (tr ! n))"
proof -
  let ?run = "tick_link_up plugged_env Gateway ''eth1'' dcfg (initial_dstate dcfg (Inr empty_Status)) (snd test_busy)"
  have eval: "(case tick_link_up (log_env plugged_env) Gateway ''eth1'' dcfg (initial_dstate dcfg (Inr empty_Status)) (snd test_busy, [])
      of Some (d, wt) \<Rightarrow> CDhcpReload ''eth1'' (Inr ()) \<in> set (snd wt) | None \<Rightarrow> False)
    \<and> (case ?run of Some (d, w) \<Rightarrow> True | None \<Rightarrow> False)"
    by code_simp
  obtain d w where run: "?run = Some (d, w)"
    by (rule ran[OF conjunct2[OF eval]])
  show ?thesis
    using tick_only_heals[OF run] ran[OF conjunct1[OF eval]] by auto
qed



definition healthy_transport :: "(fake, unit) transport" where
  "healthy_transport = \<lparr> tr_connect = (\<lambda>p. return_io (Inr ())), tr_write_frame = (\<lambda>c r n. return_io (Inr ())),
     tr_read_frame = (\<lambda>c n. return_io (Inr [])),
     tr_from_slice = (\<lambda>b. Inr (from_status empty_Status Health_ok)) \<rparr>"


section \<open>Scenarios\<close>


text \<open>
  While an apply is in progress a \<^verbatim>\<open>status\<close> request is answered with the health recorded
  before it: an unhealthy daemon stays unhealthy for the whole run, the flag that says an apply is
  pending is not looked at.
\<close>

lemma status_during_apply:
  "case status_response ((ds_shared (fold record_verdict (replicate 3 (Unhealthy ''carrier but no IPv4''))
         (initial_dstate dcfg (Inr empty_Status))))\<lparr> sh_applying := True \<rparr>) of
     RespStatus b \<Rightarrow> \<not> rs_healthy b
   | _ \<Rightarrow> False"
  by code_simp

end
