(* ===== verification/Server_Safety.thy ===== *)
theory Server_Safety
  imports Daemon Host_Contract
begin

text \<open>
  The daemon and the mode selection together: on a host whose DHCP server obeys a slightly
  stronger contract (a start that fails starts nothing), the daemon never has our server running
  unless the mode in its status is gateway. The locales extend those of \<^theory_text>\<open>Host_Contract\<close>; the live
  implementations are shown to meet them in \<^theory_text>\<open>Live_Daemon\<close>.
\<close>

section \<open>A failed run starts no server\<close>

text \<open>The server runs after an operation only if it ran before, unless the operation succeeded.\<close>

definition starts_only_on_success :: "('w \<Rightarrow> bool) \<Rightarrow> ('w, 'e + 'a) io \<Rightarrow> bool" where
  "starts_only_on_success srv m \<longleftrightarrow>
     (\<forall>w e w'. m w = Some (Inl e, w') \<longrightarrow> srv w' \<longrightarrow> srv w)"

locale guarded_contract = server_contract +
  assumes failed_reload_law: "starts_only_on_success serving (dhcp_reload_or_restart gw cfg i)"
    and stop_starts_nothing: "keeps (\<lambda>w. \<not> serving w) (dhcp_stop gw)"
begin

text \<open>Once the server runs there is nothing to show; before, it has to stay down.\<close>

lemma starts_bind:
  assumes "keeps (\<lambda>w. \<not> serving w) m" and "\<And>x. starts_only_on_success serving (k x)"
  shows "starts_only_on_success serving (bind_io m k)"
  using assms unfolding starts_only_on_success_def keeps_def bind_io_Some by meson

lemma starts_return: "starts_only_on_success serving (return_io r)"
  by (simp add: starts_only_on_success_def)

lemma starts_try:
  assumes "keeps (\<lambda>w. \<not> serving w) m" and "\<And>x. starts_only_on_success serving (k x)"
  shows "starts_only_on_success serving (try_io m k)"
  unfolding try_io_def using assms by (intro starts_bind) (auto simp: starts_return split: sum.split)

lemma starts_then_ok:
  assumes "starts_only_on_success serving m" and "\<And>x e w w'. k x w \<noteq> Some (Inl e, w')"
  shows "starts_only_on_success serving (try_io m k)"
  using assms unfolding starts_only_on_success_def try_io_Some by blast

lemma starts_if:
  "starts_only_on_success serving m \<Longrightarrow> starts_only_on_success serving k \<Longrightarrow>
   starts_only_on_success serving (if b then m else k)"
  by simp

lemma down_if: "keeps (\<lambda>w. \<not> serving w) m \<Longrightarrow> keeps (\<lambda>w. \<not> serving w) k \<Longrightarrow> keeps (\<lambda>w. \<not> serving w) (if b then m else k)"
  by simp

lemma down_running: "keeps (\<lambda>w. \<not> serving w) (dhcp_running gw)"
  using running_law by (auto simp: keeps_def wpo_def)

lemmas down_ops = keeps_serving[where b = False, simplified] probe_law[where b = False, simplified]
  isolate_serving[where b = False, simplified] down_running stop_starts_nothing
  keeps_return down_if keeps_try

lemma client_start: "starts_only_on_success serving (apply_client cfg net gw i)"
  unfolding apply_client_def by (intro starts_bind starts_try starts_if starts_return down_ops)

lemma static_start: "starts_only_on_success serving (apply_static cfg net gw i a)"
  unfolding apply_static_def by (intro starts_bind starts_try starts_if starts_return down_ops)

lemma gateway_start: "starts_only_on_success serving (apply_gateway cfg net gw i)"
  unfolding apply_gateway_def Let_def
  by (rule starts_bind, rule down_ops, rule starts_try, (intro down_ops)[1], rule starts_try, rule down_ops,
      rule starts_then_ok[OF failed_reload_law]) (simp add: io_simps)

lemma apply_no_offer_start: "starts_only_on_success serving (apply_no_offer I cfg net gw i)"
  unfolding apply_no_offer_def Let_def decide_def
  by (intro starts_bind starts_try down_ops) (simp add: static_start gateway_start)

lemma apply_starts_only_on_success: "starts_only_on_success serving (apply_with I cfg net gw)"
  unfolding apply_with_def apply_selected_def
  by (intro starts_bind starts_try starts_if starts_return down_ops client_start apply_no_offer_start)

text \<open>What a run leaves: a server only in gateway mode, or one that ran before.\<close>

lemma apply_outcome:
  assumes "apply_with I cfg net gw w = Some (r, w')" and "serving w'"
  shows "case r of Inl e \<Rightarrow> serving w | Inr s \<Rightarrow> st_mode s = Gateway"
  using wpoD[OF apply_serving assms(1)] apply_starts_only_on_success assms
  unfolding starts_only_on_success_def by (auto split: sum.split)

end

section \<open>The daemon on such a host\<close>

text \<open>The mode the daemon reports.\<close>

definition reported_mode :: "'n dstate \<Rightarrow> Mode" where
  "reported_mode d = st_mode (lk_value (sh_status (ds_shared d)))"

definition server_authorised :: "('w \<Rightarrow> bool) \<Rightarrow> 'n dstate \<times> 'w \<Rightarrow> bool" where
  "server_authorised srv c \<longleftrightarrow> (srv (snd c) \<longrightarrow> reported_mode (fst c) = Gateway)"

lemma reported_mode_simps [simp]:
  "reported_mode (set_health b r d) = reported_mode d"
  "reported_mode (d\<lparr> ds_down_since := t \<rparr>) = reported_mode d"
  "reported_mode (d\<lparr> ds_fail_streak := n \<rparr>) = reported_mode d"
  "reported_mode (map_shared (\<lambda>sh. sh\<lparr> sh_config := c \<rparr>) d) = reported_mode d"
  by (simp_all add: reported_mode_def)

lemma reported_mode_verdict [simp]: "reported_mode (record_verdict v d) = reported_mode d"
  by (cases v) (simp_all add: record_verdict_def Let_def)

lemma reported_mode_store: "daemon_inv I d \<Longrightarrow> reported_mode (store_status s d) = st_mode s"
  by (simp add: reported_mode_def store_status_def daemon_inv_def Let_def lock_modify_def)

lemma reported_mode_refresh:
  "wpo (refresh_live_status env i d) (\<lambda>d' _. reported_mode d' = reported_mode d) w"
  unfolding refresh_live_status_def
  by (intro wpo_any wpo_return) (simp add: reported_mode_def lock_modify_def)

text \<open>
  A run of the daemon during which nobody else starts our server: the events of the loop, and
  changes of the world from outside that do not bring the server up.
\<close>

inductive guarded_reachable :: "('w, 'n) denv \<Rightarrow> path \<Rightarrow> ('w \<Rightarrow> bool) \<Rightarrow> 'n dstate \<times> 'w \<Rightarrow> bool"
  for env p srv where
  start: "load_or_create (en_ipnet env) (en_json env) p w = Some (Inr cfg, w1) \<Longrightarrow> \<not> srv w1 \<Longrightarrow>
    apply_env env cfg w1 = Some (r, w2) \<Longrightarrow> guarded_reachable env p srv (initial_dstate cfg r, w2)"
| reload: "guarded_reachable env p srv (d, w) \<Longrightarrow> on_config_reload env p d w = Some c \<Longrightarrow> guarded_reachable env p srv c"
| reconfigure: "guarded_reachable env p srv (d, w) \<Longrightarrow> on_reconfigure env d w = Some c \<Longrightarrow> guarded_reachable env p srv c"
| tick: "guarded_reachable env p srv (d, w) \<Longrightarrow> tick env d w = Some c \<Longrightarrow> guarded_reachable env p srv c"
| outside: "guarded_reachable env p srv (d, w) \<Longrightarrow> (srv w' \<longrightarrow> srv w) \<Longrightarrow> guarded_reachable env p srv (d, w')"

lemma guarded_reachable_daemon: "guarded_reachable env p srv c \<Longrightarrow> daemon_reachable env p c"
proof (induction rule: guarded_reachable.induct)
  case (start w cfg w1 r w2)
  then show ?case by (intro daemon_reachable.start)
qed (auto intro: daemon_reachable.step daemon_step.intros simp: split_paired_all)

locale guarded_daemon = guarded_contract "en_net env" "en_gw env" serving
  for env :: "('w, 'n) denv" and serving :: "'w \<Rightarrow> bool" +
  assumes load_law: "keeps (\<lambda>w. serving w = b) (load_missing_defaults (en_json env) q)"
    and clock_law: "keeps (\<lambda>w. serving w = b) (en_now env)"
begin

lemma wpo_apply:
  assumes "daemon_inv I d" and "server_authorised serving (d, w)"
  shows "wpo (map_io after_apply (apply_now env cfg d)) (\<lambda>d' w'. server_authorised serving (d', w')) w"
proof -
  have "server_authorised serving (after_apply (r, d), w')" if run: "apply_env env cfg w = Some (r, w')" for r w'
    using apply_outcome[OF run] assms
    by (cases r) (auto simp: server_authorised_def after_apply_def reported_mode_store)
  moreover have "wpo (apply_now env cfg d) (\<lambda>p w'. snd p = d \<and> apply_env env cfg w = Some (fst p, w')) w"
    using assms(1) by (auto simp: wpo_def apply_now_def io_simps daemon_inv_def Let_def)
  ultimately show ?thesis
    by (intro wpo_map) (auto simp: split_paired_all elim!: wpo_conseq)
qed

lemma wpo_authorised:
  assumes "keeps (\<lambda>w. serving w = serving w0) m" and "server_authorised serving (d, w0)"
    and "\<And>x w'. server_authorised serving (d, w') \<Longrightarrow> Q x w'"
  shows "wpo m Q w0"
  using assms(1) by (rule wpo_serving) (use assms(2,3) in \<open>simp add: server_authorised_def\<close>)

lemma reload_authorised:
  assumes "daemon_inv (en_ipnet env) d" and "server_authorised serving (d, w)"
  shows "wpo (on_config_reload env p d) (\<lambda>d' w'. server_authorised serving (d', w')) w"
proof -
  have load: "keeps (\<lambda>w. serving w = b) (load (en_ipnet env) (en_json env) p)" for b
    unfolding load_def map_io_def by (intro keeps_try keeps_bind load_law keeps_return)
  have valid: "wpo (load (en_ipnet env) (en_json env) p) (\<lambda>r _. \<forall>cfg. r = Inr cfg \<longrightarrow> validate (en_ipnet env) cfg = Inr ()) w"
    by (auto simp: wpo_def load_valid)
  show ?thesis
    unfolding on_config_reload_def
  proof (rule wpo_bind, rule wpo_conseq[OF wpo_conj[OF valid wpo_authorised[OF load assms(2)]]])
    fix r w'
    assume r: "(\<forall>cfg. r = Inr cfg \<longrightarrow> validate (en_ipnet env) cfg = Inr ()) \<and> server_authorised serving (d, w')"
    show "wpo (case r of Inl e \<Rightarrow> return_io d
        | Inr new_cfg \<Rightarrow> if lk_poisoned (sh_config (ds_shared d)) then return_io d
          else map_io after_apply (apply_now env new_cfg
            (map_shared (\<lambda>sh. sh\<lparr> sh_config := lock_modify (\<lambda>_. new_cfg) (sh_config sh) \<rparr>) d)))
      (\<lambda>d' w'. server_authorised serving (d', w')) w'"
      using r assms(1)
      by (auto split: sum.split intro!: wpo_return wpo_apply config_update_inv) (simp add: server_authorised_def reported_mode_def)
  qed assumption
qed

lemma reconfigure_authorised:
  "daemon_inv I d \<Longrightarrow> server_authorised serving (d, w) \<Longrightarrow>
   wpo (on_reconfigure env d) (\<lambda>d' w'. server_authorised serving (d', w')) w"
  unfolding on_reconfigure_def by (auto split: option.split intro!: wpo_return wpo_apply)

text \<open>The reads of a tick, and the only process start it may do.\<close>

lemma keeps_tick_reads:
  "keeps (\<lambda>w. serving w = b) (carrier_up (en_net env) i)" "keeps (\<lambda>w. serving w = b) (dhclient_running (en_net env) i)"
  "keeps (\<lambda>w. serving w = b) (dhcp_running (en_gw env))"
proof -
  show "keeps (\<lambda>w. serving w = b) (carrier_up (en_net env) i)" "keeps (\<lambda>w. serving w = b) (dhclient_running (en_net env) i)"
    using net_keeps_serving(1)[of b] unfolding reads_keep_def by blast+
  show "keeps (\<lambda>w. serving w = b) (dhcp_running (en_gw env))"
    using running_law unfolding keeps_wpo by (fastforce elim: wpo_conseq)
qed

lemma refresh_authorised:
  assumes "server_authorised serving (d, w)"
  shows "wpo (refresh_live_status env i d)
    (\<lambda>d' w'. reported_mode d' = reported_mode d \<and> server_authorised serving (d', w')) w"
proof -
  have "keeps (\<lambda>w. serving w = b) (refresh_live_status env i d)" for b
    unfolding refresh_live_status_def by (intro keeps_bind keeps_serving keeps_tick_reads keeps_return)
  then have "wpo (refresh_live_status env i d) (\<lambda>_ w'. server_authorised serving (d, w')) w"
    using assms by (rule wpo_authorised)
  from wpo_conj[OF reported_mode_refresh this] show ?thesis
    by (rule wpo_conseq) (simp add: server_authorised_def)
qed

lemma keeps_mode_proc: "keeps (\<lambda>w. serving w = b) (mode_proc env m i)"
  unfolding mode_proc_def by (cases m) (auto intro: keeps_tick_reads)

lemma heal_authorised:
  assumes "server_authorised serving (d, w)" and "m = reported_mode d"
  shows "wpo (maybe_self_heal env m i cfg) (\<lambda>_ w'. server_authorised serving (d, w')) w"
proof (cases m)
  case Gateway
  then show ?thesis using assms(2) by (simp add: wpo_def server_authorised_def)
next
  case Client
  have "keeps (\<lambda>w. serving w = b) (maybe_self_heal env Client i cfg)" for b
    unfolding maybe_self_heal_def
    by (intro keeps_bind keeps_mode_proc) (auto simp: heal_action_def intro!: keeps_bind keeps_serving)
  from wpo_authorised[OF this assms(1)] Client show ?thesis by simp
next
  case Static
  have "keeps (\<lambda>w. serving w = b) (maybe_self_heal env Static i cfg)" for b
    unfolding maybe_self_heal_def by (intro keeps_bind keeps_mode_proc) (auto simp: heal_action_def)
  from wpo_authorised[OF this assms(1)] Static show ?thesis by simp
qed

lemma tick_link_up_authorised:
  assumes "server_authorised serving (d, w)" and "m = reported_mode d"
  shows "wpo (tick_link_up env m i cfg d) (\<lambda>d' w'. server_authorised serving (d', w')) w"
proof -
  have tail: "wpo (bind_io (iface_ipv4_cidr (en_net env) i) (\<lambda>cidr. bind_io (mode_proc env m i) (\<lambda>ok.
      return_io (record_verdict (assess m True (cidr \<noteq> None) ok) d')))) (\<lambda>d' w'. server_authorised serving (d', w')) w'"
    if "server_authorised serving (d', w')" for d' w'
    by (rule wpo_bind, rule wpo_authorised[OF keeps_serving(4) that], rule wpo_bind,
        rule wpo_authorised[OF keeps_mode_proc], assumption, rule wpo_return) (simp add: server_authorised_def)
  have start: "server_authorised serving (d\<lparr> ds_down_since := None \<rparr>, w)"
    using assms(1) by (simp add: server_authorised_def)
  show ?thesis
    unfolding tick_link_up_def
    by (rule wpo_bind, rule wpo_conseq[OF refresh_authorised[OF start]], rule wpo_bind,
        rule wpo_conseq[OF heal_authorised], erule conjunct2, simp add: assms(2), rule wpo_bind,
        rule wpo_conseq[OF refresh_authorised], assumption, erule conjunct2[THEN tail])
qed

lemma tick_authorised:
  assumes "daemon_inv I d" and "server_authorised serving (d, w)"
  shows "wpo (tick env d) (\<lambda>d' w'. server_authorised serving (d', w')) w"
proof -
  have down: "wpo (tick_link_down env cfg now d) (\<lambda>d' w'. server_authorised serving (d', w')) w'"
    if "server_authorised serving (d, w')" for cfg now w'
    using that assms(1) unfolding tick_link_down_def Let_def
    by (auto intro!: wpo_return wpo_apply healthy_inv) (simp_all add: server_authorised_def)
  have up: "wpo (tick_link_up env (st_mode s) i cfg d) (\<lambda>d' w'. server_authorised serving (d', w')) w'"
    if "server_authorised serving (d, w')" and "lock_read (sh_status (ds_shared d)) = Some s" for s i cfg w'
    using that(2) by (intro tick_link_up_authorised that(1))
      (auto simp: reported_mode_def lock_read_def split: if_splits)
  have branch: "wpo (bind_io (carrier_up (en_net env) (st_iface s)) (\<lambda>carrier. bind_io (en_now env) (\<lambda>now.
      if carrier then tick_link_up env (st_mode s) (st_iface s) cfg d else tick_link_down env cfg now d)))
      (\<lambda>d' w'. server_authorised serving (d', w')) w"
    if "lock_read (sh_status (ds_shared d)) = Some s" for s cfg
    by (rule wpo_bind, rule wpo_authorised[OF keeps_tick_reads(1) assms(2)], rule wpo_bind,
        rule wpo_authorised[OF clock_law], assumption, rule wpo_if, erule up, rule that, erule down)
  show ?thesis
    unfolding tick_def Let_def using assms(2)
    by (auto split: option.split intro!: wpo_return branch) (simp_all add: server_authorised_def)
qed

lemma guarded_reachable_authorised:
  "guarded_reachable env p serving c \<Longrightarrow> server_authorised serving c"
proof (induction rule: guarded_reachable.induct)
  case (start w cfg w1 r w2)
  then show ?case
    using apply_outcome[OF start(3)]
    by (auto simp: server_authorised_def initial_dstate_def reported_mode_def Shared_new_def split: sum.splits)
next
  case (reload d w c)
  then show ?case
    using wpoD[OF reload_authorised] reachable_inv[OF guarded_reachable_daemon] by (cases c) fastforce
next
  case (reconfigure d w c)
  then show ?case
    using wpoD[OF reconfigure_authorised] reachable_inv[OF guarded_reachable_daemon] by (cases c) fastforce
next
  case (tick d w c)
  then show ?case
    using wpoD[OF tick_authorised] reachable_inv[OF guarded_reachable_daemon] by (cases c) fastforce
qed (simp add: server_authorised_def)

end

end
