(* ===== verification/Net_Addr.thy ===== *)
theory Net_Addr
  imports Config
begin

text \<open>
  \<^verbatim>\<open>net/addr.rs\<close>: hosts of a /24 and reading the output of \<^verbatim>\<open>ip -4 -o addr show\<close>.
\<close>

section \<open>Operations\<close>

record IfaceAddrs =
  ia_gateway :: ipv4
  ia_static_host :: ipv4
  ia_range_start :: ipv4
  ia_range_end :: ipv4

definition host_in_slash24 :: "'n ipnet \<Rightarrow> 'n \<Rightarrow> u8 \<Rightarrow> ipv4 result" where
  "host_in_slash24 I net host =
     (if prefix_len I net \<noteq> REQUIRED_PREFIX then Inl (Config SubnetNotSlash24)
      else let os = octets (network I net) in Inr (Ipv4 (os ! 0) (os ! 1) (os ! 2) host))"

text \<open>The token after the first \<^verbatim>\<open>inet\<close> of a line.\<close>

definition inet_token :: "string \<Rightarrow> string option" where
  "inet_token line = Option.bind (split_nth1 ''inet '' line) first_token"

definition parse_first_inet_cidr :: "'n ipnet \<Rightarrow> string \<Rightarrow> string option" where
  "parse_first_inet_cidr I ip_stdout =
     (let found = filter (\<lambda>token. net_parse I token \<noteq> None) (List.map_filter inet_token (lines ip_stdout)) in
      case find (\<lambda>s. \<not> starts_with s ''169.254.'') found of
        Some s \<Rightarrow> Some s
      | None \<Rightarrow> (case found of [] \<Rightarrow> None | s # _ \<Rightarrow> Some s))"

definition cidr_ipv4 :: "string \<Rightarrow> ipv4 option" where
  "cidr_ipv4 cidr = (case split_char (CHR ''/'') cidr of [] \<Rightarrow> None | s # _ \<Rightarrow> ipv4_parse s)"

definition stdout_has_ipv4 :: "string \<Rightarrow> ipv4 \<Rightarrow> bool" where
  "stdout_has_ipv4 ip_stdout ip =
     list_ex (\<lambda>line. case inet_token line of None \<Rightarrow> False | Some token \<Rightarrow> starts_with token (ipv4_display ip @ ''/''))
       (lines ip_stdout)"

section \<open>One line\<close>

text \<open>
  A line of \<^verbatim>\<open>ip -4 -o addr show\<close>: what precedes \<^verbatim>\<open>inet\<close> (index and interface name), the
  address with its prefix length, and what follows.
\<close>

record ip_entry =
  ie_head :: string
  ie_addr :: ipv4
  ie_prefix :: u8
  ie_tail :: string

definition entry_cidr :: "ip_entry \<Rightarrow> string" where
  "entry_cidr e = ipv4_display (ie_addr e) @ CHR ''/'' # nat_dec (unat (ie_prefix e))"

definition ip_line :: "ip_entry \<Rightarrow> string" where
  "ip_line e = ie_head e @ ''inet '' @ entry_cidr e @ ie_tail e"

definition ip_show :: "ip_entry list \<Rightarrow> string" where
  "ip_show es = concat (map (\<lambda>e. ip_line e @ [CHR 0x0A]) es)"

text \<open>
  What \<^verbatim>\<open>iproute2\<close> prints: no line breaks inside a line, a space after the address, prefix
  lengths up to 32, and the text before the address has no earlier \<^verbatim>\<open>inet\<close> followed by a space.
\<close>

definition ip_entry_ok :: "ip_entry \<Rightarrow> bool" where
  "ip_entry_ok e \<longleftrightarrow> \<not> str_contains (ie_head e @ ''inet'') ''inet ''
     \<and> CHR 0x0A \<notin> set (ie_head e) \<and> CHR 0x0A \<notin> set (ie_tail e) \<and> CHR 0x0D \<notin> set (ie_tail e)
     \<and> (ie_tail e = [] \<or> hd (ie_tail e) = CHR '' '') \<and> ie_prefix e \<le> 32"

lemma after_first_here:
  assumes "p \<noteq> []" and "after_first p (h @ butlast p) = None"
  shows "after_first p (h @ p @ r) = Some r"
  using assms(2)
proof (induction h)
  case Nil
  obtain c q where p: "p = c # q" using assms(1) by (cases p) auto
  have "starts_with (p @ r) p" by (rule starts_with_append)
  then show ?case by (simp add: p)
next
  case (Cons c h)
  have len: "length p \<le> length (c # h @ butlast p)"
    using assms(1) by (cases p) simp_all
  have "p = butlast p @ [last p]"
    using assms(1) by simp
  then have same: "c # h @ p @ r = (c # h @ butlast p) @ last p # r"
    by (metis append.assoc append_Cons append_Nil)
  have "take (length p) (c # h @ p @ r) = take (length p) (c # h @ butlast p)"
    unfolding same using len by (metis append_Nil2 diff_is_0_eq take_0 take_append)
  then have "starts_with (c # h @ p @ r) p = starts_with (c # h @ butlast p) p"
    by (simp add: starts_with_def)
  moreover have "\<not> starts_with (c # h @ butlast p) p"
    using Cons.prems by (auto split: if_splits)
  ultimately show ?case
    using Cons by simp
qed

lemma before_first_skip: "p \<noteq> [] \<Longrightarrow> hd p \<notin> set s \<Longrightarrow> before_first p (s @ t) = s @ before_first p t"
proof (induction s)
  case (Cons c s)
  then have "\<not> starts_with (c # s @ t) p"
    by (cases p) (auto simp: starts_with_def)
  with Cons show ?case by simp
qed simp

lemma leading_ws_none: "c \<notin> ws_first \<Longrightarrow> leading_ws (c # s) = None"
  using trim_start_id[of "c # s"] leading_ws_Some[of "c # s"]
  by (auto simp: leading_ws_def ws_first_def find_None_iff starts_with_def utf8_ws_def)

lemma until_ws_token:
  "\<forall>c\<in>set tok. c \<notin> ws_first \<Longrightarrow> t = [] \<or> leading_ws t \<noteq> None \<Longrightarrow> until_ws (tok @ t) = tok"
proof (induction tok)
  case Nil
  then show ?case by (cases t) auto
qed (simp add: leading_ws_none)

lemma first_token_here:
  assumes "tok \<noteq> []" and "\<forall>c\<in>set tok. c \<notin> ws_first" and "t = [] \<or> hd t = CHR '' ''"
  shows "first_token (tok @ t) = Some tok"
proof -
  have "t = [] \<or> leading_ws t \<noteq> None"
    using assms(3) by (cases t) (auto simp: leading_ws_def utf8_ws_def starts_with_def)
  moreover have "trim_start (tok @ t) = tok @ t"
    using assms(1,2) by (intro trim_start_id) (simp add: hd_append)
  ultimately show ?thesis
    using until_ws_token[OF assms(2)] assms(1) by (simp add: first_token_def)
qed

lemma entry_cidr_chars: "c \<in> set (entry_cidr e) \<Longrightarrow> is_ascii_digit c \<or> c = CHR ''.'' \<or> c = CHR ''/''"
  using ipv4_display_chars nat_dec_digits by (auto simp: entry_cidr_def)

lemma entry_cidr_plain:
  "CHR ''i'' \<notin> set (entry_cidr e)" "CHR 0x0A \<notin> set (entry_cidr e)" "\<forall>c\<in>set (entry_cidr e). c \<notin> ws_first"
  "entry_cidr e \<noteq> []" "last (entry_cidr e) \<noteq> CHR 0x0D"
proof -
  show "CHR ''i'' \<notin> set (entry_cidr e)" "CHR 0x0A \<notin> set (entry_cidr e)"
    using entry_cidr_chars by (fastforce simp: is_ascii_digit_def)+
  show "\<forall>c\<in>set (entry_cidr e). c \<notin> ws_first"
    using entry_cidr_chars ws_first_ge by (fastforce simp: is_ascii_digit_def)
  show ne: "entry_cidr e \<noteq> []"
    by (simp add: entry_cidr_def)
  have "CHR 0x0D \<notin> set (entry_cidr e)"
    using entry_cidr_chars by (fastforce simp: is_ascii_digit_def)
  then show "last (entry_cidr e) \<noteq> CHR 0x0D"
    using last_in_set[OF ne] by metis
qed

lemma inet_token_line:
  assumes "ip_entry_ok e"
  shows "inet_token (ip_line e) = Some (entry_cidr e)"
proof -
  let ?p = "''inet ''"
  have "after_first ?p (ip_line e) = Some (entry_cidr e @ ie_tail e)"
    using assms after_first_here[of ?p "ie_head e"] unfolding ip_line_def
    by (simp add: ip_entry_ok_def str_contains_def)
  moreover have "before_first ?p (entry_cidr e @ ie_tail e) = entry_cidr e @ before_first ?p (ie_tail e)"
    using entry_cidr_plain(1) by (intro before_first_skip) auto
  moreover have "before_first ?p (ie_tail e) = [] \<or> hd (before_first ?p (ie_tail e)) = CHR '' ''"
    using assms by (cases "ie_tail e") (auto simp: ip_entry_ok_def starts_with_def)
  ultimately show ?thesis
    using first_token_here[OF entry_cidr_plain(4,3)] by (simp add: inet_token_def split_nth1_def)
qed

section \<open>The whole output\<close>

lemma lines_ip_show:
  assumes "\<forall>e\<in>set es. ip_entry_ok e"
  shows "lines (ip_show es) = map ip_line es"
proof -
  have "CHR 0x0A \<notin> set (ip_line e)" if "ip_entry_ok e" for e
    using that entry_cidr_plain(2) by (auto simp: ip_line_def ip_entry_ok_def)
  then have "split_char (CHR 0x0A) (ip_show es) = map ip_line es @ [[]]"
    using assms split_terminated[of "map ip_line es"] unfolding ip_show_def by (auto simp: comp_def)
  moreover have "chomp_cr (ip_line e) = ip_line e" if "ip_entry_ok e" for e
  proof -
    have "ie_tail e = [] \<or> last (ie_tail e) \<noteq> CHR 0x0D"
      using that last_in_set[of "ie_tail e"] unfolding ip_entry_ok_def by metis
    then have "last (ip_line e) \<noteq> CHR 0x0D"
      using entry_cidr_plain(4,5)[of e] by (auto simp: ip_line_def last_append)
    then show ?thesis by (simp add: chomp_cr_def)
  qed
  ultimately show ?thesis
    using assms by (simp add: lines_def)
qed

lemma tokens_ip_show:
  assumes "\<forall>e\<in>set es. ip_entry_ok e"
  shows "List.map_filter inet_token (lines (ip_show es)) = map entry_cidr es"
  unfolding lines_ip_show[OF assms] using assms
  by (induction es) (simp_all add: List.map_filter_simps inet_token_line)

fun is_link_local :: "ipv4 \<Rightarrow> bool" where
  "is_link_local (Ipv4 a b c d) \<longleftrightarrow> a = 169 \<and> b = 254"

lemma link_local_prefix: "starts_with (entry_cidr e) ''169.254.'' \<longleftrightarrow> is_link_local (ie_addr e)"
proof -
  obtain a b c d where e: "ie_addr e = Ipv4 a b c d" by (cases "ie_addr e")
  obtain r where r: "entry_cidr e = nat_dec (unat a) @ CHR ''.'' # nat_dec (unat b) @ CHR ''.'' # r"
    by (simp add: entry_cidr_def e)
  have dots: "CHR ''.'' \<notin> set (nat_dec n)" for n
    using nat_dec_chars by blast
  have "nat_dec 169 = ''169'' \<and> nat_dec 254 = ''254''"
    by code_simp
  then have ll: "nat_dec 169 = ''169''" "nat_dec 254 = ''254''"
    by simp_all
  show ?thesis
  proof
    assume "starts_with (entry_cidr e) ''169.254.''"
    then obtain u where "entry_cidr e = nat_dec 169 @ CHR ''.'' # nat_dec 254 @ CHR ''.'' # u"
      by (auto simp: starts_with_prefix prefix_def ll)
    then have "nat_dec (unat a) = nat_dec 169" "nat_dec (unat b) = nat_dec 254"
      using arg_cong[of _ _ "split_char (CHR ''.'')"] r dots by (metis list.inject split_char_append)+
    then have "unat a = unat (169 :: u8)" "unat b = unat (254 :: u8)"
      unfolding nat_dec_inj by simp_all
    then show "is_link_local (ie_addr e)"
      unfolding word_unat_eq_iff[symmetric] by (simp add: e)
  qed (auto simp: e r starts_with_def ll)
qed

lemma find_map_entry:
  "find (\<lambda>s. \<not> starts_with s ''169.254.'') (map entry_cidr es)
     = map_option entry_cidr (find (\<lambda>e. \<not> is_link_local (ie_addr e)) es)"
  by (induction es) (simp_all add: link_local_prefix)

text \<open>
  Claim C34. Reading back what \<^verbatim>\<open>ip -4 -o addr show\<close> prints: an address counts as local exactly when
  some entry has it (\<^verbatim>\<open>10.0.0.1\<close> is not found in \<^verbatim>\<open>10.0.0.10/24\<close>), and the address of an
  interface is its first one outside 169.254.0.0/16, or the first one if all are link local, or
  none if there are no entries.
\<close>

theorem ip_output_read_back:
  assumes "ipnet_laws I" and "\<forall>e\<in>set es. ip_entry_ok e"
  shows "(stdout_has_ipv4 (ip_show es) ip \<longleftrightarrow> ip \<in> ie_addr ` set es)
    \<and> parse_first_inet_cidr I (ip_show es) =
      map_option entry_cidr (case find (\<lambda>e. \<not> is_link_local (ie_addr e)) es of
        Some e \<Rightarrow> Some e | None \<Rightarrow> (case es of [] \<Rightarrow> None | e # _ \<Rightarrow> Some e))"
proof
  have "starts_with (entry_cidr e) (ipv4_display ip @ ''/'') \<longleftrightarrow> ip = ie_addr e" for e
    using display_slash_prefix by (simp add: entry_cidr_def)
  then show "stdout_has_ipv4 (ip_show es) ip \<longleftrightarrow> ip \<in> ie_addr ` set es"
    using assms(2) unfolding stdout_has_ipv4_def lines_ip_show[OF assms(2)]
    by (auto simp: list_ex_iff inet_token_line)
next
  have "net_parse I (entry_cidr e) \<noteq> None" if "e \<in> set es" for e
    using ipnet_laws.parse_display[OF assms(1), of "ie_prefix e"] assms(2) that
    by (fastforce simp: entry_cidr_def ip_entry_ok_def)
  then have "filter (\<lambda>token. net_parse I token \<noteq> None) (map entry_cidr es) = map entry_cidr es"
    by (auto intro: filter_True)
  then show "parse_first_inet_cidr I (ip_show es) =
      map_option entry_cidr (case find (\<lambda>e. \<not> is_link_local (ie_addr e)) es of
        Some e \<Rightarrow> Some e | None \<Rightarrow> (case es of [] \<Rightarrow> None | e # _ \<Rightarrow> Some e))"
    unfolding parse_first_inet_cidr_def tokens_ip_show[OF assms(2)] Let_def
    by (cases es) (auto simp: find_map_entry link_local_prefix split: option.split)
qed

text \<open>The example of the unit test: a link-local address first, then a global one.\<close>

definition two_addresses :: "ip_entry list" where
  "two_addresses =
     [\<lparr> ie_head = ''2: eth0    '', ie_addr = Ipv4 169 254 1 1, ie_prefix = 16, ie_tail = '' scope link eth0'' \<rparr>,
      \<lparr> ie_head = ''2: eth0    '', ie_addr = Ipv4 10 0 10 1, ie_prefix = 24, ie_tail = '' brd 10.0.10.255 scope global eth0'' \<rparr>]"

theorem ip_output_read_back_witness:
  "parse_first_inet_cidr addr_prefix_net (ip_show two_addresses) = Some ''10.0.10.1/24''
    \<and> stdout_has_ipv4 (ip_show two_addresses) (Ipv4 10 0 10 1)"
proof -
  have ok: "\<forall>e\<in>set two_addresses. ip_entry_ok e" by code_simp
  have "find (\<lambda>e. \<not> is_link_local (ie_addr e)) two_addresses = Some (two_addresses ! 1)
    \<and> entry_cidr (two_addresses ! 1) = ''10.0.10.1/24'' \<and> Ipv4 10 0 10 1 \<in> ie_addr ` set two_addresses"
    by code_simp
  then show ?thesis
    using ip_output_read_back[OF addr_prefix.ipnet_laws_axioms ok] by simp
qed

text \<open>
  An interface whose name ends in \<^verbatim>\<open>inet\<close> looks as if it had no address: the first
  \<^verbatim>\<open>inet\<close> followed by a space is then the end of its name.
\<close>

lemma iface_named_inet_has_no_address:
  "parse_first_inet_cidr addr_prefix_net ''3: inet    inet 10.0.10.50/24 brd 10.0.10.255 scope global inet'' = None"
  by code_simp

end
