(* ===== verification/Mem_Os.thy ===== *)
theory Mem_Os
  imports Os "HOL-Library.AList"
begin

text \<open>
  A small operating system in memory, as the tests of the crate build it in temporary directories:
  files, directories, a clock that sleeping advances, and functions for what commands and signals
  do. It instantiates the dictionary of \<^theory_text>\<open>Os\<close> where a theorem is applied to a concrete host.
\<close>

record mem =
  m_files :: "(path \<times> bytes) list"
  m_dirs :: "path list"
  m_clock :: nat

record mem_behaviour =
  mb_cmd :: "string \<Rightarrow> string list \<Rightarrow> mem \<Rightarrow> (int option \<times> bytes \<times> bytes) \<times> mem"
  mb_kill :: "int \<Rightarrow> signal \<Rightarrow> mem \<Rightarrow> (nat + unit) \<times> mem"
  mb_entries :: "path \<Rightarrow> mem \<Rightarrow> bytes list"

definition ENOENT :: io_error where
  "ENOENT = OsError 2"

definition mem_os :: "mem_behaviour \<Rightarrow> mem os" where
  "mem_os b = \<lparr>
     fs_read = (\<lambda>p w. Some (case map_of (m_files w) p of None \<Rightarrow> Inl ENOENT | Some c \<Rightarrow> Inr c, w)),
     fs_write = (\<lambda>p c w. Some (Inr (), w\<lparr> m_files := AList.update p c (m_files w) \<rparr>)),
     fs_remove_file = (\<lambda>p w. Some (if map_of (m_files w) p = None then Inl ENOENT else Inr (),
       w\<lparr> m_files := AList.delete p (m_files w) \<rparr>)),
     fs_create_dir_all = (\<lambda>p w. Some (Inr (), w\<lparr> m_dirs := p # m_dirs w \<rparr>)),
     fs_is_file = (\<lambda>p w. Some (map_of (m_files w) p \<noteq> None, w)),
     fs_is_dir = (\<lambda>p w. Some (p \<in> set (m_dirs w), w)),
     fs_exists = (\<lambda>p w. Some (map_of (m_files w) p \<noteq> None \<or> p \<in> set (m_dirs w), w)),
     fs_read_dir = (\<lambda>p w. Some (if p \<in> set (m_dirs w) then Inr (map Inr (mb_entries b p w)) else Inl ENOENT, w)),
     fs_canonicalize = (\<lambda>p w. Some (Inr p, w)),
     os_kill = (\<lambda>pid sig w. Some (mb_kill b pid sig w)),
     cmd_status = (\<lambda>bin args w. Some (case mb_cmd b bin args w of ((st, out, err), w') \<Rightarrow> (Inr st, w'))),
     cmd_output = (\<lambda>bin args w. Some (case mb_cmd b bin args w of ((st, out, err), w') \<Rightarrow> (Inr (st, out, err), w'))),
     thread_sleep = (\<lambda>d w. Some ((), w\<lparr> m_clock := m_clock w + d \<rparr>)),
     instant_now = (\<lambda>w. Some (m_clock w, w)) \<rparr>"

text \<open>Commands succeed without output and signals find no process.\<close>

definition quiet :: mem_behaviour where
  "quiet = \<lparr> mb_cmd = (\<lambda>bin args w. ((Some 0, [], []), w)), mb_kill = (\<lambda>pid sig w. (Inl 3, w)),
     mb_entries = (\<lambda>p w. []) \<rparr>"

end
