(* ===== verification/Pidfile.thy ===== *)
theory Pidfile
  imports Mem_Os
begin

text \<open>
  \<^verbatim>\<open>pidfile.rs\<close>: a process owned through its pidfile. A process is only taken for ours when the
  pidfile holds a positive pid and the command line of that pid names our binary.
\<close>

section \<open>Operations\<close>

definition DEFAULT_PROC :: path where
  "DEFAULT_PROC = ''/proc''"

definition parse_pid :: "string \<Rightarrow> int option" where
  "parse_pid text =
     (case parse_i32 (trim text) of
        None \<Rightarrow> None
      | Some pid \<Rightarrow> if 0 < pid then Some pid else None)"

definition read_pid :: "'w os \<Rightarrow> path \<Rightarrow> ('w, int option) io" where
  "read_pid os pid_path =
     map_io (\<lambda>r. case r of Inl e \<Rightarrow> None | Inr text \<Rightarrow> parse_pid text) (read_to_string os pid_path)"

definition cmdline_matches :: "bytes \<Rightarrow> string \<Rightarrow> bool" where
  "cmdline_matches cmdline bin =
     (if cmdline = [] then False
      else let fname = (case file_name bin of None \<Rightarrow> bin | Some f \<Rightarrow> f);
               suffix = path_join ''/'' fname in
        list_ex (\<lambda>part. part \<noteq> [] \<and> (let text = from_utf8_lossy part in
            text = bin \<or> text = fname \<or> ends_with text suffix))
          (split_char (CHR 0x00) cmdline))"

definition is_alive_in :: "'w os \<Rightarrow> path \<Rightarrow> path \<Rightarrow> string \<Rightarrow> ('w, bool) io" where
  "is_alive_in os pid_path proc_root bin =
     bind_io (read_pid os pid_path) (\<lambda>pid. case pid of
       None \<Rightarrow> return_io False
     | Some pid \<Rightarrow> map_io (\<lambda>r. cmdline_matches (case r of Inl e \<Rightarrow> [] | Inr b \<Rightarrow> b) bin)
         (fs_read os (path_join (path_join proc_root (int_dec pid)) ''cmdline'')))"

definition is_alive :: "'w os \<Rightarrow> path \<Rightarrow> string \<Rightarrow> ('w, bool) io" where
  "is_alive os pid_path bin = is_alive_in os pid_path DEFAULT_PROC bin"

definition stop_in :: "'w os \<Rightarrow> path \<Rightarrow> path \<Rightarrow> string \<Rightarrow> nat \<Rightarrow> ('w, unit result) io" where
  "stop_in os pid_path proc_root bin term_wait =
     bind_io (read_pid os pid_path) (\<lambda>pid. case pid of
       None \<Rightarrow> bind_io (fs_remove_file os pid_path) (\<lambda>_. return_io (Inr ()))
     | Some pid \<Rightarrow>
         bind_io (is_alive_in os pid_path proc_root bin) (\<lambda>alive.
         if \<not> alive then bind_io (fs_remove_file os pid_path) (\<lambda>_. return_io (Inr ()))
         else bind_io (os_kill os pid SIGTERM) (\<lambda>_.
           bind_io (thread_sleep os term_wait) (\<lambda>_.
           bind_io (is_alive_in os pid_path proc_root bin) (\<lambda>alive.
           bind_io (if alive then bind_io (os_kill os pid SIGKILL) (\<lambda>_. return_io ()) else return_io ()) (\<lambda>_.
           bind_io (fs_remove_file os pid_path) (\<lambda>_. return_io (Inr ()))))))))"

definition stop :: "'w os \<Rightarrow> path \<Rightarrow> string \<Rightarrow> ('w, unit result) io" where
  "stop os pid_path bin = stop_in os pid_path DEFAULT_PROC bin (from_millis PROCESS_TERM_WAIT_MS)"

section \<open>Reading a pidfile\<close>

text \<open>
  Claim C38. A pid written in decimal with a newline, as a daemon writes its pidfile, is read back
  exactly when it is a positive 32-bit number; zero, which would address a process group, and
  anything out of range are never used.
\<close>

theorem parse_pid_written:
  "parse_pid (nat_dec n @ [CHR 0x0A]) = (if 0 < n \<and> n < 2 ^ 31 then Some (int n) else None)"
proof -
  have "trim (nat_dec n @ [CHR 0x0A]) = nat_dec n"
    by (rule trim_newline) (auto dest!: nat_dec_digits simp: is_ascii_digit_def)
  moreover have "parse_i32 (nat_dec n) = (if n < 2 ^ 31 then Some (int n) else None)"
    using nat_dec_not_sign[of n] nat_dec_nonempty[of n] digits_val_nat_dec[of n]
    by (cases "nat_dec n") (auto simp: parse_i32_def parse_unsigned_def Let_def simp del: digits_val.simps)
  ultimately show ?thesis
    by (simp add: parse_pid_def)
qed

section \<open>Signals\<close>

text \<open>What stopping a process may do, in order: at most TERM and then KILL to the pid of the pidfile.\<close>

lemma read_pid_lift: "read_pid (log_os os) p = lift_io (read_pid os p)"
  unfolding read_pid_def read_to_string_def by (simp add: log_os_def lift_map)

lemma is_alive_in_lift: "is_alive_in (log_os os) p r b = lift_io (is_alive_in os p r b)"
proof -
  have "(case pid of None \<Rightarrow> return_io False
      | Some pid \<Rightarrow> map_io (\<lambda>r. cmdline_matches (case r of Inl e \<Rightarrow> [] | Inr b \<Rightarrow> b) b)
          (fs_read (log_os os) (path_join (path_join r (int_dec pid)) ''cmdline'')))
    = lift_io (case pid of None \<Rightarrow> return_io False
      | Some pid \<Rightarrow> map_io (\<lambda>r. cmdline_matches (case r of Inl e \<Rightarrow> [] | Inr b \<Rightarrow> b) b)
          (fs_read os (path_join (path_join r (int_dec pid)) ''cmdline'')))" for pid
    by (cases pid) (simp_all add: log_os_def lift_map lift_return[symmetric])
  then show ?thesis
    unfolding is_alive_in_def read_pid_lift lift_bind[symmetric]
    by (intro arg_cong2[where f = bind_io] ext) simp_all
qed

lemma parse_pid_pos: "parse_pid s = Some pid \<Longrightarrow> 0 < pid"
  by (auto simp: parse_pid_def split: option.splits if_splits)

lemma read_pid_positive:
  assumes "read_pid os p w = Some (Some pid, w')"
  shows "0 < pid"
proof -
  obtain r :: "io_error + string" where "Some pid = (case r of Inl e \<Rightarrow> None | Inr text \<Rightarrow> parse_pid text)"
    using assms unfolding read_pid_def map_io_Some by blast
  then show ?thesis
    by (cases r) (auto dest: parse_pid_pos sym)
qed

lemma stop_in_erases: "erases (stop_in (log_os os) p r b t) (stop_in os p r b t)"
  unfolding stop_in_def read_pid_lift is_alive_in_lift
  by (intro erases_bind erases_lift)
    (auto split: option.split intro!: erases_bind erases_lift erases_if log_os_erases)

text \<open>The branch of \<^verbatim>\<open>stop_in\<close> for a live process of ours.\<close>

lemma stop_kill_log:
  "lwp (bind_io (os_kill (log_os os) pid SIGTERM) (\<lambda>_. bind_io (thread_sleep (log_os os) t) (\<lambda>_.
      bind_io (lift_io (is_alive_in os p r b)) (\<lambda>alive.
      bind_io (if alive then bind_io (os_kill (log_os os) pid SIGKILL) (\<lambda>_. return_io ()) else return_io ()) (\<lambda>_.
      bind_io (fs_remove_file (log_os os) p) (\<lambda>_. return_io (Inr ()))))))) (\<lambda>res tr. res = Inr () \<and>
        (tr = [OsKill pid SIGTERM, OsRemove p] \<or> tr = [OsKill pid SIGTERM, OsKill pid SIGKILL, OsRemove p])) []"
  by (auto intro!: lwp_os lwp_lift)

lemma stop_remove_log:
  "lwp (bind_io (fs_remove_file (log_os os) p) (\<lambda>_. return_io (Inr ()))) (\<lambda>res tr. res = Inr () \<and> tr = [OsRemove p]) []"
  by (auto intro!: lwp_os)


text \<open>\<^verbatim>\<open>stop_in_signals_matching_pid\<close>: pid 1234 runs dnsmasq, the signals find no process.\<close>

definition pid_world :: mem where
  "pid_world = \<lparr> m_files = [(''/x/dnsmasq.pid'', ''1234'' @ [CHR 0x0A]),
     (''/x/proc/1234/cmdline'', ''/usr/sbin/dnsmasq'' @ [CHR 0x00] @ ''-C'' @ [CHR 0x00] @ ''x'' @ [CHR 0x00])],
     m_dirs = [], m_clock = 0 \<rparr>"


end
