(* ===== verification/Loops.thy ===== *)
theory Loops
  imports Logs
begin

text \<open>
  Loops that may run for an unknown number of rounds: \<open>loop_io body s\<close> repeats \<open>body\<close> on a loop
  state until it breaks with a value. Not ending is the value \<^const>\<open>None\<close>. The rules: an
  invariant for what holds when the loop ends, and a measure that shows that it ends.
\<close>

partial_function (option) loop_io :: "('s \<Rightarrow> ('w, 's + 'r) io) \<Rightarrow> 's \<Rightarrow> 'w \<Rightarrow> ('r \<times> 'w) option" where
  "loop_io body s w = Option.bind (body s w) (\<lambda>(r, w'). case r of
     Inl s' \<Rightarrow> loop_io body s' w'
   | Inr x \<Rightarrow> Some (x, w'))"

declare loop_io.simps [code]

lemma loop_io_step:
  "body s w = Some (Inl s', w') \<Longrightarrow> loop_io body s w = loop_io body s' w'"
  "body s w = Some (Inr x, w') \<Longrightarrow> loop_io body s w = Some (x, w')"
  by (subst loop_io.simps, simp)+

lemma wpo_loop:
  assumes body: "\<And>s w. J s w \<Longrightarrow> wpo (body s) (\<lambda>r w'. case r of Inl s' \<Rightarrow> J s' w' | Inr x \<Rightarrow> Q x w') w"
    and start: "J s w"
  shows "wpo (loop_io body s) Q w"
proof -
  have "b = body \<longrightarrow> J s w \<longrightarrow> Q (fst res) (snd res)" if "loop_io b s w = Some res" for b s w res
    using that
  proof (rule loop_io.raw_induct[rotated])
    fix loop and b :: "'a \<Rightarrow> ('b, 'a + 'c) io" and s w res
    assume IH: "\<And>b s w res. loop b s w = Some res \<Longrightarrow> b = body \<longrightarrow> J s w \<longrightarrow> Q (fst res) (snd res)"
      and step: "Option.bind (b s w) (\<lambda>(r, w'). case r of Inl s' \<Rightarrow> loop b s' w' | Inr x \<Rightarrow> Some (x, w')) = Some res"
    show "b = body \<longrightarrow> J s w \<longrightarrow> Q (fst res) (snd res)"
    proof (intro impI)
      assume b: "b = body" and J: "J s w"
      obtain r w' where r: "body s w = Some (r, w')"
        and rest: "(case r of Inl s' \<Rightarrow> loop b s' w' | Inr x \<Rightarrow> Some (x, w')) = Some res"
        using step b by (auto simp: bind_eq_Some_conv)
      have "case r of Inl s' \<Rightarrow> J s' w' | Inr x \<Rightarrow> Q x w'"
        using wpoD[OF body[OF J] r] .
      then show "Q (fst res) (snd res)"
        using rest IH b by (auto split: sum.splits)
    qed
  qed
  then show ?thesis using start by (auto simp: wpo_def)
qed

lemma keeps_loop [intro]: "(\<And>s. keeps P (body s)) \<Longrightarrow> keeps P (loop_io body s)"
  unfolding keeps_wpo by (auto intro!: wpo_loop[where J = "\<lambda>_. P"] elim!: wpo_conseq split: sum.split)

lemma loop_returns:
  assumes "\<And>s w. J s w \<Longrightarrow> \<exists>r w'. body s w = Some (r, w')
      \<and> (case r of Inl s' \<Rightarrow> J s' w' \<and> m s' w' < (m s w :: nat) | Inr x \<Rightarrow> Q x w')"
    and "J s w"
  shows "\<exists>x w'. loop_io body s w = Some (x, w') \<and> Q x w'"
  using assms(2)
proof (induction "m s w" arbitrary: s w rule: less_induct)
  case less
  obtain r w' where step: "body s w = Some (r, w')"
    and next_: "case r of Inl s' \<Rightarrow> J s' w' \<and> m s' w' < m s w | Inr x \<Rightarrow> Q x w'"
    using assms(1)[OF less.prems] by blast
  then show ?case
    using less.hyps by (cases r) (auto simp: loop_io_step)
qed

section \<open>Loops over logged operations\<close>

lemma lwp_loop:
  assumes "\<And>s tr. J s tr \<Longrightarrow> lwp (body s) (\<lambda>r tr'. case r of Inl s' \<Rightarrow> J s' tr' | Inr x \<Rightarrow> Q x tr') tr"
    and "J s tr"
  shows "lwp (loop_io body s) Q tr"
proof -
  have "wpo (loop_io body s) (\<lambda>x wt. Q x (snd wt)) (w, tr)" for w
    by (rule wpo_loop[where J = "\<lambda>s wt. J s (snd wt)"])
      (use assms in \<open>auto simp: lwp_def wpo_def\<close>)
  then show ?thesis
    by (auto simp: lwp_def wpo_def)
qed

lemma loop_log_run:
  assumes body: "\<And>s. erases (body' s) (body s)" and "loop_io body s w = Some res"
  shows "\<exists>tr'. loop_io body' s (w, tr) = Some (fst res, (snd res, tr'))"
proof -
  have "b = body \<longrightarrow> (\<forall>tr. \<exists>tr'. loop_io body' s (w, tr) = Some (fst res, (snd res, tr')))"
    if "loop_io b s w = Some res" for b s w res
    using that
  proof (rule loop_io.raw_induct[rotated])
    fix loop b s w res
    assume IH: "\<And>b s w res. loop b s w = Some res \<Longrightarrow>
        b = body \<longrightarrow> (\<forall>tr. \<exists>tr'. loop_io body' s (w, tr) = Some (fst res, (snd res, tr')))"
      and step: "Option.bind (b s w) (\<lambda>(r, w'). case r of Inl s' \<Rightarrow> loop b s' w' | Inr x \<Rightarrow> Some (x, w')) = Some res"
    show "b = body \<longrightarrow> (\<forall>tr. \<exists>tr'. loop_io body' s (w, tr) = Some (fst res, (snd res, tr')))"
    proof (intro impI allI)
      fix tr
      assume b: "b = body"
      obtain r w' where r: "body s w = Some (r, w')"
        and rest: "(case r of Inl s' \<Rightarrow> loop b s' w' | Inr x \<Rightarrow> Some (x, w')) = Some res"
        using step b by (auto simp: bind_eq_Some_conv)
      obtain tr1 where "body' s (w, tr) = Some (r, (w', tr1))"
        using erases_run[OF body r] by blast
      then show "\<exists>tr'. loop_io body' s (w, tr) = Some (fst res, (snd res, tr'))"
        using rest IH b by (cases r) (auto simp: loop_io_step)
    qed
  qed
  then show ?thesis using assms(2) by blast
qed

lemma loop_log_erase:
  assumes body: "\<And>s. erases (body' s) (body s)" and "loop_io body' s (w, tr) = Some (x, (w', tr'))"
  shows "loop_io body s w = Some (x, w')"
proof -
  have "b = body' \<longrightarrow> loop_io body s (fst wt) = Some (fst res, fst (snd res))"
    if "loop_io b s wt = Some res" for b s wt res
    using that
  proof (rule loop_io.raw_induct[rotated])
    fix loop b s wt res
    assume IH: "\<And>b s wt res. loop b s wt = Some res \<Longrightarrow>
        b = body' \<longrightarrow> loop_io body s (fst wt) = Some (fst res, fst (snd res))"
      and step: "Option.bind (b s wt) (\<lambda>(r, w'). case r of Inl s' \<Rightarrow> loop b s' w' | Inr x \<Rightarrow> Some (x, w')) = Some res"
    show "b = body' \<longrightarrow> loop_io body s (fst wt) = Some (fst res, fst (snd res))"
    proof
      assume b: "b = body'"
      obtain r w1 tr1 where r: "body' s (fst wt, snd wt) = Some (r, (w1, tr1))"
        and rest: "(case r of Inl s' \<Rightarrow> loop b s' (w1, tr1) | Inr x \<Rightarrow> Some (x, (w1, tr1))) = Some res"
        using step b by (auto simp: bind_eq_Some_conv)
      show "loop_io body s (fst wt) = Some (fst res, fst (snd res))"
        using erases_log[OF body r] rest IH b by (cases r) (auto simp: loop_io_step dest: IH)
    qed
  qed
  then show ?thesis using assms(2) by fastforce
qed

lemma erases_loop [intro]:
  assumes "\<And>s. erases (body' s) (body s)"
  shows "erases (loop_io body' s) (loop_io body s)"
  unfolding erases_def
proof (intro allI)
  fix w tr
  show "map_option (\<lambda>(x, (w', _)). (x, w')) (loop_io body' s (w, tr)) = loop_io body s w"
  proof (cases "loop_io body s w")
    case None
    then have "loop_io body' s (w, tr) = None"
      using loop_log_erase[OF assms] by (cases "loop_io body' s (w, tr)") fastforce+
    with None show ?thesis by simp
  next
    case (Some res)
    then show ?thesis
      using loop_log_run[OF assms Some, of tr] by auto
  qed
qed

end
