(* ===== verification/Live_Net.thy ===== *)
theory Live_Net
  imports Net_Ops Net_Addr Pidfile Loops "HOL-Library.List_Lexorder"
begin

text \<open>
  \<^verbatim>\<open>net/mod.rs\<close>: the implementation of \<^verbatim>\<open>NetOps\<close> on a Linux host, through sysfs and the
  programs \<^verbatim>\<open>ip\<close>, \<^verbatim>\<open>ping\<close>, \<^verbatim>\<open>ethtool\<close> and \<^verbatim>\<open>dhclient\<close>. The free functions that share their name
  with a trait method have a suffix here.
\<close>

section \<open>Commands\<close>

definition run_cmd :: "'w os \<Rightarrow> string \<Rightarrow> string list \<Rightarrow> ('w, unit result) io" where
  "run_cmd os bin args =
     try_io (map_io (map_err (\<lambda>e. Other (CmdSpawn bin e))) (cmd_status os bin args)) (\<lambda>st.
     return_io (if success st then Inr () else Inl (Other (CmdExit bin args (exit_code st)))))"

definition ethtool_eee_args :: "string \<Rightarrow> string list" where
  "ethtool_eee_args iface = [''--set-eee'', iface, ''eee'', ''off'']"

definition ethtool_offload_args :: "string \<Rightarrow> string list" where
  "ethtool_offload_args iface = [''-K'', iface, ''tso'', ''off'', ''gso'', ''off'']"

definition ethtool_coalesce_args :: "string \<Rightarrow> string list" where
  "ethtool_coalesce_args iface = [''-C'', iface, ''rx-usecs'', ''0'', ''tx-usecs'', ''0'']"

definition run_ethtool :: "'w os \<Rightarrow> string list \<Rightarrow> ('w, unit result) io" where
  "run_ethtool os args =
     try_io (map_io (map_err (\<lambda>e. Other (CmdSpawn ETHTOOL_BIN e))) (cmd_output os ETHTOOL_BIN args)) (\<lambda>(st, out, err).
     return_io (if success st then Inr ()
       else Inl (Other (CmdExitStderr ETHTOOL_BIN args (exit_code st) (trim (from_utf8_lossy err))))))"

definition apply_phy_tweaks :: "'w os \<Rightarrow> string \<Rightarrow> ('w, unit) io" where
  "apply_phy_tweaks os iface =
     for_io [ethtool_eee_args iface, ethtool_offload_args iface, ethtool_coalesce_args iface]
       (\<lambda>args. bind_io (run_ethtool os args) (\<lambda>_. return_io ()))"

section \<open>Sysfs\<close>

definition DEFAULT_SYS_CLASS_NET :: path where "DEFAULT_SYS_CLASS_NET = ''/sys/class/net''"
definition AUTO_IFACE :: string where "AUTO_IFACE = ''auto''"
definition AUTO_CARRIER_WAIT_MS :: nat where "AUTO_CARRIER_WAIT_MS = 5000"
definition AUTO_CARRIER_POLL_MS :: nat where "AUTO_CARRIER_POLL_MS = 200"
definition IFF_UP :: u32 where "IFF_UP = 0x1"
definition IFF_LOOPBACK :: u32 where "IFF_LOOPBACK = 0x8"

datatype LinkBringUp = Live | NoBringUp | SysfsOnly

definition carrier_up_sys :: "'w os \<Rightarrow> path \<Rightarrow> string \<Rightarrow> ('w, bool) io" where
  "carrier_up_sys os sys name =
     map_io (\<lambda>r. case r of Inl e \<Rightarrow> False | Inr s \<Rightarrow> trim s = ''1'')
       (read_to_string os (path_join (path_join sys name) ''carrier''))"

text \<open>\<^verbatim>\<open>u32::from_str_radix(text.trim().trim_start_matches("0x"), 16)\<close>.\<close>

definition parse_flags :: "string \<Rightarrow> u32 option" where
  "parse_flags text = map_option of_nat (parse_unsigned 16 (2 ^ 32) (trim_start_matches ''0x'' (trim text)))"

definition link_is_up_sys :: "'w os \<Rightarrow> path \<Rightarrow> string \<Rightarrow> ('w, bool) io" where
  "link_is_up_sys os sys name =
     map_io (\<lambda>r. case r of Inl e \<Rightarrow> False
        | Inr text \<Rightarrow> (case parse_flags text of None \<Rightarrow> False | Some val \<Rightarrow> val AND IFF_UP \<noteq> 0))
       (read_to_string os (path_join (path_join sys name) ''flags''))"

text \<open>The checks on one directory of \<^verbatim>\<open>/sys/class/net\<close>, each ending the function when it fails.\<close>

definition is_physical_ethernet_sys :: "'w os \<Rightarrow> path \<Rightarrow> string \<Rightarrow> ('w, bool) io" where
  "is_physical_ethernet_sys os sys name =
     (if name = [] \<or> CHR ''/'' \<in> set name then return_io False
      else let dir = path_join sys name in
        bind_io (fs_is_dir os dir) (\<lambda>is_dir. if \<not> is_dir then return_io False else
        bind_io (read_to_string os (path_join dir ''type'')) (\<lambda>type_s. case type_s of Inl e \<Rightarrow> return_io False | Inr type_s \<Rightarrow>
        (case parse_u16 (trim type_s) of None \<Rightarrow> return_io False | Some kind \<Rightarrow>
         if kind \<noteq> ARPHRD_ETHER then return_io False else
         bind_io (fs_exists os (path_join dir ''wireless'')) (\<lambda>wireless. if wireless then return_io False else
         bind_io (fs_is_dir os (path_join dir ''bridge'')) (\<lambda>bridge. if bridge then return_io False else
         bind_io (fs_canonicalize os dir) (\<lambda>canon.
         if (case canon of Inl e \<Rightarrow> False | Inr canon \<Rightarrow> str_contains (from_utf8_lossy canon) ''/devices/virtual/'')
         then return_io False else
         map_io (\<lambda>flags. case flags of Inl e \<Rightarrow> True | Inr flags \<Rightarrow>
             (case parse_flags flags of None \<Rightarrow> True | Some val \<Rightarrow> val AND IFF_LOOPBACK = 0))
           (read_to_string os (path_join dir ''flags'')))))))))"

text \<open>The loop over the directory entries.\<close>

fun collect_physical :: "'w os \<Rightarrow> path \<Rightarrow> (io_error + bytes) list \<Rightarrow> string list \<Rightarrow> ('w, string list result) io" where
  "collect_physical os sys [] names = return_io (Inr names)"
| "collect_physical os sys (ent # ents) names =
     (case ent of Inl e \<Rightarrow> return_io (Inl (io_at sys e))
      | Inr fname \<Rightarrow>
          let name = from_utf8_lossy fname in
          bind_io (is_physical_ethernet_sys os sys name) (\<lambda>phys.
          collect_physical os sys ents (if phys then names @ [name] else names)))"

text \<open>\<^verbatim>\<open>names.sort()\<close>: by the bytes of the names.\<close>

abbreviation name_key :: "string \<Rightarrow> nat list" where
  "name_key s \<equiv> map code s"

definition list_physical_ethernet :: "'w os \<Rightarrow> path \<Rightarrow> ('w, string list result) io" where
  "list_physical_ethernet os sys =
     try_io (map_io (map_err (io_at sys)) (fs_read_dir os sys)) (\<lambda>entries.
     try_io (collect_physical os sys entries []) (\<lambda>names.
     return_io (Inr (sort_key name_key names))))"

section \<open>Choosing an interface\<close>

fun find_carrier :: "'w os \<Rightarrow> path \<Rightarrow> string list \<Rightarrow> ('w, string option) io" where
  "find_carrier os sys [] = return_io None"
| "find_carrier os sys (n # ns) =
     bind_io (carrier_up_sys os sys n) (\<lambda>up. if up then return_io (Some n) else find_carrier os sys ns)"

definition bring_up_down_links :: "'w os \<Rightarrow> path \<Rightarrow> string list \<Rightarrow> ('w, unit) io" where
  "bring_up_down_links os sys names =
     for_io names (\<lambda>name. bind_io (link_is_up_sys os sys name) (\<lambda>up.
       if up then return_io ()
       else bind_io (run_cmd os IP_BIN [''link'', ''set'', ''dev'', name, ''up'']) (\<lambda>_. return_io ())))"

definition poll_carrier :: "'w os \<Rightarrow> path \<Rightarrow> string list \<Rightarrow> nat \<Rightarrow> unit \<Rightarrow> ('w, unit + string option) io" where
  "poll_carrier os sys names deadline u =
     bind_io (find_carrier os sys names) (\<lambda>found. case found of
       Some name \<Rightarrow> return_io (Inr (Some name))
     | None \<Rightarrow> bind_io (instant_now os) (\<lambda>now.
         if deadline \<le> now then return_io (Inr None)
         else bind_io (thread_sleep os (from_millis AUTO_CARRIER_POLL_MS)) (\<lambda>_. return_io (Inl ()))))"

definition wait_for_carrier :: "'w os \<Rightarrow> path \<Rightarrow> string list \<Rightarrow> string \<Rightarrow> ('w, string) io" where
  "wait_for_carrier os sys names fallback =
     bind_io (bring_up_down_links os sys names) (\<lambda>_.
     bind_io (instant_now os) (\<lambda>now.
     bind_io (instant_add now (from_millis AUTO_CARRIER_WAIT_MS)) (\<lambda>deadline.
     map_io (\<lambda>found. case found of Some name \<Rightarrow> name | None \<Rightarrow> fallback)
       (loop_io (poll_carrier os sys names deadline) ()))))"

definition resolve_auto :: "'w os \<Rightarrow> path \<Rightarrow> LinkBringUp \<Rightarrow> ('w, string result) io" where
  "resolve_auto os sys bring =
     try_io (list_physical_ethernet os sys) (\<lambda>names.
     case names of [] \<Rightarrow> return_io (Inl NoEthernet)
     | fallback # _ \<Rightarrow>
       bind_io (find_carrier os sys names) (\<lambda>found. case found of
         Some name \<Rightarrow> return_io (Inr name)
       | None \<Rightarrow>
         if bring = Live then map_io Inr (wait_for_carrier os sys names fallback)
         else return_io (Inr fallback)))"

definition resolve_iface_with :: "'w os \<Rightarrow> path \<Rightarrow> string option \<Rightarrow> LinkBringUp \<Rightarrow> ('w, string result) io" where
  "resolve_iface_with os sys configured bring =
     (case configured of None \<Rightarrow> resolve_auto os sys bring
      | Some name \<Rightarrow>
          if name = AUTO_IFACE then resolve_auto os sys bring
          else bind_io (is_physical_ethernet_sys os sys name) (\<lambda>phys.
            return_io (if \<not> phys then Inl (NotEthernet name) else Inr name)))"

definition resolve_iface_live :: "'w os \<Rightarrow> path \<Rightarrow> string option \<Rightarrow> ('w, string result) io" where
  "resolve_iface_live os sys configured = resolve_iface_with os sys configured Live"

section \<open>Addresses and links through commands\<close>

definition iface_ipv4_cidr_cmd :: "'w os \<Rightarrow> 'n ipnet \<Rightarrow> string \<Rightarrow> ('w, string option) io" where
  "iface_ipv4_cidr_cmd os I iface =
     map_io (\<lambda>r. case r of Inl e \<Rightarrow> None | Inr (st, out, err) \<Rightarrow> parse_first_inet_cidr I (from_utf8_lossy out))
       (cmd_output os IP_BIN [''-4'', ''-o'', ''addr'', ''show'', ''dev'', iface])"

definition iface_has_ipv4_cmd :: "'w os \<Rightarrow> 'n ipnet \<Rightarrow> string \<Rightarrow> ('w, bool) io" where
  "iface_has_ipv4_cmd os I iface = map_io (\<lambda>c. c \<noteq> None) (iface_ipv4_cidr_cmd os I iface)"

definition iface_has_addr_cmd :: "'w os \<Rightarrow> 'n ipnet \<Rightarrow> string \<Rightarrow> ipv4 \<Rightarrow> ('w, bool) io" where
  "iface_has_addr_cmd os I iface ip =
     map_io (\<lambda>c. case c of None \<Rightarrow> False | Some c \<Rightarrow> starts_with c (ipv4_display ip @ ''/''))
       (iface_ipv4_cidr_cmd os I iface)"

definition ipv4_addr_is_local_cmd :: "'w os \<Rightarrow> ipv4 \<Rightarrow> ('w, bool) io" where
  "ipv4_addr_is_local_cmd os ip =
     map_io (\<lambda>r. case r of Inl e \<Rightarrow> False | Inr (st, out, err) \<Rightarrow> stdout_has_ipv4 (from_utf8_lossy out) ip)
       (cmd_output os IP_BIN [''-4'', ''-o'', ''addr'', ''show''])"

definition carrier_up_cmd :: "'w os \<Rightarrow> string \<Rightarrow> ('w, bool) io" where
  "carrier_up_cmd os iface =
     bind_io (carrier_up_sys os DEFAULT_SYS_CLASS_NET iface) (\<lambda>up.
     if up then return_io True
     else map_io (\<lambda>r. case r of Inl e \<Rightarrow> False | Inr (st, out, err) \<Rightarrow> str_contains (from_utf8_lossy out) ''state UP'')
       (cmd_output os IP_BIN [''link'', ''show'', ''dev'', iface]))"

definition cidr_ip :: "string \<Rightarrow> ipv4" where
  "cidr_ip cidr = (case cidr_ipv4 cidr of None \<Rightarrow> UNSPECIFIED | Some ip \<Rightarrow> ip)"

section \<open>\<^verbatim>\<open>impl NetOps for LiveNet\<close>\<close>

definition live_bring_up :: "'w os \<Rightarrow> path \<Rightarrow> string \<Rightarrow> ('w, unit result) io" where
  "live_bring_up os sys iface =
     bind_io (link_is_up_sys os sys iface) (\<lambda>up.
     if up then return_io (Inr ())
     else try_io (run_cmd os IP_BIN [''link'', ''set'', ''dev'', iface, ''up'']) (\<lambda>_.
       bind_io (apply_phy_tweaks os iface) (\<lambda>_. return_io (Inr ()))))"

definition live_add_addr :: "'w os \<Rightarrow> 'n ipnet \<Rightarrow> string \<Rightarrow> string \<Rightarrow> ('w, unit result) io" where
  "live_add_addr os I iface cidr =
     bind_io (run_cmd os IP_BIN [''addr'', ''add'', cidr, ''dev'', iface]) (\<lambda>r. case r of
       Inr u \<Rightarrow> return_io (Inr ())
     | Inl e \<Rightarrow> bind_io (iface_has_addr_cmd os I iface (cidr_ip cidr)) (\<lambda>has.
         return_io (if has then Inr () else Inl e)))"

definition live_start_dhclient :: "'w os \<Rightarrow> datadir \<Rightarrow> string \<Rightarrow> ('w, unit result) io" where
  "live_start_dhclient os dd iface =
     bind_io (fs_is_file os DHCLIENT_BIN) (\<lambda>present.
     if \<not> present then return_io (Inl (DhclientMissing DHCLIENT_BIN))
     else let pid_path = dhclient_pidfile dd iface; lease_path = dhclient_leasefile dd iface in
       try_io (ensure_parent os pid_path) (\<lambda>_.
       try_io (ensure_parent os lease_path) (\<lambda>_.
       run_cmd os DHCLIENT_BIN
         [''-nw'', ''-pf'', from_utf8_lossy pid_path, ''-lf'', from_utf8_lossy lease_path, iface])))"

text \<open>The loop of \<^verbatim>\<open>wait_ipv4\<close>: \<^verbatim>\<open>start.elapsed()\<close> is the time since \<open>start\<close>.\<close>

definition poll_ipv4 :: "'w os \<Rightarrow> 'n ipnet \<Rightarrow> string \<Rightarrow> nat \<Rightarrow> nat \<Rightarrow> unit \<Rightarrow> ('w, unit + bool) io" where
  "poll_ipv4 os I iface start timeout u =
     bind_io (instant_now os) (\<lambda>now.
     if now - start < timeout
     then bind_io (iface_has_ipv4_cmd os I iface) (\<lambda>has.
       if has then return_io (Inr True)
       else bind_io (thread_sleep os (from_millis 200)) (\<lambda>_. return_io (Inl ())))
     else map_io Inr (iface_has_ipv4_cmd os I iface))"

definition live_wait_ipv4 :: "'w os \<Rightarrow> 'n ipnet \<Rightarrow> string \<Rightarrow> nat \<Rightarrow> ('w, bool) io" where
  "live_wait_ipv4 os I iface timeout =
     bind_io (instant_now os) (\<lambda>start. loop_io (poll_ipv4 os I iface start timeout) ())"

definition LiveNet :: "'w os \<Rightarrow> datadir \<Rightarrow> 'n ipnet \<Rightarrow> path \<Rightarrow> 'w NetOps" where
  "LiveNet os dd I sys = \<lparr>
     list_ethernet = list_physical_ethernet os sys,
     is_physical_ethernet = is_physical_ethernet_sys os sys,
     resolve_iface = resolve_iface_live os sys,
     resolve_iface_passive = (\<lambda>c. resolve_iface_with os sys c NoBringUp),
     bring_up = live_bring_up os sys,
     flush_addr = (\<lambda>i. bind_io (run_cmd os IP_BIN [''addr'', ''flush'', ''dev'', i]) (\<lambda>_. return_io (Inr ()))),
     add_addr = live_add_addr os I,
     iface_has_ipv4 = iface_has_ipv4_cmd os I,
     iface_has_addr = iface_has_addr_cmd os I,
     iface_ipv4_cidr = iface_ipv4_cidr_cmd os I,
     carrier_up = carrier_up_cmd os,
     link_is_up = link_is_up_sys os sys,
     set_down = (\<lambda>i. run_cmd os IP_BIN [''link'', ''set'', ''dev'', i, ''down'']),
     ipv4_addr_is_local = ipv4_addr_is_local_cmd os,
     ping = (\<lambda>host. map_io is_ok (run_cmd os PING_BIN [''-c'', PING_COUNT, ''-W'', PING_TIMEOUT_SEC, ipv4_display host])),
     stop_dhclient = (\<lambda>i. stop os (dhclient_pidfile dd i) DHCLIENT_BIN),
     start_dhclient = live_start_dhclient os dd,
     dhclient_running = (\<lambda>i. is_alive os (dhclient_pidfile dd i) DHCLIENT_BIN),
     wait_ipv4 = live_wait_ipv4 os I,
     replace_default_via = (\<lambda>gw i. run_cmd os IP_BIN
       [''route'', ''replace'', ''default'', ''via'', ipv4_display gw, ''dev'', i]),
     del_default = bind_io (run_cmd os IP_BIN [''route'', ''del'', ''default'']) (\<lambda>_. return_io (Inr ())) \<rparr>"

end
