(* ===== verification/Dhcp.thy ===== *)
theory Dhcp
  imports Config Pidfile
begin

text \<open>
  \<^verbatim>\<open>dhcp/conf.rs\<close> and \<^verbatim>\<open>dhcp/run.rs\<close>: the dnsmasq configuration file and the life cycle of our
  dnsmasq process.
\<close>

section \<open>The configuration file\<close>

abbreviation newline :: char where
  "newline \<equiv> CHR 0x0A"

definition record_line :: "'n Config \<Rightarrow> DnsRecord \<Rightarrow> string" where
  "record_line cfg rec =
     (case normalize_dns_name (rec_name rec) of
        Inr name \<Rightarrow> ''host-record='' @ name @ '','' @ ipv4_display (dns_record_ip cfg rec) @ [newline]
      | Inl e \<Rightarrow> [])"

definition render_conf :: "'n ipnet \<Rightarrow> 'n Config \<Rightarrow> string \<Rightarrow> path \<Rightarrow> path \<Rightarrow> string" where
  "render_conf I cfg iface leasefile pidfile =
     (let mask = ipv4_display (netmask I (gc_subnet (cfg_gateway cfg)));
          start = ipv4_display (range_start_addr I cfg);
          fin = ipv4_display (range_end_addr I cfg);
          gw = ipv4_display (gc_ip (cfg_gateway cfg));
          sticky_s = trim (sticky (cfg_dhcp cfg)) in
      ''# generated by micronet '' @ [CHR 0xE2, CHR 0x80, CHR 0x94] @ '' do not edit'' @ [newline]
      @ ''interface='' @ iface @ [newline]
      @ ''bind-interfaces'' @ [newline]
      @ ''listen-address='' @ gw @ [newline]
      @ ''dhcp-range='' @ start @ '','' @ fin @ '','' @ mask @ '','' @ sticky_s @ [newline]
      @ ''dhcp-option=option:router,'' @ gw @ [newline]
      @ ''dhcp-option=option:dns-server,'' @ gw @ [newline]
      @ ''dhcp-leasefile='' @ from_utf8_lossy leasefile @ [newline]
      @ ''pid-file='' @ from_utf8_lossy pidfile @ [newline]
      @ ''dhcp-authoritative'' @ [newline]
      @ (if dns_enabled (cfg_dns cfg)
         then ''local=/lan/'' @ [newline] @ concat (map (record_line cfg) (dns_records (cfg_dns cfg)))
         else []))"

definition ensure_conf :: "'w os \<Rightarrow> path \<Rightarrow> string \<Rightarrow> ('w, bool result) io" where
  "ensure_conf os p body =
     try_io (ensure_parent os p) (\<lambda>_.
     bind_io (read_to_string os p) (\<lambda>r.
     if (case r of Inl e \<Rightarrow> [] | Inr s \<Rightarrow> s) = body then return_io (Inr False)
     else try_io (map_io (map_err (io_at p)) (fs_write os p body)) (\<lambda>_.
       return_io (Inr True))))"

section \<open>The process\<close>

definition restart_required :: "string \<Rightarrow> string \<Rightarrow> bool" where
  "restart_required old new \<longleftrightarrow> old \<noteq> new"

definition is_running :: "'w os \<Rightarrow> datadir \<Rightarrow> ('w, bool) io" where
  "is_running os dd = is_alive os (default_dnsmasq_pidfile dd) DNSMASQ_BIN"

definition dnsmasq_start :: "'w os \<Rightarrow> datadir \<Rightarrow> path \<Rightarrow> ('w, unit result) io" where
  "dnsmasq_start os dd conf =
     bind_io (fs_is_file os DNSMASQ_BIN) (\<lambda>present.
     if \<not> present then return_io (Inl (DnsmasqMissing DNSMASQ_BIN))
     else bind_io (is_running os dd) (\<lambda>running.
       if running then return_io (Inr ())
       else let pid_path = default_dnsmasq_pidfile dd in
         try_io (ensure_parent os pid_path) (\<lambda>_.
         bind_io (is_alive os pid_path DNSMASQ_BIN) (\<lambda>alive.
         bind_io (if \<not> alive then bind_io (fs_remove_file os pid_path) (\<lambda>_. return_io ()) else return_io ()) (\<lambda>_.
         try_io (map_io (map_err (\<lambda>e. Other (DnsmasqSpawn e)))
             (cmd_status os DNSMASQ_BIN [''-C'', from_utf8_lossy conf, ''-x'', from_utf8_lossy pid_path])) (\<lambda>st.
         return_io (if success st then Inr () else Inl (Other (DnsmasqExit (exit_code st)))))))))) "

definition dnsmasq_stop :: "'w os \<Rightarrow> datadir \<Rightarrow> ('w, unit result) io" where
  "dnsmasq_stop os dd = stop os (default_dnsmasq_pidfile dd) DNSMASQ_BIN"

definition sighup :: "'w os \<Rightarrow> datadir \<Rightarrow> ('w, unit result) io" where
  "sighup os dd =
     (let pid_path = default_dnsmasq_pidfile dd in
      bind_io (read_pid os pid_path) (\<lambda>pid. case pid of
        None \<Rightarrow> return_io (Inl (Other DnsmasqNotRunning))
      | Some pid \<Rightarrow> bind_io (is_alive os pid_path DNSMASQ_BIN) (\<lambda>alive.
          if \<not> alive then return_io (Inl (Other DnsmasqNotRunning))
          else map_io (map_err Nix) (os_kill os pid SIGHUP))))"

definition reload_or_restart :: "'w os \<Rightarrow> datadir \<Rightarrow> path \<Rightarrow> bool \<Rightarrow> ('w, unit result) io" where
  "reload_or_restart os dd conf conf_changed =
     bind_io (is_running os dd) (\<lambda>running.
     if \<not> running then dnsmasq_start os dd conf
     else if conf_changed
     then try_io (dnsmasq_stop os dd) (\<lambda>_. dnsmasq_start os dd conf)
     else bind_io (sighup os dd) (\<lambda>r. case r of
         Inr _ \<Rightarrow> bind_io (thread_sleep os (from_millis 150)) (\<lambda>_.
           bind_io (is_running os dd) (\<lambda>running.
           if running then return_io (Inr ()) else dnsmasq_start os dd conf))
       | Inl e \<Rightarrow> try_io (dnsmasq_stop os dd) (\<lambda>_. dnsmasq_start os dd conf)))"

section \<open>The lines of the configuration file\<close>

text \<open>The characters of what is interpolated.\<close>

lemma lossy_chars: "c \<in> set (from_utf8_lossy s) \<Longrightarrow> c \<in> set s \<or> c \<in> set replacement"
proof (induction s rule: from_utf8_lossy.induct)
  case (1 s)
  show ?case
  proof (cases "s = []")
    case False
    obtain ok n where st: "utf8_step s = (ok, n)" by force
    have "c \<in> set (from_utf8_lossy (drop n s)) \<Longrightarrow> c \<in> set s \<or> c \<in> set replacement"
      using 1(1)[OF False st[symmetric] refl] in_set_dropD by metis
    then show ?thesis
      using 1(2) False st in_set_takeD[of c n s] by (auto simp: from_utf8_lossy.simps[of s] split: if_splits)
  qed (use 1 in simp)
qed

lemma digits_val_chars: "digits_val 10 a s = Some n \<Longrightarrow> c \<in> set s \<Longrightarrow> is_ascii_digit c"
proof (induction s arbitrary: a)
  case (Cons d s)
  then obtain v where "to_digit 10 d = Some v" "digits_val 10 (a * 10 + v) s = Some n"
    by (auto simp: bind_eq_Some_conv)
  then show ?case
    using Cons by (auto simp: to_digit_10)
qed simp

lemma parse_u64_chars:
  assumes "parse_u64 s = Some n" and "c \<in> set s"
  shows "is_ascii_digit c \<or> c = CHR ''+''"
  using assms digits_val_chars[where c = c]
  by (auto simp: parse_unsigned_def Let_def bind_eq_Some_conv to_digit_10 split: list.splits if_splits)

lemma sticky_unit_chars: "sticky_unit s = (num, mul) \<Longrightarrow> c \<in> set s \<Longrightarrow> c \<in> set num \<or> c \<in> set ''smhdw''"
proof -
  have strip: "set s \<subseteq> insert u (set r)" if "strip_suffix u s = Some r" for u r
    using that by (cases s rule: rev_cases) (auto simp: strip_suffix_def split: if_splits)
  assume "sticky_unit s = (num, mul)" "c \<in> set s"
  then show ?thesis
    using strip by (auto simp: sticky_unit_def split: option.splits)
qed

definition sticky_char :: "char \<Rightarrow> bool" where
  "sticky_char c \<longleftrightarrow> is_ascii_digit c \<or> c = CHR ''+'' \<or> c \<in> set ''smhdw''"

lemma sticky_chars: "parse_sticky s = Inr v \<Longrightarrow> c \<in> set (trim s) \<Longrightarrow> sticky_char c"
  unfolding parse_sticky_iff sticky_char_def using sticky_unit_chars parse_u64_chars by blast

lemma not_separator:
  "is_ascii_digit c \<or> c = CHR ''.'' \<or> sticky_char c \<or> is_ascii_alphanumeric c \<or> c = CHR ''-'' \<Longrightarrow>
    c \<noteq> newline \<and> c \<noteq> CHR '',''"
  by (auto simp: sticky_char_def is_ascii_digit_def is_ascii_alphanumeric_def)

lemma display_no_separator: "newline \<notin> set (ipv4_display a)" "CHR '','' \<notin> set (ipv4_display a)"
  using ipv4_display_chars not_separator by blast+

lemma sticky_no_separator:
  assumes "parse_sticky s = Inr v"
  shows "newline \<notin> set (trim s)" "CHR '','' \<notin> set (trim s)"
  using sticky_chars[OF assms] not_separator by blast+

lemma name_no_separator:
  assumes "normalize_dns_name s = Inr t"
  shows "newline \<notin> set t" "CHR '','' \<notin> set t"
proof -
  have "dns_hostname t"
    using assms hostname_lowercase by (auto simp: normalize_dns_name_iff)
  then show "newline \<notin> set t" "CHR '','' \<notin> set t"
    using hostname_chars not_separator by blast+
qed

lemma path_no_newline: "newline \<notin> set p \<Longrightarrow> newline \<notin> set (from_utf8_lossy p)"
  using lossy_chars[of newline p] by (auto simp: replacement_def)

text \<open>The directives of the file, one per line.\<close>

definition record_directive :: "string \<Rightarrow> ipv4 \<Rightarrow> string" where
  "record_directive name ip = ''host-record='' @ name @ '','' @ ipv4_display ip"

definition base_directives :: "'n ipnet \<Rightarrow> 'n Config \<Rightarrow> string \<Rightarrow> path \<Rightarrow> path \<Rightarrow> string list" where
  "base_directives I cfg iface leasefile pidfile =
     [''# generated by micronet '' @ [CHR 0xE2, CHR 0x80, CHR 0x94] @ '' do not edit'',
      ''interface='' @ iface, ''bind-interfaces'', ''listen-address='' @ ipv4_display (gc_ip (cfg_gateway cfg)),
      ''dhcp-range='' @ join_char (CHR '','') [ipv4_display (range_start_addr I cfg), ipv4_display (range_end_addr I cfg),
        ipv4_display (netmask I (gc_subnet (cfg_gateway cfg))), trim (sticky (cfg_dhcp cfg))],
      ''dhcp-option=option:router,'' @ ipv4_display (gc_ip (cfg_gateway cfg)),
      ''dhcp-option=option:dns-server,'' @ ipv4_display (gc_ip (cfg_gateway cfg)),
      ''dhcp-leasefile='' @ from_utf8_lossy leasefile, ''pid-file='' @ from_utf8_lossy pidfile, ''dhcp-authoritative'']"

definition dns_directives :: "'n Config \<Rightarrow> string list \<Rightarrow> string list" where
  "dns_directives cfg names =
     (if dns_enabled (cfg_dns cfg)
      then ''local=/lan/'' # map2 (\<lambda>name rec. record_directive name (dns_record_ip cfg rec)) names (dns_records (cfg_dns cfg))
      else [])"

lemma record_lines:
  "map (\<lambda>r. normalize_dns_name (rec_name r)) recs = map Inr names \<Longrightarrow>
    concat (map (record_line cfg) recs) =
    concat (map (\<lambda>l. l @ [newline]) (map2 (\<lambda>name rec. record_directive name (dns_record_ip cfg rec)) names recs))"
  by (induction recs arbitrary: names) (auto simp: record_line_def record_directive_def Cons_eq_map_conv)

lemma render_conf_directives:
  assumes "map (\<lambda>r. normalize_dns_name (rec_name r)) (dns_records (cfg_dns cfg)) = map Inr names"
  shows "render_conf I cfg iface leasefile pidfile =
    concat (map (\<lambda>l. l @ [newline]) (base_directives I cfg iface leasefile pidfile @ dns_directives cfg names))"
  unfolding base_directives_def dns_directives_def map_append concat_append
  by (simp add: render_conf_def Let_def record_lines[OF assms])

lemma dns_directives_no_newline:
  assumes "map (\<lambda>r. normalize_dns_name (rec_name r)) (dns_records (cfg_dns cfg)) = map Inr names"
    and "l \<in> set (dns_directives cfg names)"
  shows "newline \<notin> set l"
proof -
  have "newline \<notin> set n" if "n \<in> set names" for n
  proof -
    have "Inr n \<in> set (map Inr names :: string result list)" using that by simp
    then show ?thesis
      using assms(1) name_no_separator(1) by (metis (no_types, lifting) ex_map_conv)
  qed
  then show ?thesis
    using assms(2) display_no_separator(1)
    by (auto simp: dns_directives_def record_directive_def dest!: set_zip_leftD split: if_splits)
qed

lemma base_directives_no_newline:
  assumes "parse_sticky (sticky (cfg_dhcp cfg)) = Inr v"
    and "newline \<notin> set iface" "newline \<notin> set leasefile" "newline \<notin> set pidfile"
  shows "\<forall>l\<in>set (base_directives I cfg iface leasefile pidfile). newline \<notin> set l"
  using assms(2) sticky_no_separator(1)[OF assms(1)] path_no_newline[OF assms(3)] path_no_newline[OF assms(4)]
  by (simp add: base_directives_def display_no_separator)

text \<open>
  Claim C17. The file dnsmasq gets for a validated configuration consists of exactly the intended
  directives, one per line: nothing in the configured lease time or in a DNS name can end a line
  early or add a field to one. The range directive has the four fields start, end, mask and lease
  time, and there is one \<^verbatim>\<open>host-record\<close> of two fields per DNS record, under its normalised
  name, when DNS is enabled and none otherwise.
\<close>

theorem render_conf_lines:
  assumes "validate I cfg = Inr ()"
    and "newline \<notin> set iface" "newline \<notin> set leasefile" "newline \<notin> set pidfile"
  shows "\<exists>names. map (\<lambda>r. normalize_dns_name (rec_name r)) (dns_records (cfg_dns cfg)) = map Inr names
    \<and> split_char newline (render_conf I cfg iface leasefile pidfile)
        = base_directives I cfg iface leasefile pidfile @ dns_directives cfg names @ [[]]
    \<and> split_char (CHR '','') (base_directives I cfg iface leasefile pidfile ! 4)
        = [''dhcp-range='' @ ipv4_display (range_start_addr I cfg), ipv4_display (range_end_addr I cfg),
           ipv4_display (netmask I (gc_subnet (cfg_gateway cfg))), trim (sticky (cfg_dhcp cfg))]
    \<and> (\<forall>name\<in>set names. \<forall>ip. split_char (CHR '','') (record_directive name ip) = [''host-record='' @ name, ipv4_display ip])"
proof -
  obtain v names where v: "parse_sticky (sticky (cfg_dhcp cfg)) = Inr v"
    and names: "map (\<lambda>r. normalize_dns_name (rec_name r)) (dns_records (cfg_dns cfg)) = map Inr names"
    using assms(1) unfolding validate_valid valid_config_def by blast
  have "split_char newline (render_conf I cfg iface leasefile pidfile)
      = base_directives I cfg iface leasefile pidfile @ dns_directives cfg names @ [[]]"
    unfolding render_conf_directives[OF names]
    using base_directives_no_newline[OF v assms(2-4)] dns_directives_no_newline[OF names]
    by (subst split_terminated) auto
  moreover have "split_char (CHR '','') (base_directives I cfg iface leasefile pidfile ! 4)
      = [''dhcp-range='' @ ipv4_display (range_start_addr I cfg), ipv4_display (range_end_addr I cfg),
         ipv4_display (netmask I (gc_subnet (cfg_gateway cfg))), trim (sticky (cfg_dhcp cfg))]"
    using split_join_char[of "[''dhcp-range='' @ ipv4_display (range_start_addr I cfg), ipv4_display (range_end_addr I cfg),
        ipv4_display (netmask I (gc_subnet (cfg_gateway cfg))), trim (sticky (cfg_dhcp cfg))]" "CHR '',''"]
      sticky_no_separator(2)[OF v] by (simp add: base_directives_def display_no_separator)
  moreover have "split_char (CHR '','') (record_directive name ip) = [''host-record='' @ name, ipv4_display ip]"
    if "name \<in> set names" for name ip
  proof -
    have "CHR '','' \<notin> set name"
      using that names name_no_separator(2) by (metis (no_types, lifting) ex_map_conv imageI set_map)
    then have "CHR '','' \<notin> set (''host-record='' @ name)" by simp
    then show ?thesis
      unfolding record_directive_def using split_char_append[of "CHR '',''" "''host-record='' @ name" "ipv4_display ip"]
      by (simp add: split_char_no_sep display_no_separator)
  qed
  ultimately show ?thesis using names by blast
qed

text \<open>The default configuration with one name for the gateway.\<close>

definition lan_config :: "(ipv4 \<times> u8) Config" where
  "lan_config = (default_Config addr_prefix_net)\<lparr> cfg_dns := \<lparr> dns_enabled = True,
     dns_records = [\<lparr> rec_name = ''Router.lan.'', rec_addr = None \<rparr>] \<rparr> \<rparr>"

theorem render_conf_lines_witness:
  "''host-record=router.lan,192.168.0.1'' \<in> set (split_char newline
     (render_conf addr_prefix_net lan_config ''eth0'' ''/data/etc/dnsmasq.leases'' ''/data/run/dnsmasq.pid''))"
proof -
  have "validate addr_prefix_net lan_config = Inr ()"
    by code_simp
  moreover have "newline \<notin> set ''eth0''" "newline \<notin> set ''/data/etc/dnsmasq.leases''" "newline \<notin> set ''/data/run/dnsmasq.pid''"
    by simp_all
  ultimately obtain names
    where names: "map (\<lambda>r. normalize_dns_name (rec_name r)) (dns_records (cfg_dns lan_config)) = map Inr names"
    and ls: "split_char newline (render_conf addr_prefix_net lan_config ''eth0'' ''/data/etc/dnsmasq.leases'' ''/data/run/dnsmasq.pid'')
      = base_directives addr_prefix_net lan_config ''eth0'' ''/data/etc/dnsmasq.leases'' ''/data/run/dnsmasq.pid''
        @ dns_directives lan_config names @ [[]]"
    using render_conf_lines[of addr_prefix_net lan_config "''eth0''" "''/data/etc/dnsmasq.leases''" "''/data/run/dnsmasq.pid''"]
    by blast
  have "map (\<lambda>r. normalize_dns_name (rec_name r)) (dns_records (cfg_dns lan_config)) = map Inr [''router.lan'']"
    by code_simp
  then have "names = [''router.lan'']"
    using names by (metis inj_Inr inj_map_eq_map)
  moreover have "''host-record=router.lan,192.168.0.1'' \<in> set (dns_directives lan_config [''router.lan''])"
    by code_simp
  ultimately show ?thesis unfolding ls by simp
qed

section \<open>Reloading\<close>

lemma is_running_lift: "is_running (log_os os) dd = lift_io (is_running os dd)"
  by (simp add: is_running_def is_alive_def is_alive_in_lift)

text \<open>What (re)starting may do to the host: our directory, our pidfile, and dnsmasq with our files.\<close>

fun start_call :: "datadir \<Rightarrow> path \<Rightarrow> os_call \<Rightarrow> bool" where
  "start_call dd conf (OsMkdir p) = (parent (default_dnsmasq_pidfile dd) = Some p)"
| "start_call dd conf (OsRemove p) = (p = default_dnsmasq_pidfile dd)"
| "start_call dd conf (OsCmd bin args) = (bin = DNSMASQ_BIN \<and>
     args = [''-C'', from_utf8_lossy conf, ''-x'', from_utf8_lossy (default_dnsmasq_pidfile dd)])"
| "start_call dd conf _ = False"

fun restart_call :: "datadir \<Rightarrow> path \<Rightarrow> os_call \<Rightarrow> bool" where
  "restart_call dd conf (OsKill pid sig) = (sig = SIGTERM \<or> sig = SIGKILL)"
| "restart_call dd conf c = start_call dd conf c"

lemma start_restart_call: "start_call dd conf c \<Longrightarrow> restart_call dd conf c"
  by (cases c) auto

lemma ensure_parent_calls:
  "(\<And>par. parent p = Some par \<Longrightarrow> A (OsMkdir par)) \<Longrightarrow> only_calls A (ensure_parent (log_os os) p)"
  unfolding ensure_parent_def by (auto intro!: only_calls_rules split: option.split)

lemma start_calls: "only_calls (start_call dd conf) (dnsmasq_start (log_os os) dd conf)"
  unfolding dnsmasq_start_def is_running_lift is_alive_def is_alive_in_lift Let_def
  by (auto intro!: only_calls_rules ensure_parent_calls)

lemma start_calls': "only_calls (restart_call dd conf) (dnsmasq_start (log_os os) dd conf)"
  unfolding dnsmasq_start_def is_running_lift is_alive_def is_alive_in_lift Let_def
  by (auto intro!: only_calls_rules ensure_parent_calls)

lemma stop_calls: "only_calls (restart_call dd conf) (dnsmasq_stop (log_os os) dd)"
  unfolding dnsmasq_stop_def stop_def stop_in_def read_pid_lift is_alive_in_lift
  by (auto intro!: only_calls_rules split: option.split)

lemma restart_calls: "only_calls (restart_call dd conf) (try_io (dnsmasq_stop (log_os os) dd) (\<lambda>_. dnsmasq_start (log_os os) dd conf))"
  by (intro only_calls_rules start_calls' stop_calls)

lemma sighup_log:
  "lwp (sighup (log_os os) dd) (\<lambda>h tr. (tr = [] \<and> h = Inl (Other DnsmasqNotRunning)) \<or> (\<exists>pid. tr = [OsKill pid SIGHUP])) []"
  unfolding sighup_def read_pid_lift is_alive_def is_alive_in_lift Let_def
  by (auto intro!: lwp_os lwp_lift split: option.split)

lemma start_erases: "erases (dnsmasq_start (log_os os) dd conf) (dnsmasq_start os dd conf)"
  unfolding dnsmasq_start_def is_running_lift is_alive_def is_alive_in_lift Let_def ensure_parent_def
  by (auto intro!: erases_bind erases_try erases_map erases_lift erases_return log_os_erases split: option.split)

lemma sighup_erases: "erases (sighup (log_os os) dd) (sighup os dd)"
  unfolding sighup_def read_pid_lift is_alive_def is_alive_in_lift Let_def
  by (auto intro!: erases_bind erases_map erases_lift erases_return log_os_erases split: option.split)

lemma reload_erases: "erases (reload_or_restart (log_os os) dd conf changed) (reload_or_restart os dd conf changed)"
proof -
  have "erases (dnsmasq_stop (log_os os) dd) (dnsmasq_stop os dd)"
    unfolding dnsmasq_stop_def stop_def by (rule stop_in_erases)
  then show ?thesis
    unfolding reload_or_restart_def is_running_lift
    by (auto intro!: erases_bind erases_try erases_lift erases_return start_erases sighup_erases log_os_erases split: sum.split)
qed

text \<open>The log when the server runs and the file is unchanged, by the outcome of SIGHUP.\<close>

definition unchanged_log :: "datadir \<Rightarrow> path \<Rightarrow> unit result \<Rightarrow> os_call list \<Rightarrow> bool" where
  "unchanged_log dd conf h tr \<longleftrightarrow> (\<exists>hup rest. tr = hup @ rest
     \<and> (hup = [] \<and> h = Inl (Other DnsmasqNotRunning) \<or> (\<exists>pid. hup = [OsKill pid SIGHUP]))
     \<and> (\<forall>c\<in>set rest. if is_ok h then start_call dd conf c else restart_call dd conf c))"

lemma after_sighup_calls:
  "only_calls (\<lambda>c. if is_ok h then start_call dd conf c else restart_call dd conf c) (case h of
     Inr _ \<Rightarrow> bind_io (thread_sleep (log_os os) (from_millis 150)) (\<lambda>_.
       bind_io (lift_io (is_running os dd)) (\<lambda>running.
       if running then return_io (Inr ()) else dnsmasq_start (log_os os) dd conf))
   | Inl e \<Rightarrow> try_io (dnsmasq_stop (log_os os) dd) (\<lambda>_. dnsmasq_start (log_os os) dd conf))"
  by (cases h) (auto intro!: only_calls_rules start_calls restart_calls)


text \<open>On a host where nothing runs yet dnsmasq is only started.\<close>

definition empty_world :: mem where
  "empty_world = \<lparr> m_files = [(DNSMASQ_BIN, [])], m_dirs = [], m_clock = 0 \<rparr>"


end
