(* ===== verification/Probe.thy ===== *)
theory Probe
  imports Os Ipv4 Loops
begin

text \<open>
  \<^verbatim>\<open>net/probe.rs\<close>: the DHCPDISCOVER probe. Messages and their encoding belong to \<^verbatim>\<open>dhcproto\<close>,
  sockets to \<^verbatim>\<open>socket2\<close> and the standard library: both are dictionaries the functions take as
  arguments. The cookie check in \<^verbatim>\<open>encode_discover\<close> is a \<^verbatim>\<open>debug_assert\<close>, which release builds
  leave out, and is not modelled.
\<close>

section \<open>What the code uses of \<^verbatim>\<open>dhcproto\<close> and of sockets\<close>

datatype Opcode = BootRequest | BootReply | UnknownOpcode u8
datatype HType = Eth | OtherHType u8
datatype MessageType = Discover | Offer | OtherMessageType u8
datatype OptionCode = SubnetMask | Router | DomainNameServer | MessageTypeCode | ServerIdentifierCode
datatype DhcpOption =
    OptMessageType MessageType
  | OptServerIdentifier ipv4
  | OptParameterRequestList "OptionCode list"
  | OptOther

record 'm dhcproto =
  msg_default :: 'm
  set_opcode :: "Opcode \<Rightarrow> 'm \<Rightarrow> 'm"
  set_htype :: "HType \<Rightarrow> 'm \<Rightarrow> 'm"
  set_xid :: "u32 \<Rightarrow> 'm \<Rightarrow> 'm"
  set_flags_broadcast :: "'m \<Rightarrow> 'm"
  set_chaddr :: "u8 list \<Rightarrow> 'm \<Rightarrow> 'm"
  opts_insert :: "DhcpOption \<Rightarrow> 'm \<Rightarrow> 'm"
  msg_encode :: "'m \<Rightarrow> string + bytes"
  msg_decode :: "bytes \<Rightarrow> 'm option"
  opcode :: "'m \<Rightarrow> Opcode"
  htype :: "'m \<Rightarrow> HType"
  hlen :: "'m \<Rightarrow> u8"
  xid :: "'m \<Rightarrow> u32"
  chaddr :: "'m \<Rightarrow> u8 list"
  opts_get :: "'m \<Rightarrow> OptionCode \<Rightarrow> DhcpOption option"

datatype socket_addr = V4 ipv4 u16 | V6

record ('w, 's) udp =
  sk_new :: "('w, io_error + 's) io"
  set_reuse_address :: "'s \<Rightarrow> ('w, io_error + unit) io"
  set_broadcast :: "'s \<Rightarrow> ('w, io_error + unit) io"
  set_read_timeout :: "'s \<Rightarrow> nat \<Rightarrow> ('w, io_error + unit) io"
  bind_device :: "'s \<Rightarrow> string \<Rightarrow> ('w, io_error + unit) io"
  sk_bind :: "'s \<Rightarrow> socket_addr \<Rightarrow> ('w, io_error + unit) io"
  send_to :: "'s \<Rightarrow> bytes \<Rightarrow> socket_addr \<Rightarrow> ('w, io_error + nat) io"
  recv_from :: "'s \<Rightarrow> nat \<Rightarrow> ('w, io_error + bytes \<times> socket_addr) io"
  subsec_nanos :: "('w, u32 option) io"

section \<open>Messages\<close>

definition DHCP_CLIENT_PORT :: u16 where "DHCP_CLIENT_PORT = 68"
definition DHCP_SERVER_PORT :: u16 where "DHCP_SERVER_PORT = 67"

record OfferView =
  server_id :: "ipv4 option"

definition encode_discover :: "'m dhcproto \<Rightarrow> u8 list \<Rightarrow> u32 \<Rightarrow> bytes result" where
  "encode_discover D ch x =
     (let msg = msg_default D;
          msg = set_opcode D BootRequest msg;
          msg = set_htype D Eth msg;
          msg = set_xid D x msg;
          msg = set_flags_broadcast D msg;
          msg = set_chaddr D ch msg;
          msg = opts_insert D (OptMessageType Discover) msg;
          msg = opts_insert D (OptParameterRequestList [SubnetMask, Router, DomainNameServer]) msg in
      map_err (\<lambda>e. DhcpProbe (DhcpEncode e)) (msg_encode D msg))"

definition decode_matching_offer :: "'m dhcproto \<Rightarrow> bytes \<Rightarrow> u32 \<Rightarrow> u8 list \<Rightarrow> OfferView option" where
  "decode_matching_offer D buf x ch =
     (case msg_decode D buf of None \<Rightarrow> None
      | Some msg \<Rightarrow>
          if opcode D msg \<noteq> BootReply then None
          else if htype D msg \<noteq> Eth then None
          else if hlen D msg \<noteq> 6 then None
          else if xid D msg \<noteq> x then None
          else if length (chaddr D msg) < 6 \<or> take 6 (chaddr D msg) \<noteq> ch then None
          else if opts_get D msg MessageTypeCode \<noteq> Some (OptMessageType Offer) then None
          else Some \<lparr> server_id = (case opts_get D msg ServerIdentifierCode of
                 Some (OptServerIdentifier ip) \<Rightarrow> Some ip | _ \<Rightarrow> None) \<rparr>)"

fun udp_src_v4 :: "socket_addr \<Rightarrow> ipv4" where
  "udp_src_v4 (V4 ip port) = ip"
| "udp_src_v4 V6 = UNSPECIFIED"

definition offer_identity :: "ipv4 option \<Rightarrow> ipv4 \<Rightarrow> ipv4 option" where
  "offer_identity sid udp_src =
     (case sid of Some i \<Rightarrow> Some i
      | None \<Rightarrow> if udp_src \<noteq> UNSPECIFIED then Some udp_src else None)"

definition xid_now :: "('w, 's) udp \<Rightarrow> ('w, u32) io" where
  "xid_now sk = map_io (\<lambda>d. case d of Some n \<Rightarrow> n | None \<Rightarrow> 1) (subsec_nanos sk)"

section \<open>The probe\<close>

text \<open>A datagram that says there is another DHCP server.\<close>

definition foreign_offer :: "'m dhcproto \<Rightarrow> u32 \<Rightarrow> u8 list \<Rightarrow> bytes \<Rightarrow> socket_addr \<Rightarrow> bool" where
  "foreign_offer D x mac buf src =
     (case decode_matching_offer D buf x mac of None \<Rightarrow> False
      | Some offer \<Rightarrow> offer_identity (server_id offer) (udp_src_v4 src) \<noteq> None)"

text \<open>What one received datagram or error does to the probe.\<close>

definition recv_outcome :: "'m dhcproto \<Rightarrow> u32 \<Rightarrow> u8 list \<Rightarrow> io_error + bytes \<times> socket_addr \<Rightarrow> unit + bool result" where
  "recv_outcome D x mac r = (case r of
       Inr (buf, src) \<Rightarrow> if foreign_offer D x mac buf src then Inr (Inr True) else Inl ()
     | Inl e \<Rightarrow> if e = WouldBlock \<or> e = TimedOut then Inl () else Inr (Inl (DhcpProbe (DhcpRecv e))))"

definition recv_round ::
  "'m dhcproto \<Rightarrow> ('w, 's) udp \<Rightarrow> ('w, nat) io \<Rightarrow> 's \<Rightarrow> u32 \<Rightarrow> u8 list \<Rightarrow> nat \<Rightarrow> unit \<Rightarrow> ('w, unit + bool result) io" where
  "recv_round D sk now sock x mac deadline u =
     bind_io now (\<lambda>t.
     if t < deadline then map_io (recv_outcome D x mac) (recv_from sk sock 1500)
     else return_io (Inr (Inr False)))"

definition probe_step :: "(io_error \<Rightarrow> probe_msg) \<Rightarrow> ('w, io_error + 'a) io \<Rightarrow> ('w, 'a result) io" where
  "probe_step msg m = map_io (map_err (\<lambda>e. DhcpProbe (msg e))) m"

definition probe_with_xid ::
  "'m dhcproto \<Rightarrow> ('w, 's) udp \<Rightarrow> ('w, nat) io \<Rightarrow> string \<Rightarrow> u8 list \<Rightarrow> nat \<Rightarrow> u32 \<Rightarrow> ('w, bool result) io" where
  "probe_with_xid D sk now iface mac timeout x =
     try_io (return_io (encode_discover D mac x)) (\<lambda>pkt.
     try_io (probe_step DhcpSocket (sk_new sk)) (\<lambda>sock.
     try_io (probe_step SoReuseaddr (set_reuse_address sk sock)) (\<lambda>_.
     try_io (probe_step SoBroadcast (set_broadcast sk sock)) (\<lambda>_.
     try_io (probe_step SoRcvtimeo (set_read_timeout sk sock (from_millis DHCP_PROBE_RECV_TIMEOUT_MS))) (\<lambda>_.
     try_io (probe_step (SoBindtodevice iface) (bind_device sk sock iface)) (\<lambda>_.
     try_io (probe_step BindPort (sk_bind sk sock (V4 UNSPECIFIED DHCP_CLIENT_PORT))) (\<lambda>_.
     try_io (probe_step DiscoverSend (send_to sk sock pkt (V4 BROADCAST DHCP_SERVER_PORT))) (\<lambda>_.
     bind_io now (\<lambda>t.
     bind_io (instant_add t timeout) (\<lambda>deadline.
     loop_io (recv_round D sk now sock x mac deadline) ()))))))))))"

definition probe_foreign :: "'m dhcproto \<Rightarrow> ('w, 's) udp \<Rightarrow> ('w, nat) io \<Rightarrow> string \<Rightarrow> u8 list \<Rightarrow> nat \<Rightarrow> ('w, bool result) io" where
  "probe_foreign D sk now iface mac timeout =
     bind_io (xid_now sk) (probe_with_xid D sk now iface mac timeout)"

section \<open>MAC addresses\<close>

fun parse_mac_parts :: "string list \<Rightarrow> u8 list option" where
  "parse_mac_parts [] = Some []"
| "parse_mac_parts (p # ps) =
     Option.bind (parse_unsigned 16 (2 ^ 8) p) (\<lambda>n. map_option (\<lambda>bs. of_nat n # bs) (parse_mac_parts ps))"

definition parse_mac :: "string \<Rightarrow> u8 list option" where
  "parse_mac s =
     (let parts = split_char (CHR '':'') s in
      if length parts \<noteq> 6 then None else parse_mac_parts parts)"

definition read_mac :: "'w os \<Rightarrow> path \<Rightarrow> string \<Rightarrow> ('w, u8 list result) io" where
  "read_mac os sys iface =
     (let p = path_join (path_join sys iface) ''address'' in
      try_io (map_io (map_err (io_at p)) (read_to_string os p)) (\<lambda>text.
      return_io (case parse_mac (trim text) of Some mac \<Rightarrow> Inr mac | None \<Rightarrow> Inl (DhcpProbe (BadMac iface)))))"

section \<open>What a verdict means\<close>

text \<open>The probe with every look at the clock and every receive logged.\<close>

datatype probe_event = ENow nat | ERecv "io_error + bytes \<times> socket_addr"

definition log_udp :: "('w, 's) udp \<Rightarrow> ('w \<times> probe_event list, 's) udp" where
  "log_udp sk = \<lparr>
     sk_new = lift_io (sk_new sk),
     set_reuse_address = (\<lambda>s. lift_io (set_reuse_address sk s)),
     set_broadcast = (\<lambda>s. lift_io (set_broadcast sk s)),
     set_read_timeout = (\<lambda>s d. lift_io (set_read_timeout sk s d)),
     bind_device = (\<lambda>s i. lift_io (bind_device sk s i)),
     sk_bind = (\<lambda>s a. lift_io (sk_bind sk s a)),
     send_to = (\<lambda>s b a. lift_io (send_to sk s b a)),
     recv_from = (\<lambda>s n. logged ERecv (recv_from sk s n)),
     subsec_nanos = lift_io (subsec_nanos sk) \<rparr>"

lemma log_udp_erases:
  "erases (sk_new (log_udp sk)) (sk_new sk)" "erases (set_reuse_address (log_udp sk) s) (set_reuse_address sk s)"
  "erases (set_broadcast (log_udp sk) s) (set_broadcast sk s)"
  "erases (set_read_timeout (log_udp sk) s d) (set_read_timeout sk s d)"
  "erases (bind_device (log_udp sk) s i) (bind_device sk s i)" "erases (sk_bind (log_udp sk) s a) (sk_bind sk s a)"
  "erases (send_to (log_udp sk) s b a) (send_to sk s b a)" "erases (recv_from (log_udp sk) s n) (recv_from sk s n)"
  "erases (subsec_nanos (log_udp sk)) (subsec_nanos sk)"
  by (simp_all add: log_udp_def erases_lift erases_logged)

lemma erases_instant_add: "erases (instant_add t d) (instant_add t d)"
  by (auto simp: instant_add_def erases_def abort_io_def)

lemma probe_erases:
  "erases (probe_foreign D (log_udp sk) (logged ENow now) iface mac timeout) (probe_foreign D sk now iface mac timeout)"
  unfolding probe_foreign_def probe_with_xid_def xid_now_def probe_step_def recv_round_def
  by (intro erases_bind erases_try erases_map erases_return erases_loop erases_if erases_logged erases_instant_add
      log_udp_erases)

fun foreign_event :: "'m dhcproto \<Rightarrow> u32 \<Rightarrow> u8 list \<Rightarrow> probe_event \<Rightarrow> bool" where
  "foreign_event D x mac (ERecv (Inr (buf, src))) = foreign_offer D x mac buf src"
| "foreign_event D x mac _ = False"

fun recv_failure :: "probe_event \<Rightarrow> io_error option" where
  "recv_failure (ERecv (Inl e)) = (if e = WouldBlock \<or> e = TimedOut then None else Some e)"
| "recv_failure _ = None"

text \<open>Nothing that decides the probe has been received yet.\<close>

definition undecided :: "'m dhcproto \<Rightarrow> u32 \<Rightarrow> u8 list \<Rightarrow> probe_event list \<Rightarrow> bool" where
  "undecided D x mac tr \<longleftrightarrow> (\<forall>ev\<in>set tr. \<not> foreign_event D x mac ev \<and> recv_failure ev = None)"

fun verdict_log :: "'m dhcproto \<Rightarrow> u32 \<Rightarrow> u8 list \<Rightarrow> nat \<Rightarrow> bool result \<Rightarrow> probe_event list \<Rightarrow> bool" where
  "verdict_log D x mac timeout (Inr True) tr \<longleftrightarrow>
     (\<exists>t0 ts ev. tr = ENow t0 # ts @ [ev] \<and> undecided D x mac ts \<and> foreign_event D x mac ev)"
| "verdict_log D x mac timeout (Inr False) tr \<longleftrightarrow>
     (\<exists>t0 ts t. tr = ENow t0 # ts @ [ENow t] \<and> undecided D x mac ts \<and> t0 + timeout \<le> t)"
| "verdict_log D x mac timeout (Inl e) tr \<longleftrightarrow>
     tr = [] \<or> (\<exists>t0 ts ev io. tr = ENow t0 # ts @ [ev] \<and> undecided D x mac ts
       \<and> recv_failure ev = Some io \<and> e = DhcpProbe (DhcpRecv io))"

lemma undecided_snoc [simp]:
  "undecided D x mac (ts @ [ev]) \<longleftrightarrow> undecided D x mac ts \<and> \<not> foreign_event D x mac ev \<and> recv_failure ev = None"
  by (auto simp: undecided_def)

definition started :: "'m dhcproto \<Rightarrow> u32 \<Rightarrow> u8 list \<Rightarrow> nat \<Rightarrow> probe_event list \<Rightarrow> bool" where
  "started D x mac t0 tr \<longleftrightarrow> (\<exists>ts. tr = ENow t0 # ts \<and> undecided D x mac ts)"

lemma started_snoc: "started D x mac t0 tr \<Longrightarrow> \<not> foreign_event D x mac ev \<Longrightarrow> recv_failure ev = None \<Longrightarrow>
    started D x mac t0 (tr @ [ev])"
  by (auto simp: started_def)

lemma recv_outcome_log:
  assumes "started D x mac t0 tr"
  shows "case recv_outcome D x mac r of
      Inl _ \<Rightarrow> started D x mac t0 (tr @ [ERecv r])
    | Inr v \<Rightarrow> verdict_log D x mac timeout v (tr @ [ERecv r])"
proof (cases r)
  case (Inl e)
  then show ?thesis using assms by (auto simp: recv_outcome_def started_def)
next
  case (Inr p)
  then show ?thesis using assms by (cases p) (auto simp: recv_outcome_def started_def)
qed

lemma recv_round_log:
  assumes "started D x mac t0 tr"
  shows "lwp (recv_round D (log_udp sk) (logged ENow now) sock x mac (t0 + timeout) u)
    (\<lambda>r tr'. case r of Inl _ \<Rightarrow> started D x mac t0 tr' | Inr v \<Rightarrow> verdict_log D x mac timeout v tr') tr"
proof -
  have "started D x mac t0 (tr @ [ENow t])" for t
    using started_snoc[OF assms] by simp
  note step = recv_outcome_log[OF this]
  have ended: "verdict_log D x mac timeout (Inr False) (tr @ [ENow t])" if "t0 + timeout \<le> t" for t
    using assms that by (auto simp: started_def)
  have recv: "recv_from (log_udp sk) sock 1500 = logged ERecv (recv_from sk sock 1500)"
    by (simp add: log_udp_def)
  show ?thesis
    unfolding recv_round_def recv
    by (intro lwp_bind lwp_logged lwp_if lwp_map lwp_return step) (use ended in \<open>simp only: sum.case not_less\<close>)
qed

lemma lwp_instant_add: "Q (t + d) tr \<Longrightarrow> lwp (instant_add t d) Q tr"
  by (auto simp: instant_add_def lwp_def abort_io_def)

lemma log_udp_setup:
  "sk_new (log_udp sk) = lift_io (sk_new sk)" "set_reuse_address (log_udp sk) s = lift_io (set_reuse_address sk s)"
  "set_broadcast (log_udp sk) s = lift_io (set_broadcast sk s)"
  "set_read_timeout (log_udp sk) s d = lift_io (set_read_timeout sk s d)"
  "bind_device (log_udp sk) s i = lift_io (bind_device sk s i)" "sk_bind (log_udp sk) s a = lift_io (sk_bind sk s a)"
  "send_to (log_udp sk) s b a = lift_io (send_to sk s b a)"
  by (simp_all add: log_udp_def)

text \<open>Whatever fails before the DISCOVER is sent is an error of the probe.\<close>

lemma lwp_setup:
  assumes "\<And>y. lwp (k y) (verdict_log D x mac timeout) []"
  shows "lwp (try_io (probe_step msg (lift_io m)) k) (verdict_log D x mac timeout) []"
    and "lwp (try_io (return_io r) k) (verdict_log D x mac timeout) []"
  unfolding probe_step_def using assms
  by (auto intro!: lwp_try lwp_map lwp_lift lwp_return simp: map_err_def split: sum.split)

lemma listen_log:
  "lwp (bind_io (logged ENow now) (\<lambda>t. bind_io (instant_add t timeout) (\<lambda>deadline.
      loop_io (recv_round D (log_udp sk) (logged ENow now) sock x mac deadline) ())))
    (verdict_log D x mac timeout) []"
  by (intro lwp_bind lwp_logged lwp_instant_add lwp_loop[where J = "\<lambda>_ tr. started D x mac _ tr"])
    (auto intro: recv_round_log simp: started_def undecided_def)

lemma probe_log:
  "lwp (probe_with_xid D (log_udp sk) (logged ENow now) iface mac timeout x) (verdict_log D x mac timeout) []"
  unfolding probe_with_xid_def log_udp_setup by (intro lwp_setup listen_log)

text \<open>
  Claim C7. The verdict of the probe is what was received: it is positive only if the last datagram
  received is a DHCPOFFER for our transaction and our MAC from an identifiable server; it is
  negative only if no such offer and no receive failure came until the clock had passed the
  timeout counted from the moment the DISCOVER had been sent; and every failure to set up the
  socket, to send or to receive is an error, never a negative verdict.
\<close>

theorem probe_verdict:
  assumes "probe_foreign D sk now iface mac timeout w = Some (r, w')"
  shows "\<exists>x w1 tr. xid_now sk w = Some (x, w1)
    \<and> probe_foreign D (log_udp sk) (logged ENow now) iface mac timeout (w, []) = Some (r, (w', tr))
    \<and> verdict_log D x mac timeout r tr"
proof -
  obtain x w1 where x: "xid_now sk w = Some (x, w1)"
    using assms unfolding probe_foreign_def by (auto simp: bind_io_Some)
  obtain tr where run: "probe_foreign D (log_udp sk) (logged ENow now) iface mac timeout (w, []) = Some (r, (w', tr))"
    using erases_run[OF probe_erases assms] by blast
  have lift: "xid_now (log_udp sk) = lift_io (xid_now sk)"
    by (simp add: xid_now_def log_udp_def lift_map)
  have "verdict_log D x mac timeout r tr"
    using lwpD[OF probe_log] run
    unfolding probe_foreign_def lift bind_lift_eval[where m = "xid_now sk", OF x] .
  then show ?thesis
    using run x by blast
qed

end
