(* ===== verification/Live_Gateway.thy ===== *)
theory Live_Gateway
  imports Live_Net Dhcp Probe Host_Contract
begin

text \<open>
  \<^verbatim>\<open>LiveGateway\<close>, \<^verbatim>\<open>apply\<close> and \<^verbatim>\<open>teardown\<close> of \<^verbatim>\<open>apply/mod.rs\<close>: the mode selection on the live
  implementations. On a host that runs dnsmasq as documented the live implementations meet
  the contract of \<^theory_text>\<open>Host_Contract\<close>, so its theorems hold for the program as it runs.
\<close>

section \<open>The live implementation\<close>

definition live_reload :: "'w os \<Rightarrow> datadir \<Rightarrow> 'n ipnet \<Rightarrow> 'n Config \<Rightarrow> string \<Rightarrow> ('w, unit result) io" where
  "live_reload os dd I cfg iface =
     (let conf_path = default_dnsmasq_conf_path dd;
          leasefile = default_dnsmasq_leasefile dd;
          pid_path = default_dnsmasq_pidfile dd in
      bind_io (case parent leasefile of None \<Rightarrow> return_io ()
         | Some par \<Rightarrow> map_io (\<lambda>_. ()) (fs_create_dir_all os par)) (\<lambda>_.
      try_io (ensure_conf os conf_path (render_conf I cfg iface leasefile pid_path)) (\<lambda>changed.
      reload_or_restart os dd conf_path changed)))"

definition LiveGateway :: "'w os \<Rightarrow> datadir \<Rightarrow> 'n ipnet \<Rightarrow> 'm dhcproto \<Rightarrow> ('w, 's) udp \<Rightarrow> ('w, 'n) GatewayCtl" where
  "LiveGateway os dd I D sk = \<lparr>
     dhcp_running = is_running os dd,
     dhcp_stop = dnsmasq_stop os dd,
     dhcp_reload_or_restart = live_reload os dd I,
     probe_foreign_dhcp = (\<lambda>iface timeout.
       try_io (read_mac os DEFAULT_SYS_CLASS_NET iface) (\<lambda>mac.
       probe_foreign D sk (instant_now os) iface mac (from_secs timeout))) \<rparr>"

abbreviation live_net :: "'w os \<Rightarrow> datadir \<Rightarrow> 'n ipnet \<Rightarrow> 'w NetOps" where
  "live_net os dd I \<equiv> LiveNet os dd I DEFAULT_SYS_CLASS_NET"

definition apply_live :: "'w os \<Rightarrow> datadir \<Rightarrow> 'n ipnet \<Rightarrow> 'm dhcproto \<Rightarrow> ('w, 's) udp \<Rightarrow> 'n Config \<Rightarrow> ('w, Status result) io" where
  "apply_live os dd I D sk cfg = apply_with I cfg (live_net os dd I) (LiveGateway os dd I D sk)"

definition teardown_live :: "'w os \<Rightarrow> datadir \<Rightarrow> 'n ipnet \<Rightarrow> 'm dhcproto \<Rightarrow> ('w, 's) udp \<Rightarrow> 'n Config \<Rightarrow> ('w, Status result) io" where
  "teardown_live os dd I D sk cfg = teardown_with I cfg (live_net os dd I) (LiveGateway os dd I D sk)"

section \<open>Hosts that run dnsmasq\<close>

text \<open>
  \<open>file w\<close> is the content of the files, those below \<^verbatim>\<open>/proc\<close> included. The process a pidfile
  owns: its pid, if the command line of that pid is the binary's.
\<close>

definition cmdline_path :: "int \<Rightarrow> path" where
  "cmdline_path pid = path_join (path_join DEFAULT_PROC (int_dec pid)) ''cmdline''"

definition pid_in :: "bytes option \<Rightarrow> int option" where
  "pid_in c = (case c of None \<Rightarrow> None | Some b \<Rightarrow> if utf8_valid b then parse_pid b else None)"

definition owner :: "(path \<Rightarrow> bytes option) \<Rightarrow> path \<Rightarrow> string \<Rightarrow> int option" where
  "owner f p bin = (case pid_in (f p) of None \<Rightarrow> None
     | Some pid \<Rightarrow> if cmdline_matches (case f (cmdline_path pid) of None \<Rightarrow> [] | Some b \<Rightarrow> b) bin then Some pid else None)"

definition server_pid :: "datadir \<Rightarrow> (path \<Rightarrow> bytes option) \<Rightarrow> int option" where
  "server_pid dd f = owner f (default_dnsmasq_pidfile dd) DNSMASQ_BIN"

definition leaves_server :: "datadir \<Rightarrow> ('w \<Rightarrow> path \<Rightarrow> bytes option) \<Rightarrow> ('w, 'a) io \<Rightarrow> bool" where
  "leaves_server dd file m \<longleftrightarrow> (\<forall>s. keeps (\<lambda>w. server_pid dd (file w) = s) m)"

text \<open>
  The laws of such a host. Reading files reads them; only dnsmasq itself, a signal to it and the
  removal of its pidfile change whether it serves (a signalled process counts as stopped from the
  signal on); the pidfiles in our run directory can be removed; dnsmasq, started with our pidfile,
  exits with 0 only once its daemon runs and has written the pidfile; no command line names
  both of our binaries; the data directory places files below its directories.
\<close>

definition reads_files :: "'w os \<Rightarrow> ('w \<Rightarrow> path \<Rightarrow> bytes option) \<Rightarrow> bool" where
  "reads_files os file \<longleftrightarrow>
     (\<forall>p w r w'. fs_read os p w = Some (r, w') \<longrightarrow> ok_opt r = file w p \<and> file w' = file w)"

definition os_leaves_server :: "'w os \<Rightarrow> datadir \<Rightarrow> ('w \<Rightarrow> path \<Rightarrow> bytes option) \<Rightarrow> bool" where
  "os_leaves_server os dd file \<longleftrightarrow>
     (\<forall>p. leaves_server dd file (fs_is_file os p) \<and> leaves_server dd file (fs_is_dir os p)
        \<and> leaves_server dd file (fs_exists os p) \<and> leaves_server dd file (fs_canonicalize os p)
        \<and> leaves_server dd file (fs_read_dir os p) \<and> leaves_server dd file (fs_create_dir_all os p))
   \<and> (\<forall>d. leaves_server dd file (thread_sleep os d)) \<and> leaves_server dd file (instant_now os)
   \<and> (\<forall>b args. b \<noteq> DNSMASQ_BIN \<longrightarrow> leaves_server dd file (cmd_status os b args) \<and> leaves_server dd file (cmd_output os b args))"

definition udp_leaves_server :: "('w, 's) udp \<Rightarrow> datadir \<Rightarrow> ('w \<Rightarrow> path \<Rightarrow> bytes option) \<Rightarrow> bool" where
  "udp_leaves_server sk dd file \<longleftrightarrow> leaves_server dd file (sk_new sk) \<and> leaves_server dd file (subsec_nanos sk)
   \<and> (\<forall>s. leaves_server dd file (set_reuse_address sk s) \<and> leaves_server dd file (set_broadcast sk s)
        \<and> (\<forall>d. leaves_server dd file (set_read_timeout sk s d)) \<and> (\<forall>i. leaves_server dd file (bind_device sk s i))
        \<and> (\<forall>a. leaves_server dd file (sk_bind sk s a)) \<and> (\<forall>b a. leaves_server dd file (send_to sk s b a))
        \<and> (\<forall>n. leaves_server dd file (recv_from sk s n)))"

definition removes_pidfiles :: "'w os \<Rightarrow> datadir \<Rightarrow> ('w \<Rightarrow> path \<Rightarrow> bytes option) \<Rightarrow> bool" where
  "removes_pidfiles os dd file \<longleftrightarrow> (\<forall>p w r w'. fs_remove_file os p w = Some (r, w') \<longrightarrow>
     p = default_dnsmasq_pidfile dd \<or> (\<exists>i. p = dhclient_pidfile dd i) \<longrightarrow> file w' = (file w)(p := None))"

definition kills_only_target :: "'w os \<Rightarrow> datadir \<Rightarrow> ('w \<Rightarrow> path \<Rightarrow> bytes option) \<Rightarrow> bool" where
  "kills_only_target os dd file \<longleftrightarrow> (\<forall>pid sig w r w'. os_kill os pid sig w = Some (r, w') \<longrightarrow>
     server_pid dd (file w) \<noteq> Some pid \<longrightarrow> server_pid dd (file w') = server_pid dd (file w))"

definition dnsmasq_daemonizes :: "'w os \<Rightarrow> datadir \<Rightarrow> ('w \<Rightarrow> path \<Rightarrow> bytes option) \<Rightarrow> bool" where
  "dnsmasq_daemonizes os dd file \<longleftrightarrow> (\<forall>c w w'.
     cmd_status os DNSMASQ_BIN [''-C'', c, ''-x'', from_utf8_lossy (default_dnsmasq_pidfile dd)] w
       = Some (Inr (Some 0), w') \<longrightarrow> server_pid dd (file w') \<noteq> None)"

definition distinct_binaries :: "('w \<Rightarrow> path \<Rightarrow> bytes option) \<Rightarrow> bool" where
  "distinct_binaries file \<longleftrightarrow> (\<forall>w pid c. file w (cmdline_path pid) = Some c \<longrightarrow>
     \<not> (cmdline_matches c DNSMASQ_BIN \<and> cmdline_matches c DHCLIENT_BIN))"

definition joins_paths :: "datadir \<Rightarrow> bool" where
  "joins_paths dd \<longleftrightarrow> (\<forall>f. dd_path dd [''run'', f] = path_join (dd_path dd [''run'']) f)"

definition dnsmasq_host :: "'w os \<Rightarrow> datadir \<Rightarrow> ('w, 's) udp \<Rightarrow> ('w \<Rightarrow> path \<Rightarrow> bytes option) \<Rightarrow> bool" where
  "dnsmasq_host os dd sk file \<longleftrightarrow> reads_files os file \<and> os_leaves_server os dd file \<and> udp_leaves_server sk dd file
     \<and> removes_pidfiles os dd file \<and> kills_only_target os dd file \<and> dnsmasq_daemonizes os dd file
     \<and> distinct_binaries file \<and> joins_paths dd"

lemma leaves_return [intro]: "leaves_server dd file (return_io x)"
  by (simp add: leaves_server_def)

lemma leaves_return_eta [intro]: "leaves_server dd file (\<lambda>w. Some (x, w))"
  by (simp add: leaves_server_def)

lemma leaves_bind [intro]:
  "leaves_server dd file m \<Longrightarrow> (\<And>x. leaves_server dd file (k x)) \<Longrightarrow> leaves_server dd file (bind_io m k)"
  by (auto simp: leaves_server_def)

lemma leaves_try [intro]:
  "leaves_server dd file m \<Longrightarrow> (\<And>x. leaves_server dd file (k x)) \<Longrightarrow> leaves_server dd file (try_io m k)"
  by (auto simp: leaves_server_def)

lemma leaves_map [intro]: "leaves_server dd file m \<Longrightarrow> leaves_server dd file (map_io f m)"
  unfolding map_io_def by auto

lemma leaves_for [intro]: "(\<And>x. leaves_server dd file (b x)) \<Longrightarrow> leaves_server dd file (for_io xs b)"
  by (auto simp: leaves_server_def)

lemma leaves_loop [intro]: "(\<And>s. leaves_server dd file (b s)) \<Longrightarrow> leaves_server dd file (loop_io b s)"
  by (auto simp: leaves_server_def)

lemma leaves_if [intro]:
  "leaves_server dd file m \<Longrightarrow> leaves_server dd file k \<Longrightarrow> leaves_server dd file (if b then m else k)"
  by simp

lemma leaves_add [intro]: "leaves_server dd file (instant_add t d)"
  by (auto simp: leaves_server_def instant_add_def keeps_def abort_io_def)

lemmas leaves_rules = leaves_return leaves_return_eta leaves_bind leaves_try leaves_map leaves_for leaves_loop
  leaves_if leaves_add

lemma leavesD: "leaves_server dd file m \<Longrightarrow> m w = Some (x, w') \<Longrightarrow> server_pid dd (file w') = server_pid dd (file w)"
  unfolding leaves_server_def keeps_def by blast

section \<open>Who owns a pidfile\<close>

lemma host_read:
  "dnsmasq_host os dd sk file \<Longrightarrow> fs_read os p w = Some (r, w') \<Longrightarrow> ok_opt r = file w p \<and> file w' = file w"
  unfolding dnsmasq_host_def reads_files_def by blast

lemma host_leaves_read: "dnsmasq_host os dd sk file \<Longrightarrow> leaves_server dd file (fs_read os p)"
  unfolding leaves_server_def keeps_def using host_read by metis

lemma host_leaves_os:
  assumes "dnsmasq_host os dd sk file"
  shows "leaves_server dd file (fs_is_file os p)" "leaves_server dd file (fs_is_dir os p)"
    "leaves_server dd file (fs_exists os p)" "leaves_server dd file (fs_canonicalize os p)"
    "leaves_server dd file (fs_read_dir os p)" "leaves_server dd file (fs_create_dir_all os p)"
    "leaves_server dd file (thread_sleep os d)" "leaves_server dd file (instant_now os)"
    "b \<noteq> DNSMASQ_BIN \<Longrightarrow> leaves_server dd file (cmd_status os b args)"
    "b \<noteq> DNSMASQ_BIN \<Longrightarrow> leaves_server dd file (cmd_output os b args)"
  using assms unfolding dnsmasq_host_def os_leaves_server_def by blast+

lemma host_leaves_udp:
  assumes "dnsmasq_host os dd sk file"
  shows "leaves_server dd file (sk_new sk)" "leaves_server dd file (subsec_nanos sk)"
    "leaves_server dd file (set_reuse_address sk s)" "leaves_server dd file (set_broadcast sk s)"
    "leaves_server dd file (set_read_timeout sk s d)" "leaves_server dd file (bind_device sk s i)"
    "leaves_server dd file (sk_bind sk s a)" "leaves_server dd file (send_to sk s buf a)"
    "leaves_server dd file (recv_from sk s n)"
  using assms unfolding dnsmasq_host_def udp_leaves_server_def by blast+

lemma host_remove:
  assumes "dnsmasq_host os dd sk file" and "fs_remove_file os p w = Some (r, w')"
    and "p = default_dnsmasq_pidfile dd \<or> (\<exists>i. p = dhclient_pidfile dd i)"
  shows "file w' = (file w)(p := None)"
  using assms unfolding dnsmasq_host_def removes_pidfiles_def by blast

lemma host_kill:
  assumes "dnsmasq_host os dd sk file" and "os_kill os pid sig w = Some (r, w')"
    and "server_pid dd (file w) \<noteq> Some pid"
  shows "server_pid dd (file w') = server_pid dd (file w)"
  using assms unfolding dnsmasq_host_def kills_only_target_def by blast

lemma host_start:
  assumes "dnsmasq_host os dd sk file"
    and "cmd_status os DNSMASQ_BIN [''-C'', c, ''-x'', from_utf8_lossy (default_dnsmasq_pidfile dd)] w
      = Some (Inr (Some 0), w')"
  shows "server_pid dd (file w') \<noteq> None"
  using assms unfolding dnsmasq_host_def dnsmasq_daemonizes_def by blast

lemma host_binaries:
  assumes "dnsmasq_host os dd sk file" and "file w (cmdline_path pid) = Some c"
  shows "\<not> (cmdline_matches c DNSMASQ_BIN \<and> cmdline_matches c DHCLIENT_BIN)"
  using assms unfolding dnsmasq_host_def distinct_binaries_def by blast

lemma host_path: "dnsmasq_host os dd sk file \<Longrightarrow> dd_path dd [''run'', f] = path_join (dd_path dd [''run'']) f"
  unfolding dnsmasq_host_def joins_paths_def by blast

lemma host_read_pid:
  assumes "dnsmasq_host os dd sk file" and "read_pid os p w = Some (q, w')"
  shows "q = pid_in (file w p) \<and> file w' = file w"
proof -
  obtain r where r: "fs_read os p w = Some (r, w')"
    and q: "q = (case try_res r (\<lambda>b. if utf8_valid b then Inr b else Inl InvalidData) of
      Inl e \<Rightarrow> None | Inr text \<Rightarrow> parse_pid text)"
    using assms(2) unfolding read_pid_def read_to_string_def by (auto simp: map_io_Some)
  have "file w p = ok_opt r" "file w' = file w"
    using host_read[OF assms(1) r] by simp_all
  then show ?thesis
    using q by (cases r) (auto simp: pid_in_def)
qed

lemma host_is_alive:
  assumes "dnsmasq_host os dd sk file" and "is_alive_in os p DEFAULT_PROC bin w = Some (b, w')"
  shows "b = (owner (file w) p bin \<noteq> None) \<and> file w' = file w"
proof -
  obtain q w1 where q: "read_pid os p w = Some (q, w1)"
    and rest: "(case q of None \<Rightarrow> return_io False
      | Some pid \<Rightarrow> map_io (\<lambda>r. cmdline_matches (case r of Inl e \<Rightarrow> [] | Inr b \<Rightarrow> b) bin)
         (fs_read os (path_join (path_join DEFAULT_PROC (int_dec pid)) ''cmdline''))) w1 = Some (b, w')"
    using assms(2) unfolding is_alive_in_def by (auto simp: bind_io_Some)
  note pid = host_read_pid[OF assms(1) q]
  show ?thesis
  proof (cases q)
    case None
    then show ?thesis using rest pid by (simp add: owner_def)
  next
    case (Some pid)
    then obtain r where r: "fs_read os (cmdline_path pid) w1 = Some (r, w')"
      and b: "b = cmdline_matches (case r of Inl e \<Rightarrow> [] | Inr b \<Rightarrow> b) bin"
      using rest by (auto simp: map_io_Some cmdline_path_def)
    have "file w1 (cmdline_path pid) = ok_opt r" "file w' = file w1"
      using host_read[OF assms(1) r] by simp_all
    moreover have "pid_in (file w p) = Some pid"
      using pid Some by simp
    ultimately show ?thesis
      using b pid by (cases r) (auto simp: owner_def)
  qed
qed

lemma host_is_running:
  assumes "dnsmasq_host os dd sk file" and "is_running os dd w = Some (b, w')"
  shows "b = (server_pid dd (file w) \<noteq> None) \<and> file w' = file w"
  using host_is_alive[OF assms(1)] assms(2) unfolding is_running_def is_alive_def server_pid_def by blast

lemma owner_gone: "owner (f(p := None)) p bin = None"
  by (simp add: owner_def pid_in_def)

lemma path_join_relative: "\<not> is_absolute q \<Longrightarrow> \<exists>pre. path_join p q = pre @ q \<and> (\<forall>q'. \<not> is_absolute q' \<longrightarrow> path_join p q' = pre @ q')"
  by (cases "p = [] \<or> last p = CHR ''/''") (auto simp: path_join_def intro: exI[of _ "p @ ''/''"])

lemma dhclient_pidfile_other:
  assumes "dnsmasq_host os dd sk file"
  shows "dhclient_pidfile dd i \<noteq> default_dnsmasq_pidfile dd" "dhclient_pidfile dd i \<noteq> cmdline_path pid"
proof -
  obtain pre where pre: "\<And>q. \<not> is_absolute q \<Longrightarrow> path_join (dd_path dd [''run'']) q = pre @ q"
    using path_join_relative[of "[]" "dd_path dd [''run'']"] by (auto simp: is_absolute_def)
  have d: "dhclient_pidfile dd i = pre @ ''dhclient.'' @ i @ ''.pid''"
    unfolding dhclient_pidfile_def by (rule pre) (simp add: is_absolute_def)
  have s: "default_dnsmasq_pidfile dd = pre @ ''dnsmasq.pid''"
    unfolding default_dnsmasq_pidfile_def host_path[OF assms] by (rule pre) (simp add: is_absolute_def)
  show "dhclient_pidfile dd i \<noteq> default_dnsmasq_pidfile dd"
    unfolding d s by simp
  have "last (dhclient_pidfile dd i) = CHR ''d''"
    unfolding d by simp
  moreover have "last (cmdline_path pid) = CHR ''e''"
    using path_join_relative[of "''cmdline''" "path_join DEFAULT_PROC (int_dec pid)"]
    by (auto simp: cmdline_path_def is_absolute_def)
  ultimately show "dhclient_pidfile dd i \<noteq> cmdline_path pid"
    by auto
qed

section \<open>Stopping\<close>

text \<open>After stopping dnsmasq its pidfile is gone.\<close>

lemma stop_ends_with_remove:
  assumes "stop_in os p r b t w = Some (x, w')"
  shows "\<exists>w1 y. fs_remove_file os p w1 = Some (y, w')"
  using assms unfolding stop_in_def by (auto simp: io_simps split: option.splits if_splits) blast+

lemma server_stopped:
  assumes "dnsmasq_host os dd sk file" and "dnsmasq_stop os dd w = Some (x, w')"
  shows "server_pid dd (file w') = None"
proof -
  obtain w1 y where "fs_remove_file os (default_dnsmasq_pidfile dd) w1 = Some (y, w')"
    using stop_ends_with_remove[OF assms(2)[unfolded dnsmasq_stop_def stop_def]] by blast
  from host_remove[OF assms(1) this] show ?thesis
    by (simp add: server_pid_def owner_gone)
qed

text \<open>Stopping a dhclient leaves dnsmasq alone.\<close>

lemma remove_dhclient_leaves: "dnsmasq_host os dd sk file \<Longrightarrow> leaves_server dd file (fs_remove_file os (dhclient_pidfile dd i))"
proof -
  assume H: "dnsmasq_host os dd sk file"
  have "server_pid dd (f(dhclient_pidfile dd i := None)) = server_pid dd f" for f
    using dhclient_pidfile_other[OF H, symmetric]
    by (auto simp: server_pid_def owner_def split: option.split)
  then show ?thesis
    using host_remove[OF H] unfolding leaves_server_def keeps_def by fastforce
qed

lemma kill_other_leaves:
  assumes "dnsmasq_host os dd sk file" and "s \<noteq> Some pid"
  shows "keeps (\<lambda>w. server_pid dd (file w) = s) (os_kill os pid sig)"
  using host_kill[OF assms(1)] assms(2) by (auto simp: keeps_def)

lemma dhclient_not_server:
  assumes "dnsmasq_host os dd sk file" and "owner (file w) (dhclient_pidfile dd i) DHCLIENT_BIN = Some pid"
  shows "server_pid dd (file w) \<noteq> Some pid"
proof
  assume "server_pid dd (file w) = Some pid"
  then obtain c where "file w (cmdline_path pid) = Some c" "cmdline_matches c DNSMASQ_BIN" "cmdline_matches c DHCLIENT_BIN"
    using assms(2) by (auto simp: server_pid_def owner_def cmdline_matches_def split: option.splits if_splits)
  then show False
    using host_binaries[OF assms(1)] by blast
qed

lemma stop_dhclient_leaves:
  assumes H: "dnsmasq_host os dd sk file"
  shows "leaves_server dd file (stop os (dhclient_pidfile dd i) DHCLIENT_BIN)"
proof -
  let ?p = "dhclient_pidfile dd i"
  have alive: "keeps (\<lambda>w. server_pid dd (file w) = s) (is_alive_in os ?p DEFAULT_PROC DHCLIENT_BIN)" for s
    using host_is_alive[OF H] unfolding keeps_def by metis
  have remove: "keeps (\<lambda>w. server_pid dd (file w) = s) (fs_remove_file os ?p)" for s
    using remove_dhclient_leaves[OF H] by (simp add: leaves_server_def)
  have sleep: "keeps (\<lambda>w. server_pid dd (file w) = s) (thread_sleep os d)" for s d
    using host_leaves_os(7)[OF H] by (simp add: leaves_server_def)
  have "wpo (stop_in os ?p DEFAULT_PROC DHCLIENT_BIN t) (\<lambda>_ w'. server_pid dd (file w') = server_pid dd (file w)) w" for t w
  proof -
    let ?s = "server_pid dd (file w)"
    let ?K = "\<lambda>w'. server_pid dd (file w') = ?s"
    have end_keeps: "keeps ?K (bind_io (fs_remove_file os ?p) (\<lambda>_. return_io (Inr () :: unit result)))"
      by (intro keeps_bind remove keeps_return)
    show ?thesis
      unfolding stop_in_def
    proof (rule wpo_bind, unfold wpo_def, intro allI impI)
      fix q w1 w' and x :: "unit result"
      assume q: "read_pid os ?p w = Some (q, w1)"
        and rest: "(case q of None \<Rightarrow> bind_io (fs_remove_file os ?p) (\<lambda>_. return_io (Inr ()))
         | Some pid \<Rightarrow>
         bind_io (is_alive_in os ?p DEFAULT_PROC DHCLIENT_BIN) (\<lambda>alive.
         if \<not> alive then bind_io (fs_remove_file os ?p) (\<lambda>_. return_io (Inr ()))
         else bind_io (os_kill os pid SIGTERM) (\<lambda>_.
           bind_io (thread_sleep os t) (\<lambda>_.
           bind_io (is_alive_in os ?p DEFAULT_PROC DHCLIENT_BIN) (\<lambda>alive.
           bind_io (if alive then bind_io (os_kill os pid SIGKILL) (\<lambda>_. return_io ()) else return_io ()) (\<lambda>_.
           bind_io (fs_remove_file os ?p) (\<lambda>_. return_io (Inr ())))))))) w1 = Some (x, w')"
      note pid = host_read_pid[OF H q]
      show "?K w'"
      proof (cases q)
        case None
        have K1: "?K w1" using pid by simp
        show ?thesis using rest keepsD[OF end_keeps _ K1] None by simp
      next
        case (Some k)
        then obtain alive w2 where a: "is_alive_in os ?p DEFAULT_PROC DHCLIENT_BIN w1 = Some (alive, w2)"
          using rest by (auto simp: bind_io_Some)
        note al = host_is_alive[OF H a]
        have K2: "?K w2" using al pid by simp
        show ?thesis
        proof (cases alive)
          case False
          then show ?thesis
            using rest a Some keepsD[OF end_keeps _ K2] by (simp add: bind_io_eval)
        next
          case True
          then have "owner (file w) ?p DHCLIENT_BIN = Some k"
            using al pid Some by (auto simp: owner_def split: option.splits if_splits)
          then have other: "?s \<noteq> Some k"
            using dhclient_not_server[OF H] by blast
          have "keeps ?K (bind_io (os_kill os k SIGTERM) (\<lambda>_. bind_io (thread_sleep os t) (\<lambda>_.
             bind_io (is_alive_in os ?p DEFAULT_PROC DHCLIENT_BIN) (\<lambda>alive.
             bind_io (if alive then bind_io (os_kill os k SIGKILL) (\<lambda>_. return_io ()) else return_io ()) (\<lambda>_.
             bind_io (fs_remove_file os ?p) (\<lambda>_. return_io (Inr () :: unit result)))))))"
            by (auto intro!: keeps_bind kill_other_leaves[OF H other] sleep alive end_keeps remove)
          from keepsD[OF this _ K2] show ?thesis
            using rest a Some True by (simp add: bind_io_eval)
        qed
      qed
    qed
  qed
  then show ?thesis
    unfolding stop_def leaves_server_def keeps_wpo by (auto elim!: wpo_conseq)
qed

section \<open>The live implementations meet the contract\<close>

lemma bins_differ: "IP_BIN \<noteq> DNSMASQ_BIN" "PING_BIN \<noteq> DNSMASQ_BIN" "ETHTOOL_BIN \<noteq> DNSMASQ_BIN" "DHCLIENT_BIN \<noteq> DNSMASQ_BIN"
  by (simp_all add: IP_BIN_def PING_BIN_def ETHTOOL_BIN_def DHCLIENT_BIN_def DNSMASQ_BIN_def)

lemma host_read_string: "dnsmasq_host os dd sk file \<Longrightarrow> leaves_server dd file (read_to_string os p)"
  unfolding read_to_string_def by (intro leaves_map host_leaves_read)

lemma host_run_cmd: "dnsmasq_host os dd sk file \<Longrightarrow> b \<noteq> DNSMASQ_BIN \<Longrightarrow> leaves_server dd file (run_cmd os b args)"
  unfolding run_cmd_def by (intro leaves_try leaves_map host_leaves_os leaves_return)

lemma host_physical: "dnsmasq_host os dd sk file \<Longrightarrow> leaves_server dd file (is_physical_ethernet_sys os sys n)"
  unfolding is_physical_ethernet_sys_def Let_def
  by (auto intro!: leaves_rules host_leaves_os host_read_string split: sum.split option.split)

lemma host_list: "dnsmasq_host os dd sk file \<Longrightarrow> leaves_server dd file (list_physical_ethernet os sys)"
proof -
  assume H: "dnsmasq_host os dd sk file"
  have "leaves_server dd file (collect_physical os sys ents acc)" for ents acc
    by (induction ents arbitrary: acc) (auto simp: Let_def intro!: leaves_rules host_physical[OF H] split: sum.split)
  then show ?thesis
    unfolding list_physical_ethernet_def using H by (intro leaves_try leaves_map host_leaves_os leaves_return)
qed

lemma host_carrier: "dnsmasq_host os dd sk file \<Longrightarrow> leaves_server dd file (carrier_up_sys os sys n)"
  unfolding carrier_up_sys_def by (intro leaves_map host_read_string)

lemma host_link_up: "dnsmasq_host os dd sk file \<Longrightarrow> leaves_server dd file (link_is_up_sys os sys n)"
  unfolding link_is_up_sys_def by (intro leaves_map host_read_string)

lemma host_find: "dnsmasq_host os dd sk file \<Longrightarrow> leaves_server dd file (find_carrier os sys names)"
  by (induction names) (auto intro!: leaves_rules host_carrier)

lemma host_cidr: "dnsmasq_host os dd sk file \<Longrightarrow> leaves_server dd file (iface_ipv4_cidr_cmd os I i)"
  unfolding iface_ipv4_cidr_cmd_def by (intro leaves_map host_leaves_os bins_differ)

lemma host_has_ipv4: "dnsmasq_host os dd sk file \<Longrightarrow> leaves_server dd file (iface_has_ipv4_cmd os I i)"
  unfolding iface_has_ipv4_cmd_def by (intro leaves_map host_cidr)

lemma host_has_addr: "dnsmasq_host os dd sk file \<Longrightarrow> leaves_server dd file (iface_has_addr_cmd os I i a)"
  unfolding iface_has_addr_cmd_def by (intro leaves_map host_cidr)

lemma host_resolve:
  assumes H: "dnsmasq_host os dd sk file"
  shows "leaves_server dd file (resolve_iface_with os sys c bring)"
proof -
  have "leaves_server dd file (wait_for_carrier os sys names f)" for names f
    unfolding wait_for_carrier_def bring_up_down_links_def poll_carrier_def
    by (auto intro!: leaves_rules host_leaves_os[OF H] host_link_up[OF H] host_run_cmd[OF H] bins_differ host_find[OF H]
        split: option.split)
  then have "leaves_server dd file (resolve_auto os sys bring)"
    unfolding resolve_auto_def
    by (auto simp del: find_carrier.simps intro!: leaves_rules host_list[OF H] host_find[OF H] split: list.split option.split)
  then show ?thesis
    unfolding resolve_iface_with_def by (auto intro!: leaves_rules host_physical[OF H] split: option.split)
qed

lemma host_alive: "dnsmasq_host os dd sk file \<Longrightarrow> leaves_server dd file (is_alive os p b)"
  unfolding is_alive_def leaves_server_def keeps_def using host_is_alive by metis

lemma host_ensure_parent: "dnsmasq_host os dd sk file \<Longrightarrow> leaves_server dd file (ensure_parent os p)"
  unfolding ensure_parent_def by (auto intro!: leaves_rules host_leaves_os split: option.split)

lemma host_net:
  assumes H: "dnsmasq_host os dd sk file"
  shows "leaves_server dd file (list_physical_ethernet os sys)"
    "leaves_server dd file (live_bring_up os sys i)" "leaves_server dd file (live_add_addr os I i c)"
    "leaves_server dd file (carrier_up_cmd os i)" "leaves_server dd file (ipv4_addr_is_local_cmd os a)"
    "leaves_server dd file (live_start_dhclient os dd i)" "leaves_server dd file (live_wait_ipv4 os I i t)"
  unfolding live_bring_up_def live_add_addr_def carrier_up_cmd_def ipv4_addr_is_local_cmd_def live_start_dhclient_def
    live_wait_ipv4_def poll_ipv4_def apply_phy_tweaks_def run_ethtool_def Let_def
  by (auto intro!: leaves_rules host_list[OF H] host_link_up[OF H] host_run_cmd[OF H] bins_differ host_has_addr[OF H]
      host_carrier[OF H] host_leaves_os[OF H] host_ensure_parent[OF H] host_has_ipv4[OF H] split: sum.split prod.split)

lemma host_probe:
  assumes H: "dnsmasq_host os dd sk file"
  shows "leaves_server dd file (probe_foreign D sk (instant_now os) i mac t)"
  unfolding probe_foreign_def probe_with_xid_def xid_now_def probe_step_def recv_round_def
  by (auto intro!: leaves_rules host_leaves_udp[OF H] host_leaves_os[OF H])

lemma host_read_mac: "dnsmasq_host os dd sk file \<Longrightarrow> leaves_server dd file (read_mac os sys i)"
  unfolding read_mac_def Let_def by (intro leaves_rules host_read_string)

lemma wpo_running:
  "dnsmasq_host os dd sk file \<Longrightarrow> (\<And>b w'. b = (server_pid dd (file w') \<noteq> None) \<Longrightarrow> Q b w') \<Longrightarrow> wpo (is_running os dd) Q w"
  unfolding wpo_def by (metis host_is_running)

lemma started_serves:
  assumes H: "dnsmasq_host os dd sk file"
  shows "wpo (dnsmasq_start os dd conf) (\<lambda>r w'. is_ok r \<longrightarrow> server_pid dd (file w') \<noteq> None) w"
proof -
  have exec: "wpo (try_io (map_io (map_err (\<lambda>e. Other (DnsmasqSpawn e)))
        (cmd_status os DNSMASQ_BIN [''-C'', c, ''-x'', from_utf8_lossy (default_dnsmasq_pidfile dd)]))
      (\<lambda>st. return_io (if success st then Inr () else Inl (Other (DnsmasqExit (exit_code st))))))
    (\<lambda>r w'. is_ok r \<longrightarrow> server_pid dd (file w') \<noteq> None) w" for c w
    using host_start[OF H] by (auto simp: wpo_def io_simps success_def split: if_splits)
  show ?thesis
    unfolding dnsmasq_start_def Let_def
    apply (rule wpo_any(1), rule wpo_if, simp add: wpo_return)
    apply (rule wpo_bind, rule wpo_running[OF H], rule wpo_if, simp add: wpo_return)
    apply (rule wpo_any(2), simp, rule wpo_any(1), rule wpo_any(1), rule exec)
    done
qed

lemma reloaded_serves:
  assumes H: "dnsmasq_host os dd sk file"
  shows "wpo (reload_or_restart os dd conf changed) (\<lambda>r w'. is_ok r \<longrightarrow> server_pid dd (file w') \<noteq> None) w"
proof -
  let ?Q = "\<lambda>r w'. is_ok r \<longrightarrow> server_pid dd (file w') \<noteq> None"
  note start = started_serves[OF H]
  have restart: "wpo (try_io (dnsmasq_stop os dd) (\<lambda>_. dnsmasq_start os dd conf)) ?Q w" for w
    by (intro wpo_any start) simp
  have check: "wpo (bind_io (is_running os dd)
      (\<lambda>running. if running then return_io (Inr ()) else dnsmasq_start os dd conf)) ?Q w" for w
    by (rule wpo_bind, rule wpo_running[OF H], rule wpo_if, rule wpo_return, simp, rule start)
  have "wpo (case r of Inr _ \<Rightarrow> bind_io (thread_sleep os (from_millis 150)) (\<lambda>_.
           bind_io (is_running os dd) (\<lambda>running.
           if running then return_io (Inr ()) else dnsmasq_start os dd conf))
       | Inl e \<Rightarrow> try_io (dnsmasq_stop os dd) (\<lambda>_. dnsmasq_start os dd conf)) ?Q w" for r :: "unit result" and w
    by (cases r; simp only: sum.case) (rule restart, rule wpo_any(1), rule check)
  then show ?thesis
    unfolding reload_or_restart_def by (intro wpo_any(1) wpo_if start restart)
qed

lemma leaves_serving: "leaves_server dd file m \<Longrightarrow> keeps (\<lambda>w. (server_pid dd (file w) \<noteq> None) = b) m"
  by (auto simp: keeps_def dest!: leavesD)

lemma live_server_contract:
  assumes H: "dnsmasq_host os dd sk file"
  shows "server_contract (live_net os dd I) (LiveGateway os dd I D sk) (\<lambda>w. server_pid dd (file w) \<noteq> None)"
proof
  fix b
  show "reads_keep (\<lambda>w. (server_pid dd (file w) \<noteq> None) = b) (live_net os dd I)"
    "resolve_keep (\<lambda>w. (server_pid dd (file w) \<noteq> None) = b) (live_net os dd I)"
    "addr_keep (\<lambda>w. (server_pid dd (file w) \<noteq> None) = b) (live_net os dd I)"
    "link_keep (\<lambda>w. (server_pid dd (file w) \<noteq> None) = b) (live_net os dd I)"
    "route_keep (\<lambda>w. (server_pid dd (file w) \<noteq> None) = b) (live_net os dd I)"
    unfolding keep_defs LiveNet_def resolve_iface_live_def NetOps.simps
    by (intro conjI allI leaves_serving leaves_bind leaves_map leaves_return host_net[OF H] host_physical[OF H]
        host_has_ipv4[OF H] host_has_addr[OF H] host_cidr[OF H] host_link_up[OF H] host_run_cmd[OF H] host_alive[OF H]
        host_resolve[OF H] stop_dhclient_leaves[OF H] bins_differ)+
next
  fix w
  show "wpo (dhcp_running (LiveGateway os dd I D sk))
      (\<lambda>r w'. r = (server_pid dd (file w) \<noteq> None) \<and> (server_pid dd (file w') \<noteq> None) = (server_pid dd (file w) \<noteq> None)) w"
    using host_is_running[OF H] by (auto simp: wpo_def LiveGateway_def)
  show "wpo (dhcp_stop (LiveGateway os dd I D sk)) (\<lambda>r w'. is_ok r \<longrightarrow> \<not> server_pid dd (file w') \<noteq> None) w"
    using server_stopped[OF H] by (auto simp: wpo_def LiveGateway_def)
  show "wpo (dhcp_reload_or_restart (LiveGateway os dd I D sk) cfg i) (\<lambda>r w'. is_ok r \<longrightarrow> server_pid dd (file w') \<noteq> None) w" for cfg i
    unfolding LiveGateway_def live_reload_def Let_def GatewayCtl.simps
    by (intro wpo_any reloaded_serves[OF H]) simp
next
  fix b i t
  show "keeps (\<lambda>w. (server_pid dd (file w) \<noteq> None) = b) (probe_foreign_dhcp (LiveGateway os dd I D sk) i t)"
    unfolding LiveGateway_def GatewayCtl.simps
    by (intro leaves_serving leaves_try host_read_mac[OF H] host_probe[OF H])
qed


end
