(* ===== verification/Live_Resolve.thy ===== *)
theory Live_Resolve
  imports Live_Net
begin

text \<open>
  Choosing the interface: which interface \<^verbatim>\<open>resolve_iface\<close> picks, and what it does to the host on
  the way.
\<close>

section \<open>Listing\<close>

text \<open>Every name was found to be a physical Ethernet interface at some moment of the listing.\<close>

lemma collect_physical_checked:
  assumes "collect_physical os sys ents acc w = Some (Inr names, w')" and "n \<in> set names"
  shows "n \<in> set acc \<or> (\<exists>w1 w2. is_physical_ethernet_sys os sys n w1 = Some (True, w2))"
  using assms
proof (induction ents arbitrary: acc w)
  case (Cons ent ents)
  then obtain f where f: "ent = Inr f" by (cases ent) auto
  then obtain phys w1 where
    chk: "is_physical_ethernet_sys os sys (from_utf8_lossy f) w = Some (phys, w1)" and
    rest: "collect_physical os sys ents (if phys then acc @ [from_utf8_lossy f] else acc) w1 = Some (Inr names, w')"
    using Cons.prems by (auto simp: io_simps Let_def)
  show ?case
    using Cons.IH[OF rest Cons.prems(2)] chk by (cases phys) auto
qed (auto simp: io_simps)

lemma list_physical_sound:
  assumes "list_physical_ethernet os sys w = Some (Inr names, w')"
  shows "sorted (map name_key names)"
    and "n \<in> set names \<Longrightarrow> \<exists>w1 w2. is_physical_ethernet_sys os sys n w1 = Some (True, w2)"
  using assms collect_physical_checked[where acc = "[]"] unfolding list_physical_ethernet_def
  by (auto simp: io_simps)

lemma physical_name: "is_physical_ethernet_sys os sys n w = Some (True, w') \<Longrightarrow> n \<noteq> [] \<and> CHR ''/'' \<notin> set n"
  unfolding is_physical_ethernet_sys_def by (auto simp: io_simps split: if_splits)

lemma find_carrier_Some:
  assumes "find_carrier os sys names w = Some (Some n, w')"
  shows "n \<in> set names \<and> (\<exists>w1. carrier_up_sys os sys n w1 = Some (True, w'))"
  using assms by (induction names arbitrary: w) (auto simp: io_simps split: if_splits)

lemma poll_carrier_choice:
  "wpo (loop_io (poll_carrier os sys names deadline) ())
     (\<lambda>found w'. \<forall>n. found = Some n \<longrightarrow> n \<in> set names \<and> (\<exists>w1 w2. carrier_up_sys os sys n w1 = Some (True, w2))) w"
proof (rule wpo_loop[where J = "\<lambda>_ _. True"])
  fix u w
  show "wpo (poll_carrier os sys names deadline u) (\<lambda>r w'. case r of Inl s' \<Rightarrow> True
      | Inr found \<Rightarrow> \<forall>n. found = Some n \<longrightarrow> n \<in> set names \<and> (\<exists>w1 w2. carrier_up_sys os sys n w1 = Some (True, w2))) w"
    unfolding poll_carrier_def
  proof (rule wpo_bind, rule wpo_conseq[where Q = "\<lambda>r w1. \<forall>n. r = Some n \<longrightarrow> n \<in> set names \<and>
        (\<exists>w0. carrier_up_sys os sys n w0 = Some (True, w1))"])
    show "wpo (find_carrier os sys names) (\<lambda>r w1. \<forall>n. r = Some n \<longrightarrow> n \<in> set names \<and>
        (\<exists>w0. carrier_up_sys os sys n w0 = Some (True, w1))) w"
      using find_carrier_Some unfolding wpo_def by metis
  qed (auto split: option.split intro!: wpo_return wpo_any(1) wpo_if; blast)
qed simp

section \<open>The choice\<close>

text \<open>A candidate that has carrier, or the first candidate.\<close>

definition chosen_among :: "'w os \<Rightarrow> path \<Rightarrow> string list \<Rightarrow> string \<Rightarrow> bool" where
  "chosen_among os sys names n \<longleftrightarrow>
     n \<in> set names \<and> (n = hd names \<or> (\<exists>w1 w2. carrier_up_sys os sys n w1 = Some (True, w2)))"

lemma wait_for_carrier_choice:
  "wpo (wait_for_carrier os sys names (hd names)) (\<lambda>n _. names \<noteq> [] \<longrightarrow> chosen_among os sys names n) w"
proof -
  have "wpo (loop_io (poll_carrier os sys names deadline) ())
      (\<lambda>found _. names \<noteq> [] \<longrightarrow> chosen_among os sys names (case found of Some n \<Rightarrow> n | None \<Rightarrow> hd names)) w" for deadline w
    by (rule wpo_conseq[OF poll_carrier_choice]) (auto simp: chosen_among_def split: option.split)
  then show ?thesis
    unfolding wait_for_carrier_def by (intro wpo_any wpo_map)
qed

lemma resolve_auto_choice:
  assumes "resolve_auto os sys bring w = Some (r, w')"
    and "list_physical_ethernet os sys w = Some (Inr names, w1)"
  shows "if names = [] then r = Inl NoEthernet else \<exists>n. r = Inr n \<and> chosen_among os sys names n"
proof (cases names)
  case (Cons fallback ns)
  obtain found w2 where found: "find_carrier os sys names w1 = Some (found, w2)"
    and rest: "(case found of Some name \<Rightarrow> return_io (Inr name)
      | None \<Rightarrow> if bring = Live then map_io Inr (wait_for_carrier os sys names fallback)
          else return_io (Inr fallback)) w2 = Some (r, w')"
    using assms unfolding resolve_auto_def Cons try_io_eval_Ok[where m = "list_physical_ethernet os sys", OF assms(2)[unfolded Cons]]
    by (auto simp: io_simps)
  show ?thesis
  proof (cases found)
    case None
    then show ?thesis
      using rest wpoD[OF wait_for_carrier_choice[of os sys names]] Cons
      by (auto simp: io_simps chosen_among_def split: if_splits)
  next
    case (Some n)
    then show ?thesis
      using rest find_carrier_Some[of os sys names w1 n w2] found Cons
      by (auto simp: io_simps chosen_among_def)
  qed
qed (use assms in \<open>auto simp: resolve_auto_def io_simps\<close>)


section \<open>Side effects\<close>

text \<open>Reading leaves the log alone, whatever is asked of the calls in it.\<close>

lemma keeps_lift: "keeps (\<lambda>wt. P (snd wt)) (lift_io m)"
  by (auto simp: keeps_def lift_io_def)

lemma log_reads:
  "keeps (\<lambda>wt. P (snd wt)) (fs_read (log_os os) p)" "keeps (\<lambda>wt. P (snd wt)) (fs_is_dir (log_os os) p)"
  "keeps (\<lambda>wt. P (snd wt)) (fs_exists (log_os os) p)" "keeps (\<lambda>wt. P (snd wt)) (fs_canonicalize (log_os os) p)"
  "keeps (\<lambda>wt. P (snd wt)) (fs_read_dir (log_os os) p)" "keeps (\<lambda>wt. P (snd wt)) (instant_now (log_os os))"
  "keeps (\<lambda>wt. P (snd wt)) (thread_sleep (log_os os) d)"
  by (simp_all add: log_os_def keeps_lift)

lemma keeps_map [intro]: "keeps P m \<Longrightarrow> keeps P (map_io f m)"
  unfolding map_io_def by auto

lemma log_read_string: "keeps (\<lambda>wt. P (snd wt)) (read_to_string (log_os os) p)"
  unfolding read_to_string_def by (intro keeps_map log_reads)

lemma log_physical: "keeps (\<lambda>wt. P (snd wt)) (is_physical_ethernet_sys (log_os os) sys n)"
  unfolding is_physical_ethernet_sys_def Let_def
  by (auto intro!: keeps_bind keeps_map log_reads log_read_string split: sum.split option.split)

lemma log_collect: "keeps (\<lambda>wt. P (snd wt)) (collect_physical (log_os os) sys ents acc)"
  by (induction ents arbitrary: acc) (auto simp: Let_def intro!: keeps_bind log_physical split: sum.split)

lemma log_list: "keeps (\<lambda>wt. P (snd wt)) (list_physical_ethernet (log_os os) sys)"
  unfolding list_physical_ethernet_def by (intro keeps_try keeps_map log_reads log_collect) auto

lemma log_carrier: "keeps (\<lambda>wt. P (snd wt)) (carrier_up_sys (log_os os) sys n)"
  unfolding carrier_up_sys_def by (intro keeps_map log_read_string)

lemma log_find: "keeps (\<lambda>wt. P (snd wt)) (find_carrier (log_os os) sys names)"
  by (induction names) (auto intro!: keeps_bind log_carrier)

lemma log_poll: "keeps (\<lambda>wt. P (snd wt)) (loop_io (poll_carrier (log_os os) sys names deadline) ())"
  unfolding poll_carrier_def by (auto intro!: keeps_loop keeps_bind log_find log_reads split: option.split)

lemma log_status:
  "(\<And>tr. P tr \<Longrightarrow> P (tr @ [OsCmd b args])) \<Longrightarrow> keeps (\<lambda>wt. P (snd wt)) (cmd_status (log_os os) b args)"
  by (auto simp: log_os_def keeps_def logged_def split: option.splits)

lemma log_run_cmd:
  "(\<And>tr. P tr \<Longrightarrow> P (tr @ [OsCmd b args])) \<Longrightarrow> keeps (\<lambda>wt. P (snd wt)) (run_cmd (log_os os) b args)"
  unfolding run_cmd_def by (intro keeps_try keeps_map log_status) auto

definition link_up_cmd :: "string \<Rightarrow> os_call" where
  "link_up_cmd n = OsCmd IP_BIN [''link'', ''set'', ''dev'', n, ''up'']"

lemma log_bring_up:
  "keeps (\<lambda>wt. set (snd wt) \<subseteq> link_up_cmd ` set names) (bring_up_down_links (log_os os) sys names)"
proof -
  have "keeps (\<lambda>wt. set (snd wt) \<subseteq> link_up_cmd ` set names)
      (run_cmd (log_os os) IP_BIN [''link'', ''set'', ''dev'', n, ''up''])" if "n \<in> set names" for n
    using that by (intro log_run_cmd[where P = "\<lambda>tr. set tr \<subseteq> link_up_cmd ` set names"]) (auto simp: link_up_cmd_def)
  then show ?thesis
    unfolding bring_up_down_links_def link_is_up_sys_def
    by (auto intro!: keeps_for keeps_bind keeps_map log_read_string[where P = "\<lambda>tr. set tr \<subseteq> link_up_cmd ` set names"])
qed

lemma log_wait:
  "keeps (\<lambda>wt. set (snd wt) \<subseteq> link_up_cmd ` set names) (wait_for_carrier (log_os os) sys names fallback)"
proof -
  let ?P = "\<lambda>tr. set tr \<subseteq> link_up_cmd ` set names"
  have "keeps (\<lambda>wt. ?P (snd wt)) (instant_add t d)" for t d
    by (auto simp: instant_add_def keeps_def abort_io_def)
  then show ?thesis
    unfolding wait_for_carrier_def
    by (intro keeps_bind keeps_map log_bring_up log_poll[where P = ?P] log_reads[where P = ?P]) auto
qed

lemma physical_erases: "erases (is_physical_ethernet_sys (log_os os) sys n) (is_physical_ethernet_sys os sys n)"
  unfolding is_physical_ethernet_sys_def Let_def
  by (auto intro!: erases_bind erases_map erases_return log_os_erases read_to_string_erases split: sum.split option.split)

lemma list_erases: "erases (list_physical_ethernet (log_os os) sys) (list_physical_ethernet os sys)"
proof -
  have "erases (collect_physical (log_os os) sys ents acc) (collect_physical os sys ents acc)" for ents acc
    by (induction ents arbitrary: acc)
      (auto simp: Let_def intro!: erases_bind erases_return physical_erases split: sum.split)
  then show ?thesis
    unfolding list_physical_ethernet_def by (intro erases_try erases_map log_os_erases erases_return)
qed

lemma carrier_erases: "erases (carrier_up_sys (log_os os) sys n) (carrier_up_sys os sys n)"
  unfolding carrier_up_sys_def by (intro erases_map read_to_string_erases)

lemma find_erases: "erases (find_carrier (log_os os) sys names) (find_carrier os sys names)"
  by (induction names) (auto intro!: erases_bind erases_return erases_return_eta carrier_erases)

lemma wait_erases: "erases (wait_for_carrier (log_os os) sys names f) (wait_for_carrier os sys names f)"
proof -
  have up: "erases (bring_up_down_links (log_os os) sys names) (bring_up_down_links os sys names)"
    unfolding bring_up_down_links_def link_is_up_sys_def run_cmd_def
    by (auto intro!: erases_for erases_bind erases_map erases_try erases_return log_os_erases read_to_string_erases)
  have poll: "erases (poll_carrier (log_os os) sys names d u) (poll_carrier os sys names d u)" for d u
    unfolding poll_carrier_def by (auto intro!: erases_bind erases_return find_erases log_os_erases split: option.split)
  have add: "erases (instant_add t d) (instant_add t d)" for t d
    by (auto simp: instant_add_def erases_def abort_io_def)
  show ?thesis
    unfolding wait_for_carrier_def by (intro erases_bind erases_map erases_loop up poll add log_os_erases)
qed

lemma resolve_erases: "erases (resolve_iface_with (log_os os) sys c bring) (resolve_iface_with os sys c bring)"
proof -
  have "erases (resolve_auto (log_os os) sys bring) (resolve_auto os sys bring)"
    unfolding resolve_auto_def
    by (auto simp del: find_carrier.simps intro!: erases_try erases_bind erases_map erases_return list_erases
        find_erases wait_erases split: list.split option.split)
  then show ?thesis
    unfolding resolve_iface_with_def by (auto intro!: erases_bind erases_return physical_erases split: option.split)
qed

lemma resolve_auto_effects:
  assumes "resolve_auto (log_os os) sys bring (w, []) = Some (r, (w', tr))"
  shows "tr = [] \<or> bring = Live \<and>
    (\<exists>names w1 w2. list_physical_ethernet os sys w = Some (Inr names, w1) \<and>
       find_carrier os sys names w1 = Some (None, w2) \<and> set tr \<subseteq> link_up_cmd ` set names)"
proof -
  obtain l w1 tr1 where l: "list_physical_ethernet (log_os os) sys (w, []) = Some (l, (w1, tr1))"
    using assms unfolding resolve_auto_def try_io_def bind_io_Some by fastforce
  have [simp]: "tr1 = []"
    using keepsD[OF log_list[where P = "\<lambda>tr. tr = []"] l] by simp
  show ?thesis
  proof (cases "\<exists>fallback ns. l = Inr (fallback # ns)")
    case True
    then obtain fallback ns where names: "l = Inr (fallback # ns)" by blast
    let ?ns = "fallback # ns"
    have rest: "bind_io (find_carrier (log_os os) sys ?ns) (\<lambda>found. case found of
         Some name \<Rightarrow> return_io (Inr name)
       | None \<Rightarrow> if bring = Live then map_io Inr (wait_for_carrier (log_os os) sys ?ns fallback)
           else return_io (Inr fallback)) (w1, []) = Some (r, (w', tr))"
      using assms l unfolding resolve_auto_def names by (simp add: try_io_eval_Ok del: find_carrier.simps)
    obtain found w2 tr2 where f: "find_carrier (log_os os) sys ?ns (w1, []) = Some (found, (w2, tr2))"
      using rest unfolding bind_io_Some by fastforce
    have [simp]: "tr2 = []"
      using keepsD[OF log_find[where P = "\<lambda>tr. tr = []"] f] by simp
    show ?thesis
    proof (cases found)
      case None
      show ?thesis
      proof (cases "bring = Live")
        case True
        then have "map_io Inr (wait_for_carrier (log_os os) sys ?ns fallback) (w2, []) = Some (r, (w', tr))"
          using rest f None by (simp add: bind_io_eval del: find_carrier.simps)
        then have "set tr \<subseteq> link_up_cmd ` set ?ns"
          using keepsD[OF log_wait] unfolding map_io_Some by fastforce
        then show ?thesis
          using erases_log[OF list_erases l] erases_log[OF find_erases f] names None True by blast
      qed (use rest f None in \<open>simp add: bind_io_eval del: find_carrier.simps\<close>)
    qed (use rest f in \<open>simp add: bind_io_eval del: find_carrier.simps\<close>)
  next
    case False
    then show ?thesis
      using assms l unfolding resolve_auto_def by (auto simp: try_io_def bind_io_eval split: sum.splits list.splits)
  qed
qed

text \<open>
  Claim C20. What choosing an interface does to the host: nothing at all in the passive form that
  teardown uses, nothing for a configured name, and nothing if a candidate already has carrier;
  otherwise it only sets candidate interfaces administratively up.
\<close>

theorem resolve_iface_side_effects:
  assumes "resolve_iface_with os sys configured bring w = Some (r, w')"
  shows "\<exists>tr. resolve_iface_with (log_os os) sys configured bring (w, []) = Some (r, (w', tr)) \<and>
    (tr = [] \<or> bring = Live \<and> (configured = None \<or> configured = Some AUTO_IFACE) \<and>
       (\<exists>names w1 w2. list_physical_ethernet os sys w = Some (Inr names, w1) \<and>
          find_carrier os sys names w1 = Some (None, w2) \<and> set tr \<subseteq> link_up_cmd ` set names))"
proof -
  obtain tr where run: "resolve_iface_with (log_os os) sys configured bring (w, []) = Some (r, (w', tr))"
    using erases_run[OF resolve_erases assms] by blast
  consider (auto) "configured = None \<or> configured = Some AUTO_IFACE"
    | (name) name where "configured = Some name" "name \<noteq> AUTO_IFACE"
    by (cases configured) auto
  then show ?thesis
  proof cases
    case auto
    then have "resolve_auto (log_os os) sys bring (w, []) = Some (r, (w', tr))"
      using run by (auto simp: resolve_iface_with_def)
    note E = resolve_auto_effects[OF this]
    show ?thesis
      by (rule exI[of _ tr]) (use run auto E in simp)
  next
    case name
    then obtain phys where "is_physical_ethernet_sys (log_os os) sys name (w, []) = Some (phys, (w', tr))"
      using run by (auto simp: resolve_iface_with_def bind_io_Some return_io_Some)
    then have "tr = []"
      using keepsD[OF log_physical[where P = "\<lambda>tr. tr = []"]] by fastforce
    then show ?thesis using run by blast
  qed
qed

end
