(* ===== verification/Waits.thy ===== *)
theory Waits
  imports Live_Net Probe
begin

text \<open>
  The waiting loops end. On a host whose clock does not run backwards, on which sleeping takes at
  least the time asked for and on which receiving takes time, each loop that polls until a deadline
  returns, and its negative answer comes only after the deadline.
\<close>

section \<open>Hosts with a clock\<close>

definition takes_time :: "('w \<Rightarrow> nat) \<Rightarrow> nat \<Rightarrow> ('w, 'a) io \<Rightarrow> bool" where
  "takes_time time d m \<longleftrightarrow> (\<forall>w. \<exists>x w'. m w = Some (x, w') \<and> time w + d \<le> time w')"

text \<open>What the loops rely on: documented behaviour of \<^verbatim>\<open>Instant\<close>, \<^verbatim>\<open>sleep\<close> and of commands that end.\<close>

definition clocked_os :: "'w os \<Rightarrow> ('w \<Rightarrow> nat) \<Rightarrow> bool" where
  "clocked_os os time \<longleftrightarrow> (\<forall>w. instant_now os w = Some (time w, w))
     \<and> (\<forall>d. takes_time time d (thread_sleep os d))
     \<and> (\<forall>p. takes_time time 0 (fs_read os p))
     \<and> (\<forall>b args. takes_time time 0 (cmd_output os b args))"

lemma takes_timeD: "takes_time time d m \<Longrightarrow> \<exists>x w'. m w = Some (x, w') \<and> time w + d \<le> time w'"
  by (simp add: takes_time_def)

lemma takes_time_return [intro]: "takes_time time 0 (return_io x)"
  by (simp add: takes_time_def)

lemma takes_time_map [intro]: "takes_time time d m \<Longrightarrow> takes_time time d (map_io f m)"
  by (fastforce simp: takes_time_def map_io_Some)

lemma takes_time_bind [intro]:
  "takes_time time 0 m \<Longrightarrow> (\<And>x. takes_time time 0 (k x)) \<Longrightarrow> takes_time time 0 (bind_io m k)"
  unfolding takes_time_def bind_io_Some by simp (meson order_trans)

section \<open>Waiting for an address\<close>

lemma has_ipv4_takes_time: "clocked_os os time \<Longrightarrow> takes_time time 0 (iface_has_ipv4_cmd os I i)"
  unfolding iface_has_ipv4_cmd_def iface_ipv4_cidr_cmd_def by (intro takes_time_map) (simp add: clocked_os_def)

lemma poll_ipv4_round:
  assumes "clocked_os os time" and "start \<le> time w"
  shows "\<exists>r w'. poll_ipv4 os I i start timeout u w = Some (r, w') \<and>
    (case r of Inl _ \<Rightarrow> start \<le> time w' \<and> start + timeout - time w' < start + timeout - time w
     | Inr b \<Rightarrow> (if b then \<exists>w1. iface_has_ipv4_cmd os I i w1 = Some (True, w') else start + timeout \<le> time w'))"
proof -
  have now: "instant_now os w = Some (time w, w)"
    using assms by (simp add: clocked_os_def)
  obtain has w1 where has: "iface_has_ipv4_cmd os I i w = Some (has, w1)" "time w \<le> time w1"
    using takes_timeD[OF has_ipv4_takes_time[OF assms(1)]] by fastforce
  obtain w2 where sleep: "thread_sleep os (from_millis 200) w1 = Some ((), w2)" "time w1 + from_millis 200 \<le> time w2"
    using assms(1) takes_timeD[of time "from_millis 200" "thread_sleep os (from_millis 200)" w1]
    by (auto simp: clocked_os_def)
  show ?thesis
  proof (cases "time w - start < timeout")
    case True
    have "0 < from_millis 200"
      by (simp add: from_millis_def)
    then have "start + timeout - time w2 < start + timeout - time w \<and> start \<le> time w2"
      using True has(2) sleep(2) assms(2) by linarith
    moreover have "poll_ipv4 os I i start timeout u w = Some (if has then Inr True else Inl (), if has then w1 else w2)"
      using True now has sleep by (simp add: poll_ipv4_def bind_io_eval)
    ultimately show ?thesis
      using has(1) by (cases has) auto
  next
    case False
    then have "start + timeout \<le> time w1"
      using has(2) assms(2) by linarith
    moreover have "poll_ipv4 os I i start timeout u w = Some (Inr has, w1)"
      using False now has(1) by (simp add: poll_ipv4_def bind_io_eval map_io_Some)
    ultimately show ?thesis
      using has(1) by (cases has) auto
  qed
qed

text \<open>
  Claim C35. Waiting for an address always ends. It answers yes only if the interface was just seen
  to have an IPv4 address, and no only after the whole timeout has passed.
\<close>

theorem wait_ipv4_answers:
  assumes "clocked_os os time"
  shows "\<exists>b w'. wait_ipv4 (LiveNet os dd I sys) i timeout w = Some (b, w') \<and>
    (if b then \<exists>w1. iface_has_ipv4_cmd os I i w1 = Some (True, w') else time w + timeout \<le> time w')"
proof -
  have now: "instant_now os w = Some (time w, w)"
    using assms by (simp add: clocked_os_def)
  note round = poll_ipv4_round[OF assms]
  have "\<exists>b w'. loop_io (poll_ipv4 os I i (time w) timeout) () w = Some (b, w') \<and>
      (if b then \<exists>w1. iface_has_ipv4_cmd os I i w1 = Some (True, w') else time w + timeout \<le> time w')"
    by (rule loop_returns[where J = "\<lambda>_ w1. time w \<le> time w1" and m = "\<lambda>_ w1. time w + timeout - time w1"
        and Q = "\<lambda>b w'. if b then \<exists>w1. iface_has_ipv4_cmd os I i w1 = Some (True, w') else time w + timeout \<le> time w'"],
        rule round) simp_all
  then show ?thesis
    using now by (simp add: LiveNet_def live_wait_ipv4_def bind_io_eval)
qed

section \<open>Waiting for carrier\<close>

lemma find_carrier_takes_time: "clocked_os os time \<Longrightarrow> takes_time time 0 (find_carrier os sys names)"
proof (induction names)
  case (Cons n names)
  have "takes_time time 0 (carrier_up_sys os sys n)"
    unfolding carrier_up_sys_def read_to_string_def using Cons.prems
    by (intro takes_time_map) (simp add: clocked_os_def)
  then show ?case
    using Cons by (auto intro!: takes_time_bind takes_time_return)
qed (simp add: takes_time_return)

lemma poll_carrier_ends:
  assumes "clocked_os os time"
  shows "\<exists>found w'. loop_io (poll_carrier os sys names deadline) () w = Some (found, w') \<and>
    (found = None \<longrightarrow> deadline \<le> time w')"
proof (rule loop_returns[where J = "\<lambda>_ _. True" and m = "\<lambda>_ w. deadline - time w"])
  fix u w
  have now: "instant_now os w1 = Some (time w1, w1)" for w1
    using assms by (simp add: clocked_os_def)
  obtain found w1 where f: "find_carrier os sys names w = Some (found, w1)" "time w \<le> time w1"
    using takes_timeD[OF find_carrier_takes_time[OF assms]] by fastforce
  obtain w2 where s: "thread_sleep os (from_millis AUTO_CARRIER_POLL_MS) w1 = Some ((), w2)"
      "time w1 + from_millis AUTO_CARRIER_POLL_MS \<le> time w2"
    using assms takes_timeD[of time "from_millis AUTO_CARRIER_POLL_MS" "thread_sleep os (from_millis AUTO_CARRIER_POLL_MS)" w1]
    by (auto simp: clocked_os_def)
  have pos: "0 < from_millis AUTO_CARRIER_POLL_MS"
    by (simp add: from_millis_def AUTO_CARRIER_POLL_MS_def)
  show "\<exists>r w'. poll_carrier os sys names deadline u w = Some (r, w') \<and>
      (case r of Inl s' \<Rightarrow> True \<and> deadline - time w' < deadline - time w
       | Inr found \<Rightarrow> found = None \<longrightarrow> deadline \<le> time w')"
  proof (cases found)
    case None
    show ?thesis
    proof (cases "deadline \<le> time w1")
      case False
      then have "deadline - time w2 < deadline - time w"
        using f(2) s(2) pos by linarith
      then show ?thesis
        using None f s now False by (simp add: poll_carrier_def bind_io_eval)
    qed (use None f now in \<open>simp add: poll_carrier_def bind_io_eval\<close>)
  qed (use f in \<open>simp add: poll_carrier_def bind_io_eval\<close>)
qed simp

section \<open>Listening for offers\<close>

definition clocked_udp :: "('w, 's) udp \<Rightarrow> ('w, nat) io \<Rightarrow> ('w \<Rightarrow> nat) \<Rightarrow> bool" where
  "clocked_udp sk now time \<longleftrightarrow> (\<forall>w. now w = Some (time w, w)) \<and> (\<forall>s n. takes_time time 1 (recv_from sk s n))"

text \<open>
  Claim C36. Listening for an offer always ends, however many other datagrams keep coming, and a
  negative verdict comes only after the deadline.
\<close>

theorem listening_ends:
  assumes "clocked_udp sk now time"
  shows "\<exists>v w'. loop_io (recv_round D sk now sock x mac deadline) () w = Some (v, w') \<and>
    (v = Inr False \<longrightarrow> deadline \<le> time w')"
proof (rule loop_returns[where J = "\<lambda>_ _. True" and m = "\<lambda>_ w. deadline - time w"])
  fix u w
  have now: "now w = Some (time w, w)"
    using assms by (simp add: clocked_udp_def)
  obtain r w1 where r: "recv_from sk sock 1500 w = Some (r, w1)" "time w < time w1"
    using assms takes_timeD[of time 1 "recv_from sk sock 1500" w] by (auto simp: clocked_udp_def)
  have never: "recv_outcome D x mac r \<noteq> Inr (Inr False)"
    by (auto simp: recv_outcome_def split: sum.split prod.split)
  show "\<exists>r w'. recv_round D sk now sock x mac deadline u w = Some (r, w') \<and>
      (case r of Inl s' \<Rightarrow> True \<and> deadline - time w' < deadline - time w
       | Inr v \<Rightarrow> v = Inr False \<longrightarrow> deadline \<le> time w')"
  proof (cases "time w < deadline")
    case True
    then have "recv_round D sk now sock x mac deadline u w = Some (recv_outcome D x mac r, w1)"
      using now r(1) by (simp add: recv_round_def bind_io_eval map_io_Some)
    moreover have "deadline - time w1 < deadline - time w"
      using True r(2) by linarith
    ultimately show ?thesis
      using never by (auto split: sum.split)
  qed (use now in \<open>simp add: recv_round_def bind_io_eval\<close>)
qed simp

end
