(* ===== verification/Live_Host.thy ===== *)
theory Live_Host
  imports Live_Gateway Live_Resolve Waits
begin

text \<open>
  A small host on which the live implementations run: one wired interface \<^verbatim>\<open>eth0\<close> with carrier, no
  other DHCP server, no gateway that answers. The properties of the live code are applied to it.
\<close>

section \<open>The host\<close>

record lan_host =
  lh_pidfile :: bool
  lh_running :: bool
  lh_clock :: nat

definition data_dir :: datadir where
  "data_dir = \<lparr> dd_root = ''/data'', dd_path = foldl path_join ''/data'' \<rparr>"

definition sysfs_files :: "(path \<times> bytes) list" where
  "sysfs_files = [(''/sys/class/net/eth0/type'', ''1'' @ [newline]), (''/sys/class/net/eth0/flags'', ''0x1003'' @ [newline]),
     (''/sys/class/net/eth0/carrier'', ''1'' @ [newline]), (''/sys/class/net/eth0/address'', ''02:00:00:00:00:01'' @ [newline])]"

definition lan_file :: "lan_host \<Rightarrow> path \<Rightarrow> bytes option" where
  "lan_file w = map_of (
     (if lh_pidfile w then [(''/data/run/dnsmasq.pid'', ''42'' @ [newline])] else [])
     @ (if lh_running w then [(''/proc/42/cmdline'', ''/usr/sbin/dnsmasq'')] else []) @ sysfs_files)"

definition lan_os :: "lan_host os" where
  "lan_os = \<lparr>
     fs_read = (\<lambda>p w. Some (case lan_file w p of None \<Rightarrow> Inl ENOENT | Some c \<Rightarrow> Inr c, w)),
     fs_write = (\<lambda>p c w. Some (Inr (), w)),
     fs_remove_file = (\<lambda>p w. Some (if lan_file w p = None then Inl ENOENT else Inr (),
       if p = ''/data/run/dnsmasq.pid'' then w\<lparr> lh_pidfile := False \<rparr> else w)),
     fs_create_dir_all = (\<lambda>p w. Some (Inr (), w)),
     fs_is_file = (\<lambda>p w. Some (p = DNSMASQ_BIN, w)),
     fs_is_dir = (\<lambda>p w. Some (p = ''/sys/class/net/eth0'', w)),
     fs_exists = (\<lambda>p w. Some (lan_file w p \<noteq> None, w)),
     fs_read_dir = (\<lambda>p w. Some (Inr [Inr ''lo'', Inr ''eth0''], w)),
     fs_canonicalize = (\<lambda>p w. Some (Inr p, w)),
     os_kill = (\<lambda>pid sig w. Some (if lh_running w \<and> pid = 42 then Inr () else Inl 3,
       if pid = 42 then w\<lparr> lh_running := False \<rparr> else w)),
     cmd_status = (\<lambda>bin args w. Some (Inr (Some (if bin = PING_BIN then 1 else 0)),
       if bin = DNSMASQ_BIN then w\<lparr> lh_pidfile := True, lh_running := True \<rparr> else w)),
     cmd_output = (\<lambda>bin args w. Some (Inr (Some 0, [], []), w)),
     thread_sleep = (\<lambda>d w. Some ((), w\<lparr> lh_clock := lh_clock w + d \<rparr>)),
     instant_now = (\<lambda>w. Some (lh_clock w, w)) \<rparr>"

text \<open>A socket that hears nothing: each receive times out after a second.\<close>

definition silent_udp :: "(lan_host, unit) udp" where
  "silent_udp = \<lparr>
     sk_new = (\<lambda>w. Some (Inr (), w)),
     set_reuse_address = (\<lambda>s w. Some (Inr (), w)),
     set_broadcast = (\<lambda>s w. Some (Inr (), w)),
     set_read_timeout = (\<lambda>s d w. Some (Inr (), w)),
     bind_device = (\<lambda>s i w. Some (Inr (), w)),
     sk_bind = (\<lambda>s a w. Some (Inr (), w)),
     send_to = (\<lambda>s b a w. Some (Inr (length b), w)),
     recv_from = (\<lambda>s n w. Some (Inl TimedOut, w\<lparr> lh_clock := lh_clock w + 1000000000 \<rparr>)),
     subsec_nanos = (\<lambda>w. Some (Some 7, w)) \<rparr>"

text \<open>Messages are kept as they are, the encoding carries none of them.\<close>

record message =
  msg_opcode :: Opcode
  msg_htype :: HType
  msg_xid :: u32
  msg_chaddr :: "u8 list"
  msg_opts :: "DhcpOption list"

fun option_code :: "DhcpOption \<Rightarrow> OptionCode option" where
  "option_code (OptMessageType t) = Some MessageTypeCode"
| "option_code (OptServerIdentifier ip) = Some ServerIdentifierCode"
| "option_code _ = None"

definition offer_message :: message where
  "offer_message = \<lparr> msg_opcode = BootReply, msg_htype = Eth, msg_xid = 7, msg_chaddr = [2, 0, 0, 0, 0, 1],
     msg_opts = [OptMessageType Offer, OptServerIdentifier (Ipv4 8 8 8 8)] \<rparr>"

definition test_proto :: "message dhcproto" where
  "test_proto = \<lparr>
     msg_default = \<lparr> msg_opcode = BootRequest, msg_htype = Eth, msg_xid = 0, msg_chaddr = [], msg_opts = [] \<rparr>,
     set_opcode = (\<lambda>x m. m\<lparr> msg_opcode := x \<rparr>), set_htype = (\<lambda>x m. m\<lparr> msg_htype := x \<rparr>),
     set_xid = (\<lambda>x m. m\<lparr> msg_xid := x \<rparr>), set_flags_broadcast = (\<lambda>m. m),
     set_chaddr = (\<lambda>x m. m\<lparr> msg_chaddr := x \<rparr>), opts_insert = (\<lambda>x m. m\<lparr> msg_opts := msg_opts m @ [x] \<rparr>),
     msg_encode = (\<lambda>m. Inr ''discover''),
     msg_decode = (\<lambda>b. if b = ''offer'' then Some offer_message else None),
     opcode = msg_opcode, htype = msg_htype, hlen = (\<lambda>_. 6), xid = msg_xid, chaddr = msg_chaddr,
     opts_get = (\<lambda>m c. find (\<lambda>x. option_code x = Some c) (msg_opts m)) \<rparr>"

definition idle_host :: lan_host where
  "idle_host = \<lparr> lh_pidfile = False, lh_running = False, lh_clock = 0 \<rparr>"

section \<open>It runs dnsmasq as documented\<close>

lemma data_paths:
  "default_dnsmasq_pidfile data_dir = ''/data/run/dnsmasq.pid''"
  "dhclient_pidfile data_dir i = ''/data/run/dhclient.'' @ i @ ''.pid''"
  by (simp_all add: default_dnsmasq_pidfile_def dhclient_pidfile_def data_dir_def path_join_def is_absolute_def)

lemma lan_server_pid: "server_pid data_dir (lan_file w) = (if lh_pidfile w \<and> lh_running w then Some 42 else None)"
proof -
  have eval: "server_pid data_dir (lan_file \<lparr> lh_pidfile = True, lh_running = True, lh_clock = t \<rparr>) = Some 42
    \<and> server_pid data_dir (lan_file \<lparr> lh_pidfile = True, lh_running = False, lh_clock = t \<rparr>) = None
    \<and> server_pid data_dir (lan_file \<lparr> lh_pidfile = False, lh_running = True, lh_clock = t \<rparr>) = None
    \<and> server_pid data_dir (lan_file \<lparr> lh_pidfile = False, lh_running = False, lh_clock = t \<rparr>) = None" for t
    by code_simp
  obtain p r t where "w = \<lparr> lh_pidfile = p, lh_running = r, lh_clock = t \<rparr>" by (cases w)
  then show ?thesis
    by (cases p; cases r) (simp_all add: eval)
qed

lemma lan_leaves:
  assumes "\<And>w. \<exists>x w'. m w = Some (x, w') \<and> lh_pidfile w' = lh_pidfile w \<and> lh_running w' = lh_running w"
  shows "leaves_server data_dir lan_file m"
  unfolding leaves_server_def keeps_def lan_server_pid using assms by (metis option.inject prod.inject)

lemma lan_contents: "lan_file w p = Some c \<Longrightarrow> c \<in> set ([''42'' @ [newline], ''/usr/sbin/dnsmasq''] @ map snd sysfs_files)"
  by (force simp: lan_file_def split: if_splits dest!: map_of_SomeD)

lemma lan_dnsmasq_host: "dnsmasq_host lan_os data_dir silent_udp lan_file"
  unfolding dnsmasq_host_def
proof (intro conjI)
  show "reads_files lan_os lan_file"
    by (auto simp: reads_files_def lan_os_def split: option.split)
  show "os_leaves_server lan_os data_dir lan_file"
    unfolding os_leaves_server_def by (auto intro!: lan_leaves simp: lan_os_def)
  show "udp_leaves_server silent_udp data_dir lan_file"
    unfolding udp_leaves_server_def by (auto intro!: lan_leaves simp: silent_udp_def)
  show "removes_pidfiles lan_os data_dir lan_file"
    by (auto simp: removes_pidfiles_def lan_os_def data_paths lan_file_def sysfs_files_def fun_eq_iff)
  show "kills_only_target lan_os data_dir lan_file"
    by (auto simp: kills_only_target_def lan_os_def lan_server_pid split: if_splits)
  show "dnsmasq_daemonizes lan_os data_dir lan_file"
    by (auto simp: dnsmasq_daemonizes_def lan_os_def lan_server_pid)
  have "\<forall>c \<in> set ([''42'' @ [newline], ''/usr/sbin/dnsmasq''] @ map snd sysfs_files). \<not> cmdline_matches c DHCLIENT_BIN"
    by code_simp
  then show "distinct_binaries lan_file"
    using lan_contents unfolding distinct_binaries_def by blast
  show "joins_paths data_dir"
    by (simp add: joins_paths_def data_dir_def)
qed

section \<open>Runs\<close>

text \<open>The default configuration ends in gateway mode with dnsmasq running.\<close>

lemma lan_apply_mode:
  "case apply_live lan_os data_dir addr_prefix_net test_proto silent_udp (default_Config addr_prefix_net) idle_host of
     Some (Inr s, w) \<Rightarrow> st_mode s = Gateway \<and> lh_pidfile w \<and> lh_running w | _ \<Rightarrow> False"
  unfolding apply_live_def with_valid[OF default_Config_valid] by code_simp

lemma lan_applies:
  obtains s w where "apply_live lan_os data_dir addr_prefix_net test_proto silent_udp (default_Config addr_prefix_net) idle_host
      = Some (Inr s, w)" "server_pid data_dir (lan_file w) \<noteq> None" "st_mode s = Gateway"
  using ran_ok[OF lan_apply_mode] by (metis lan_server_pid option.distinct(1))


text \<open>Choosing the interface with the default configuration picks \<^verbatim>\<open>eth0\<close> and touches nothing.\<close>

lemma lan_resolves:
  "resolve_iface_with lan_os DEFAULT_SYS_CLASS_NET None Live idle_host = Some (Inr ''eth0'', idle_host)
   \<and> resolve_iface_with (log_os lan_os) DEFAULT_SYS_CLASS_NET None Live (idle_host, []) = Some (Inr ''eth0'', (idle_host, []))
   \<and> list_physical_ethernet lan_os DEFAULT_SYS_CLASS_NET idle_host = Some (Inr [''eth0''], idle_host)"
  by code_simp

lemmas lan_resolve = lan_resolves[THEN conjunct1] lan_resolves[THEN conjunct2, THEN conjunct1]
  lan_resolves[THEN conjunct2, THEN conjunct2]


theorem resolve_iface_side_effects_witness:
  "\<exists>tr. resolve_iface_with (log_os lan_os) DEFAULT_SYS_CLASS_NET None Live (idle_host, [])
      = Some (Inr ''eth0'', (idle_host, tr)) \<and> set tr \<subseteq> {link_up_cmd ''eth0''}"
  using resolve_iface_side_effects[OF lan_resolve(1)] lan_resolve(2,3) by auto

lemma lan_clocked: "clocked_os lan_os lh_clock"
  by (auto simp: clocked_os_def takes_time_def lan_os_def)

theorem wait_ipv4_answers_witness:
  "\<exists>b w'. wait_ipv4 (LiveNet lan_os data_dir addr_prefix_net DEFAULT_SYS_CLASS_NET) ''eth0'' (from_millis 5000) idle_host
      = Some (b, w') \<and> (b \<or> 5000000000 \<le> lh_clock w')"
  using wait_ipv4_answers[OF lan_clocked, of data_dir addr_prefix_net DEFAULT_SYS_CLASS_NET "''eth0''" "from_millis 5000" idle_host]
  by (auto simp: from_millis_def idle_host_def split: if_splits)

theorem listening_ends_witness:
  "\<exists>v w'. loop_io (recv_round test_proto silent_udp (instant_now lan_os) () 7 [2, 0, 0, 0, 0, 1] 5000000000) () idle_host
      = Some (v, w') \<and> (v = Inr False \<longrightarrow> 5000000000 \<le> lh_clock w')"
proof -
  have "clocked_udp silent_udp (instant_now lan_os) lh_clock"
    by (auto simp: clocked_udp_def takes_time_def silent_udp_def lan_os_def)
  from listening_ends[OF this] show ?thesis .
qed

text \<open>A host on which the first datagram is an offer for the transaction.\<close>

definition offering_udp :: "(lan_host, unit) udp" where
  "offering_udp = silent_udp\<lparr> recv_from := (\<lambda>s n w. Some (Inr (''offer'', V4 (Ipv4 192 168 0 1) 67), w)) \<rparr>"

theorem probe_verdict_witness:
  "\<exists>tr. probe_foreign test_proto (log_udp offering_udp) (logged ENow (instant_now lan_os)) ''eth0'' [2, 0, 0, 0, 0, 1]
        (from_millis 5000) (idle_host, []) = Some (Inr True, (idle_host, tr))
    \<and> verdict_log test_proto 7 [2, 0, 0, 0, 0, 1] (from_millis 5000) (Inr True) tr"
proof -
  have run: "probe_foreign test_proto offering_udp (instant_now lan_os) ''eth0'' [2, 0, 0, 0, 0, 1] (from_millis 5000) idle_host
      = Some (Inr True, idle_host)"
    by code_simp
  have "xid_now offering_udp idle_host = Some (7, idle_host)"
    by code_simp
  then show ?thesis
    using probe_verdict[OF run] by auto
qed

end
