(* ===== verification/Live_Daemon.thy ===== *)
theory Live_Daemon
  imports Server_Safety Live_Host
begin

text \<open>
  The daemon as it is put together from its live parts: \<^verbatim>\<open>config/watch.rs\<close>, \<^verbatim>\<open>signals.rs\<close>, and the
  environment in which \<^verbatim>\<open>daemon::run\<close> handles its events, with \<^verbatim>\<open>LiveNet\<close> and \<^verbatim>\<open>LiveGateway\<close>. On a
  host that runs dnsmasq as documented the composed program meets the contracts of
  \<^theory_text>\<open>Server_Safety\<close>.
\<close>

section \<open>Watching the configuration and the signals\<close>

text \<open>The watcher itself is the shared daemon crate's; its error is only printed.\<close>

datatype path_filter = Basename string
datatype watch_spec = WatchFile path

definition is_relevant_path :: "(path \<Rightarrow> path_filter \<Rightarrow> bool) \<Rightarrow> path \<Rightarrow> string \<Rightarrow> bool" where
  "is_relevant_path relevant p config_name = relevant p (Basename config_name)"

definition watch_spawn :: "(watch_spec list \<Rightarrow> nat \<Rightarrow> ('w, string + unit) io) \<Rightarrow> path \<Rightarrow> ('w, unit result) io" where
  "watch_spawn spawn_signal config_path =
     map_io (map_err (\<lambda>e. Other (Message e))) (spawn_signal [WatchFile config_path] (from_millis CONFIG_DEBOUNCE_MS))"

definition install :: "(signal \<Rightarrow> ('w, string + unit) io) \<Rightarrow> ('w, unit result) io" where
  "install register =
     try_io (map_io (map_err (\<lambda>e. Other (Message e))) (register SIGTERM)) (\<lambda>_.
     try_io (map_io (map_err (\<lambda>e. Other (Message e))) (register SIGINT)) (\<lambda>_.
     return_io (Inr ())))"

section \<open>The live environment\<close>

text \<open>
  What the daemon gets from the shared daemon crate and the runtime: the stop flag, its two
  channels, the socket server, the watcher thread and the signal registry.
\<close>

record 'w runtime =
  rt_stop :: "('w, bool) io"
  rt_recv :: "('w, recv) io"
  rt_reload :: "('w, bool) io"
  rt_add :: "string \<Rightarrow> ('w, string + unit) io"
  rt_serve_background :: "path \<Rightarrow> ('w, bind_error + unit) io"
  rt_spawn_signal :: "watch_spec list \<Rightarrow> nat \<Rightarrow> ('w, string + unit) io"
  rt_register :: "signal \<Rightarrow> ('w, string + unit) io"
  rt_watch_stop :: "('w, unit) io"

definition live_env ::
  "'w os \<Rightarrow> datadir \<Rightarrow> 'n ipnet \<Rightarrow> 'm dhcproto \<Rightarrow> ('w, 's) udp \<Rightarrow> ('w, 'n) json_file \<Rightarrow> 'w runtime \<Rightarrow> ('w, 'n) denv" where
  "live_env os dd I D sk jf rt = \<lparr> en_ipnet = I, en_net = live_net os dd I, en_gw = LiveGateway os dd I D sk,
     en_json = jf, en_now = instant_now os, en_stop = rt_stop rt, en_recv = rt_recv rt, en_reload = rt_reload rt,
     en_serve = serve (rt_add rt) (rt_serve_background rt), en_watch = watch_spawn (rt_spawn_signal rt),
     en_signals = install (rt_register rt), en_watch_stop = rt_watch_stop rt, en_remove_file = fs_remove_file os \<rparr>"

lemma live_env_sel [simp]:
  "en_ipnet (live_env os dd I D sk jf rt) = I" "en_net (live_env os dd I D sk jf rt) = live_net os dd I"
  "en_gw (live_env os dd I D sk jf rt) = LiveGateway os dd I D sk" "en_json (live_env os dd I D sk jf rt) = jf"
  "en_now (live_env os dd I D sk jf rt) = instant_now os"
  by (simp_all add: live_env_def)

section \<open>A failed start leaves no server\<close>

text \<open>
  Two more laws of the host: writing the configuration file starts no dnsmasq, and a dnsmasq that
  could not be run or did not exit with 0 has left no daemon behind.
\<close>

definition starts_cleanly :: "'w os \<Rightarrow> datadir \<Rightarrow> ('w \<Rightarrow> path \<Rightarrow> bytes option) \<Rightarrow> bool" where
  "starts_cleanly os dd file \<longleftrightarrow>
     (\<forall>b. keeps (\<lambda>w. server_pid dd (file w) = None) (fs_write os (default_dnsmasq_conf_path dd) b))
   \<and> (\<forall>args w r w'. cmd_status os DNSMASQ_BIN args w = Some (r, w') \<longrightarrow> r \<noteq> Inr (Some 0) \<longrightarrow>
        server_pid dd (file w) = None \<longrightarrow> server_pid dd (file w') = None)"

lemma leaves_down: "leaves_server dd file m \<Longrightarrow> keeps (\<lambda>w. server_pid dd (file w) = None) m"
  by (auto simp: keeps_def dest!: leavesD)

lemma keeps_down_running:
  "dnsmasq_host os dd sk file \<Longrightarrow> keeps (\<lambda>w. server_pid dd (file w) = None) (is_alive os p b)"
  by (intro leaves_down host_alive)

lemma remove_own_pidfile:
  "dnsmasq_host os dd sk file \<Longrightarrow> keeps (\<lambda>w. server_pid dd (file w) = None) (fs_remove_file os (default_dnsmasq_pidfile dd))"
  using host_remove by (fastforce simp: keeps_def server_pid_def owner_gone)

definition fails_down :: "datadir \<Rightarrow> ('w \<Rightarrow> path \<Rightarrow> bytes option) \<Rightarrow> ('w, unit result) io \<Rightarrow> bool" where
  "fails_down dd file m \<longleftrightarrow> (\<forall>w e w'. server_pid dd (file w) = None \<longrightarrow> m w = Some (Inl e, w') \<longrightarrow> server_pid dd (file w') = None)"

lemma fails_down_keeps: "keeps (\<lambda>w. server_pid dd (file w) = None) m \<Longrightarrow> fails_down dd file m"
  unfolding fails_down_def keeps_def by blast

lemma fails_down_bind:
  "keeps (\<lambda>w. server_pid dd (file w) = None) m \<Longrightarrow> (\<And>x. fails_down dd file (k x)) \<Longrightarrow> fails_down dd file (bind_io m k)"
  unfolding fails_down_def keeps_def bind_io_Some by meson

lemma fails_down_return: "fails_down dd file (return_io r)"
  by (simp add: fails_down_def)

lemma fails_down_try:
  "keeps (\<lambda>w. server_pid dd (file w) = None) m \<Longrightarrow> (\<And>x. fails_down dd file (k x)) \<Longrightarrow> fails_down dd file (try_io m k)"
  unfolding try_io_def by (intro fails_down_bind) (auto intro: fails_down_return split: sum.split)

lemma fails_down_if: "fails_down dd file m \<Longrightarrow> fails_down dd file k \<Longrightarrow> fails_down dd file (if b then m else k)"
  by simp

lemma keeps_if: "keeps P m \<Longrightarrow> keeps P k \<Longrightarrow> keeps P (if b then m else k)"
  by simp

lemmas fails_down_rules = fails_down_return fails_down_bind fails_down_try fails_down_if

lemma start_fails_down:
  assumes H: "dnsmasq_host os dd sk file" and C: "starts_cleanly os dd file"
  shows "fails_down dd file (dnsmasq_start os dd conf)"
proof -
  have exec: "fails_down dd file (try_io (map_io (map_err (\<lambda>e. Other (DnsmasqSpawn e))) (cmd_status os DNSMASQ_BIN args))
      (\<lambda>st. return_io (if success st then Inr () else Inl (Other (DnsmasqExit (exit_code st))))))" for args
    using C unfolding starts_cleanly_def fails_down_def
    by (fastforce simp: io_simps success_def split: if_splits)
  show ?thesis
    unfolding dnsmasq_start_def Let_def is_running_def
    by (intro fails_down_rules exec leaves_down[OF host_leaves_os(1)[OF H]] keeps_down_running[OF H]
        leaves_down[OF host_ensure_parent[OF H]] keeps_if keeps_bind keeps_return remove_own_pidfile[OF H])
qed

text \<open>While the server runs there is nothing to show, so only the branch for a stopped one matters.\<close>

lemma reload_fails_down:
  assumes H: "dnsmasq_host os dd sk file" and C: "starts_cleanly os dd file"
  shows "fails_down dd file (reload_or_restart os dd conf changed)"
  unfolding fails_down_def
proof (intro allI impI)
  fix w e w'
  assume down: "server_pid dd (file w) = None" and run: "reload_or_restart os dd conf changed w = Some (Inl e, w')"
  then obtain b w1 where b: "is_running os dd w = Some (b, w1)"
    and rest: "b \<or> dnsmasq_start os dd conf w1 = Some (Inl e, w')"
    unfolding reload_or_restart_def by (cases "fst (the (is_running os dd w))") (auto simp: bind_io_Some)
  have "\<not> b" "file w1 = file w"
    using host_is_running[OF H b] down by simp_all
  then show "server_pid dd (file w') = None"
    using rest start_fails_down[OF H C] down unfolding fails_down_def by metis
qed

lemma live_guarded_contract:
  assumes H: "dnsmasq_host os dd sk file" and C: "starts_cleanly os dd file"
  shows "guarded_contract (live_net os dd I) (LiveGateway os dd I D sk) (\<lambda>w. server_pid dd (file w) \<noteq> None)"
proof (rule guarded_contract.intro[OF live_server_contract[OF H]], unfold_locales)
  fix cfg i
  have conf: "keeps (\<lambda>w. server_pid dd (file w) = None) (ensure_conf os (default_dnsmasq_conf_path dd) body)" for body
    unfolding ensure_conf_def map_io_def
    using C unfolding starts_cleanly_def
    by (intro keeps_try keeps_bind keeps_if keeps_return leaves_down[OF host_ensure_parent[OF H]]
        leaves_down[OF host_read_string[OF H]]) blast+
  have "keeps (\<lambda>w. server_pid dd (file w) = None) (case parent p of None \<Rightarrow> return_io ()
       | Some par \<Rightarrow> map_io (\<lambda>_. ()) (fs_create_dir_all os par))" for p
    by (auto intro!: leaves_down leaves_map host_leaves_os[OF H] split: option.split)
  then have "fails_down dd file (live_reload os dd I cfg i)"
    unfolding live_reload_def Let_def by (intro fails_down_bind fails_down_try conf reload_fails_down[OF H C])
  then show "starts_only_on_success (\<lambda>w. server_pid dd (file w) \<noteq> None) (dhcp_reload_or_restart (LiveGateway os dd I D sk) cfg i)"
    unfolding starts_only_on_success_def fails_down_def LiveGateway_def by auto
  show "keeps (\<lambda>w. \<not> server_pid dd (file w) \<noteq> None) (dhcp_stop (LiveGateway os dd I D sk))"
    using server_stopped[OF H] by (auto simp: keeps_def LiveGateway_def)
qed

lemma live_guarded_daemon:
  assumes H: "dnsmasq_host os dd sk file" and "starts_cleanly os dd file"
    and "\<And>q. leaves_server dd file (load_missing_defaults jf q)"
  shows "guarded_daemon (live_env os dd I D sk jf rt) (\<lambda>w. server_pid dd (file w) \<noteq> None)"
  unfolding guarded_daemon_def guarded_daemon_axioms_def live_env_sel
  by (intro conjI allI live_guarded_contract[OF assms(1,2)] leaves_serving assms(3) host_leaves_os[OF H])

section \<open>When our server runs\<close>


section \<open>On the host of the witnesses\<close>

lemma lan_starts_cleanly: "starts_cleanly lan_os data_dir lan_file"
  by (auto simp: starts_cleanly_def keeps_def lan_os_def lan_server_pid bins_differ(2)[symmetric])

definition default_file :: "(lan_host, ipv4 \<times> u8) json_file" where
  "default_file = \<lparr> load_create_default = (\<lambda>p. return_io (Inr (default_Config addr_prefix_net))),
     load_missing_defaults = (\<lambda>p. return_io (Inr (default_Config addr_prefix_net))) \<rparr>"

definition idle_runtime :: "lan_host runtime" where
  "idle_runtime = \<lparr> rt_stop = return_io False, rt_recv = return_io Timeout, rt_reload = return_io False,
     rt_add = (\<lambda>n. return_io (Inr ())), rt_serve_background = (\<lambda>p. return_io (Inr ())),
     rt_spawn_signal = (\<lambda>ws d. return_io (Inr ())), rt_register = (\<lambda>s. return_io (Inr ())),
     rt_watch_stop = return_io () \<rparr>"

abbreviation lan_env :: "(lan_host, ipv4 \<times> u8) denv" where
  "lan_env \<equiv> live_env lan_os data_dir addr_prefix_net test_proto silent_udp default_file idle_runtime"

lemma default_file_leaves: "leaves_server data_dir lan_file (load_missing_defaults default_file q)"
  by (auto simp: default_file_def)

interpretation lan: guarded_daemon lan_env "\<lambda>w. server_pid data_dir (lan_file w) \<noteq> None"
  by (rule live_guarded_daemon[OF lan_dnsmasq_host lan_starts_cleanly default_file_leaves])


end
