(* ===== verification/Cli.thy ===== *)
theory Cli
  imports Daemon
begin

text \<open>
  \<^verbatim>\<open>main.rs\<close>: the command line, the aliases \<^verbatim>\<open>configure-ethernet\<close> and \<^verbatim>\<open>configure-dhcp\<close> with their own
  argument loop, and the dispatch to the daemon. The parser that \<^verbatim>\<open>clap\<close> derives for \<^verbatim>\<open>Cli\<close> is a
  parameter; printing and logging are left out, the exit code is the result.
\<close>

section \<open>Commands\<close>

datatype Commands = Serve | Run | Apply | Status | Check | ReconfigureCmd | Teardown | InfoCmd

datatype ExitCode = SUCCESS | FAILURE

record Cli =
  cli_data_dir :: "path option"
  cli_config :: "path option"
  cli_socket :: "path option"
  cli_command :: "Commands option"

definition exit_of :: "('e + 'a) \<Rightarrow> ExitCode" where
  "exit_of r = (if is_ok r then SUCCESS else FAILURE)"

definition dispatch ::
  "'w os \<Rightarrow> ('w, 'n) denv \<Rightarrow> ('w, 'c) transport \<Rightarrow> (Response \<Rightarrow> string + string) \<Rightarrow> ('w, Info) io \<Rightarrow> Commands \<Rightarrow> path \<Rightarrow> path
     \<Rightarrow> CheckStyle \<Rightarrow> ('w, ExitCode) io" where
  "dispatch os env tr to_string_pretty info command config_path socket check_style =
     (case command of
        Serve \<Rightarrow> map_io exit_of (run env config_path socket)
      | Run \<Rightarrow> map_io exit_of (run env config_path socket)
      | Apply \<Rightarrow> map_io exit_of (apply_once env config_path)
      | Status \<Rightarrow> map_io (\<lambda>r. case r of Inr resp \<Rightarrow> exit_of (to_string_pretty resp) | Inl e \<Rightarrow> FAILURE)
          (ipc_call tr socket ReqStatus)
      | Teardown \<Rightarrow> map_io exit_of (teardown env config_path)
      | Check \<Rightarrow> map_io (\<lambda>r. case r of Inr b \<Rightarrow> if b then SUCCESS else FAILURE | Inl e \<Rightarrow> FAILURE)
          (check_liveness env tr socket config_path check_style)
      | ReconfigureCmd \<Rightarrow> map_io (\<lambda>r. case r of
            Inr RespOk \<Rightarrow> SUCCESS
          | Inr (RespError message) \<Rightarrow> FAILURE
          | Inr _ \<Rightarrow> SUCCESS
          | Inl e \<Rightarrow> FAILURE) (ipc_call tr socket ReqReconfigure)
      | InfoCmd \<Rightarrow> map_io (\<lambda>_. SUCCESS) (bind_io info (format_info os)))"

section \<open>Aliases\<close>

record alias_opts =
  ao_data_dir :: "path option"
  ao_config :: "path option"
  ao_socket :: "path option"
  ao_cmd :: string

definition alias_init :: alias_opts where
  "alias_init = \<lparr> ao_data_dir = None, ao_config = None, ao_socket = None, ao_cmd = ''apply'' \<rparr>"

datatype alias_error = UnknownOption string | UnknownCommand string

text \<open>The loop over the arguments; the guards \<^verbatim>\<open>i + 1 < args.len()\<close> ask for one more argument.\<close>

fun alias_args :: "alias_opts \<Rightarrow> string list \<Rightarrow> alias_error + alias_opts" where
  "alias_args opts [] = Inr opts"
| "alias_args opts (a # rest) =
     (if a = ''--data-dir'' \<and> rest \<noteq> [] then alias_args (opts\<lparr> ao_data_dir := Some (hd rest) \<rparr>) (tl rest)
      else if a = ''--config'' \<and> rest \<noteq> [] then alias_args (opts\<lparr> ao_config := Some (hd rest) \<rparr>) (tl rest)
      else if a = ''--socket'' \<and> rest \<noteq> [] then alias_args (opts\<lparr> ao_socket := Some (hd rest) \<rparr>) (tl rest)
      else if a \<in> {''up'', ''configure'', ''start'', ''apply''} then alias_args (opts\<lparr> ao_cmd := ''apply'' \<rparr>) rest
      else if a = ''check'' then alias_args (opts\<lparr> ao_cmd := ''check'' \<rparr>) rest
      else if a \<in> {''serve'', ''run''} then alias_args (opts\<lparr> ao_cmd := ''serve'' \<rparr>) rest
      else if a \<in> {''teardown'', ''stop''} then alias_args (opts\<lparr> ao_cmd := ''teardown'' \<rparr>) rest
      else if starts_with a ''-'' then Inl (UnknownOption a)
      else Inl (UnknownCommand a))"

definition alias_command :: "string \<Rightarrow> Commands" where
  "alias_command cmd =
     (if cmd = ''serve'' then Serve else if cmd = ''check'' then Check
      else if cmd = ''teardown'' then Teardown else Apply)"

text \<open>
  \<open>set_root\<close> is \<^verbatim>\<open>datadir::set_root\<close>: the data directory in force with or without an override; the
  environment of the daemon depends on it.
\<close>

definition alias_main ::
  "'w os \<Rightarrow> (path option \<Rightarrow> datadir) \<Rightarrow> (datadir \<Rightarrow> ('w, 'n) denv) \<Rightarrow> ('w, 'c) transport \<Rightarrow> (Response \<Rightarrow> string + string)
     \<Rightarrow> ('w, Info) io \<Rightarrow> string \<Rightarrow> string list \<Rightarrow> ('w, ExitCode) io" where
  "alias_main os set_root env_at tr pretty info argv0 args =
     (case alias_args alias_init args of
        Inl e \<Rightarrow> return_io FAILURE
      | Inr opts \<Rightarrow>
          let dd = set_root (ao_data_dir opts) in
          dispatch os (env_at dd) tr pretty info (alias_command (ao_cmd opts))
            (resolve_config dd (ao_config opts)) (resolve_socket dd (ao_socket opts)) (check_style_from_argv0 argv0))"

definition argv0_basename :: "bytes list \<Rightarrow> string option" where
  "argv0_basename args = (case args of [] \<Rightarrow> None | a # _ \<Rightarrow> Option.bind (file_name a) from_utf8)"

text \<open>The rest of \<^verbatim>\<open>main\<close> once \<^verbatim>\<open>clap\<close> has parsed the arguments.\<close>

definition clap_main ::
  "'w os \<Rightarrow> (path option \<Rightarrow> datadir) \<Rightarrow> (datadir \<Rightarrow> ('w, 'n) denv) \<Rightarrow> ('w, 'c) transport \<Rightarrow> (Response \<Rightarrow> string + string)
     \<Rightarrow> ('w, Info) io \<Rightarrow> Cli \<Rightarrow> ('w, ExitCode) io" where
  "clap_main os set_root env_at tr pretty info cli =
     (let dd = set_root (cli_data_dir cli) in
      dispatch os (env_at dd) tr pretty info (case cli_command cli of None \<Rightarrow> Serve | Some c \<Rightarrow> c)
        (resolve_config dd (cli_config cli)) (resolve_socket dd (cli_socket cli)) CheckDaemon)"

definition main_entry ::
  "'w os \<Rightarrow> (path option \<Rightarrow> datadir) \<Rightarrow> (datadir \<Rightarrow> ('w, 'n) denv) \<Rightarrow> ('w, 'c) transport \<Rightarrow> (Response \<Rightarrow> string + string)
     \<Rightarrow> ('w, Info) io \<Rightarrow> (bytes list \<Rightarrow> ('w, Cli) io) \<Rightarrow> bytes list \<Rightarrow> ('w, ExitCode) io" where
  "main_entry os set_root env_at tr pretty info parse args =
     (let clap = bind_io (parse args) (clap_main os set_root env_at tr pretty info) in
      case argv0_basename args of
        None \<Rightarrow> clap
      | Some name \<Rightarrow>
          if name = ''configure-ethernet'' \<or> name = ''configure-dhcp''
          then alias_main os set_root env_at tr pretty info name (tl args)
          else clap)"

section \<open>The grammar of the aliases\<close>

text \<open>What the argument loop accepts: words and options with a value, in any order.\<close>

datatype alias_option = DataDir | ConfigFile | SocketFile

datatype alias_token = Word string | Opt alias_option string

fun option_name :: "alias_option \<Rightarrow> string" where
  "option_name DataDir = ''--data-dir''"
| "option_name ConfigFile = ''--config''"
| "option_name SocketFile = ''--socket''"

fun word_command :: "string \<Rightarrow> string option" where
  "word_command w = map_of
     [(''up'', ''apply''), (''configure'', ''apply''), (''start'', ''apply''), (''apply'', ''apply''),
      (''check'', ''check''), (''serve'', ''serve''), (''run'', ''serve''),
      (''teardown'', ''teardown''), (''stop'', ''teardown'')] w"

fun token_args :: "alias_token \<Rightarrow> string list" where
  "token_args (Word w) = [w]"
| "token_args (Opt n v) = [option_name n, v]"

fun token_ok :: "alias_token \<Rightarrow> bool" where
  "token_ok (Word w) \<longleftrightarrow> word_command w \<noteq> None"
| "token_ok (Opt n v) \<longleftrightarrow> True"

fun apply_token :: "alias_token \<Rightarrow> alias_opts \<Rightarrow> alias_opts" where
  "apply_token (Word w) opts = opts\<lparr> ao_cmd := the (word_command w) \<rparr>"
| "apply_token (Opt DataDir v) opts = opts\<lparr> ao_data_dir := Some v \<rparr>"
| "apply_token (Opt ConfigFile v) opts = opts\<lparr> ao_config := Some v \<rparr>"
| "apply_token (Opt SocketFile v) opts = opts\<lparr> ao_socket := Some v \<rparr>"

text \<open>One round of the loop takes one token.\<close>

lemma alias_args_token: "token_ok t \<Longrightarrow> alias_args opts (token_args t @ rest) = alias_args (apply_token t opts) rest"
proof (cases t)
  case (Opt n v)
  then show ?thesis by (cases n) simp_all
qed (auto split: if_splits)

lemma option_name_iff: "(\<exists>n. a = option_name n) \<longleftrightarrow> a \<in> {''--data-dir'', ''--config'', ''--socket''}"
proof
  assume "\<exists>n. a = option_name n"
  then obtain n where "a = option_name n" by blast
  then show "a \<in> {''--data-dir'', ''--config'', ''--socket''}" by (cases n) simp_all
next
  assume "a \<in> {''--data-dir'', ''--config'', ''--socket''}"
  then have "a = option_name DataDir \<or> a = option_name ConfigFile \<or> a = option_name SocketFile"
    unfolding option_name.simps by blast
  then show "\<exists>n. a = option_name n" by blast
qed

lemma word_ok: "token_ok (Word w) \<longleftrightarrow>
    w \<in> {''up'', ''configure'', ''start'', ''apply''} \<union> {''check''} \<union> {''serve'', ''run''} \<union> {''teardown'', ''stop''}"
  by simp

lemma alias_args_first:
  assumes "alias_args opts (a # rest) = Inr opts'"
  obtains t rest' where "token_ok t" "a # rest = token_args t @ rest'" "alias_args (apply_token t opts) rest' = Inr opts'"
proof -
  consider (opt) n where "a = option_name n" "rest \<noteq> []" | (word) "token_ok (Word a)"
  proof (cases "(\<exists>n. a = option_name n) \<and> rest \<noteq> []")
    case False
    then have "a \<notin> {''--data-dir'', ''--config'', ''--socket''} \<or> rest = []"
      unfolding option_name_iff by simp
    then have "token_ok (Word a)"
      unfolding word_ok using assms by (simp split: if_split_asm)
    then show ?thesis using that(2) by simp
  qed (use that(1) in blast)
  then show thesis
  proof cases
    case opt
    then have "a # rest = token_args (Opt n (hd rest)) @ tl rest" by simp
    with that[of "Opt n (hd rest)" "tl rest"] assms alias_args_token[of "Opt n (hd rest)" opts "tl rest"]
    show thesis by (simp del: alias_args.simps)
  next
    case word
    with that[of "Word a" rest] assms alias_args_token[of "Word a" opts rest]
    show thesis by (simp del: alias_args.simps word_command.simps)
  qed
qed

text \<open>
  Claim C37. The argument loop of the aliases accepts exactly the sequences of command words and
  options with a value, an option value being any text; the last command word wins, as does the
  last value of each option. Everything else, an option without its value included, is refused.
\<close>

theorem alias_args_grammar:
  "alias_args opts args = Inr opts' \<longleftrightarrow>
     (\<exists>ts. list_all token_ok ts \<and> args = concat (map token_args ts) \<and> opts' = fold apply_token ts opts)"
proof
  assume "alias_args opts args = Inr opts'"
  then show "\<exists>ts. list_all token_ok ts \<and> args = concat (map token_args ts) \<and> opts' = fold apply_token ts opts"
  proof (induction "length args" arbitrary: opts args rule: less_induct)
    case less
    show ?case
    proof (cases args)
      case Nil
      then show ?thesis using less.prems by (intro exI[of _ "[]"]) simp
    next
      case (Cons a rest)
      obtain t rest' where t: "token_ok t" "args = token_args t @ rest'" "alias_args (apply_token t opts) rest' = Inr opts'"
        using alias_args_first less.prems unfolding Cons by metis
      have "length rest' < length args"
        using t(2) by (cases t) simp_all
      then obtain ts where "list_all token_ok ts" "rest' = concat (map token_args ts)" "opts' = fold apply_token ts (apply_token t opts)"
        using less.hyps t(3) by blast
      then show ?thesis
        using t by (intro exI[of _ "t # ts"]) simp
    qed
  qed
next
  assume "\<exists>ts. list_all token_ok ts \<and> args = concat (map token_args ts) \<and> opts' = fold apply_token ts opts"
  then obtain ts where ts: "list_all token_ok ts" "args = concat (map token_args ts)" "opts' = fold apply_token ts opts"
    by blast
  have "alias_args opts (concat (map token_args ts)) = Inr (fold apply_token ts opts)"
    using ts(1) by (induction ts arbitrary: opts) (simp_all add: alias_args_token del: alias_args.simps(2))
  then show "alias_args opts args = Inr opts'"
    using ts by simp
qed

end
