(* ===== verification/Unit_Tests.thy ===== *)
theory Unit_Tests
  imports Live_Net Net_Addr Daemon Dhcp
begin

text \<open>
  The unit tests of the crate that need neither JSON nor a wire format, transcribed as Boolean
  definitions and evaluated by the kernel: the model answers every assertion of the sources' own
  tests as the code does. (The tests of \<^verbatim>\<open>apply/mod.rs\<close> are in \<^theory_text>\<open>Fake_Net\<close>.)
\<close>

abbreviation tcfg :: "(ipv4 \<times> u8) Config" where
  "tcfg \<equiv> default_Config addr_prefix_net"

abbreviation check_config :: "(ipv4 \<times> u8) Config \<Rightarrow> bool" where
  "check_config c \<equiv> is_ok (validate addr_prefix_net c)"

abbreviation with_dns :: "bool \<Rightarrow> DnsRecord list \<Rightarrow> (ipv4 \<times> u8) Config" where
  "with_dns on rs \<equiv> tcfg\<lparr> cfg_dns := \<lparr> dns_enabled = on, dns_records = rs \<rparr> \<rparr>"

section \<open>config/mod.rs\<close>

definition defaults_validate :: bool where
  "defaults_validate \<longleftrightarrow> check_config tcfg"

definition interface_path_rejected :: bool where
  "interface_path_rejected \<longleftrightarrow> \<not> check_config (tcfg\<lparr> cfg_interface := Some ''eth0/evil'' \<rparr>)"

definition interface_auto_validates :: bool where
  "interface_auto_validates \<longleftrightarrow> check_config (tcfg\<lparr> cfg_interface := Some ''auto'' \<rparr>)"

definition link_retry_zero_rejected :: bool where
  "link_retry_zero_rejected \<longleftrightarrow> \<not> check_config (tcfg\<lparr> link_retry_secs := 0 \<rparr>)"

definition sticky_parses :: bool where
  "sticky_parses \<longleftrightarrow> parse_sticky ''7d'' = Inr (7 * 86400) \<and> parse_sticky ''72h'' = Inr (72 * 3600)
     \<and> parse_sticky ''3600'' = Inr 3600 \<and> \<not> is_ok (parse_sticky ''0'') \<and> \<not> is_ok (parse_sticky ''nope'')"

definition static_host_in_pool_rejected :: bool where
  "static_host_in_pool_rejected \<longleftrightarrow>
     \<not> check_config (tcfg\<lparr> cfg_gateway := (cfg_gateway tcfg)\<lparr> gc_static_host := 100 \<rparr> \<rparr>)"

definition dns_bad_hostname_rejected :: bool where
  "dns_bad_hostname_rejected \<longleftrightarrow>
     \<not> check_config (with_dns True [\<lparr> rec_name = ''not a host'', rec_addr = None \<rparr>])"

definition dns_duplicate_name_rejected :: bool where
  "dns_duplicate_name_rejected \<longleftrightarrow>
     \<not> check_config (with_dns False [\<lparr> rec_name = ''wizard.lan'', rec_addr = None \<rparr>, \<lparr> rec_name = ''Wizard.lan.'', rec_addr = None \<rparr>])"

definition dns_too_many_records_rejected :: bool where
  "dns_too_many_records_rejected \<longleftrightarrow>
     \<not> check_config (with_dns False (map (\<lambda>i. \<lparr> rec_name = ''h'' @ nat_dec i, rec_addr = None \<rparr>) [0..<MAX_DNS_RECORDS + 1]))"

lemma config_tests_pass:
  "defaults_validate \<and> interface_path_rejected \<and> interface_auto_validates \<and> link_retry_zero_rejected \<and> sticky_parses
   \<and> static_host_in_pool_rejected \<and> dns_bad_hostname_rejected \<and> dns_duplicate_name_rejected \<and> dns_too_many_records_rejected"
proof
  show defaults_validate
    by (simp add: defaults_validate_def default_Config_valid)
qed code_simp

section \<open>daemon/mod.rs\<close>

definition check_style_from_argv0_matrix :: bool where
  "check_style_from_argv0_matrix \<longleftrightarrow> check_style_from_argv0 ''micronet'' = CheckDaemon
     \<and> check_style_from_argv0 ''configure-ethernet'' = CheckLegacy \<and> check_style_from_argv0 ''configure-dhcp'' = CheckLegacy"

definition should_reselect_matrix :: "nat \<Rightarrow> bool" where
  "should_reselect_matrix start \<longleftrightarrow>
     (let now = start + from_secs 30; retry = from_secs 15; lost = now - from_secs 16; recent = now - from_secs 5 in
        \<not> should_reselect True (Some lost) now retry \<and> \<not> should_reselect False None now retry
      \<and> \<not> should_reselect False (Some recent) now retry \<and> should_reselect False (Some lost) now retry
      \<and> should_reselect False (Some lost) now (from_secs 10))"

definition assess_matrix :: bool where
  "assess_matrix \<longleftrightarrow> assess Gateway False False False = Healthy
     \<and> assess Gateway True False True = Unhealthy ''carrier but no IPv4''
     \<and> assess Gateway True True False = Unhealthy ''gateway without dnsmasq'' \<and> assess Gateway True True True = Healthy
     \<and> assess Client True True False = Unhealthy ''client without dhclient'' \<and> assess Client True True True = Healthy
     \<and> assess Static True True False = Healthy"

definition heal_action_matrix :: bool where
  "heal_action_matrix \<longleftrightarrow> heal_action Gateway True = NoHeal \<and> heal_action Gateway False = RestartDnsmasq
     \<and> heal_action Client False = RestartDhclient \<and> heal_action Client True = NoHeal \<and> heal_action Static False = NoHeal"

definition health_hysteresis_needs_three_fails :: bool where
  "health_hysteresis_needs_three_fails \<longleftrightarrow> \<not> should_report_unhealthy 0 \<and> \<not> should_report_unhealthy 1
     \<and> \<not> should_report_unhealthy 2 \<and> should_report_unhealthy 3 \<and> should_report_unhealthy 4"

lemma daemon_tests_pass:
  "check_style_from_argv0_matrix \<and> (\<forall>start. should_reselect_matrix start) \<and> assess_matrix \<and> heal_action_matrix
   \<and> health_hysteresis_needs_three_fails"
proof (intro conjI allI)
  show "should_reselect_matrix start" for start
    by (simp add: should_reselect_matrix_def should_reselect_def from_secs_def Let_def)
  show check_style_from_argv0_matrix assess_matrix heal_action_matrix
    by (simp_all add: check_style_from_argv0_matrix_def check_style_from_argv0_def assess_matrix_def assess_def
        heal_action_matrix_def heal_action_def)
  show health_hysteresis_needs_three_fails
    by (simp add: health_hysteresis_needs_three_fails_def should_report_unhealthy_def HEALTH_FAIL_THRESHOLD_def
        word_le_nat_alt)
qed

section \<open>net/addr.rs\<close>

definition host_252 :: bool where
  "host_252 \<longleftrightarrow> host_in_slash24 addr_prefix_net (Ipv4 10 0 10 0, 24) 252 = Inr (Ipv4 10 0 10 252)"

definition parse_first_inet_cidr_variants :: bool where
  "parse_first_inet_cidr_variants \<longleftrightarrow>
     parse_first_inet_cidr addr_prefix_net
       (''2: eth0    inet 10.0.10.50/24 brd 10.0.10.255 scope global eth0'' @ [newline]) = Some ''10.0.10.50/24''
   \<and> parse_first_inet_cidr addr_prefix_net (''2: eth0    inet6 fe80::1/64'' @ [newline]) = None
   \<and> parse_first_inet_cidr addr_prefix_net
       (''2: eth0    inet 169.254.1.1/16 scope link eth0'' @ [newline]
        @ ''2: eth0    inet 10.0.10.1/24 brd 10.0.10.255 scope global eth0'' @ [newline]) = Some ''10.0.10.1/24''
   \<and> parse_first_inet_cidr addr_prefix_net [] = None"

definition stdout_has_ipv4_exact_slash :: bool where
  "stdout_has_ipv4_exact_slash \<longleftrightarrow>
     (let out = ''2: eth0    inet 192.168.0.1/24 brd 192.168.0.255 scope global eth0'' @ [newline]
            @ ''4: eth1    inet 192.168.0.252/24 brd 192.168.0.255 scope global eth1'' @ [newline] in
      stdout_has_ipv4 out (Ipv4 192 168 0 1) \<and> stdout_has_ipv4 out (Ipv4 192 168 0 252)
      \<and> \<not> stdout_has_ipv4 out (Ipv4 192 168 0 10) \<and> \<not> stdout_has_ipv4 [] (Ipv4 192 168 0 1))"

lemma addr_tests_pass: "host_252 \<and> parse_first_inet_cidr_variants \<and> stdout_has_ipv4_exact_slash"
  by code_simp

section \<open>pidfile.rs and dhcp/run.rs\<close>

text \<open>The temporary directory is a file system in memory; no process exists, so signals fail.\<close>

definition tempdir :: "(path \<times> bytes) list \<Rightarrow> mem" where
  "tempdir files = \<lparr> m_files = files, m_dirs = [], m_clock = 0 \<rparr>"

text \<open>The value an operation returns, the files it leaves.\<close>

definition returns :: "(mem, 'a) io \<Rightarrow> mem \<Rightarrow> ('a \<Rightarrow> mem \<Rightarrow> bool) \<Rightarrow> bool" where
  "returns m w P \<longleftrightarrow> (case m w of Some (x, w') \<Rightarrow> P x w' | None \<Rightarrow> False)"

definition missing_pidfile_is_dead_and_stop_ok :: bool where
  "missing_pidfile_is_dead_and_stop_ok \<longleftrightarrow>
     returns (is_alive (mem_os quiet) ''/t/missing.pid'' ''/usr/sbin/dnsmasq'') (tempdir []) (\<lambda>alive w. \<not> alive)
   \<and> returns (stop (mem_os quiet) ''/t/missing.pid'' ''/usr/sbin/dnsmasq'') (tempdir []) (\<lambda>r w. is_ok r)"

definition garbage_pidfile_is_dead :: bool where
  "garbage_pidfile_is_dead \<longleftrightarrow> (let w = tempdir [(''/t/x.pid'', ''nope'' @ [newline])] in
     returns (is_alive (mem_os quiet) ''/t/x.pid'' ''dnsmasq'') w (\<lambda>alive w. \<not> alive)
   \<and> returns (stop (mem_os quiet) ''/t/x.pid'' ''dnsmasq'') w (\<lambda>r w. is_ok r \<and> map_of (m_files w) ''/t/x.pid'' = None))"

definition stale_numeric_pid_is_dead :: bool where
  "stale_numeric_pid_is_dead \<longleftrightarrow>
     returns (is_alive (mem_os quiet) ''/t/x.pid'' ''dnsmasq'') (tempdir [(''/t/x.pid'', ''999999'' @ [newline])])
       (\<lambda>alive w. \<not> alive)"

definition cmdline_matches_bin_path_and_argv0 :: bool where
  "cmdline_matches_bin_path_and_argv0 \<longleftrightarrow>
     cmdline_matches (''/usr/sbin/dnsmasq'' @ [CHR 0x00] @ ''-C'' @ [CHR 0x00] @ ''/tmp/x'' @ [CHR 0x00]) ''/usr/sbin/dnsmasq''
   \<and> cmdline_matches (''dnsmasq'' @ [CHR 0x00]) ''/usr/sbin/dnsmasq''
   \<and> \<not> cmdline_matches (''/usr/sbin/unbound'' @ [CHR 0x00]) ''/usr/sbin/dnsmasq''
   \<and> \<not> cmdline_matches [] ''/usr/sbin/dnsmasq''
   \<and> cmdline_matches (''/sbin/dhclient'' @ [CHR 0x00] @ ''-nw'' @ [CHR 0x00] @ ''eth0'' @ [CHR 0x00]) ''/sbin/dhclient''"

definition stop_in_signals_matching_pid :: bool where
  "stop_in_signals_matching_pid \<longleftrightarrow>
     (let w = tempdir [(''/t/proc/1234/cmdline'', ''/usr/sbin/dnsmasq'' @ [CHR 0x00] @ ''-C'' @ [CHR 0x00] @ ''x'' @ [CHR 0x00]),
          (''/t/dnsmasq.pid'', ''1234'' @ [newline])] in
      returns (is_alive_in (mem_os quiet) ''/t/dnsmasq.pid'' ''/t/proc'' ''/usr/sbin/dnsmasq'') w (\<lambda>alive w. alive)
    \<and> returns (stop_in (mem_os quiet) ''/t/dnsmasq.pid'' ''/t/proc'' ''/usr/sbin/dnsmasq'' (from_millis 0)) w
        (\<lambda>r w. is_ok r \<and> map_of (m_files w) ''/t/dnsmasq.pid'' = None))"

definition restart_when_conf_differs :: bool where
  "restart_when_conf_differs \<longleftrightarrow> restart_required ''a'' ''b'' \<and> \<not> restart_required ''same'' ''same''"

definition stop_on_missing_pidfile_is_ok :: bool where
  "stop_on_missing_pidfile_is_ok \<longleftrightarrow>
     returns (stop (mem_os quiet) ''/t/dnsmasq.pid'' DNSMASQ_BIN) (tempdir []) (\<lambda>r w. is_ok r)
   \<and> returns (is_alive (mem_os quiet) ''/t/dnsmasq.pid'' DNSMASQ_BIN) (tempdir []) (\<lambda>alive w. \<not> alive)"

lemma pidfile_tests_pass:
  "missing_pidfile_is_dead_and_stop_ok \<and> garbage_pidfile_is_dead \<and> stale_numeric_pid_is_dead
   \<and> cmdline_matches_bin_path_and_argv0 \<and> stop_in_signals_matching_pid \<and> restart_when_conf_differs
   \<and> stop_on_missing_pidfile_is_ok"
  by code_simp

section \<open>net/mod.rs\<close>

text \<open>
  The temporary \<^verbatim>\<open>/sys/class/net\<close> of the tests: the files of an interface below its link, and where
  the link leads. \<^verbatim>\<open>is_dir\<close> and \<^verbatim>\<open>exists\<close> hold of the directories on the way to a file.
\<close>

record sysfs =
  sy_files :: "(path \<times> bytes) list"
  sy_dirs :: "path list"
  sy_links :: "(path \<times> path) list"
  sy_names :: "string list"

definition sys_os :: "sysfs os" where
  "sys_os = \<lparr>
     fs_read = (\<lambda>p w. Some (case map_of (sy_files w) p of None \<Rightarrow> Inl ENOENT | Some c \<Rightarrow> Inr c, w)),
     fs_write = (\<lambda>p c w. Some (Inr (), w)), fs_remove_file = (\<lambda>p w. Some (Inr (), w)),
     fs_create_dir_all = (\<lambda>p w. Some (Inr (), w)),
     fs_is_file = (\<lambda>p w. Some (map_of (sy_files w) p \<noteq> None, w)),
     fs_is_dir = (\<lambda>p w. Some (p \<in> set (sy_dirs w), w)),
     fs_exists = (\<lambda>p w. Some (p \<in> set (sy_dirs w) \<or> map_of (sy_files w) p \<noteq> None, w)),
     fs_read_dir = (\<lambda>p w. Some (Inr (map Inr (sy_names w)), w)),
     fs_canonicalize = (\<lambda>p w. Some (Inr (case map_of (sy_links w) p of None \<Rightarrow> p | Some q \<Rightarrow> q), w)),
     os_kill = (\<lambda>pid sig w. Some (Inr (), w)), cmd_status = (\<lambda>b args w. Some (Inr (Some 0), w)),
     cmd_output = (\<lambda>b args w. Some (Inr (Some 0, [], []), w)),
     thread_sleep = (\<lambda>d w. Some ((), w)), instant_now = (\<lambda>w. Some (0, w)) \<rparr>"

abbreviation sys_answers :: "(sysfs, 'a) io \<Rightarrow> sysfs \<Rightarrow> 'a \<Rightarrow> bool" where
  "sys_answers m w x \<equiv> map_option fst (m w) = Some x"

definition physical_eth :: "string \<Rightarrow> string \<Rightarrow> string \<Rightarrow> sysfs \<Rightarrow> sysfs" where
  "physical_eth name flags carrier w = (let d = ''/t/net/'' @ name in w\<lparr>
     sy_files := [(d @ ''/type'', ''1'' @ [newline]), (d @ ''/flags'', flags @ [newline]), (d @ ''/carrier'', carrier @ [newline])]
       @ sy_files w,
     sy_dirs := d # sy_dirs w, sy_names := name # sy_names w \<rparr>)"

definition no_net :: sysfs where
  "no_net = \<lparr> sy_files = [], sy_dirs = [], sy_links = [], sy_names = [] \<rparr>"

abbreviation resolves :: "string option \<Rightarrow> sysfs \<Rightarrow> string \<Rightarrow> bool" where
  "resolves c w i \<equiv> sys_answers (resolve_iface_with sys_os ''/t/net'' c SysfsOnly) w (Inr i)"

definition rejects_loopback_bridge_wifi_veth :: bool where
  "rejects_loopback_bridge_wifi_veth \<longleftrightarrow>
     (let w = \<lparr>
          sy_files = [(''/t/net/lo/type'', ''772'' @ [newline]), (''/t/net/lo/flags'', ''0x9'' @ [newline]),
            (''/t/net/br0/type'', ''1'' @ [newline]), (''/t/net/veth0/type'', ''1'' @ [newline]),
            (''/t/net/wlan0/type'', ''1'' @ [newline]), (''/t/net/eth0/type'', ''1'' @ [newline]),
            (''/t/net/eth0/flags'', ''0x1003'' @ [newline])],
          sy_dirs = [''/t/net/lo'', ''/t/net/eth0'', ''/t/net/br0'', ''/t/net/br0/bridge'', ''/t/net/veth0'', ''/t/net/wlan0'', ''/t/net/wlan0/wireless''],
          sy_links = [(''/t/net/lo'', ''/t/devices/virtual/net/lo''), (''/t/net/br0'', ''/t/devices/virtual/net/br0''),
            (''/t/net/veth0'', ''/t/devices/virtual/net/veth0'')],
          sy_names = [''lo'', ''br0'', ''veth0'', ''wlan0'', ''eth0''] \<rparr> in
      sys_answers (is_physical_ethernet_sys sys_os ''/t/net'' ''lo'') w False
    \<and> sys_answers (is_physical_ethernet_sys sys_os ''/t/net'' ''br0'') w False
    \<and> sys_answers (is_physical_ethernet_sys sys_os ''/t/net'' ''veth0'') w False
    \<and> sys_answers (is_physical_ethernet_sys sys_os ''/t/net'' ''wlan0'') w False
    \<and> sys_answers (is_physical_ethernet_sys sys_os ''/t/net'' ''eth0'') w True
    \<and> sys_answers (list_physical_ethernet sys_os ''/t/net'') w (Inr [''eth0'']))"

definition configured_non_ethernet_errors :: bool where
  "configured_non_ethernet_errors \<longleftrightarrow>
     sys_answers (resolve_iface_with sys_os ''/t/net'' (Some ''lo'') SysfsOnly)
       (no_net\<lparr> sy_files := [(''/t/net/lo/type'', ''772'' @ [newline])], sy_dirs := [''/t/net/lo''] \<rparr>) (Inl (NotEthernet ''lo''))"

definition auto_picks_carrier_not_first_sorted :: bool where
  "auto_picks_carrier_not_first_sorted \<longleftrightarrow>
     (let w = physical_eth ''eth1'' ''0x1003'' ''1'' (physical_eth ''eth0'' ''0x1003'' ''0'' no_net) in
      resolves None w ''eth1'' \<and> resolves (Some ''auto'') w ''eth1'')"

definition auto_falls_back_to_first_sorted_when_no_carrier :: bool where
  "auto_falls_back_to_first_sorted_when_no_carrier \<longleftrightarrow>
     resolves None (physical_eth ''eth1'' ''0x1003'' ''0'' (physical_eth ''eth0'' ''0x1003'' ''0'' no_net)) ''eth0''"

definition auto_single_iface_without_carrier :: bool where
  "auto_single_iface_without_carrier \<longleftrightarrow> resolves None (physical_eth ''eth0'' ''0x1003'' ''0'' no_net) ''eth0''"

definition explicit_name_ignores_carrier :: bool where
  "explicit_name_ignores_carrier \<longleftrightarrow>
     resolves (Some ''eth1'') (physical_eth ''eth1'' ''0x1003'' ''1'' (physical_eth ''eth0'' ''0x1003'' ''1'' no_net)) ''eth1''"

definition auto_no_ethernet_errors :: bool where
  "auto_no_ethernet_errors \<longleftrightarrow> sys_answers (resolve_iface_with sys_os ''/t/net'' None SysfsOnly) no_net (Inl NoEthernet)"

definition link_is_up_reads_iff_up :: bool where
  "link_is_up_reads_iff_up \<longleftrightarrow>
     (let w = physical_eth ''eth1'' ''0x1003'' ''1'' (physical_eth ''eth0'' ''0x1002'' ''0'' no_net) in
      sys_answers (link_is_up_sys sys_os ''/t/net'' ''eth0'') w False
    \<and> sys_answers (link_is_up_sys sys_os ''/t/net'' ''eth1'') w True \<and> resolves None w ''eth1'')"

definition phy_tweak_args_disable_eee_and_tso_gso :: bool where
  "phy_tweak_args_disable_eee_and_tso_gso \<longleftrightarrow>
     ethtool_eee_args ''eth0'' = [''--set-eee'', ''eth0'', ''eee'', ''off'']
   \<and> ethtool_offload_args ''end0'' = [''-K'', ''end0'', ''tso'', ''off'', ''gso'', ''off'']
   \<and> ethtool_coalesce_args ''eth0'' = [''-C'', ''eth0'', ''rx-usecs'', ''0'', ''tx-usecs'', ''0'']"

lemma net_tests_pass:
  "rejects_loopback_bridge_wifi_veth \<and> configured_non_ethernet_errors \<and> auto_picks_carrier_not_first_sorted
   \<and> auto_falls_back_to_first_sorted_when_no_carrier \<and> auto_single_iface_without_carrier \<and> explicit_name_ignores_carrier
   \<and> auto_no_ethernet_errors \<and> link_is_up_reads_iff_up \<and> phy_tweak_args_disable_eee_and_tso_gso"
  by code_simp

end
