(* ===== verification/Build_Script.thy ===== *)
theory Build_Script
  imports Os
begin

text \<open>
  \<^verbatim>\<open>build.rs\<close>: the version values compiled into the binary. \<open>env\<close> is \<^verbatim>\<open>std::env::var(..).ok()\<close>, the
  value of \<open>build_main\<close> are the lines printed for Cargo.
\<close>

definition git_commit :: "'w os \<Rightarrow> ('w, string option) io" where
  "git_commit os =
     map_io (\<lambda>r. case r of Inl e \<Rightarrow> None
       | Inr (st, out, err) \<Rightarrow>
           if \<not> success st then None
           else if \<not> utf8_valid out then None
           else if trim out = [] then None else Some (trim out))
       (cmd_output os ''git'' [''rev-parse'', ''HEAD''])"

definition utc_now :: "'w os \<Rightarrow> ('w, string) io" where
  "utc_now os =
     map_io (\<lambda>r. case r of Inl e \<Rightarrow> []
       | Inr (st, out, err) \<Rightarrow> if success st \<and> utf8_valid out then trim out else [])
       (cmd_output os ''date'' [''-u'', ''+%Y-%m-%dT%H:%M:%SZ''])"

definition build_commit :: "'w os \<Rightarrow> (string \<Rightarrow> string option) \<Rightarrow> ('w, string) io" where
  "build_commit os env =
     (let fallback = map_io (\<lambda>c. case c of Some s \<Rightarrow> s | None \<Rightarrow> ''unknown'') (git_commit os) in
      case env ''MICRONET_GIT_COMMIT'' of
        Some s \<Rightarrow> if s \<noteq> [] then return_io s else fallback
      | None \<Rightarrow> fallback)"

definition build_time :: "'w os \<Rightarrow> (string \<Rightarrow> string option) \<Rightarrow> ('w, string) io" where
  "build_time os env =
     (case env ''MICRONET_BUILD_TIME'' of
        Some s \<Rightarrow> if s \<noteq> [] then return_io s else utc_now os
      | None \<Rightarrow> utc_now os)"

definition build_main :: "'w os \<Rightarrow> (string \<Rightarrow> string option) \<Rightarrow> ('w, string list) io" where
  "build_main os env =
     bind_io (build_commit os env) (\<lambda>commit.
     bind_io (build_time os env) (\<lambda>time.
     return_io [''cargo:rerun-if-changed=.git/HEAD'',
       ''cargo:rustc-env=MICRONET_GIT_COMMIT='' @ commit, ''cargo:rerun-if-env-changed=MICRONET_GIT_COMMIT'',
       ''cargo:rustc-env=MICRONET_BUILD_TIME='' @ time, ''cargo:rerun-if-env-changed=MICRONET_BUILD_TIME'']))"

text \<open>The commit is never empty, and the values given by the environment win without running anything.\<close>

lemma build_commit_named: "wpo (build_commit os env) (\<lambda>c _. c \<noteq> []) w"
proof -
  have "wpo (git_commit os) (\<lambda>c _. c \<noteq> Some []) w"
    unfolding git_commit_def by (rule wpo_map) (auto simp: wpo_def split: sum.split)
  then have "wpo (map_io (\<lambda>c. case c of Some s \<Rightarrow> s | None \<Rightarrow> ''unknown'') (git_commit os)) (\<lambda>c _. c \<noteq> []) w"
    by (intro wpo_map) (auto elim!: wpo_conseq split: option.splits)
  then show ?thesis
    unfolding build_commit_def Let_def by (auto intro: wpo_return split: option.split)
qed

lemma build_from_environment:
  assumes "env ''MICRONET_GIT_COMMIT'' = Some c" and "env ''MICRONET_BUILD_TIME'' = Some t" and "c \<noteq> []" and "t \<noteq> []"
  shows "build_commit os env = return_io c \<and> build_time os env = return_io t"
  using assms by (simp add: build_commit_def build_time_def)

end
